(* ===== verification/Prelude.thy ===== *)
theory Prelude
  imports Main "HOL-Library.Word" "HOL-Library.Stream" "HOL-Library.Multiset"
begin

section \<open>Prelude: shared types, collections and lemmas\<close>

text \<open>
  What every component of the development uses: the two fact collections, the Go machine
  integer \<open>int\<close> (64 bits, two's complement, written as an \<open>int\<close> with the wrap-around
  spelled out), the outcome of a Go function that may panic, and list lemmas on keyed
  rows that the table operations share.
\<close>

named_theorems go_simps \<open>evaluation of the Go standard library functions\<close>
named_theorems db_simps \<open>evaluation of the statements of the database layer\<close>

subsection \<open>Go's 64-bit integers\<close>

type_synonym go_int = int

definition max_int64 :: go_int where
  "max_int64 = 9223372036854775807"

definition min_int64 :: go_int where
  "min_int64 = - 9223372036854775808"

definition in_int64 :: "int \<Rightarrow> bool" where
  "in_int64 k \<longleftrightarrow> min_int64 \<le> k \<and> k \<le> max_int64"

text \<open>Every arithmetic result is reduced to the signed 64-bit range.\<close>

definition wrap64 :: "int \<Rightarrow> go_int" where
  "wrap64 k = (k + 9223372036854775808) mod 18446744073709551616 - 9223372036854775808"

lemma wrap64_id [simp]: "in_int64 k \<Longrightarrow> wrap64 k = k"
  by (simp add: wrap64_def in_int64_def min_int64_def max_int64_def)

lemma wrap64_range [simp]: "in_int64 (wrap64 k)"
proof -
  have "0 \<le> (k + 9223372036854775808) mod 18446744073709551616"
    and "(k + 9223372036854775808) mod 18446744073709551616 < 18446744073709551616"
    by simp_all
  then show ?thesis
    by (simp add: wrap64_def in_int64_def min_int64_def max_int64_def)
qed

lemma wrap64_sint: "wrap64 k = sint (word_of_int k :: 64 word)"
  by (simp add: wrap64_def sint_sbintrunc' signed_take_bit_eq_take_bit_shift take_bit_eq_mod)

lemma wrap64_add_left [simp]: "wrap64 (wrap64 a + b) = wrap64 (a + b)"
proof -
  have "(((a + 9223372036854775808) mod 18446744073709551616 - 9223372036854775808) + b + 9223372036854775808)
      mod 18446744073709551616 = (a + b + 9223372036854775808) mod 18446744073709551616"
    by (simp add: mod_simps algebra_simps)
  then show ?thesis by (simp add: wrap64_def)
qed

subsection \<open>Panics\<close>

text \<open>A Go function returns a value or panics; \<open>and_then\<close> propagates the panic.\<close>

datatype 'a outcome = Returned 'a | Panicked string

fun and_then :: "'a outcome \<Rightarrow> ('a \<Rightarrow> 'b outcome) \<Rightarrow> 'b outcome" where
  "and_then (Returned x) f = f x"
| "and_then (Panicked m) f = Panicked m"

lemma and_then_Returned_iff:
  "and_then x f = Returned y \<longleftrightarrow> (\<exists>z. x = Returned z \<and> f z = Returned y)"
  by (cases x) simp_all

lemma and_then_Panicked_iff:
  "and_then x f = Panicked m \<longleftrightarrow> x = Panicked m \<or> (\<exists>z. x = Returned z \<and> f z = Panicked m)"
  by (cases x) auto

subsection \<open>Lists of rows with a key\<close>

lemma distinct_map_filter_keys [intro]:
  "distinct (map f xs) \<Longrightarrow> distinct (map f (filter P xs))"
  by (induction xs) auto

lemma distinct_map_inj_rows:
  "distinct (map f xs) \<Longrightarrow> x \<in> set xs \<Longrightarrow> y \<in> set xs \<Longrightarrow> f x = f y \<Longrightarrow> x = y"
  by (auto simp: distinct_map inj_on_def)

lemma filter_key_singleton:
  "distinct (map f xs) \<Longrightarrow> x \<in> set xs \<Longrightarrow> filter (\<lambda>y. f y = f x) xs = [x]"
  by (induction xs) (auto simp: filter_empty_conv image_iff)

lemma filter_key_none: "k \<notin> f ` set xs \<Longrightarrow> filter (\<lambda>y. f y = k) xs = []"
  by (auto simp: filter_empty_conv)

lemma length_filter_disj:
  "length (filter (\<lambda>x. P x \<or> Q x) xs) \<le> length (filter P xs) + length (filter Q xs)"
  by (induction xs) auto

lemma image_kept:
  "k \<in> f ` A \<Longrightarrow> k \<notin> f ` {x \<in> A. P x} \<Longrightarrow> k \<in> f ` {x \<in> A. \<not> P x}"
  by blast

lemma sort_key_Nil_iff [simp]: "sort_key f xs = [] \<longleftrightarrow> xs = []"
  by (metis length_0_conv length_sort)

lemma sort_key_singleton [simp]: "sort_key f [x] = [x]"
  by simp

subsection \<open>Rows as a map from keys\<close>

definition by_key :: "('r \<Rightarrow> 'k) \<Rightarrow> 'r list \<Rightarrow> 'k \<Rightarrow> 'r option" where
  "by_key f rs = map_of (map (\<lambda>r. (f r, r)) rs)"

lemma by_key_simps [simp]:
  "by_key f [] = Map.empty" "by_key f (r # rs) = (by_key f rs)(f r \<mapsto> r)"
  by (simp_all add: by_key_def)

lemma by_key_None_iff: "by_key f rs k = None \<longleftrightarrow> k \<notin> f ` set rs"
  by (induction rs) auto

lemma by_key_Some: "by_key f rs k = Some r \<Longrightarrow> r \<in> set rs \<and> f r = k"
  by (induction rs) (auto split: if_splits)

lemma by_key_Some_iff: "distinct (map f rs) \<Longrightarrow> by_key f rs k = Some r \<longleftrightarrow> r \<in> set rs \<and> f r = k"
  by (auto simp: by_key_def map_of_eq_Some_iff comp_def)

lemma by_key_None: "k \<notin> f ` set rs \<Longrightarrow> by_key f rs k = None"
  by (simp add: by_key_None_iff)

lemma filter_by_key:
  "distinct (map f rs) \<Longrightarrow>
   filter (\<lambda>r. f r = k \<and> Q r) rs =
     (case by_key f rs k of None \<Rightarrow> [] | Some r \<Rightarrow> if Q r then [r] else [])"
  by (induction rs) (auto simp: by_key_None)

lemma by_key_filter:
  "distinct (map f rs) \<Longrightarrow>
   by_key f (filter Q rs) k = (case by_key f rs k of None \<Rightarrow> None | Some r \<Rightarrow> if Q r then Some r else None)"
  by (induction rs) (auto simp: by_key_None)

lemma by_key_append_new:
  "f r \<notin> f ` set rs \<Longrightarrow> by_key f (rs @ [r]) = (by_key f rs)(f r \<mapsto> r)"
  by (induction rs) (auto simp: fun_eq_iff)

lemma by_key_map:
  "(\<And>r. f (g r) = f r) \<Longrightarrow> by_key f (map g rs) k = map_option g (by_key f rs k)"
  by (induction rs) auto

subsection \<open>The largest keys of a list\<close>

text \<open>The \<open>n\<close> largest keys, largest first: \<^verbatim>\<open>ORDER BY id DESC LIMIT n\<close>.\<close>

definition newest :: "nat \<Rightarrow> int list \<Rightarrow> int list" where
  "newest n ids = take n (rev (sort ids))"

lemma set_take_sorted_desc:
  "sorted_wrt (\<lambda>a b. b < a) xs \<Longrightarrow>
   x \<in> set (take n xs) \<longleftrightarrow> x \<in> set xs \<and> card {y \<in> set xs. (x::int) < y} < n"
proof (induction xs arbitrary: n)
  case (Cons a xs)
  show ?case
  proof (cases n)
    case (Suc m)
    have below: "\<forall>y \<in> set xs. y < a" and desc: "sorted_wrt (\<lambda>a b. b < a) xs"
      using Cons.prems by auto
    show ?thesis
    proof (cases "x = a")
      case True
      with below have "{y \<in> set (a # xs). x < y} = {}" by force
      then have "card {y \<in> set (a # xs). x < y} = 0" by (simp only: card.empty)
      with True Suc show ?thesis by (simp only: list.set) auto
    next
      case False
      show ?thesis
      proof (cases "x \<in> set xs")
        case True
        with below have "{y \<in> set (a # xs). x < y} = insert a {y \<in> set xs. x < y}" by auto
        moreover have "a \<notin> {y \<in> set xs. x < y}" using below by blast
        ultimately have "card {y \<in> set (a # xs). x < y} = Suc (card {y \<in> set xs. x < y})"
          by simp
        with True False Suc Cons.IH [OF desc, of m] show ?thesis by simp
      next
        case nin: False
        then have "x \<notin> set (take m xs)" by (meson in_set_takeD)
        with nin False Suc show ?thesis by simp
      qed
    qed
  qed simp
qed simp

lemma set_newest:
  assumes "distinct ids"
  shows "x \<in> set (newest n ids) \<longleftrightarrow> x \<in> set ids \<and> card {y \<in> set ids. x < y} < n"
proof -
  have "sorted_wrt (<) (sort ids)"
    using assms by (simp add: strict_sorted_iff)
  then have "sorted_wrt (\<lambda>a b. b < a) (rev (sort ids))"
    by (simp add: sorted_wrt_rev)
  then show ?thesis
    by (simp add: newest_def set_take_sorted_desc)
qed

lemma set_newest_subset: "set (newest n ids) \<subseteq> set ids"
  using set_take_subset [of n "rev (sort ids)"] by (simp add: newest_def)

lemma length_newest: "length (newest n ids) \<le> n"
  by (simp add: newest_def)

lemma newest_greatest:
  "distinct ids \<Longrightarrow> x \<in> set ids \<Longrightarrow> (\<And>y. y \<in> set ids \<Longrightarrow> y \<le> x) \<Longrightarrow> 0 < n \<Longrightarrow>
   x \<in> set (newest n ids)"
proof -
  assume a: "distinct ids" "x \<in> set ids" "\<And>y. y \<in> set ids \<Longrightarrow> y \<le> x" "0 < n"
  have "{y \<in> set ids. x < y} = {}" using a(3) by force
  then have "card {y \<in> set ids. x < y} = 0" by (simp only: card.empty)
  with a show ?thesis by (simp only: set_newest)
qed

lemma set_take_subset_set: "x \<in> set (take n xs) \<Longrightarrow> x \<in> set xs"
  by (metis in_set_takeD)

end
