(* ===== verification/GoStd.thy ===== *)
theory GoStd
  imports Prelude
begin

section \<open>The parts of the Go standard library the program uses\<close>

text \<open>
  \<open>strconv\<close> (Atoi, ParseInt, ParseBool, printing of integers), \<open>strings\<close>
  (Cut, Split, ToLower, HasPrefix, TrimPrefix) and \<open>math/rand\<close>. Strings are byte strings,
  as in Go; \<open>ToLower\<close> is written for ASCII, the alphabet of the header values and variable
  names it is applied to. The random source is the infinite stream of its raw draws.
\<close>

subsection \<open>strconv\<close>

datatype num_error = ErrSyntax | ErrRange

definition is_digit :: "char \<Rightarrow> bool" where
  "is_digit c \<longleftrightarrow> 48 \<le> (of_char c :: nat) \<and> (of_char c :: nat) \<le> 57"

definition digit_val :: "char \<Rightarrow> nat" where
  "digit_val c = of_char c - 48"

text \<open>
  The loop of \<open>ParseUint\<close> in base 10: the first bad byte is a syntax error, the first
  overflow a range error with the largest value of the type.
\<close>

fun parse_uint_loop :: "nat \<Rightarrow> nat \<Rightarrow> string \<Rightarrow> nat \<times> num_error option" where
  "parse_uint_loop maxv n [] = (n, None)"
| "parse_uint_loop maxv n (c # cs) =
     (if \<not> is_digit c then (0, Some ErrSyntax)
      else if n * 10 + digit_val c > maxv then (maxv, Some ErrRange)
      else parse_uint_loop maxv (n * 10 + digit_val c) cs)"

definition parse_uint :: "nat \<Rightarrow> string \<Rightarrow> nat \<times> num_error option" where
  "parse_uint bits s =
     (if s = [] then (0, Some ErrSyntax) else parse_uint_loop (2 ^ bits - 1) 0 s)"

definition split_sign :: "string \<Rightarrow> bool \<times> string" where
  "split_sign s =
     (case s of [] \<Rightarrow> (False, [])
      | c # cs \<Rightarrow> if c = CHR ''+'' then (False, cs)
                  else if c = CHR ''-'' then (True, cs) else (False, s))"

text \<open>\<open>ParseInt(s, 10, bits)\<close>: the value and the error; on a range error the nearest bound.\<close>

definition parse_int :: "nat \<Rightarrow> string \<Rightarrow> int \<times> num_error option" where
  "parse_int bits s =
     (let (neg, digits) = split_sign s; cutoff = 2 ^ (bits - 1) :: int in
      case parse_uint bits digits of
        (un, Some ErrSyntax) \<Rightarrow> (0, Some ErrSyntax)
      | (un, _) \<Rightarrow>
          if \<not> neg \<and> int un \<ge> cutoff then (cutoff - 1, Some ErrRange)
          else if neg \<and> int un > cutoff then (- cutoff, Some ErrRange)
          else (if neg then - int un else int un, None))"

definition Atoi :: "string \<Rightarrow> go_int \<times> num_error option" where
  "Atoi s = parse_int 64 s"

definition parse_bool :: "string \<Rightarrow> bool \<times> bool" where \<comment> \<open>value, and whether it parsed\<close>
  "parse_bool s =
     (if s \<in> {''1'', ''t'', ''T'', ''true'', ''TRUE'', ''True''} then (True, True)
      else if s \<in> {''0'', ''f'', ''F'', ''false'', ''FALSE'', ''False''} then (False, True)
      else (False, False))"

text \<open>Decimal printing, as \<open>strconv.Itoa\<close> and \<open>fmt.Sprint\<close> do it.\<close>

fun show_nat :: "nat \<Rightarrow> string" where
  "show_nat n = (if n < 10 then [char_of (48 + n)]
                 else show_nat (n div 10) @ [char_of (48 + n mod 10)])"

declare show_nat.simps [simp del]

definition Itoa :: "go_int \<Rightarrow> string" where
  "Itoa k = (if k < 0 then CHR ''-'' # show_nat (nat (- k)) else show_nat (nat k))"

subsection \<open>strings\<close>

definition lower_char :: "char \<Rightarrow> char" where
  "lower_char c = (let n = (of_char c :: nat) in if 65 \<le> n \<and> n \<le> 90 then char_of (n + 32) else c)"

definition to_lower :: "string \<Rightarrow> string" where
  "to_lower s = map lower_char s"

definition has_prefix :: "string \<Rightarrow> string \<Rightarrow> bool" where
  "has_prefix s p \<longleftrightarrow> take (length p) s = p"

definition trim_prefix :: "string \<Rightarrow> string \<Rightarrow> string" where
  "trim_prefix s p = (if has_prefix s p then drop (length p) s else s)"

text \<open>\<open>strings.Cut\<close> with a one-byte separator.\<close>

fun cut :: "string \<Rightarrow> char \<Rightarrow> string \<times> string \<times> bool" where
  "cut [] sep = ([], [], False)"
| "cut (c # cs) sep =
     (if c = sep then ([], cs, True)
      else case cut cs sep of (before, after, found) \<Rightarrow>
        (c # before, after, found))"

text \<open>\<open>strings.Split\<close> with a one-byte separator.\<close>

fun split_on :: "string \<Rightarrow> char \<Rightarrow> string list" where
  "split_on [] sep = [[]]"
| "split_on (c # cs) sep =
     (if c = sep then [] # split_on cs sep
      else case split_on cs sep of w # ws \<Rightarrow> (c # w) # ws | [] \<Rightarrow> [[c]])"

subsection \<open>math/rand\<close>

type_synonym rng = "nat stream"

text \<open>\<open>rand.Intn(n)\<close> panics when \<open>n\<close> is not positive.\<close>

definition rand_intn :: "go_int \<Rightarrow> rng \<Rightarrow> (go_int \<times> rng) outcome" where
  "rand_intn n r =
     (if n \<le> 0 then Panicked ''invalid argument to Intn''
      else Returned (int (shd r) mod n, stl r))"

subsection \<open>Lemmas\<close>

lemma rand_intn_Returned:
  "rand_intn n r = Returned (k, r') \<Longrightarrow> 0 < n \<and> 0 \<le> k \<and> k < n \<and> r' = stl r"
  by (auto simp: rand_intn_def split: if_splits)

lemma rand_intn_pos:
  "0 < n \<Longrightarrow> rand_intn n r = Returned (int (shd r) mod n, stl r)"
  by (simp add: rand_intn_def)

lemma rand_intn_Panicked_iff: "(\<exists>m. rand_intn n r = Panicked m) \<longleftrightarrow> n \<le> 0"
  by (simp add: rand_intn_def)

lemma digit_char:
  "d < 10 \<Longrightarrow> is_digit (char_of (48 + d)) \<and> digit_val (char_of (48 + d)) = d"
  by (simp add: is_digit_def digit_val_def)

lemma show_nat_digits: "\<forall>c \<in> set (show_nat n). is_digit c"
proof (induction n rule: show_nat.induct)
  case (1 n)
  then show ?case
    by (subst show_nat.simps) (auto simp: digit_char)
qed

lemma show_nat_nonempty [simp]: "show_nat n \<noteq> []"
  by (subst show_nat.simps) simp

lemma parse_uint_loop_append:
  "parse_uint_loop maxv n xs = (m, None) \<Longrightarrow>
   parse_uint_loop maxv n (xs @ ys) = parse_uint_loop maxv m ys"
  by (induction maxv n xs rule: parse_uint_loop.induct) (auto split: if_splits)

lemma parse_uint_loop_show_nat:
  "n \<le> maxv \<Longrightarrow> parse_uint_loop maxv 0 (show_nat n) = (n, None)"
proof (induction n rule: show_nat.induct)
  case (1 n)
  show ?case
  proof (cases "n < 10")
    case True
    with "1.prems" show ?thesis
      by (subst show_nat.simps) (simp add: digit_char)
  next
    case False
    with "1.prems" have "parse_uint_loop maxv 0 (show_nat (n div 10)) = (n div 10, None)"
      by (intro "1.IH") auto
    with False "1.prems" show ?thesis
      by (subst show_nat.simps) (simp add: parse_uint_loop_append digit_char)
  qed
qed

lemma split_sign_show_nat: "split_sign (show_nat n) = (False, show_nat n)"
proof -
  obtain c cs where s: "show_nat n = c # cs" by (cases "show_nat n") auto
  with show_nat_digits [of n] have "is_digit c" by simp
  then have "c \<noteq> CHR ''+''" "c \<noteq> CHR ''-''" by (auto simp: is_digit_def)
  with s show ?thesis by (simp add: split_sign_def)
qed

text \<open>The round trip of printing and parsing an identifier.\<close>

lemma Atoi_Itoa: "in_int64 k \<Longrightarrow> Atoi (Itoa k) = (k, None)"
proof (cases "k < 0")
  case True
  assume "in_int64 k"
  with True have "parse_uint_loop (2 ^ 64 - 1) 0 (show_nat (nat (- k))) = (nat (- k), None)"
    by (intro parse_uint_loop_show_nat) (auto simp: in_int64_def min_int64_def)
  with True \<open>in_int64 k\<close> show ?thesis
    by (simp add: Atoi_def Itoa_def parse_int_def parse_uint_def split_sign_def in_int64_def
        min_int64_def zless_nat_eq_int_zless)
next
  case False
  assume "in_int64 k"
  with False have "parse_uint_loop (2 ^ 64 - 1) 0 (show_nat (nat k)) = (nat k, None)"
    by (intro parse_uint_loop_show_nat) (auto simp: in_int64_def max_int64_def)
  with False \<open>in_int64 k\<close> show ?thesis
    by (simp add: Atoi_def Itoa_def parse_int_def parse_uint_def split_sign_show_nat in_int64_def
        max_int64_def le_nat_iff)
qed

lemma parse_uint_loop_le: "n \<le> maxv \<Longrightarrow> fst (parse_uint_loop maxv n s) \<le> maxv"
  by (induction maxv n s rule: parse_uint_loop.induct) auto

lemma Atoi_range: "in_int64 (fst (Atoi s))"
  by (auto simp: Atoi_def parse_int_def in_int64_def min_int64_def max_int64_def Let_def
      split: prod.splits option.splits num_error.splits)

lemma cut_found:
  "cut s sep = (a, b, True) \<Longrightarrow> s = a @ sep # b \<and> sep \<notin> set a"
  by (induction s arbitrary: a) (auto split: if_splits prod.splits)

lemma cut_not_found: "cut s sep = (a, b, False) \<Longrightarrow> a = s \<and> b = [] \<and> sep \<notin> set s"
  by (induction s arbitrary: a) (auto split: if_splits prod.splits)

lemma cut_append: "sep \<notin> set a \<Longrightarrow> cut (a @ sep # b) sep = (a, b, True)"
  by (induction a) auto

lemma lower_char_idem [simp]: "lower_char (lower_char c) = lower_char c"
  by (simp add: lower_char_def Let_def)

lemma to_lower_idem [simp]: "to_lower (to_lower s) = to_lower s"
  by (simp add: to_lower_def)

lemma split_on_nonempty [simp]: "split_on s sep \<noteq> []"
  by (induction s) (auto split: list.splits)

lemma trim_prefix_append [simp]: "trim_prefix (p @ s) p = s"
  by (simp add: trim_prefix_def has_prefix_def)

lemma has_prefix_append [simp]: "has_prefix (p @ s) p"
  by (simp add: has_prefix_def)

end
