(* ===== verification/Model.thy ===== *)
theory Model
  imports GoStd
begin

section \<open>The data model (\<^verbatim>\<open>pkg/model\<close>)\<close>

text \<open>
  The structs of \<^verbatim>\<open>pkg/model\<close> as records, with their \<open>Validate\<close>, \<open>IsGlobal\<close>,
  \<open>IsVegetarian\<close> and \<open>CalculateCalories\<close> methods, and the error values of the program.
  The relation pointers \<open>Rating.User\<close> and \<open>Rating.Pizza\<close>, filled by joins and read by no
  code, are left out, and so is the empty \<open>bun.BaseModel\<close>.
\<close>

subsection \<open>Errors\<close>

datatype json_err =
    JsonSyntax string
  | JsonUnknownField string
  | JsonTypeMismatch string

text \<open>
  One constructor per error value or per \<open>errors.New\<close> and \<open>fmt.Errorf\<close> of the source,
  and one each for what the driver, \<^verbatim>\<open>bcrypt\<close> and the injected faults return.
\<close>

datatype err =
    ErrNoRows                       \<comment> \<open>\<^verbatim>\<open>sql.ErrNoRows\<close>\<close>
  | ErrDriver string                \<comment> \<open>any other error of the database\<close>
  | ErrConstraint string            \<comment> \<open>a violated constraint of the schema\<close>
  | ErrUsernameTaken
  | ErrGlobalOperationNotPermitted
  | ErrRatingNotFound go_int
  | ErrPizzaNotFound go_int
  | ErrInjected string
  | ErrStars
  | ErrUsernameEmpty
  | ErrUsernameTooLong
  | ErrUsernameInvalid
  | ErrPasswordEmpty
  | ErrBcrypt string
  | ErrJson json_err
  | ErrAuth                         \<comment> \<open>authError\<close>
  | ErrNotFound                     \<comment> \<open>"not found"\<close>
  | ErrInvalidCsrf
  | ErrUnavailable                  \<comment> \<open>the simulated failure of the pizza service\<close>
  | ErrTemplate                     \<comment> \<open>templateError\<close>

type_synonym 'a result = "err + 'a"

subsection \<open>Dough, ingredients and pizzas\<close>

record dough =
  dough_id :: go_int
  dough_name :: string
  dough_calories :: go_int

record ingredient =
  ing_id :: go_int
  ing_name :: string
  ing_calories :: go_int
  ing_vegetarian :: bool
  ing_type :: string

record pizza =
  pizza_id :: go_int
  pizza_created_at :: go_int
  pizza_name :: string
  pizza_dough_id :: go_int
  pizza_dough :: dough
  pizza_ingredients :: "ingredient list"
  pizza_tool :: string

definition MaxPizzaNameLength :: nat where
  "MaxPizzaNameLength = 64"

definition zero_dough :: dough where
  "zero_dough = \<lparr>dough_id = 0, dough_name = [], dough_calories = 0\<rparr>"

definition zero_ingredient :: ingredient where
  "zero_ingredient = \<lparr>ing_id = 0, ing_name = [], ing_calories = 0, ing_vegetarian = False, ing_type = []\<rparr>"

definition zero_pizza :: pizza where
  "zero_pizza = \<lparr>pizza_id = 0, pizza_created_at = 0, pizza_name = [], pizza_dough_id = 0,
     pizza_dough = zero_dough, pizza_ingredients = [], pizza_tool = []\<rparr>"

fun vegetarian_loop :: "ingredient list \<Rightarrow> bool" where
  "vegetarian_loop [] = True"
| "vegetarian_loop (i # is) = (if \<not> ing_vegetarian i then False else vegetarian_loop is)"

definition IsVegetarian :: "pizza \<Rightarrow> bool" where
  "IsVegetarian p = vegetarian_loop (pizza_ingredients p)"

fun calories_loop :: "go_int \<Rightarrow> ingredient list \<Rightarrow> go_int" where
  "calories_loop calories [] = calories"
| "calories_loop calories (i # is) = calories_loop (wrap64 (calories + ing_calories i)) is"

definition CalculateCalories :: "pizza \<Rightarrow> go_int" where
  "CalculateCalories p = calories_loop 0 (pizza_ingredients p)"

subsection \<open>Users\<close>

record user =
  user_id :: go_int
  user_username :: string
  user_token :: string
  user_password :: string
  user_password_hash :: string
  user_password_plaintext :: string

definition UserTokenLength :: nat where
  "UserTokenLength = 16"

definition MaxUserNameLength :: nat where
  "MaxUserNameLength = 32"

definition GlobalUsername :: string where
  "GlobalUsername = ''default''"

definition zero_user :: user where
  "zero_user = \<lparr>user_id = 0, user_username = [], user_token = [], user_password = [],
     user_password_hash = [], user_password_plaintext = []\<rparr>"

definition user_Validate :: "user \<Rightarrow> err option" where
  "user_Validate u =
     (if user_username u = [] then Some ErrUsernameEmpty
      else if length (user_username u) > MaxUserNameLength then Some ErrUsernameTooLong
      else if user_username u = GlobalUsername then Some ErrUsernameInvalid
      else if user_password u = [] then Some ErrPasswordEmpty
      else None)"

definition IsGlobal :: "user \<Rightarrow> bool" where
  "IsGlobal u \<longleftrightarrow> user_username u = GlobalUsername"

subsection \<open>Ratings\<close>

record rating =
  rating_id :: go_int
  rating_stars :: go_int
  rating_user_id :: go_int
  rating_pizza_id :: go_int

definition zero_rating :: rating where
  "zero_rating = \<lparr>rating_id = 0, rating_stars = 0, rating_user_id = 0, rating_pizza_id = 0\<rparr>"

definition rating_Validate :: "rating \<Rightarrow> err option" where
  "rating_Validate r = (if rating_stars r < 1 \<or> rating_stars r > 5 then Some ErrStars else None)"

subsection \<open>Lemmas\<close>

lemma vegetarian_loop_iff: "vegetarian_loop is \<longleftrightarrow> (\<forall>i \<in> set is. ing_vegetarian i)"
  by (induction "is") auto

lemma IsVegetarian_iff: "IsVegetarian p \<longleftrightarrow> (\<forall>i \<in> set (pizza_ingredients p). ing_vegetarian i)"
  by (simp add: IsVegetarian_def vegetarian_loop_iff)

lemma calories_loop_sum:
  "in_int64 c \<Longrightarrow> calories_loop c is = wrap64 (c + sum_list (map ing_calories is))"
proof (induction "is" arbitrary: c)
  case (Cons i "is")
  have "calories_loop c (i # is) = wrap64 (wrap64 (c + ing_calories i) + sum_list (map ing_calories is))"
    by (simp add: Cons.IH)
  then show ?case by (simp add: add.assoc)
qed simp

lemma in_int64_0 [simp]: "in_int64 0"
  by (simp add: in_int64_def min_int64_def max_int64_def)

lemma CalculateCalories_sum:
  "CalculateCalories p = wrap64 (\<Sum>i \<in># mset (pizza_ingredients p). ing_calories i)"
  by (simp add: CalculateCalories_def calories_loop_sum sum_mset_sum_list flip: mset_map)

text \<open>Neither method depends on the order in which the ingredients are listed.\<close>

lemma CalculateCalories_perm:
  "mset (pizza_ingredients p) = mset (pizza_ingredients q) \<Longrightarrow>
   CalculateCalories p = CalculateCalories q"
  by (simp add: CalculateCalories_sum)

lemma user_Validate_None_iff:
  "user_Validate u = None \<longleftrightarrow>
     user_username u \<noteq> [] \<and> length (user_username u) \<le> 32 \<and> user_username u \<noteq> GlobalUsername \<and>
     user_password u \<noteq> []"
  by (simp add: user_Validate_def MaxUserNameLength_def linorder_not_less)

lemma rating_Validate_None_iff:
  "rating_Validate r = None \<longleftrightarrow> 1 \<le> rating_stars r \<and> rating_stars r \<le> 5"
  by (auto simp: rating_Validate_def)

end
