(* ===== verification/Json.thy ===== *)
theory Json
  imports Model
begin

section \<open>JSON values and the struct codecs\<close>

text \<open>
  JSON documents as \<open>encoding/json\<close> sees them after its syntax check, the encoders the
  struct tags of \<^verbatim>\<open>pkg/model\<close> induce, and the decoders with \<open>DisallowUnknownFields\<close>:
  fields are matched by name without regard to case, \<open>null\<close> leaves a field as it is, a
  repeated field overrides, and the first mismatch or unknown field is the error.
  A nil slice and an empty one are one list here, encoded as an array.
\<close>

datatype json =
    JNull
  | JBool bool
  | JInt int          \<comment> \<open>a number literal without fraction or exponent\<close>
  | JFrac string      \<comment> \<open>any other number literal\<close>
  | JStr string
  | JArr "json list"
  | JObj "(string \<times> json) list"

subsection \<open>Decoding\<close>

type_synonym 'a decoder = "json \<Rightarrow> 'a \<Rightarrow> json_err + 'a"

fun dec_int64 :: "string \<Rightarrow> go_int decoder" where
  "dec_int64 f (JInt n) x = (if in_int64 n then Inr n else Inl (JsonTypeMismatch f))"
| "dec_int64 f JNull x = Inr x"
| "dec_int64 f _ x = Inl (JsonTypeMismatch f)"

fun dec_bool :: "string \<Rightarrow> bool decoder" where
  "dec_bool f (JBool b) x = Inr b"
| "dec_bool f JNull x = Inr x"
| "dec_bool f _ x = Inl (JsonTypeMismatch f)"

fun dec_string :: "string \<Rightarrow> string decoder" where
  "dec_string f (JStr s) x = Inr s"
| "dec_string f JNull x = Inr x"
| "dec_string f _ x = Inl (JsonTypeMismatch f)"

fun dec_elems :: "'a decoder \<Rightarrow> 'a \<Rightarrow> json list \<Rightarrow> json_err + 'a list" where
  "dec_elems d zero [] = Inr []"
| "dec_elems d zero (j # js) =
     (case d j zero of Inl e \<Rightarrow> Inl e
      | Inr x \<Rightarrow> (case dec_elems d zero js of Inl e \<Rightarrow> Inl e | Inr xs \<Rightarrow> Inr (x # xs)))"

fun dec_slice :: "string \<Rightarrow> 'a decoder \<Rightarrow> 'a \<Rightarrow> 'a list decoder" where
  "dec_slice f d zero (JArr js) x = dec_elems d zero js"
| "dec_slice f d zero JNull x = Inr []"
| "dec_slice f d zero _ x = Inl (JsonTypeMismatch f)"

text \<open>A struct: each field of the object in turn, by a setter that knows the struct's fields.\<close>

fun dec_fields :: "(string \<Rightarrow> json \<Rightarrow> 'a \<Rightarrow> json_err + 'a) \<Rightarrow> (string \<times> json) list \<Rightarrow> 'a \<Rightarrow> json_err + 'a" where
  "dec_fields set_field [] x = Inr x"
| "dec_fields set_field ((k, j) # kjs) x =
     (case set_field (to_lower k) j x of Inl e \<Rightarrow> Inl e | Inr y \<Rightarrow> dec_fields set_field kjs y)"

fun dec_struct :: "string \<Rightarrow> (string \<Rightarrow> json \<Rightarrow> 'a \<Rightarrow> json_err + 'a) \<Rightarrow> 'a decoder" where
  "dec_struct f set_field (JObj kjs) x = dec_fields set_field kjs x"
| "dec_struct f set_field JNull x = Inr x"
| "dec_struct f set_field _ x = Inl (JsonTypeMismatch f)"

definition on_field :: "('b \<Rightarrow> 'a) \<Rightarrow> json_err + 'b \<Rightarrow> json_err + 'a" where
  "on_field upd r = (case r of Inl e \<Rightarrow> Inl e | Inr v \<Rightarrow> Inr (upd v))"

definition set_dough_field :: "string \<Rightarrow> json \<Rightarrow> dough \<Rightarrow> json_err + dough" where
  "set_dough_field k j d =
     (if k = ''id'' then on_field (\<lambda>v. d\<lparr>dough_id := v\<rparr>) (dec_int64 k j (dough_id d))
      else if k = ''name'' then on_field (\<lambda>v. d\<lparr>dough_name := v\<rparr>) (dec_string k j (dough_name d))
      else if k = ''caloriesperslice'' then
        on_field (\<lambda>v. d\<lparr>dough_calories := v\<rparr>) (dec_int64 k j (dough_calories d))
      else Inl (JsonUnknownField k))"

definition dec_dough :: "dough decoder" where
  "dec_dough = dec_struct ''dough'' set_dough_field"

definition set_ingredient_field :: "string \<Rightarrow> json \<Rightarrow> ingredient \<Rightarrow> json_err + ingredient" where
  "set_ingredient_field k j i =
     (if k = ''id'' then on_field (\<lambda>v. i\<lparr>ing_id := v\<rparr>) (dec_int64 k j (ing_id i))
      else if k = ''name'' then on_field (\<lambda>v. i\<lparr>ing_name := v\<rparr>) (dec_string k j (ing_name i))
      else if k = ''caloriesperslice'' then
        on_field (\<lambda>v. i\<lparr>ing_calories := v\<rparr>) (dec_int64 k j (ing_calories i))
      else if k = ''vegetarian'' then
        on_field (\<lambda>v. i\<lparr>ing_vegetarian := v\<rparr>) (dec_bool k j (ing_vegetarian i))
      else Inl (JsonUnknownField k))"

definition dec_ingredient :: "ingredient decoder" where
  "dec_ingredient = dec_struct ''ingredient'' set_ingredient_field"

definition set_pizza_field :: "string \<Rightarrow> json \<Rightarrow> pizza \<Rightarrow> json_err + pizza" where
  "set_pizza_field k j p =
     (if k = ''id'' then on_field (\<lambda>v. p\<lparr>pizza_id := v\<rparr>) (dec_int64 k j (pizza_id p))
      else if k = ''name'' then on_field (\<lambda>v. p\<lparr>pizza_name := v\<rparr>) (dec_string k j (pizza_name p))
      else if k = ''dough'' then on_field (\<lambda>v. p\<lparr>pizza_dough := v\<rparr>) (dec_dough j (pizza_dough p))
      else if k = ''ingredients'' then
        on_field (\<lambda>v. p\<lparr>pizza_ingredients := v\<rparr>)
          (dec_slice k dec_ingredient zero_ingredient j (pizza_ingredients p))
      else if k = ''tool'' then on_field (\<lambda>v. p\<lparr>pizza_tool := v\<rparr>) (dec_string k j (pizza_tool p))
      else Inl (JsonUnknownField k))"

definition dec_pizza :: "pizza decoder" where
  "dec_pizza = dec_struct ''pizza'' set_pizza_field"

definition set_rating_field :: "string \<Rightarrow> json \<Rightarrow> rating \<Rightarrow> json_err + rating" where
  "set_rating_field k j r =
     (if k = ''id'' then on_field (\<lambda>v. r\<lparr>rating_id := v\<rparr>) (dec_int64 k j (rating_id r))
      else if k = ''stars'' then on_field (\<lambda>v. r\<lparr>rating_stars := v\<rparr>) (dec_int64 k j (rating_stars r))
      else if k = ''pizza_id'' then
        on_field (\<lambda>v. r\<lparr>rating_pizza_id := v\<rparr>) (dec_int64 k j (rating_pizza_id r))
      else Inl (JsonUnknownField k))"

definition dec_rating :: "rating decoder" where
  "dec_rating = dec_struct ''rating'' set_rating_field"

definition set_user_field :: "string \<Rightarrow> json \<Rightarrow> user \<Rightarrow> json_err + user" where
  "set_user_field k j u =
     (if k = ''id'' then on_field (\<lambda>v. u\<lparr>user_id := v\<rparr>) (dec_int64 k j (user_id u))
      else if k = ''username'' then
        on_field (\<lambda>v. u\<lparr>user_username := v\<rparr>) (dec_string k j (user_username u))
      else if k = ''token'' then on_field (\<lambda>v. u\<lparr>user_token := v\<rparr>) (dec_string k j (user_token u))
      else if k = ''password'' then
        on_field (\<lambda>v. u\<lparr>user_password := v\<rparr>) (dec_string k j (user_password u))
      else Inl (JsonUnknownField k))"

definition dec_user :: "user decoder" where
  "dec_user = dec_struct ''user'' set_user_field"

subsection \<open>Encoding\<close>

definition enc_dough :: "dough \<Rightarrow> json" where
  "enc_dough d = JObj [(''ID'', JInt (dough_id d)), (''name'', JStr (dough_name d)),
     (''caloriesPerSlice'', JInt (dough_calories d))]"

definition enc_ingredient :: "ingredient \<Rightarrow> json" where
  "enc_ingredient i = JObj [(''ID'', JInt (ing_id i)), (''name'', JStr (ing_name i)),
     (''caloriesPerSlice'', JInt (ing_calories i)), (''vegetarian'', JBool (ing_vegetarian i))]"

definition enc_pizza :: "pizza \<Rightarrow> json" where
  "enc_pizza p = JObj [(''id'', JInt (pizza_id p)), (''name'', JStr (pizza_name p)),
     (''dough'', enc_dough (pizza_dough p)),
     (''ingredients'', JArr (map enc_ingredient (pizza_ingredients p))),
     (''tool'', JStr (pizza_tool p))]"

definition enc_rating :: "rating \<Rightarrow> json" where
  "enc_rating r = JObj [(''id'', JInt (rating_id r)), (''stars'', JInt (rating_stars r)),
     (''pizza_id'', JInt (rating_pizza_id r))]"

text \<open>\<open>token\<close> and \<open>password\<close> are omitted when empty; the hash and the plaintext are never sent.\<close>

definition enc_user :: "user \<Rightarrow> json" where
  "enc_user u = JObj ([(''id'', JInt (user_id u)), (''username'', JStr (user_username u))]
     @ (if user_token u = [] then [] else [(''token'', JStr (user_token u))])
     @ (if user_password u = [] then [] else [(''password'', JStr (user_password u))]))"

subsection \<open>Round trips\<close>

text \<open>What survives the wire: the fields tagged \<^verbatim>\<open>json:"-"\<close> are lost.\<close>

definition wire_ingredient :: "ingredient \<Rightarrow> ingredient" where
  "wire_ingredient i = i\<lparr>ing_type := []\<rparr>"

definition wire_pizza :: "pizza \<Rightarrow> pizza" where
  "wire_pizza p = p\<lparr>pizza_created_at := 0, pizza_dough_id := 0,
     pizza_ingredients := map wire_ingredient (pizza_ingredients p)\<rparr>"

definition ingredient_in_range :: "ingredient \<Rightarrow> bool" where
  "ingredient_in_range i \<longleftrightarrow> in_int64 (ing_id i) \<and> in_int64 (ing_calories i)"

definition dough_in_range :: "dough \<Rightarrow> bool" where
  "dough_in_range d \<longleftrightarrow> in_int64 (dough_id d) \<and> in_int64 (dough_calories d)"

definition pizza_in_range :: "pizza \<Rightarrow> bool" where
  "pizza_in_range p \<longleftrightarrow> in_int64 (pizza_id p) \<and> dough_in_range (pizza_dough p) \<and>
     (\<forall>i \<in> set (pizza_ingredients p). ingredient_in_range i)"

lemma to_lower_simps [go_simps]:
  "to_lower ''ID'' = ''id''" "to_lower ''id'' = ''id''" "to_lower ''name'' = ''name''"
  "to_lower ''caloriesPerSlice'' = ''caloriesperslice''" "to_lower ''vegetarian'' = ''vegetarian''"
  "to_lower ''dough'' = ''dough''" "to_lower ''ingredients'' = ''ingredients''"
  "to_lower ''tool'' = ''tool''" "to_lower ''stars'' = ''stars''"
  "to_lower ''pizza_id'' = ''pizza_id''" "to_lower ''username'' = ''username''"
  "to_lower ''token'' = ''token''" "to_lower ''password'' = ''password''"
  by code_simp+

lemma dec_enc_dough: "dough_in_range d \<Longrightarrow> dec_dough (enc_dough d) x = Inr d"
  by (cases d) (simp add: dec_dough_def enc_dough_def dough_in_range_def set_dough_field_def
      on_field_def go_simps)

lemma dec_enc_ingredient:
  "ingredient_in_range i \<Longrightarrow> dec_ingredient (enc_ingredient i) zero_ingredient = Inr (wire_ingredient i)"
  by (cases i) (simp add: dec_ingredient_def enc_ingredient_def ingredient_in_range_def
      set_ingredient_field_def on_field_def wire_ingredient_def zero_ingredient_def go_simps)

lemma dec_elems_map:
  "(\<And>x. x \<in> set xs \<Longrightarrow> d (enc x) zero = Inr (w x)) \<Longrightarrow>
   dec_elems d zero (map enc xs) = Inr (map w xs)"
  by (induction xs) simp_all

lemma dec_enc_pizza:
  "pizza_in_range p \<Longrightarrow> dec_pizza (enc_pizza p) zero_pizza = Inr (wire_pizza p)"
  by (cases p) (simp add: dec_pizza_def enc_pizza_def pizza_in_range_def set_pizza_field_def
      on_field_def wire_pizza_def zero_pizza_def dec_enc_dough dec_elems_map dec_enc_ingredient
      go_simps)

lemma dec_enc_rating:
  "in_int64 (rating_id r) \<Longrightarrow> in_int64 (rating_stars r) \<Longrightarrow> in_int64 (rating_pizza_id r) \<Longrightarrow>
   dec_rating (enc_rating r) zero_rating = Inr (r\<lparr>rating_user_id := 0\<rparr>)"
  by (cases r) (simp add: dec_rating_def enc_rating_def set_rating_field_def on_field_def
      zero_rating_def go_simps)

lemma dec_enc_user:
  "in_int64 (user_id u) \<Longrightarrow>
   dec_user (enc_user u) zero_user = Inr (u\<lparr>user_password_hash := [], user_password_plaintext := []\<rparr>)"
  by (cases u) (simp add: dec_user_def enc_user_def set_user_field_def on_field_def
      zero_user_def go_simps)

lemma wire_pizza_idem [simp]: "wire_pizza (wire_pizza p) = wire_pizza p"
  by (simp add: wire_pizza_def wire_ingredient_def)

text \<open>Nothing the encoder of users writes depends on the stored credentials.\<close>

lemma enc_user_no_secrets:
  "enc_user (u\<lparr>user_password_hash := h, user_password_plaintext := p\<rparr>) = enc_user u"
  by (simp add: enc_user_def)

subsection \<open>What a decoder can change\<close>

lemma dec_fields_frame:
  assumes "\<And>k j x y. set_field k j x = Inr y \<Longrightarrow> frame y = frame x"
  shows "dec_fields set_field kjs x = Inr y \<Longrightarrow> frame y = frame x"
proof (induction kjs arbitrary: x)
  case (Cons kj kjs)
  obtain k j where kj: "kj = (k, j)" by (cases kj)
  with Cons.prems obtain z where "set_field (to_lower k) j x = Inr z"
    and "dec_fields set_field kjs z = Inr y"
    by (auto split: sum.splits)
  with Cons.IH assms show ?case by metis
qed simp

lemma dec_rating_keeps_user:
  "dec_rating j x = Inr r \<Longrightarrow> rating_user_id r = rating_user_id x"
  unfolding dec_rating_def
  by (cases j) (auto simp: set_rating_field_def on_field_def
      elim!: dec_fields_frame [rotated] split: sum.splits if_splits)

lemma dec_user_keeps_credentials:
  "dec_user j x = Inr u \<Longrightarrow>
   user_password_hash u = user_password_hash x \<and> user_password_plaintext u = user_password_plaintext x"
proof -
  assume a: "dec_user j x = Inr u"
  have "user_password_hash u = user_password_hash x"
    using a unfolding dec_user_def
    by (cases j) (auto simp: set_user_field_def on_field_def
        elim!: dec_fields_frame [rotated] split: sum.splits if_splits)
  moreover have "user_password_plaintext u = user_password_plaintext x"
    using a unfolding dec_user_def
    by (cases j) (auto simp: set_user_field_def on_field_def
        elim!: dec_fields_frame [rotated] split: sum.splits if_splits)
  ultimately show ?thesis ..
qed

end
