(* ===== verification/Platform.thy ===== *)
theory Platform
  imports Model
begin

section \<open>What the program takes from outside its own code\<close>

text \<open>
  The parameters of the model. A \<open>platform\<close> holds everything the code relies on and does
  not define: which statements of the database fail and with what error, the order in which
  a \<open>SELECT\<close> without \<open>ORDER BY\<close> returns its rows, the clock, \<^verbatim>\<open>bcrypt\<close>, the outcome of a
  percentage roll and the reading of a duration. Nothing is assumed of them except where a
  theorem says so. A \<open>proc\<close> holds the process-wide state of the Go run time that the code
  uses: the random source, the sleeps performed so far and the metrics of the recommendations.
\<close>

datatype dialect = Postgres | SQLite

record platform =
  pf_dialect :: dialect
  pf_foreign_keys :: bool
    \<comment> \<open>whether the connections in use enforce foreign keys (always so on Postgres; on SQLite
       only where \<^verbatim>\<open>PRAGMA foreign_keys = ON\<close> was run)\<close>
  pf_fault :: "nat \<Rightarrow> string option"
    \<comment> \<open>the error, if any, with which the database answers statement number \<open>k\<close>\<close>
  pf_rank :: "nat \<Rightarrow> nat \<Rightarrow> int"
    \<comment> \<open>the place at which statement \<open>k\<close> returns the \<open>i\<close>-th of its rows\<close>
  pf_now :: "nat \<Rightarrow> go_int"
    \<comment> \<open>\<^verbatim>\<open>current_timestamp\<close> of the database at statement \<open>k\<close>\<close>
  pf_bcrypt_generate :: "nat \<Rightarrow> string \<Rightarrow> string + string"
    \<comment> \<open>\<^verbatim>\<open>bcrypt.GenerateFromPassword\<close>, by salt and password: an error or a hash\<close>
  pf_bcrypt_compare :: "string \<Rightarrow> string \<Rightarrow> bool"
    \<comment> \<open>\<^verbatim>\<open>bcrypt.CompareHashAndPassword\<close>, by hash and password: whether they match\<close>
  pf_chance :: "nat \<Rightarrow> string \<Rightarrow> bool"
    \<comment> \<open>whether \<^verbatim>\<open>rand.Float64() < p / 100\<close> for the draw and the text of \<open>p\<close>\<close>
  pf_duration :: "string \<Rightarrow> go_int"
    \<comment> \<open>the duration \<^verbatim>\<open>time.ParseDuration\<close> returns (0 with an error), in nanoseconds\<close>

text \<open>
  The Prometheus metrics of the recommendations: the counter by the labels \<open>vegetarian\<close> and \<open>tool\<close>, and the
  observations of the four histograms.
\<close>

record pizza_metrics =
  pm_recommendations :: "bool \<Rightarrow> string \<Rightarrow> nat"
  pm_ingredients :: "nat list"
  pm_ingredients_native :: "nat list"
  pm_calories :: "go_int list"
  pm_calories_native :: "go_int list"

definition no_pizzas :: pizza_metrics where
  "no_pizzas = \<lparr>pm_recommendations = (\<lambda>_ _. 0), pm_ingredients = [], pm_ingredients_native = [],
     pm_calories = [], pm_calories_native = []\<rparr>"

record proc =
  proc_rng :: rng
  proc_slept :: "go_int list"
  proc_pizzas :: pizza_metrics

definition draw :: "'a proc_scheme \<Rightarrow> nat \<times> 'a proc_scheme" where
  "draw s = (shd (proc_rng s), s\<lparr>proc_rng := stl (proc_rng s)\<rparr>)"

definition sleep :: "go_int \<Rightarrow> 'a proc_scheme \<Rightarrow> 'a proc_scheme" where
  "sleep d s = s\<lparr>proc_slept := proc_slept s @ [d]\<rparr>"

text \<open>The rows of an unordered \<open>SELECT\<close>: all of them, in some order.\<close>

definition scan :: "platform \<Rightarrow> nat \<Rightarrow> 'r list \<Rightarrow> 'r list" where
  "scan pf k rs = map snd (sort_key (\<lambda>(i, _). pf_rank pf k i) (enumerate 0 rs))"

definition fault_free :: "platform \<Rightarrow> bool" where
  "fault_free pf \<longleftrightarrow> pf_fault pf = (\<lambda>_. None)"

lemma mset_scan [simp]: "mset (scan pf k rs) = mset rs"
proof -
  have "mset (scan pf k rs) = image_mset snd (mset (enumerate 0 rs))"
    by (simp add: scan_def)
  also have "\<dots> = mset (map snd (enumerate 0 rs))"
    by (simp only: mset_map)
  finally show ?thesis by simp
qed

lemma set_scan [simp]: "set (scan pf k rs) = set rs"
  using mset_scan by (metis mset_eq_setD)

lemma length_scan [simp]: "length (scan pf k rs) = length rs"
  using mset_scan by (metis mset_eq_length)

lemma distinct_scan [simp]: "distinct (map f (scan pf k rs)) = distinct (map f rs)"
proof -
  have "mset (map f (scan pf k rs)) = mset (map f rs)" by simp
  then show ?thesis by (rule mset_eq_imp_distinct_iff)
qed

lemma scan_Nil [simp]: "scan pf k [] = []"
  by (simp add: scan_def)

lemma scan_Nil_iff [simp]: "scan pf k rs = [] \<longleftrightarrow> rs = []"
  by (metis length_0_conv length_scan)

lemma scan_singleton [simp]: "scan pf k [r] = [r]"
  by (simp add: scan_def)

lemma fault_freeD: "fault_free pf \<Longrightarrow> pf_fault pf k = None"
  by (simp add: fault_free_def)

end
