(* ===== verification/Util.thy ===== *)
theory Util
  imports Platform
begin

section \<open>Tokens, delays, passwords (\<^verbatim>\<open>pkg/util\<close>, \<^verbatim>\<open>pkg/password\<close>)\<close>

text \<open>
  The generation of alphanumeric tokens from the random source, the delays and random
  failures that environment variables switch on, and password hashing over \<^verbatim>\<open>bcrypt\<close>.
\<close>

definition characters :: string where
  "characters = ''abcdefghijklmnopqrstuvwxyzABCDEFGHIJKLMNOPQRSTUVWXYZ0123456789''"

fun token_loop :: "nat \<Rightarrow> rng \<Rightarrow> string \<times> rng" where
  "token_loop 0 g = ([], g)"
| "token_loop (Suc n) g =
     (let c = characters ! (shd g mod length characters);
          (cs, g') = token_loop n (stl g)
      in (c # cs, g'))"

definition GenerateAlphaNumToken :: "nat \<Rightarrow> 'a proc_scheme \<Rightarrow> string \<times> 'a proc_scheme" where
  "GenerateAlphaNumToken n s =
     (let (t, g) = token_loop n (proc_rng s) in (t, s\<lparr>proc_rng := g\<rparr>))"

text \<open>The environment of the process.\<close>

type_synonym environ = "string \<Rightarrow> string option"

definition DelayIfEnvSet :: "environ \<Rightarrow> string \<Rightarrow> 'a proc_scheme \<Rightarrow> 'a proc_scheme" where
  "DelayIfEnvSet env name s =
     (case env name of
        None \<Rightarrow> s
      | Some v \<Rightarrow> sleep (wrap64 (fst (Atoi v) * 1000000)) s)"

definition FailRandomlyIfEnvSet :: "environ \<Rightarrow> string \<Rightarrow> 'a proc_scheme \<Rightarrow> bool \<times> 'a proc_scheme" where
  "FailRandomlyIfEnvSet env name s =
     (case env name of
        None \<Rightarrow> (False, s)
      | Some v \<Rightarrow>
          (case Atoi v of
             (_, Some _) \<Rightarrow> (False, s)
           | (rate, None) \<Rightarrow>
               if rate < 0 \<or> rate > 100 then (False, s)
               else (let (n, s') = draw s in (int n mod 100 < rate, s'))))"

text \<open>\<^verbatim>\<open>pkg/password\<close>.\<close>

definition HashPassword :: "platform \<Rightarrow> nat \<Rightarrow> string \<Rightarrow> string result" where
  "HashPassword pf salt password =
     (if password = [] then Inl ErrPasswordEmpty
      else case pf_bcrypt_generate pf salt password of
        Inl e \<Rightarrow> Inl (ErrBcrypt e)
      | Inr h \<Rightarrow> Inr h)"

definition CheckPassword :: "platform \<Rightarrow> string \<Rightarrow> string \<Rightarrow> bool" where
  "CheckPassword pf password hash = pf_bcrypt_compare pf hash password"

subsection \<open>Lemmas\<close>

lemma characters_length [simp]: "length characters = 62"
  by (simp add: characters_def)

lemma token_loop_length: "length (fst (token_loop n g)) = n"
  by (induction n arbitrary: g) (simp_all add: Let_def split: prod.splits, metis fst_conv)

lemma token_loop_chars: "set (fst (token_loop n g)) \<subseteq> set characters"
proof (induction n arbitrary: g)
  case (Suc n)
  have "characters ! (shd g mod 62) \<in> set characters"
    by (rule nth_mem) simp
  moreover have "set (fst (token_loop n (stl g))) \<subseteq> set characters" by (rule Suc)
  ultimately show ?case by (auto simp: Let_def split: prod.splits)
qed simp

lemma GenerateAlphaNumToken_spec:
  "length (fst (GenerateAlphaNumToken n s)) = n \<and> set (fst (GenerateAlphaNumToken n s)) \<subseteq> set characters"
  using token_loop_length [of n "proc_rng s"] token_loop_chars [of n "proc_rng s"]
  by (simp add: GenerateAlphaNumToken_def case_prod_beta)

lemma proc_more_GenerateAlphaNumToken [simp]:
  "proc.more (snd (GenerateAlphaNumToken n s)) = proc.more s"
  by (simp add: GenerateAlphaNumToken_def split: prod.splits)

text \<open>A failure rate of 0 never fails, one of 100 always does, and a bad one counts as 0.\<close>

lemma FailRandomly_bounds:
  "fst (FailRandomlyIfEnvSet env name s) \<Longrightarrow>
   \<exists>v rate. env name = Some v \<and> Atoi v = (rate, None) \<and> 0 < rate \<and> rate \<le> 100"
  by (auto simp: FailRandomlyIfEnvSet_def draw_def split: option.splits prod.splits if_splits)

lemma FailRandomly_always:
  "env name = Some v \<Longrightarrow> Atoi v = (100, None) \<Longrightarrow> fst (FailRandomlyIfEnvSet env name s)"
  by (simp add: FailRandomlyIfEnvSet_def draw_def)

end
