(* ===== verification/Recommend.thy ===== *)
theory Recommend
  imports Json Util
begin

section \<open>Generating a pizza (\<open>POST /api/pizza\<close>)\<close>

text \<open>
  The body of the handler that computes a recommendation in \<^verbatim>\<open>pkg/http/http.go\<close>: the restrictions
  and their defaults, the filters on ingredients and tools, the name loop, the composition of a
  pizza with its panics on empty lists, and the ten attempts at the calorie limit. Every draw
  comes from the random source in the order in which the code draws. The order in which a Go
  map is iterated is a parameter.
\<close>

subsection \<open>Restrictions\<close>

record restrictions =
  res_max_calories :: go_int
  res_vegetarian :: bool
  res_excluded_ingredients :: "string list"
  res_excluded_tools :: "string list"
  res_max_toppings :: go_int
  res_min_toppings :: go_int
  res_custom_name :: string

definition zero_restrictions :: restrictions where
  "zero_restrictions = \<lparr>res_max_calories = 0, res_vegetarian = False, res_excluded_ingredients = [],
     res_excluded_tools = [], res_max_toppings = 0, res_min_toppings = 0, res_custom_name = []\<rparr>"

definition set_restrictions_field :: "string \<Rightarrow> json \<Rightarrow> restrictions \<Rightarrow> json_err + restrictions" where
  "set_restrictions_field k j r =
     (if k = ''maxcaloriesperslice'' then
        on_field (\<lambda>v. r\<lparr>res_max_calories := v\<rparr>) (dec_int64 k j (res_max_calories r))
      else if k = ''mustbevegetarian'' then
        on_field (\<lambda>v. r\<lparr>res_vegetarian := v\<rparr>) (dec_bool k j (res_vegetarian r))
      else if k = ''excludedingredients'' then
        on_field (\<lambda>v. r\<lparr>res_excluded_ingredients := v\<rparr>) (dec_slice k (dec_string k) [] j (res_excluded_ingredients r))
      else if k = ''excludedtools'' then
        on_field (\<lambda>v. r\<lparr>res_excluded_tools := v\<rparr>) (dec_slice k (dec_string k) [] j (res_excluded_tools r))
      else if k = ''maxnumberoftoppings'' then
        on_field (\<lambda>v. r\<lparr>res_max_toppings := v\<rparr>) (dec_int64 k j (res_max_toppings r))
      else if k = ''minnumberoftoppings'' then
        on_field (\<lambda>v. r\<lparr>res_min_toppings := v\<rparr>) (dec_int64 k j (res_min_toppings r))
      else if k = ''customname'' then
        on_field (\<lambda>v. r\<lparr>res_custom_name := v\<rparr>) (dec_string k j (res_custom_name r))
      else Inl (JsonUnknownField k))"

definition dec_restrictions :: "restrictions decoder" where
  "dec_restrictions = dec_struct ''Restrictions'' set_restrictions_field"

definition WithDefaults :: "restrictions \<Rightarrow> restrictions" where
  "WithDefaults r =
     (let r1 = (if res_max_calories r = 0 then r\<lparr>res_max_calories := 1000\<rparr> else r);
          r2 = (if res_max_toppings r1 = 0 then r1\<lparr>res_max_toppings := 5\<rparr> else r1)
      in if res_min_toppings r2 = 0 then r2\<lparr>res_min_toppings := 3\<rparr> else r2)"

text \<open>The custom name is cut to 64 bytes.\<close>

definition clip_name :: "restrictions \<Rightarrow> restrictions" where
  "clip_name r =
     (if length (res_custom_name r) > MaxPizzaNameLength
      then r\<lparr>res_custom_name := take MaxPizzaNameLength (res_custom_name r)\<rparr> else r)"

fun valid_ingredients :: "restrictions \<Rightarrow> ingredient list \<Rightarrow> ingredient list" where
  "valid_ingredients r [] = []"
| "valid_ingredients r (i # is) =
     (if ing_name i \<notin> set (res_excluded_ingredients r) \<and> (\<not> res_vegetarian r \<or> ing_vegetarian i)
      then i # valid_ingredients r is else valid_ingredients r is)"

fun valid_tools :: "restrictions \<Rightarrow> string list \<Rightarrow> string list" where
  "valid_tools r [] = []"
| "valid_tools r (t # ts) =
     (if t \<notin> set (res_excluded_tools r) then t # valid_tools r ts else valid_tools r ts)"

subsection \<open>Draws\<close>

text \<open>A draw from the state of the process, and the element a draw selects.\<close>

definition rand :: "go_int \<Rightarrow> 'a proc_scheme \<Rightarrow> (go_int \<times> 'a proc_scheme) outcome" where
  "rand n s =
     (case rand_intn n (proc_rng s) of
        Panicked m \<Rightarrow> Panicked m
      | Returned (k, g) \<Rightarrow> Returned (k, s\<lparr>proc_rng := g\<rparr>))"

definition pick :: "'x list \<Rightarrow> 'a proc_scheme \<Rightarrow> ('x \<times> 'a proc_scheme) outcome" where
  "pick xs s = and_then (rand (int (length xs)) s) (\<lambda>(k, s'). Returned (xs ! nat k, s'))"

subsection \<open>The name\<close>

definition starts_with_vowel :: "string \<Rightarrow> bool" where
  "starts_with_vowel s \<longleftrightarrow> has_prefix s ''A'' \<or> has_prefix s ''E'' \<or> has_prefix s ''I'' \<or>
     has_prefix s ''O'' \<or> has_prefix s ''U''"

text \<open>One round of the name loop: the name, and whether it is neither too funny nor too unfunny.\<close>

definition name_round ::
  "string list \<Rightarrow> string list \<Rightarrow> 'a proc_scheme \<Rightarrow> ((string \<times> bool) \<times> 'a proc_scheme) outcome" where
  "name_round adjectives names s =
     and_then (pick adjectives s) (\<lambda>(adj, s1).
     and_then (pick names s1) (\<lambda>(n, s2).
     and_then
       (let randomName = adj @ '' '' @ n in
        if starts_with_vowel randomName then Returned (''An '' @ randomName, s2)
        else and_then (rand 100 s2) (\<lambda>(k, s3).
          Returned ((if k < 50 then ''The '' @ randomName else ''A '' @ randomName), s3)))
       (\<lambda>(randomName, s4).
     and_then (rand 100 s4) (\<lambda>(funny, s5).
       if funny < 50
       then and_then (rand 100 s5) (\<lambda>(ms, s6). Returned ((randomName, True), sleep (ms * 1000000) s6))
       else Returned ((randomName, False), s5)))))"

text \<open>The loop runs until a round accepts; \<open>None\<close> is a loop that never ends.\<close>

partial_function (option) name_loop ::
  "string list \<Rightarrow> string list \<Rightarrow> 'a proc_scheme \<Rightarrow> (string \<times> 'a proc_scheme) outcome option" where
  "name_loop adjectives names s =
     (case name_round adjectives names s of
        Panicked m \<Rightarrow> Some (Panicked m)
      | Returned r \<Rightarrow>
          if snd (fst r) then Some (Returned (fst (fst r), snd r))
          else name_loop adjectives names (snd r))"

subsection \<open>One pizza\<close>

record pantry =
  olive_oils :: "ingredient list"
  tomatoes :: "ingredient list"
  mozzarellas :: "ingredient list"
  toppings :: "ingredient list"
  tools :: "string list"
  doughs :: "dough list"
  adjectives :: "string list"
  names :: "string list"

fun add_toppings ::
  "nat \<Rightarrow> ingredient list \<Rightarrow> ingredient list \<Rightarrow> 'a proc_scheme \<Rightarrow> (ingredient list \<times> 'a proc_scheme) outcome" where
  "add_toppings 0 valid is s = Returned (is, s)"
| "add_toppings (Suc n) valid is s =
     and_then (pick valid s) (\<lambda>(t, s'). add_toppings n valid (is @ [t]) s')"

text \<open>
  The map from name to ingredient that the code builds holds, for each name, the last
  ingredient with it; its values are listed in the order \<open>order\<close>.
\<close>

fun last_by_name :: "ingredient list \<Rightarrow> ingredient list" where
  "last_by_name [] = []"
| "last_by_name (i # is) =
     (if ing_name i \<in> ing_name ` set is then last_by_name is else i # last_by_name is)"

definition extra_toppings :: "restrictions \<Rightarrow> 'a proc_scheme \<Rightarrow> (go_int \<times> 'a proc_scheme) outcome" where
  "extra_toppings r s =
     (let extra = wrap64 (res_max_toppings r - res_min_toppings r) in
      if extra > 0 then rand (wrap64 (extra + 1)) s else Returned (extra, s))"

definition compose_pizza ::
  "(ingredient list \<Rightarrow> ingredient list) \<Rightarrow> restrictions \<Rightarrow> pantry \<Rightarrow> string \<Rightarrow> 'a proc_scheme
     \<Rightarrow> (pizza \<times> 'a proc_scheme) outcome" where
  "compose_pizza order r p randomName s =
     and_then (pick (doughs p) s) (\<lambda>(d, s1).
     and_then (pick (olive_oils p) s1) (\<lambda>(oil, s2).
     and_then (pick (tomatoes p) s2) (\<lambda>(tomato, s3).
     and_then (pick (mozzarellas p) s3) (\<lambda>(mozzarella, s4).
     and_then (pick (tools p) s4) (\<lambda>(tool, s5).
     and_then (extra_toppings r s5) (\<lambda>(extra, s6).
     and_then (add_toppings (nat (wrap64 (extra + res_min_toppings r))) (toppings p)
                 [oil, tomato, mozzarella] s6) (\<lambda>(is, s7).
       Returned (zero_pizza\<lparr>pizza_name := randomName, pizza_dough := d,
         pizza_ingredients := order (last_by_name is), pizza_tool := tool\<rparr>, s7))))))))"

subsection \<open>Ten attempts\<close>

fun attempts ::
  "nat \<Rightarrow> (ingredient list \<Rightarrow> ingredient list) \<Rightarrow> restrictions \<Rightarrow> pantry \<Rightarrow> pizza \<Rightarrow> 'a proc_scheme
     \<Rightarrow> (pizza \<times> 'a proc_scheme) outcome option" where
  "attempts 0 order r p pizza s = Some (Returned (pizza, s))"
| "attempts (Suc n) order r p pizza s =
     (case (if res_custom_name r = [] then name_loop (adjectives p) (names p) s
            else Some (Returned (res_custom_name r, s))) of
        None \<Rightarrow> None
      | Some (Panicked m) \<Rightarrow> Some (Panicked m)
      | Some (Returned (randomName, s1)) \<Rightarrow>
          (case compose_pizza order r p randomName s1 of
             Panicked m \<Rightarrow> Some (Panicked m)
           | Returned (pizza', s2) \<Rightarrow>
               if CalculateCalories pizza' > res_max_calories r
               then attempts n order r p pizza' s2
               else Some (Returned (pizza', s2))))"

definition generate_pizza ::
  "(ingredient list \<Rightarrow> ingredient list) \<Rightarrow> restrictions \<Rightarrow> pantry \<Rightarrow> 'a proc_scheme
     \<Rightarrow> (pizza \<times> 'a proc_scheme) outcome option" where
  "generate_pizza order r p s = attempts 10 order r p zero_pizza s"

text \<open>The pantry after the filters.\<close>

definition restrict_pantry :: "restrictions \<Rightarrow> pantry \<Rightarrow> pantry" where
  "restrict_pantry r p =
     p\<lparr>olive_oils := valid_ingredients r (olive_oils p), tomatoes := valid_ingredients r (tomatoes p),
       mozzarellas := valid_ingredients r (mozzarellas p), toppings := valid_ingredients r (toppings p),
       tools := valid_tools r (tools p)\<rparr>"

subsection \<open>Lemmas\<close>

lemma rand_Returned:
  "rand n s = Returned (k, s') \<longleftrightarrow> 0 < n \<and> k = int (shd (proc_rng s)) mod n \<and> s' = s\<lparr>proc_rng := stl (proc_rng s)\<rparr>"
  by (auto simp: rand_def rand_intn_def)

lemma rand_pos: "0 < n \<Longrightarrow> rand n s = Returned (int (shd (proc_rng s)) mod n, s\<lparr>proc_rng := stl (proc_rng s)\<rparr>)"
  by (simp add: rand_Returned)

lemma pick_Returned:
  "pick xs s = Returned (x, s') \<Longrightarrow> x \<in> set xs \<and> s' = s\<lparr>proc_rng := stl (proc_rng s)\<rparr>"
  by (auto simp: pick_def and_then_Returned_iff rand_Returned nat_less_iff)

lemma pick_nonempty: "xs \<noteq> [] \<Longrightarrow> \<exists>x. pick xs s = Returned (x, s\<lparr>proc_rng := stl (proc_rng s)\<rparr>)"
  by (simp add: pick_def rand_pos)

lemma pick_empty: "pick [] s = Panicked ''invalid argument to Intn''"
  by (simp add: pick_def rand_def rand_intn_def)

lemma valid_ingredients_filter:
  "valid_ingredients r is =
     filter (\<lambda>i. ing_name i \<notin> set (res_excluded_ingredients r) \<and> (res_vegetarian r \<longrightarrow> ing_vegetarian i)) is"
  by (induction "is") auto

lemma valid_tools_filter: "valid_tools r ts = filter (\<lambda>t. t \<notin> set (res_excluded_tools r)) ts"
  by (induction ts) auto

lemma add_toppings_Returned:
  "add_toppings n valid is s = Returned (is', s') \<Longrightarrow>
     \<exists>ts. is' = is @ ts \<and> length ts = n \<and> set ts \<subseteq> set valid"
proof (induction n arbitrary: "is" s)
  case (Suc n)
  then obtain t s1 where t: "pick valid s = Returned (t, s1)" "add_toppings n valid (is @ [t]) s1 = Returned (is', s')"
    by (auto simp: and_then_Returned_iff)
  from Suc.IH [OF t(2)] obtain ts where "is' = is @ t # ts" "length ts = n" "set ts \<subseteq> set valid" by auto
  with pick_Returned [OF t(1)] show ?case by (intro exI [of _ "t # ts"]) auto
qed simp

lemma last_by_name_set: "set (last_by_name is) \<subseteq> set is"
  by (induction "is") auto

lemma last_by_name_names: "ing_name ` set (last_by_name is) = ing_name ` set is"
  by (induction "is") auto

lemma last_by_name_distinct: "distinct (map ing_name (last_by_name is))"
  by (induction "is") (auto simp: last_by_name_names)

lemma last_by_name_length: "length (last_by_name is) \<le> length is"
  by (induction "is") auto

text \<open>The number of toppings the code draws, when the two bounds are not negative.\<close>

lemma extra_toppings_Returned:
  assumes "extra_toppings r s = Returned (e, s')" "0 \<le> res_max_toppings r" "0 \<le> res_min_toppings r"
    "in_int64 (res_max_toppings r)" "in_int64 (res_min_toppings r)"
  shows "in_int64 (e + res_min_toppings r) \<and> e + res_min_toppings r \<le> res_max_toppings r \<and>
    min (res_min_toppings r) (res_max_toppings r) \<le> e + res_min_toppings r"
proof -
  have "in_int64 (res_max_toppings r - res_min_toppings r)"
    using assms(2-5) by (auto simp: in_int64_def min_int64_def max_int64_def)
  then have w: "wrap64 (res_max_toppings r - res_min_toppings r) = res_max_toppings r - res_min_toppings r"
    by simp
  show ?thesis
  proof (cases "res_max_toppings r > res_min_toppings r")
    case False
    then have "e + res_min_toppings r = res_max_toppings r"
      using assms(1) by (auto simp: extra_toppings_def w)
    with assms(4) False show ?thesis by simp
  next
    case True
    then have e: "rand (wrap64 (res_max_toppings r - res_min_toppings r + 1)) s = Returned (e, s')"
      using assms(1) by (simp add: extra_toppings_def w)
    then have pos: "0 < wrap64 (res_max_toppings r - res_min_toppings r + 1)" by (simp add: rand_Returned)
    have "in_int64 (res_max_toppings r - res_min_toppings r + 1)"
    proof (rule ccontr)
      assume "\<not> in_int64 (res_max_toppings r - res_min_toppings r + 1)"
      then have "res_max_toppings r - res_min_toppings r + 1 = max_int64 + 1"
        using assms(2-5) by (auto simp: in_int64_def min_int64_def max_int64_def)
      with pos show False by (simp add: wrap64_def max_int64_def)
    qed
    with e pos have "0 \<le> e" "e < res_max_toppings r - res_min_toppings r + 1"
      using pos_mod_bound [of "res_max_toppings r - res_min_toppings r + 1"]
      by (auto simp: rand_Returned simp del: pos_mod_bound)
    with assms(2-5) True show ?thesis
      by (auto simp: in_int64_def min_int64_def max_int64_def)
  qed
qed

text \<open>What a composed pizza is made of.\<close>

definition composed :: "restrictions \<Rightarrow> pantry \<Rightarrow> pizza \<Rightarrow> bool" where
  "composed r p q \<longleftrightarrow>
     pizza_dough q \<in> set (doughs p) \<and> pizza_tool q \<in> set (tools p) \<and>
     (\<forall>i \<in> set (pizza_ingredients q). i \<in> set (olive_oils p) \<union> set (tomatoes p) \<union> set (mozzarellas p) \<union> set (toppings p)) \<and>
     distinct (map ing_name (pizza_ingredients q)) \<and>
     (\<exists>o' \<in> set (olive_oils p). ing_name o' \<in> ing_name ` set (pizza_ingredients q)) \<and>
     (\<exists>t \<in> set (tomatoes p). ing_name t \<in> ing_name ` set (pizza_ingredients q)) \<and>
     (\<exists>m \<in> set (mozzarellas p). ing_name m \<in> ing_name ` set (pizza_ingredients q))"

lemma compose_pizza_Returned:
  fixes s :: "'a proc_scheme"
  assumes "compose_pizza order r p name s = Returned (q, s')" and "\<And>xs. mset (order xs) = mset xs"
  obtains n e and s5 s6 :: "'a proc_scheme" where "composed r p q" "pizza_name q = name" "extra_toppings r s5 = Returned (e, s6)"
    "n = nat (wrap64 (e + res_min_toppings r))" "length (pizza_ingredients q) \<le> 3 + n"
    "0 < n \<Longrightarrow> toppings p \<noteq> []"
proof -
  from assms(1) obtain d s1 oil s2 tomato s3 moz s4 tool s5 e s6 "is" where
    picks: "pick (doughs p) s = Returned (d, s1)" "pick (olive_oils p) s1 = Returned (oil, s2)"
      "pick (tomatoes p) s2 = Returned (tomato, s3)" "pick (mozzarellas p) s3 = Returned (moz, s4)"
      "pick (tools p) s4 = Returned (tool, s5)"
    and e: "extra_toppings r s5 = Returned (e, s6)"
    and add: "add_toppings (nat (wrap64 (e + res_min_toppings r))) (toppings p) [oil, tomato, moz] s6 = Returned (is, s')"
    and q: "q = zero_pizza\<lparr>pizza_name := name, pizza_dough := d,
         pizza_ingredients := order (last_by_name is), pizza_tool := tool\<rparr>"
    by (auto simp: compose_pizza_def and_then_Returned_iff)
  note ps = pick_Returned [OF picks(1)] pick_Returned [OF picks(2)] pick_Returned [OF picks(3)]
    pick_Returned [OF picks(4)] pick_Returned [OF picks(5)]
  from add_toppings_Returned [OF add] obtain ts where ts: "is = [oil, tomato, moz] @ ts"
    "length ts = nat (wrap64 (e + res_min_toppings r))" "set ts \<subseteq> set (toppings p)" by auto
  have set_eq: "set (order xs) = set xs" for xs using assms(2) by (metis mset_eq_setD)
  have "mset (map ing_name (order (last_by_name is))) = mset (map ing_name (last_by_name is))"
    using assms(2) by simp
  then have dist: "distinct (map ing_name (order (last_by_name is)))"
    using last_by_name_distinct mset_eq_imp_distinct_iff by blast
  have len: "length (order (last_by_name is)) \<le> 3 + length ts"
    using last_by_name_length [of "is"] assms(2) ts(1) by (metis mset_eq_length length_append
      add.commute list.size(3,4) numeral_3_eq_3 add_Suc_right add_0_right plus_1_eq_Suc)
  have names: "ing_name ` set (order (last_by_name is)) = ing_name ` set is"
    by (simp add: set_eq last_by_name_names)
  have "set (order (last_by_name is)) \<subseteq> insert oil (insert tomato (insert moz (set ts)))"
    using last_by_name_set [of "is"] ts(1) by (simp add: set_eq)
  then have origin: "\<forall>i \<in> set (order (last_by_name is)).
      i \<in> set (olive_oils p) \<union> set (tomatoes p) \<union> set (mozzarellas p) \<union> set (toppings p)"
    using ps ts(3) by blast
  have "{ing_name oil, ing_name tomato, ing_name moz} \<subseteq> ing_name ` set (order (last_by_name is))"
    unfolding names using ts(1) by simp
  then have comp: "composed r p q"
    unfolding composed_def q using ps origin dist
    by (intro conjI bexI [of _ oil] bexI [of _ tomato] bexI [of _ moz]) simp_all
  have top: "toppings p \<noteq> []" if "0 < nat (wrap64 (e + res_min_toppings r))"
    using that ts(2,3) by (cases ts) auto
  have name: "pizza_name q = name" and
    len': "length (pizza_ingredients q) \<le> 3 + nat (wrap64 (e + res_min_toppings r))"
    using len ts(2) by (simp_all add: q)
  show thesis by (rule that [OF comp name e refl len' top])
qed


subsection \<open>The name loop ends\<close>

text \<open>
  The random source accepts again and again: after every position there are four draws in a row
  below 50 (modulo 100). A fair source does so with probability one.
\<close>

definition accepting_at :: "rng \<Rightarrow> nat \<Rightarrow> bool" where
  "accepting_at g m \<longleftrightarrow> (\<forall>j < 4. snth g (m + j) mod 100 < 50)"

definition recurring :: "rng \<Rightarrow> bool" where
  "recurring g \<longleftrightarrow> (\<forall>n. \<exists>m. accepting_at g (n + m))"

lemma accepting_at_stl: "accepting_at (stl g) m \<longleftrightarrow> accepting_at g (Suc m)"
  by (simp add: accepting_at_def)

lemma recurring_stl: "recurring g \<Longrightarrow> recurring (stl g)"
  unfolding recurring_def accepting_at_stl by (metis add_Suc)

lemma sleep_rng [simp]: "proc_rng (sleep d s) = proc_rng s"
  by (simp add: sleep_def)

lemma mod_100_less_50: "int n mod 100 < 50 \<longleftrightarrow> n mod 100 < 50"
  by (metis of_nat_less_iff of_nat_numeral zmod_int)

text \<open>A round accepts, or uses up three or four draws of which the last one is 50 or more.\<close>

lemma name_round_cases:
  assumes "adjs \<noteq> []" "ns \<noteq> []"
  obtains (accepted) name s' k where "name_round adjs ns s = Returned ((name, True), s')"
      "proc_rng s' = sdrop k (proc_rng s)"
  | (rejected) name s' k where "name_round adjs ns s = Returned ((name, False), s')"
      "proc_rng s' = sdrop (Suc k) (proc_rng s)" "k \<in> {2, 3}" "\<not> snth (proc_rng s) k mod 100 < 50"
proof -
  let ?g = "proc_rng s"
  let ?adj = "adjs ! nat (int (shd ?g) mod int (length adjs))"
  let ?n = "ns ! nat (int (shd (stl ?g)) mod int (length ns))"
  let ?name = "?adj @ '' '' @ ?n"
  have picks: "pick adjs s = Returned (?adj, s\<lparr>proc_rng := stl ?g\<rparr>)"
    "pick ns (s\<lparr>proc_rng := stl ?g\<rparr>) = Returned (?n, s\<lparr>proc_rng := stl (stl ?g)\<rparr>)"
    using assms by (simp_all add: pick_def rand_pos)
  have g2: "snth ?g 2 = shd (stl (stl ?g))" and g3: "snth ?g 3 = shd (stl (stl (stl ?g)))"
    and numerals: "Suc (Suc 0) = 2" "Suc (Suc (Suc 0)) = 3"
    by (simp_all add: numeral_2_eq_2 numeral_3_eq_3)
  have drops: "sdrop 3 ?g = stl (stl (stl ?g))" "sdrop 4 ?g = stl (stl (stl (stl ?g)))"
    "sdrop 5 ?g = stl (stl (stl (stl (stl ?g))))"
    by (simp_all add: eval_nat_numeral)
  show thesis
  proof (cases "starts_with_vowel ?name")
    case True
    show thesis
    proof (cases "snth ?g 2 mod 100 < 50")
      case funny: True
      then show thesis
        using True accepted [of "''An '' @ ?name" _ "Suc (Suc (Suc (Suc 0)))"]
        by (auto simp: name_round_def picks Let_def rand_pos mod_100_less_50 g2 g3 numerals drops)
    next
      case funny: False
      then show thesis
        using True rejected [of "''An '' @ ?name" _ "Suc (Suc 0)"]
        by (auto simp: name_round_def picks Let_def rand_pos mod_100_less_50 g2 g3 numerals drops)
    qed
  next
    case novowel: False
    let ?full = "if int (shd (stl (stl ?g))) mod 100 < 50 then ''The '' @ ?name else ''A '' @ ?name"
    show thesis
    proof (cases "snth ?g 3 mod 100 < 50")
      case True
      then show thesis
        using novowel accepted [of ?full _ "Suc (Suc (Suc (Suc (Suc 0))))"]
        by (auto simp: name_round_def picks Let_def rand_pos mod_100_less_50 g2 g3 numerals drops)
    next
      case False
      then show thesis
        using novowel rejected [of ?full _ "Suc (Suc (Suc 0))"]
        by (auto simp: name_round_def picks Let_def rand_pos mod_100_less_50 g2 g3 numerals drops)
    qed
  qed
qed

lemma recurring_sdrop: "recurring g \<Longrightarrow> recurring (sdrop n g)"
  by (induction n arbitrary: g) (simp_all add: recurring_stl)

lemma accepting_at_sdrop: "accepting_at (sdrop k g) m \<longleftrightarrow> accepting_at g (k + m)"
  by (simp add: accepting_at_def sdrop_snth add.assoc)

lemma name_loop_ends:
  assumes "adjs \<noteq> []" "ns \<noteq> []" "recurring (proc_rng s)"
  shows "\<exists>name s'. name_loop adjs ns s = Some (Returned (name, s')) \<and> recurring (proc_rng s')"
proof -
  obtain m where "accepting_at (proc_rng s) m" using assms(3) by (auto simp: recurring_def)
  then show ?thesis
    using assms(3)
  proof (induction m arbitrary: s rule: less_induct)
    case (less m)
    from assms(1,2) show ?case
    proof (cases rule: name_round_cases [where s = s])
      case (accepted name s' k)
      then show ?thesis using less.prems(2) by (subst name_loop.simps) (simp add: recurring_sdrop)
    next
      case (rejected name s' k)
      have "Suc k \<le> m"
      proof (rule ccontr)
        assume "\<not> Suc k \<le> m"
        then have "m \<le> k" "k - m < 4" using rejected(3) by auto
        then have "snth (proc_rng s) k mod 100 < 50"
          using less.prems(1) by (metis accepting_at_def le_add_diff_inverse)
        with rejected(4) show False by simp
      qed
      then have "accepting_at (proc_rng s') (m - Suc k)"
        unfolding rejected(2) accepting_at_sdrop using less.prems(1) by simp
      moreover have "recurring (proc_rng s')" using recurring_sdrop [OF less.prems(2), of "Suc k"] rejected(2) by simp
      moreover have "m - Suc k < m" using \<open>Suc k \<le> m\<close> by simp
      ultimately obtain name' s'' where "name_loop adjs ns s' = Some (Returned (name', s''))" "recurring (proc_rng s'')"
        using less.IH by blast
      then show ?thesis using rejected(1) by (subst name_loop.simps) simp
    qed
  qed
qed

lemma add_toppings_ends:
  assumes "n = 0 \<or> valid \<noteq> []" "recurring (proc_rng s)"
  shows "\<exists>is' s'. add_toppings n valid is s = Returned (is', s') \<and> recurring (proc_rng s')"
  using assms
proof (induction n arbitrary: "is" s)
  case (Suc n)
  then obtain t where t: "pick valid s = Returned (t, s\<lparr>proc_rng := stl (proc_rng s)\<rparr>)"
    using pick_nonempty [of valid s] by auto
  have "recurring (proc_rng (s\<lparr>proc_rng := stl (proc_rng s)\<rparr>))" using Suc.prems(2) by (simp add: recurring_stl)
  from Suc.IH [OF _ this, of "is @ [t]"] t Suc.prems(1) show ?case by auto
qed simp

lemma extra_toppings_ends:
  assumes "0 \<le> res_max_toppings r" "0 \<le> res_min_toppings r" "res_max_toppings r < max_int64"
    "in_int64 (res_min_toppings r)" "recurring (proc_rng s)"
  shows "\<exists>e s'. extra_toppings r s = Returned (e, s') \<and> recurring (proc_rng s')"
proof -
  have w: "wrap64 (res_max_toppings r - res_min_toppings r) = res_max_toppings r - res_min_toppings r"
    using assms(1-4) by (simp add: in_int64_def min_int64_def max_int64_def)
  show ?thesis
  proof (cases "res_max_toppings r > res_min_toppings r")
    case True
    then have "wrap64 (res_max_toppings r - res_min_toppings r + 1) = res_max_toppings r - res_min_toppings r + 1"
      using assms(1-4) by (simp add: in_int64_def min_int64_def max_int64_def)
    with True assms(5) show ?thesis by (simp add: extra_toppings_def w rand_pos recurring_stl)
  qed (use assms(5) in \<open>simp add: extra_toppings_def w\<close>)
qed

definition stocked :: "pantry \<Rightarrow> bool" where
  "stocked p \<longleftrightarrow> doughs p \<noteq> [] \<and> olive_oils p \<noteq> [] \<and> tomatoes p \<noteq> [] \<and> mozzarellas p \<noteq> [] \<and> tools p \<noteq> []"

lemma compose_pizza_ends:
  assumes "stocked p" "toppings p \<noteq> []" "0 \<le> res_max_toppings r" "0 \<le> res_min_toppings r"
    "res_max_toppings r < max_int64" "in_int64 (res_min_toppings r)" "recurring (proc_rng s)"
  shows "\<exists>q s'. compose_pizza order r p name s = Returned (q, s') \<and> recurring (proc_rng s')"
proof -
  have step: "\<exists>x s'. pick xs s = Returned (x, s') \<and> recurring (proc_rng s')"
    if "xs \<noteq> []" "recurring (proc_rng s)" for xs :: "'x list" and s :: "'a proc_scheme"
    using pick_nonempty [OF that(1), of s] that(2) by (auto simp: recurring_stl)
  obtain d s1 where 1: "pick (doughs p) s = Returned (d, s1)" "recurring (proc_rng s1)"
    using step assms(1,7) by (metis stocked_def)
  obtain oil s2 where 2: "pick (olive_oils p) s1 = Returned (oil, s2)" "recurring (proc_rng s2)"
    using step assms(1) 1(2) by (metis stocked_def)
  obtain tom s3 where 3: "pick (tomatoes p) s2 = Returned (tom, s3)" "recurring (proc_rng s3)"
    using step assms(1) 2(2) by (metis stocked_def)
  obtain moz s4 where 4: "pick (mozzarellas p) s3 = Returned (moz, s4)" "recurring (proc_rng s4)"
    using step assms(1) 3(2) by (metis stocked_def)
  obtain tool s5 where 5: "pick (tools p) s4 = Returned (tool, s5)" "recurring (proc_rng s5)"
    using step assms(1) 4(2) by (metis stocked_def)
  obtain e s6 where 6: "extra_toppings r s5 = Returned (e, s6)" "recurring (proc_rng s6)"
    using extra_toppings_ends [OF assms(3-6) 5(2)] by blast
  obtain "is" s7 where 7: "add_toppings (nat (wrap64 (e + res_min_toppings r))) (toppings p) [oil, tom, moz] s6 =
      Returned (is, s7)" "recurring (proc_rng s7)"
    using add_toppings_ends [OF _ 6(2)] assms(2) by blast
  show ?thesis by (simp add: compose_pizza_def 1 2 3 4 5 6 7)
qed

lemma attempts_end:
  assumes "stocked p" "toppings p \<noteq> []" "adjectives p \<noteq> []" "names p \<noteq> []" "0 \<le> res_max_toppings r"
    "0 \<le> res_min_toppings r" "res_max_toppings r < max_int64" "in_int64 (res_min_toppings r)"
    "recurring (proc_rng s)"
  shows "\<exists>q s'. attempts n order r p q0 s = Some (Returned (q, s'))"
  using assms(9)
proof (induction n arbitrary: q0 s)
  case (Suc n)
  obtain name s1 where n: "(if res_custom_name r = [] then name_loop (adjectives p) (names p) s
            else Some (Returned (res_custom_name r, s))) = Some (Returned (name, s1))" "recurring (proc_rng s1)"
    using name_loop_ends [OF assms(3,4) Suc.prems] Suc.prems by (cases "res_custom_name r = []") auto
  obtain q s2 where c: "compose_pizza order r p name s1 = Returned (q, s2)" "recurring (proc_rng s2)"
    using compose_pizza_ends [OF assms(1,2,5-8) n(2)] by blast
  from Suc.IH [OF c(2), of q] show ?case by (simp add: n(1) c(1))
qed simp

text \<open>What every result of the attempts is.\<close>

lemma attempts_composed:
  fixes s :: "'a proc_scheme"
  assumes "attempts n order r p q0 s = Some (Returned (q, s'))"
  shows "(n = 0 \<and> q = q0) \<or>
    (\<exists>name (s1 :: 'a proc_scheme) s2. compose_pizza order r p name s1 = Returned (q, s2) \<and>
       (res_custom_name r = [] \<or> name = res_custom_name r))"
  using assms
proof (induction n arbitrary: q0 s)
  case (Suc n)
  obtain name s1 where n: "(if res_custom_name r = [] then name_loop (adjectives p) (names p) s
            else Some (Returned (res_custom_name r, s))) = Some (Returned (name, s1))"
    using Suc.prems by (auto split: option.splits outcome.splits)
  obtain q1 s2 where c: "compose_pizza order r p name s1 = Returned (q1, s2)"
    using Suc.prems n by (auto split: outcome.splits)
  have custom: "res_custom_name r = [] \<or> name = res_custom_name r" using n by (auto split: if_splits)
  show ?case
  proof (cases "CalculateCalories q1 > res_max_calories r")
    case True
    then have "attempts n order r p q1 s2 = Some (Returned (q, s'))" using Suc.prems n c by simp
    from Suc.IH [OF this] c custom show ?thesis by blast
  next
    case False
    then have "q = q1" using Suc.prems n c by simp
    with c custom show ?thesis by blast
  qed
qed simp

end
