(* ===== verification/Http.thy ===== *)
theory Http
  imports Json Platform
begin

section \<open>HTTP requests, responses and the helpers of \<^verbatim>\<open>pkg/http/http.go\<close>\<close>

text \<open>
  The request as the handlers read it (headers, parsed cookies and query, decoded body), the
  response writer of \<^verbatim>\<open>net/http\<close> as the handlers drive it, the JSON response helpers of
  \<open>Server\<close>, and the extraction of the user token from a request.
\<close>

subsection \<open>Requests\<close>

record request =
  rq_method :: string
  rq_path :: string
  rq_headers :: "(string \<times> string) list"
  rq_cookies :: "(string \<times> string) list"
  rq_query :: "(string \<times> string) list"
  rq_json :: "string + json"     \<comment> \<open>what the JSON decoder reads from the body\<close>

text \<open>\<open>Header.Get\<close>: the first value, the name matched without regard to case; else empty.\<close>

fun header_get :: "(string \<times> string) list \<Rightarrow> string \<Rightarrow> string" where
  "header_get [] name = []"
| "header_get ((n, v) # hs) name = (if to_lower n = to_lower name then v else header_get hs name)"

definition header_add :: "string \<Rightarrow> string \<Rightarrow> request \<Rightarrow> request" where
  "header_add n v r = r\<lparr>rq_headers := rq_headers r @ [(n, v)]\<rparr>"

definition header_set :: "string \<Rightarrow> string \<Rightarrow> request \<Rightarrow> request" where
  "header_set n v r =
     r\<lparr>rq_headers := filter (\<lambda>(m, _). to_lower m \<noteq> to_lower n) (rq_headers r) @ [(n, v)]\<rparr>"

text \<open>\<open>r.Cookie(name)\<close> and \<open>r.URL.Query().Get(name)\<close>.\<close>

definition request_cookie :: "request \<Rightarrow> string \<Rightarrow> string option" where
  "request_cookie r name = map_of (rq_cookies r) name"

definition query_get :: "request \<Rightarrow> string \<Rightarrow> string" where
  "query_get r name = (case map_of (rq_query r) name of None \<Rightarrow> [] | Some v \<Rightarrow> v)"

subsection \<open>Responses\<close>

record cookie =
  cookie_name :: string
  cookie_value :: string
  cookie_strict :: bool              \<comment> \<open>\<open>SameSiteStrictMode\<close>\<close>
  cookie_path :: string
  cookie_expires :: "go_int option"  \<comment> \<open>\<open>Expires\<close>, in seconds of the epoch\<close>

datatype header_line = Header string string | SetCookie cookie

datatype body =
    JsonBody json
  | ErrorBody err            \<comment> \<open>the JSON object with the text of the error under \<open>error\<close>\<close>
  | TextBody string
  | UnknownIngredient string \<comment> \<open>the text about an unknown ingredient\<close>

record rw =
  rw_status :: "nat option"          \<comment> \<open>the final status, once it is written\<close>
  rw_header :: "header_line list"    \<comment> \<open>the header map the handler edits\<close>
  rw_sent :: "header_line list"      \<comment> \<open>the headers that went out with the status\<close>
  rw_body :: "body list"

definition new_rw :: rw where
  "new_rw = \<lparr>rw_status = None, rw_header = [], rw_sent = [], rw_body = []\<rparr>"

text \<open>
  \<open>WriteHeader\<close>: an informational status is not final, and the first final status wins;
  what is added to the header map after it does not go out.
\<close>

definition write_header :: "nat \<Rightarrow> rw \<Rightarrow> rw" where
  "write_header s w =
     (if 100 \<le> s \<and> s \<le> 199 \<and> s \<noteq> 101 then w
      else case rw_status w of
        Some _ \<Rightarrow> w
      | None \<Rightarrow> w\<lparr>rw_status := Some s, rw_sent := rw_header w\<rparr>)"

definition write_body :: "body \<Rightarrow> rw \<Rightarrow> rw" where
  "write_body b w = (let w' = write_header 200 w in w'\<lparr>rw_body := rw_body w' @ [b]\<rparr>)"

definition set_header :: "string \<Rightarrow> string \<Rightarrow> rw \<Rightarrow> rw" where
  "set_header n v w = w\<lparr>rw_header := filter (\<lambda>h. \<forall>x. h \<noteq> Header n x) (rw_header w) @ [Header n v]\<rparr>"

definition set_cookie :: "cookie \<Rightarrow> rw \<Rightarrow> rw" where
  "set_cookie c w = w\<lparr>rw_header := rw_header w @ [SetCookie c]\<rparr>"

text \<open>The status the client sees once the handler has returned.\<close>

definition status :: "rw \<Rightarrow> nat" where
  "status w = (case rw_status w of None \<Rightarrow> 200 | Some s \<Rightarrow> s)"

subsection \<open>The JSON response helpers\<close>

definition write_json :: "body \<Rightarrow> nat \<Rightarrow> rw \<Rightarrow> rw" where
  "write_json b st w =
     write_body b (write_header st (set_header ''Content-Type'' ''application/json'' w))"

definition writeJSONResponse :: "json \<Rightarrow> nat \<Rightarrow> rw \<Rightarrow> rw" where
  "writeJSONResponse v st w = write_json (JsonBody v) st w"

definition writeJSONErrorResponse :: "err \<Rightarrow> nat \<Rightarrow> rw \<Rightarrow> rw" where
  "writeJSONErrorResponse e st w = write_json (ErrorBody e) st w"

text \<open>\<open>decodeJSONBody\<close>: the decoded value, or the response with status 400.\<close>

definition decodeJSONBody :: "'a decoder \<Rightarrow> 'a \<Rightarrow> request \<Rightarrow> rw \<Rightarrow> rw + 'a" where
  "decodeJSONBody d zero r w =
     (case rq_json r of
        Inl e \<Rightarrow> Inl (writeJSONErrorResponse (ErrJson (JsonSyntax e)) 400 w)
      | Inr j \<Rightarrow>
          (case d j zero of
             Inl e \<Rightarrow> Inl (writeJSONErrorResponse (ErrJson e) 400 w)
           | Inr v \<Rightarrow> Inr v))"

subsection \<open>The token of a request\<close>

definition authHeader :: string where "authHeader = ''Authorization''"
definition qpUserTokenCookie :: string where "qpUserTokenCookie = ''qp_user_token''"
definition csrfTokenCookie :: string where "csrfTokenCookie = ''csrf_token''"
definition csrfTokenLength :: nat where "csrfTokenLength = 32"

definition requestTokenFromCookie :: "request \<Rightarrow> string" where
  "requestTokenFromCookie r =
     (case request_cookie r qpUserTokenCookie of Some v \<Rightarrow> v | None \<Rightarrow> [])"

definition getRequestToken :: "request \<Rightarrow> string" where
  "getRequestToken r =
     (let cookie_token = requestTokenFromCookie r in
      if length cookie_token = UserTokenLength then cookie_token
      else
        (case cut (header_get (rq_headers r) authHeader) CHR '' '' of
           (prefix, token, found) \<Rightarrow>
             (let prefix' = to_lower prefix in
              if \<not> found \<or> (prefix' \<noteq> ''token'' \<and> prefix' \<noteq> ''bearer'') \<or>
                 length token \<noteq> UserTokenLength
              then [] else token)))"

subsection \<open>Routes left out of the metrics\<close>

definition isInternalRoute :: "string \<Rightarrow> bool" where
  "isInternalRoute pattern \<longleftrightarrow>
     pattern \<in> {''/metrics'', ''/ready'', ''/healthz'', ''/ws''} \<or>
     has_prefix pattern ''/debug/pprof/''"

subsection \<open>Lemmas\<close>

lemma status_new_rw [simp]: "status new_rw = 200" "rw_status new_rw = None" "rw_body new_rw = []"
  by (simp_all add: status_def new_rw_def)

lemma status_write_header:
  "\<not> (100 \<le> s \<and> s \<le> 199 \<and> s \<noteq> 101) \<Longrightarrow>
   status (write_header s w) = (case rw_status w of None \<Rightarrow> s | Some t \<Rightarrow> t)"
  by (simp add: status_def write_header_def split: option.splits)

lemma rw_status_set [simp]:
  "rw_status (set_header n v w) = rw_status w" "rw_status (set_cookie c w) = rw_status w"
  "rw_body (set_header n v w) = rw_body w" "rw_body (set_cookie c w) = rw_body w"
  "rw_body (write_header s w) = rw_body w"
  by (simp_all add: set_header_def set_cookie_def write_header_def split: option.splits)

lemma status_set [simp]: "status (set_header n v w) = status w" "status (set_cookie c w) = status w"
  by (simp_all add: status_def)

text \<open>The first final status wins, whatever the handler does after it.\<close>

lemma rw_status_first [simp]:
  "rw_status w = Some s \<Longrightarrow> rw_status (write_header t w) = Some s"
  "rw_status w = Some s \<Longrightarrow> rw_status (write_body b w) = Some s"
  "rw_status w = Some s \<Longrightarrow> rw_status (write_json b t w) = Some s"
  by (auto simp: write_header_def write_body_def write_json_def Let_def set_header_def
      split: option.splits)

lemma write_json_fresh [simp]:
  "rw_status w = None \<Longrightarrow> \<not> (100 \<le> st \<and> st \<le> 199) \<Longrightarrow>
   rw_status (write_json b st w) = Some st \<and> rw_body (write_json b st w) = rw_body w @ [b]"
  by (auto simp: write_json_def write_body_def write_header_def Let_def set_header_def)

lemma write_json_body [simp]: "rw_body (write_json b st w) = rw_body w @ [b]"
  by (simp add: write_json_def write_body_def Let_def)

lemma status_Some [simp]: "rw_status w = Some s \<Longrightarrow> status w = s"
  by (simp add: status_def)

lemma status_write_json [simp]:
  "rw_status w = None \<Longrightarrow> \<not> (100 \<le> st \<and> st \<le> 199) \<Longrightarrow> status (write_json b st w) = st"
  by simp

lemma status_write_header_fresh [simp]:
  "rw_status w = None \<Longrightarrow> \<not> (100 \<le> st \<and> st \<le> 199) \<Longrightarrow> status (write_header st w) = st"
  by (auto simp: status_def write_header_def)

lemma decodeJSONBody_Inl:
  "decodeJSONBody d zero r w = Inl w' \<Longrightarrow> rw_status w = None \<Longrightarrow>
   status w' = 400 \<and> (\<exists>e. rw_body w' = rw_body w @ [ErrorBody (ErrJson e)])"
  by (auto simp: decodeJSONBody_def writeJSONErrorResponse_def split: sum.splits)

lemma decodeJSONBody_Inr:
  "decodeJSONBody d zero r w = Inr v \<longleftrightarrow> (\<exists>j. rq_json r = Inr j \<and> d j zero = Inr v)"
  by (auto simp: decodeJSONBody_def split: sum.splits)

lemma header_get_append:
  "header_get (hs @ hs') name =
     (if to_lower name \<in> (\<lambda>h. to_lower (fst h)) ` set hs then header_get hs name
      else header_get hs' name)"
proof (induction hs)
  case (Cons h hs)
  then show ?case by (cases h) simp
qed simp

lemma header_get_header_set [simp]:
  "header_get (rq_headers (header_set n v r)) n = v"
  by (auto simp: header_set_def header_get_append)

lemma getRequestToken_length:
  "getRequestToken r = [] \<or> length (getRequestToken r) = 16"
  by (auto simp: getRequestToken_def Let_def UserTokenLength_def split: prod.splits)

lemma getRequestToken_cookie:
  "request_cookie r qpUserTokenCookie = Some t \<Longrightarrow> length t = 16 \<Longrightarrow> getRequestToken r = t"
  by (simp add: getRequestToken_def requestTokenFromCookie_def UserTokenLength_def)

lemma getRequestToken_header:
  assumes "length (requestTokenFromCookie r) \<noteq> 16"
    and "header_get (rq_headers r) authHeader = scheme @ CHR '' '' # t"
    and "CHR '' '' \<notin> set scheme" and "to_lower scheme \<in> {''token'', ''bearer''}"
    and "length t = 16"
  shows "getRequestToken r = t"
  using assms by (auto simp: getRequestToken_def UserTokenLength_def cut_append)

end
