(* ===== verification/ErrorInjector.thy ===== *)
theory ErrorInjector
  imports Http
begin

section \<open>Injected errors and delays (\<^verbatim>\<open>pkg/errorinjector\<close>)\<close>

text \<open>
  A request may carry headers that make an action fail or sleep. The middleware copies them
  into the context of the request, \<open>InjectErrors\<close> reads them there, and \<open>AddErrorHeaders\<close>
  copies them from the context to an outgoing request.
\<close>

text \<open>The values of a context, by key; \<open>None\<close> where the key was never set.\<close>

type_synonym ctx_values = "string \<Rightarrow> string option"

definition headerList :: "string list" where
  "headerList = [
     ''x-error-record-recommendation'',
     ''x-error-record-recommendation-percentage'',
     ''x-delay-record-recommendation'',
     ''x-delay-record-recommendation-percentage'',
     ''x-error-get-ingredients'',
     ''x-error-get-ingredients-percentage'',
     ''x-delay-get-ingredients'',
     ''x-delay-get-ingredients-percentage'']"

definition addHeaderFromContext :: "ctx_values \<Rightarrow> string \<Rightarrow> request \<Rightarrow> request" where
  "addHeaderFromContext ctx name r =
     (case ctx name of None \<Rightarrow> r | Some v \<Rightarrow> header_add name v r)"

definition AddErrorHeaders :: "ctx_values \<Rightarrow> request \<Rightarrow> request" where
  "AddErrorHeaders ctx r = fold (addHeaderFromContext ctx) headerList r"

text \<open>The context the middleware hands to the next handler.\<close>

definition InjectErrorHeaders :: "request \<Rightarrow> ctx_values \<Rightarrow> ctx_values" where
  "InjectErrorHeaders r ctx =
     fold (\<lambda>h c. c(h \<mapsto> header_get (rq_headers r) h)) headerList ctx"

text \<open>The non-empty value of a key.\<close>

definition ctx_text :: "ctx_values \<Rightarrow> string \<Rightarrow> string option" where
  "ctx_text ctx k = (case ctx k of Some v \<Rightarrow> if v = [] then None else Some v | None \<Rightarrow> None)"

definition inject_delay :: "platform \<Rightarrow> ctx_values \<Rightarrow> string \<Rightarrow> 'a proc_scheme \<Rightarrow> 'a proc_scheme" where
  "inject_delay pf ctx action s =
     (case ctx_text ctx (''x-delay-'' @ action) of
        None \<Rightarrow> s
      | Some d \<Rightarrow>
          (case ctx_text ctx (''x-delay-'' @ action @ ''-percentage'') of
             None \<Rightarrow> sleep (pf_duration pf d) s
           | Some pct \<Rightarrow>
               (let (n, s') = draw s in
                if pf_chance pf n pct then sleep (pf_duration pf d) s' else s')))"

definition InjectErrors :: "platform \<Rightarrow> ctx_values \<Rightarrow> string \<Rightarrow> 'a proc_scheme \<Rightarrow> err option \<times> 'a proc_scheme" where
  "InjectErrors pf ctx action s =
     (case ctx_text ctx (''x-error-'' @ action) of
        None \<Rightarrow> (None, inject_delay pf ctx action s)
      | Some e \<Rightarrow>
          (case ctx_text ctx (''x-error-'' @ action @ ''-percentage'') of
             None \<Rightarrow> (Some (ErrInjected e), s)
           | Some pct \<Rightarrow>
               (let (n, s') = draw s in
                if pf_chance pf n pct then (Some (ErrInjected e), s')
                else (None, inject_delay pf ctx action s'))))"

subsection \<open>Lemmas\<close>

lemma InjectErrors_none:
  "ctx_text ctx (''x-error-'' @ action) = None \<Longrightarrow> fst (InjectErrors pf ctx action s) = None"
  by (simp add: InjectErrors_def)

lemma InjectErrors_result:
  "fst (InjectErrors pf ctx action s) = Some e \<Longrightarrow>
   \<exists>t. e = ErrInjected t \<and> ctx (''x-error-'' @ action) = Some t \<and> t \<noteq> []"
  by (auto simp: InjectErrors_def ctx_text_def draw_def split: option.splits if_splits)

text \<open>The injection touches the random source and the sleeps only.\<close>

lemma proc_more_draw [simp]: "proc.more (snd (draw s)) = proc.more s"
  by (simp add: draw_def)

lemma proc_more_InjectErrors [simp]: "proc.more (snd (InjectErrors pf ctx action s)) = proc.more s"
  by (simp add: InjectErrors_def inject_delay_def sleep_def draw_def split: option.splits)

lemma InjectErrors_quiet:
  "ctx_text ctx (''x-error-'' @ action) = None \<Longrightarrow> ctx_text ctx (''x-delay-'' @ action) = None \<Longrightarrow>
   InjectErrors pf ctx action s = (None, s)"
  by (simp add: InjectErrors_def inject_delay_def)

lemma headerList_distinct: "distinct headerList"
  by (simp add: headerList_def)

lemma headerList_lower: "h \<in> set headerList \<Longrightarrow> to_lower h = h"
  by (auto simp: headerList_def to_lower_def lower_char_def)

lemma fold_upd_get:
  "fold (\<lambda>h c. c(h \<mapsto> f h)) hs c k = (if k \<in> set hs then Some (f k) else c k)"
  by (induction hs arbitrary: c) auto

lemma InjectErrorHeaders_get:
  "InjectErrorHeaders r ctx k =
     (if k \<in> set headerList then Some (header_get (rq_headers r) k) else ctx k)"
  by (simp add: InjectErrorHeaders_def fold_upd_get)

lemma addHeader_fold:
  "rq_headers (fold (addHeaderFromContext ctx) hs r) =
     rq_headers r @ concat (map (\<lambda>h. case ctx h of None \<Rightarrow> [] | Some v \<Rightarrow> [(h, v)]) hs)"
  by (induction hs arbitrary: r) (auto simp: addHeaderFromContext_def header_add_def split: option.splits)

lemma header_get_added:
  assumes "distinct hs" and "\<And>h. h \<in> set hs \<Longrightarrow> to_lower h = h" and "k \<in> set hs"
  shows "header_get (concat (map (\<lambda>h. case ctx h of None \<Rightarrow> [] | Some v \<Rightarrow> [(h, v)]) hs)) k =
    (case ctx k of None \<Rightarrow> [] | Some v \<Rightarrow> v)"
proof -
  have skip: "header_get (concat (map (\<lambda>h. case ctx h of None \<Rightarrow> [] | Some v \<Rightarrow> [(h, v)]) hs')) k = []"
    if "k \<notin> set hs'" "set hs' \<subseteq> set hs" for hs'
    using that assms(2,3) by (induction hs') (auto split: option.splits)
  have "header_get (concat (map (\<lambda>h. case ctx h of None \<Rightarrow> [] | Some v \<Rightarrow> [(h, v)]) hs')) k =
      (case ctx k of None \<Rightarrow> [] | Some v \<Rightarrow> v)"
    if "distinct hs'" "k \<in> set hs'" "set hs' \<subseteq> set hs" for hs'
    using that
  proof (induction hs')
    case (Cons h hs')
    then show ?case
      using assms(2) skip [of hs'] by (cases "h = k") (auto split: option.splits)
  qed simp
  then show ?thesis using assms by blast
qed

text \<open>
  An outgoing request built from a context carries the same injection: the middleware of the
  callee, on a request without such headers of its own, rebuilds the values of the caller.
\<close>

lemma inject_forwarding:
  assumes fresh: "\<And>h. h \<in> set headerList \<Longrightarrow> h \<notin> (\<lambda>h. to_lower (fst h)) ` set (rq_headers r)"
    and k: "k \<in> set headerList"
  shows "ctx_text (InjectErrorHeaders (AddErrorHeaders ctx r) ctx') k = ctx_text ctx k"
proof -
  have "header_get (rq_headers (AddErrorHeaders ctx r)) k = (case ctx k of None \<Rightarrow> [] | Some v \<Rightarrow> v)"
    using fresh [OF k] headerList_lower [OF k]
    by (simp add: AddErrorHeaders_def addHeader_fold header_get_append
        header_get_added [OF headerList_distinct headerList_lower k])
  then show ?thesis
    using k by (auto simp: InjectErrorHeaders_get ctx_text_def split: option.splits)
qed

end
