(* ===== verification/Client.thy ===== *)
theory Client
  imports ErrorInjector
begin

section \<open>The HTTP clients of the services (\<^verbatim>\<open>pkg/http/client.go\<close>)\<close>

text \<open>
  \<open>httpClient\<close> with its JSON \<open>GET\<close> and \<open>POST\<close>, and the methods of \<open>CatalogClient\<close>
  and \<open>CopyClient\<close>. The network is a parameter: a transport takes a request and returns an
  error or a response, and may change the state. A request that cannot be built counts among the
  errors of the transport.
\<close>

record http_response =
  resp_status :: nat
  resp_json :: "string + json"     \<comment> \<open>what the JSON decoder reads from the body\<close>

type_synonym 's transport = "request \<Rightarrow> 's \<Rightarrow> (string + http_response) \<times> 's"

datatype client_err =
    ErrTransport string
  | ErrEntityNotFound              \<comment> \<open>errNotFound\<close>
  | ErrUnexpectedStatus nat
  | ErrResponse json_err

record client_ctx =
  cc_auth :: "string option"       \<comment> \<open>the value of \<open>authKey\<close>\<close>
  cc_values :: ctx_values

definition client_background :: client_ctx where
  "client_background = \<lparr>cc_auth = None, cc_values = Map.empty\<rparr>"

text \<open>
  The clients as values: a method returns a changed copy, so that a request's context stays with the copy
  and the client that the routes share keeps the background context. \<open>'h\<close> is the underlying HTTP client.
\<close>

record 'h catalog_client =
  clc_url :: string
  clc_ctx :: client_ctx
  clc_http :: 'h

definition NewCatalogClient :: "'h \<Rightarrow> string \<Rightarrow> 'h catalog_client" where
  "NewCatalogClient dflt url = \<lparr>clc_url = url, clc_ctx = client_background, clc_http = dflt\<rparr>"

definition CatalogClient_WithClient :: "'h \<Rightarrow> 'h catalog_client \<Rightarrow> 'h catalog_client" where
  "CatalogClient_WithClient client c = c\<lparr>clc_http := client\<rparr>"

definition CatalogClient_WithRequestContext :: "client_ctx \<Rightarrow> 'h catalog_client \<Rightarrow> 'h catalog_client" where
  "CatalogClient_WithRequestContext ctx c = c\<lparr>clc_ctx := ctx\<rparr>"

record 'h copy_client =
  cpc_url :: string
  cpc_ctx :: client_ctx
  cpc_http :: 'h

definition NewCopyClient :: "'h \<Rightarrow> string \<Rightarrow> 'h copy_client" where
  "NewCopyClient dflt url = \<lparr>cpc_url = url, cpc_ctx = client_background, cpc_http = dflt\<rparr>"

definition CopyClient_WithClient :: "'h \<Rightarrow> 'h copy_client \<Rightarrow> 'h copy_client" where
  "CopyClient_WithClient client c = c\<lparr>cpc_http := client\<rparr>"

definition CopyClient_WithRequestContext :: "client_ctx \<Rightarrow> 'h copy_client \<Rightarrow> 'h copy_client" where
  "CopyClient_WithRequestContext ctx c = c\<lparr>cpc_ctx := ctx\<rparr>"

definition http_new_request :: "string \<Rightarrow> string \<Rightarrow> string + json \<Rightarrow> request" where
  "http_new_request m url body =
     \<lparr>rq_method = m, rq_path = url, rq_headers = [], rq_cookies = [], rq_query = [], rq_json = body\<rparr>"

definition client_do :: "'s transport \<Rightarrow> client_ctx \<Rightarrow> request \<Rightarrow> 's \<Rightarrow> (string + http_response) \<times> 's" where
  "client_do t ctx request s =
     (let r1 = header_add ''X-Is-Internal'' ''1'' request;
          r2 = (case cc_auth ctx of Some auth \<Rightarrow> header_add authHeader auth r1 | None \<Rightarrow> r1)
      in t r2 s)"

definition getJSON ::
  "'s transport \<Rightarrow> client_ctx \<Rightarrow> string \<Rightarrow> 'a decoder \<Rightarrow> 'a \<Rightarrow> 's \<Rightarrow> (client_err + 'a) \<times> 's" where
  "getJSON t ctx url dec dest s =
     (let request = AddErrorHeaders (cc_values ctx)
            (header_add ''Content-Type'' ''application/json'' (http_new_request ''GET'' url (Inl ''EOF''))) in
      case client_do t ctx request s of
        (Inl e, s') \<Rightarrow> (Inl (ErrTransport e), s')
      | (Inr resp, s') \<Rightarrow>
          (if resp_status resp = 404 then Inl ErrEntityNotFound
           else if resp_status resp \<noteq> 200 then Inl (ErrUnexpectedStatus (resp_status resp))
           else case resp_json resp of
             Inl e \<Rightarrow> Inl (ErrResponse (JsonSyntax e))
           | Inr j \<Rightarrow> (case dec j dest of Inl e \<Rightarrow> Inl (ErrResponse e) | Inr v \<Rightarrow> Inr v), s'))"

definition postJSON ::
  "'s transport \<Rightarrow> client_ctx \<Rightarrow> string \<Rightarrow> json option \<Rightarrow> 'a decoder \<Rightarrow> 'a \<Rightarrow> 's \<Rightarrow> (client_err + 'a) \<times> 's" where
  "postJSON t ctx url src dec dest s =
     (let body = (case src of None \<Rightarrow> Inl ''EOF'' | Some j \<Rightarrow> Inr j);
          request = AddErrorHeaders (cc_values ctx) (http_new_request ''POST'' url body) in
      case client_do t ctx request s of
        (Inl e, s') \<Rightarrow> (Inl (ErrTransport e), s')
      | (Inr resp, s') \<Rightarrow>
          (if resp_status resp \<noteq> 201 \<and> resp_status resp \<noteq> 200
           then Inl (ErrUnexpectedStatus (resp_status resp))
           else case resp_json resp of
             Inl e \<Rightarrow> Inl (ErrResponse (JsonSyntax e))
           | Inr j \<Rightarrow> (case dec j dest of Inl e \<Rightarrow> Inl (ErrResponse e) | Inr v \<Rightarrow> Inr v), s'))"

subsection \<open>Decoding without \<open>DisallowUnknownFields\<close>\<close>

definition lenient :: "(string \<Rightarrow> json \<Rightarrow> 'a \<Rightarrow> json_err + 'a) \<Rightarrow> string \<Rightarrow> json \<Rightarrow> 'a \<Rightarrow> json_err + 'a" where
  "lenient set_field k j x =
     (case set_field k j x of Inl (JsonUnknownField f) \<Rightarrow> Inr x | Inl e \<Rightarrow> Inl e | Inr y \<Rightarrow> Inr y)"

definition dec_user_lenient :: "user decoder" where
  "dec_user_lenient = dec_struct ''user'' (lenient set_user_field)"

definition set_pizza_field_lenient :: "string \<Rightarrow> json \<Rightarrow> pizza \<Rightarrow> json_err + pizza" where
  "set_pizza_field_lenient k j p =
     (if k = ''dough'' then on_field (\<lambda>v. p\<lparr>pizza_dough := v\<rparr>)
        (dec_struct ''dough'' (lenient set_dough_field) j (pizza_dough p))
      else if k = ''ingredients'' then on_field (\<lambda>v. p\<lparr>pizza_ingredients := v\<rparr>)
        (dec_slice k (dec_struct ''ingredient'' (lenient set_ingredient_field)) zero_ingredient j (pizza_ingredients p))
      else lenient set_pizza_field k j p)"

definition dec_pizza_lenient :: "pizza decoder" where
  "dec_pizza_lenient = dec_struct ''pizza'' set_pizza_field_lenient"

text \<open>A struct with one slice, as the list routes answer.\<close>

definition dec_list :: "string \<Rightarrow> 'a decoder \<Rightarrow> 'a \<Rightarrow> 'a list decoder" where
  "dec_list f d zero =
     dec_struct f (\<lambda>k j xs. if k = f then dec_slice k d zero j xs else Inl (JsonUnknownField k))"

subsection \<open>The methods of the clients\<close>

definition client_Ingredients ::
  "'s transport \<Rightarrow> string \<Rightarrow> client_ctx \<Rightarrow> string \<Rightarrow> 's \<Rightarrow> (client_err + ingredient list) \<times> 's" where
  "client_Ingredients t catalogUrl ctx ingredientType s =
     getJSON t ctx (catalogUrl @ ''/api/ingredients/'' @ ingredientType)
       (dec_list ''ingredients'' dec_ingredient zero_ingredient) [] s"

definition client_Tools :: "'s transport \<Rightarrow> string \<Rightarrow> client_ctx \<Rightarrow> 's \<Rightarrow> (client_err + string list) \<times> 's" where
  "client_Tools t catalogUrl ctx s =
     getJSON t ctx (catalogUrl @ ''/api/tools'') (dec_list ''tools'' (dec_string ''tools'') []) [] s"

definition client_Doughs :: "'s transport \<Rightarrow> string \<Rightarrow> client_ctx \<Rightarrow> 's \<Rightarrow> (client_err + dough list) \<times> 's" where
  "client_Doughs t catalogUrl ctx s =
     getJSON t ctx (catalogUrl @ ''/api/doughs'') (dec_list ''doughs'' dec_dough zero_dough) [] s"

definition client_GetRecommendation ::
  "'s transport \<Rightarrow> string \<Rightarrow> client_ctx \<Rightarrow> go_int \<Rightarrow> 's \<Rightarrow> (client_err + pizza option) \<times> 's" where
  "client_GetRecommendation t catalogUrl ctx i s =
     (case getJSON t ctx (catalogUrl @ ''/api/internal/recommendations/'' @ Itoa i) dec_pizza zero_pizza s of
        (Inl e, s') \<Rightarrow> (if e = ErrEntityNotFound then Inr None else Inl e, s')
      | (Inr p, s') \<Rightarrow> (Inr (Some p), s'))"

definition client_RecordRecommendation ::
  "'s transport \<Rightarrow> string \<Rightarrow> client_ctx \<Rightarrow> pizza \<Rightarrow> 's \<Rightarrow> (client_err + pizza) \<times> 's" where
  "client_RecordRecommendation t catalogUrl ctx p s =
     postJSON t ctx (catalogUrl @ ''/api/internal/recommendations'') (Some (enc_pizza p)) dec_pizza_lenient zero_pizza s"

definition client_Authenticate ::
  "'s transport \<Rightarrow> string \<Rightarrow> client_ctx \<Rightarrow> 's \<Rightarrow> (client_err + user) \<times> 's" where
  "client_Authenticate t catalogUrl ctx s =
     postJSON t ctx (catalogUrl @ ''/api/users/token/authenticate'') None dec_user_lenient zero_user s"

definition client_Adjectives :: "'s transport \<Rightarrow> string \<Rightarrow> client_ctx \<Rightarrow> 's \<Rightarrow> (client_err + string list) \<times> 's" where
  "client_Adjectives t copyURL ctx s =
     getJSON t ctx (copyURL @ ''/api/adjectives'') (dec_list ''adjectives'' (dec_string ''adjectives'') []) [] s"

definition client_Names :: "'s transport \<Rightarrow> string \<Rightarrow> client_ctx \<Rightarrow> 's \<Rightarrow> (client_err + string list) \<times> 's" where
  "client_Names t copyURL ctx s =
     getJSON t ctx (copyURL @ ''/api/names'') (dec_list ''names'' (dec_string ''names'') []) [] s"

subsection \<open>Lemmas\<close>

lemma dec_list_enc:
  assumes "to_lower f = f" "\<And>x. x \<in> set xs \<Longrightarrow> d (enc x) zero = Inr (w x)"
  shows "dec_list f d zero (JObj [(f, JArr (map enc xs))]) [] = Inr (map w xs)"
  using assms by (simp add: dec_list_def dec_elems_map)

lemma dec_enc_user_lenient:
  "in_int64 (user_id u) \<Longrightarrow>
   dec_user_lenient (enc_user u) zero_user = Inr (u\<lparr>user_password_hash := [], user_password_plaintext := []\<rparr>)"
  by (cases u) (simp add: dec_user_lenient_def enc_user_def lenient_def set_user_field_def on_field_def
      zero_user_def go_simps)

lemma dec_enc_dough_lenient:
  "dough_in_range d \<Longrightarrow> dec_struct ''dough'' (lenient set_dough_field) (enc_dough d) x = Inr d"
  by (cases d) (simp add: enc_dough_def dough_in_range_def lenient_def set_dough_field_def on_field_def go_simps)

lemma dec_enc_ingredient_lenient:
  "ingredient_in_range i \<Longrightarrow>
   dec_struct ''ingredient'' (lenient set_ingredient_field) (enc_ingredient i) zero_ingredient = Inr (wire_ingredient i)"
  by (cases i) (simp add: enc_ingredient_def ingredient_in_range_def lenient_def
      set_ingredient_field_def on_field_def wire_ingredient_def zero_ingredient_def go_simps)

lemma dec_enc_pizza_lenient:
  "pizza_in_range p \<Longrightarrow> dec_pizza_lenient (enc_pizza p) zero_pizza = Inr (wire_pizza p)"
  by (cases p) (simp add: dec_pizza_lenient_def enc_pizza_def pizza_in_range_def set_pizza_field_lenient_def
      lenient_def set_pizza_field_def on_field_def wire_pizza_def zero_pizza_def dec_enc_dough_lenient
      dec_elems_map dec_enc_ingredient_lenient go_simps)

text \<open>The headers of a request of the clients.\<close>

lemma header_get_none: "to_lower n \<notin> (\<lambda>h. to_lower (fst h)) ` set hs \<Longrightarrow> header_get hs n = []"
  by (induction hs) auto

lemma AddErrorHeaders_headers:
  "rq_headers (AddErrorHeaders ctx r) =
     rq_headers r @ concat (map (\<lambda>h. case ctx h of None \<Rightarrow> [] | Some v \<Rightarrow> [(h, v)]) headerList)"
  by (simp add: AddErrorHeaders_def addHeader_fold)

lemma AddErrorHeaders_rest [simp]:
  "rq_method (AddErrorHeaders ctx r) = rq_method r" "rq_path (AddErrorHeaders ctx r) = rq_path r"
  "rq_json (AddErrorHeaders ctx r) = rq_json r" "rq_cookies (AddErrorHeaders ctx r) = rq_cookies r"
  "rq_query (AddErrorHeaders ctx r) = rq_query r"
proof -
  have "rq_method (fold (addHeaderFromContext ctx) hs r) = rq_method r \<and>
      rq_path (fold (addHeaderFromContext ctx) hs r) = rq_path r \<and>
      rq_json (fold (addHeaderFromContext ctx) hs r) = rq_json r \<and>
      rq_cookies (fold (addHeaderFromContext ctx) hs r) = rq_cookies r \<and>
      rq_query (fold (addHeaderFromContext ctx) hs r) = rq_query r" for hs r
    by (induction hs arbitrary: r) (auto simp: addHeaderFromContext_def header_add_def split: option.splits)
  then show "rq_method (AddErrorHeaders ctx r) = rq_method r" "rq_path (AddErrorHeaders ctx r) = rq_path r"
    "rq_json (AddErrorHeaders ctx r) = rq_json r" "rq_cookies (AddErrorHeaders ctx r) = rq_cookies r"
    "rq_query (AddErrorHeaders ctx r) = rq_query r"
    by (simp_all add: AddErrorHeaders_def)
qed

end
