(* ===== verification/RecoService.thy ===== *)
theory RecoService
  imports Recommend Client
begin

section \<open>The recommendations service (\<open>AddRecommendations\<close>)\<close>

text \<open>
  The routes \<^verbatim>\<open>GET /api/pizza/{id}\<close> and \<^verbatim>\<open>POST /api/pizza\<close> of \<^verbatim>\<open>pkg/http/http.go\<close> behind
  \<open>AuthViaCatalogClientMiddleware\<close>. The service is stateless: the state is that of the process,
  which the transports of the two clients may change. A handler returns its response, or it
  panics, or it never returns (\<open>None\<close>).
\<close>

type_synonym 's reply = "(rw \<times> 's) outcome option"

type_synonym 's reco_handler = "user option \<Rightarrow> client_ctx \<Rightarrow> request \<Rightarrow> rw \<Rightarrow> 's \<Rightarrow> 's reply"

definition reply :: "rw \<Rightarrow> 's \<Rightarrow> 's reply" where
  "reply w s = Some (Returned (w, s))"

text \<open>A token in the cookie is copied into the \<open>Authorization\<close> header.\<close>

definition with_cookie_auth :: "request \<Rightarrow> request" where
  "with_cookie_auth r =
     (let auth = requestTokenFromCookie r in
      if auth \<noteq> [] then header_set authHeader (''Token '' @ auth) r else r)"

definition AuthViaCatalogClientMiddleware ::
  "'s transport \<Rightarrow> string \<Rightarrow> 's reco_handler \<Rightarrow> request \<Rightarrow> rw \<Rightarrow> 's \<Rightarrow> 's reply" where
  "AuthViaCatalogClientMiddleware t catalogUrl next r w s =
     (let r' = with_cookie_auth r;
          ctx = \<lparr>cc_auth = Some (header_get (rq_headers r') authHeader), cc_values = Map.empty\<rparr> in
      case client_Authenticate t catalogUrl ctx s of
        (Inl e, s') \<Rightarrow> reply (writeJSONErrorResponse ErrAuth 401 w) s'
      | (Inr user, s') \<Rightarrow> next (Some user) ctx r' w s')"

text \<open>The other two middlewares: the error headers and the delay.\<close>

definition reco_middleware :: "environ \<Rightarrow> ('a proc_scheme) reco_handler \<Rightarrow> ('a proc_scheme) reco_handler" where
  "reco_middleware env next user ctx r w s =
     next user (ctx\<lparr>cc_values := InjectErrorHeaders r (cc_values ctx)\<rparr>) r w
       (DelayIfEnvSet env ''QUICKPIZZA_DELAY_RECOMMENDATIONS'' s)"

text \<open>The client of this route keeps the background context.\<close>

definition getPizza ::
  "('a proc_scheme) transport \<Rightarrow> string \<Rightarrow> environ \<Rightarrow> string \<Rightarrow> ('a proc_scheme) reco_handler" where
  "getPizza t catalogUrl env param user ctx r w s =
     (let s0 = DelayIfEnvSet env ''QUICKPIZZA_DELAY_RECOMMENDATIONS_API_PIZZA_GET'' s in
      case Atoi param of
        (_, Some _) \<Rightarrow> reply (write_header 400 w) s0
      | (i, None) \<Rightarrow>
          (case client_GetRecommendation t catalogUrl client_background i s0 of
             (Inl e, s1) \<Rightarrow> reply (write_header 500 w) s1
           | (Inr None, s1) \<Rightarrow> reply (write_header 404 w) s1
           | (Inr (Some pizza), s1) \<Rightarrow> reply (writeJSONResponse (enc_pizza pizza) 200 w) s1))"

text \<open>A call of a client: on an error the handler answers 500 and returns.\<close>

definition or_500 :: "rw \<Rightarrow> (client_err + 'x) \<times> 's \<Rightarrow> ('x \<Rightarrow> 's \<Rightarrow> 's reply) \<Rightarrow> 's reply" where
  "or_500 w call next =
     (case call of
        (Inl e, s) \<Rightarrow> reply (write_header 500 w) s
      | (Inr x, s) \<Rightarrow> next x s)"

definition enc_recommendation :: "pizza \<Rightarrow> go_int \<Rightarrow> bool \<Rightarrow> json" where
  "enc_recommendation p calories vegetarian =
     JObj [(''pizza'', enc_pizza p), (''calories'', JInt calories), (''vegetarian'', JBool vegetarian)]"

text \<open>The lists the handler asks the catalog and the copy service for, filtered as they arrive.\<close>

definition fetch_pantry ::
  "'s transport \<Rightarrow> string \<Rightarrow> 's transport \<Rightarrow> string \<Rightarrow> client_ctx \<Rightarrow> restrictions \<Rightarrow> rw \<Rightarrow> 's
     \<Rightarrow> (pantry \<Rightarrow> 's \<Rightarrow> 's reply) \<Rightarrow> 's reply" where
  "fetch_pantry t catalogUrl u copyURL ctx r w s next =
     or_500 w (client_Ingredients t catalogUrl ctx ''olive_oil'' s) (\<lambda>oils s1.
     or_500 w (client_Ingredients t catalogUrl ctx ''tomato'' s1) (\<lambda>tomatoes s2.
     or_500 w (client_Ingredients t catalogUrl ctx ''mozzarella'' s2) (\<lambda>mozzarellas s3.
     or_500 w (client_Ingredients t catalogUrl ctx ''topping'' s3) (\<lambda>toppings s4.
     or_500 w (client_Tools t catalogUrl ctx s4) (\<lambda>tools s5.
     or_500 w (client_Doughs t catalogUrl ctx s5) (\<lambda>doughs s6.
     or_500 w (client_Adjectives u copyURL ctx s6) (\<lambda>adjectives s7.
     or_500 w (client_Names u copyURL ctx s7) (\<lambda>names s8.
       next (restrict_pantry r
         \<lparr>olive_oils = oils, tomatoes = tomatoes, mozzarellas = mozzarellas, toppings = toppings,
          tools = tools, doughs = doughs, adjectives = adjectives, names = names\<rparr>) s8))))))))"

text \<open>The metrics of a recommendation: the labels are those of the answer, the sizes those of the generated pizza.\<close>

definition count_pizza :: "bool \<Rightarrow> string \<Rightarrow> nat \<Rightarrow> go_int \<Rightarrow> pizza_metrics \<Rightarrow> pizza_metrics" where
  "count_pizza vegetarian tool ingredients calories m =
     m\<lparr>pm_recommendations := (\<lambda>v t. if v = vegetarian \<and> t = tool
          then Suc (pm_recommendations m v t) else pm_recommendations m v t),
       pm_ingredients := pm_ingredients m @ [ingredients],
       pm_ingredients_native := pm_ingredients_native m @ [ingredients],
       pm_calories := pm_calories m @ [calories],
       pm_calories_native := pm_calories_native m @ [calories]\<rparr>"

text \<open>The end of the handler: the pizza is recorded and counted, and the answer shows it as the catalog returned it.\<close>

definition answer_pizza ::
  "('a proc_scheme) transport \<Rightarrow> string \<Rightarrow> client_ctx \<Rightarrow> pizza \<Rightarrow> rw \<Rightarrow> 'a proc_scheme \<Rightarrow> ('a proc_scheme) reply" where
  "answer_pizza t catalogUrl ctx pizza w s =
     or_500 w (client_RecordRecommendation t catalogUrl ctx pizza s) (\<lambda>result s'.
       reply (writeJSONResponse
         (enc_recommendation result (CalculateCalories pizza) (IsVegetarian pizza)) 200 w)
         (s'\<lparr>proc_pizzas := count_pizza (IsVegetarian pizza) (pizza_tool result)
             (length (pizza_ingredients pizza)) (CalculateCalories pizza) (proc_pizzas s')\<rparr>))"

definition postPizza ::
  "('a proc_scheme) transport \<Rightarrow> string \<Rightarrow> ('a proc_scheme) transport \<Rightarrow> string \<Rightarrow> environ
     \<Rightarrow> (ingredient list \<Rightarrow> ingredient list) \<Rightarrow> ('a proc_scheme) reco_handler" where
  "postPizza t catalogUrl u copyURL env order user ctx r w s =
     (let s0 = DelayIfEnvSet env ''QUICKPIZZA_DELAY_RECOMMENDATIONS_API_PIZZA_POST'' s;
          (failed, s1) = FailRandomlyIfEnvSet env ''QUICKPIZZA_FAIL_RATE_RECOMMENDATIONS_API_PIZZA_POST'' s0 in
      if failed then reply (writeJSONErrorResponse ErrUnavailable 503 w) s1
      else case decodeJSONBody dec_restrictions zero_restrictions r w of
        Inl w' \<Rightarrow> reply w' s1
      | Inr body \<Rightarrow>
          (let res = clip_name (WithDefaults body) in
           fetch_pantry t catalogUrl u copyURL ctx res w s1 (\<lambda>p s2.
             case generate_pizza order res p s2 of
               None \<Rightarrow> None
             | Some (Panicked m) \<Rightarrow> Some (Panicked m)
             | Some (Returned (pizza, s3)) \<Rightarrow>
                 answer_pizza t catalogUrl ctx pizza w s3)))"

subsection \<open>Lemmas\<close>

lemma or_500_returned:
  "or_500 w call next = Some (Returned (w', s')) \<Longrightarrow>
     (w' = write_header 500 w \<and> (\<exists>e. call = (Inl e, s'))) \<or>
     (\<exists>x s. call = (Inr x, s) \<and> next x s = Some (Returned (w', s')))"
  by (auto simp: or_500_def reply_def split: prod.splits sum.splits)

lemma fetch_pantry_returned:
  assumes "fetch_pantry t cu u pu ctx r w s next = Some (Returned (w', s'))"
  shows "w' = write_header 500 w \<or>
    (\<exists>p s2. next (restrict_pantry r p) s2 = Some (Returned (w', s')))"
  using assms unfolding fetch_pantry_def by (blast dest: or_500_returned)

lemma clip_name_simps [simp]:
  "res_max_calories (clip_name r) = res_max_calories r" "res_vegetarian (clip_name r) = res_vegetarian r"
  "res_excluded_ingredients (clip_name r) = res_excluded_ingredients r"
  "res_excluded_tools (clip_name r) = res_excluded_tools r" "res_max_toppings (clip_name r) = res_max_toppings r"
  "res_min_toppings (clip_name r) = res_min_toppings r" "res_custom_name (clip_name r) = take 64 (res_custom_name r)"
  by (simp_all add: clip_name_def MaxPizzaNameLength_def)

lemma WithDefaults_simps [simp]:
  "res_max_calories (WithDefaults r) = (if res_max_calories r = 0 then 1000 else res_max_calories r)"
  "res_max_toppings (WithDefaults r) = (if res_max_toppings r = 0 then 5 else res_max_toppings r)"
  "res_min_toppings (WithDefaults r) = (if res_min_toppings r = 0 then 3 else res_min_toppings r)"
  "res_vegetarian (WithDefaults r) = res_vegetarian r"
  "res_excluded_ingredients (WithDefaults r) = res_excluded_ingredients r"
  "res_excluded_tools (WithDefaults r) = res_excluded_tools r"
  "res_custom_name (WithDefaults r) = res_custom_name r"
  by (simp_all add: WithDefaults_def Let_def)

end
