(* ===== verification/K6Ext.thy ===== *)
theory K6Ext
  imports Model GoStd
begin

section \<open>The k6 extension (\<^verbatim>\<open>k6/extensions/quickpizzaext/main.go\<close>)\<close>

text \<open>
  The check that load tests run on a recommended pizza: the restrictions as the extension reads
  them, the check with the text of its last result, and what it accepts.
\<close>

record goja_restrictions =
  goja_max_calories :: go_int
  goja_vegetarian :: bool
  goja_excluded_ingredients :: "string list"
  goja_excluded_tools :: "string list"
  goja_min_toppings :: go_int
  goja_max_toppings :: go_int

text \<open>The first excluded name that an ingredient bears, in the order of the two loops.\<close>

fun first_match :: "string \<Rightarrow> string list \<Rightarrow> string option" where
  "first_match n [] = None"
| "first_match n (x # xs) = (if n = x then Some x else first_match n xs)"

fun first_excluded :: "string list \<Rightarrow> ingredient list \<Rightarrow> string option" where
  "first_excluded xs [] = None"
| "first_excluded xs (i # is) =
     (case first_match (ing_name i) xs of Some x \<Rightarrow> Some x | None \<Rightarrow> first_excluded xs is)"

definition CheckRestrictions :: "pizza \<Rightarrow> goja_restrictions \<Rightarrow> bool \<times> string" where
  "CheckRestrictions pizza r =
     (if goja_vegetarian r \<and> \<not> IsVegetarian pizza then (False, ''Pizza is not vegetarian'')
      else if CalculateCalories pizza > goja_max_calories r
      then (False, ''Pizza has too many calories: expected at most '' @ Itoa (goja_max_calories r) @
              '' but got '' @ Itoa (CalculateCalories pizza))
      else case first_excluded (goja_excluded_ingredients r) (pizza_ingredients pizza) of
        Some x \<Rightarrow> (False, ''Pizza has excluded ingredient: '' @ x)
      | None \<Rightarrow>
          if first_match (pizza_tool pizza) (goja_excluded_tools r) \<noteq> None
          then (False, ''Pizza has excluded tool'')
          else if int (length (pizza_ingredients pizza)) > wrap64 (goja_max_toppings r + 3)
          then (False, ''Pizza has too many toppings: expected at most '' @ Itoa (wrap64 (goja_max_toppings r + 3)) @
                  '' but got '' @ Itoa (int (length (pizza_ingredients pizza))))
          else if int (length (pizza_ingredients pizza)) < wrap64 (goja_min_toppings r + 3)
          then (False, ''Pizza has too few toppings: expected at least '' @ Itoa (wrap64 (goja_min_toppings r + 3)) @
                  '' but got '' @ Itoa (int (length (pizza_ingredients pizza))))
          else (True, ''Pizza is OK''))"

lemma first_match_None: "first_match n xs = None \<longleftrightarrow> n \<notin> set xs"
  by (induction xs) auto

lemma first_match_Some: "first_match n xs = Some x \<Longrightarrow> x = n \<and> n \<in> set xs"
  by (induction xs) (auto split: if_splits)

lemma first_excluded_None: "first_excluded xs is = None \<longleftrightarrow> (\<forall>i \<in> set is. ing_name i \<notin> set xs)"
  by (induction "is") (auto split: option.splits simp: first_match_None dest: first_match_Some)

lemma CheckRestrictions_iff:
  "fst (CheckRestrictions pizza r) \<longleftrightarrow>
     (goja_vegetarian r \<longrightarrow> (\<forall>i \<in> set (pizza_ingredients pizza). ing_vegetarian i)) \<and>
     CalculateCalories pizza \<le> goja_max_calories r \<and>
     (\<forall>i \<in> set (pizza_ingredients pizza). ing_name i \<notin> set (goja_excluded_ingredients r)) \<and>
     pizza_tool pizza \<notin> set (goja_excluded_tools r) \<and>
     int (length (pizza_ingredients pizza)) \<le> wrap64 (goja_max_toppings r + 3) \<and>
     wrap64 (goja_min_toppings r + 3) \<le> int (length (pizza_ingredients pizza))"
  using first_excluded_None [of "goja_excluded_ingredients r" "pizza_ingredients pizza"]
  by (cases "first_excluded (goja_excluded_ingredients r) (pizza_ingredients pizza)")
    (auto simp: CheckRestrictions_def IsVegetarian_iff simp flip: first_match_None [of "pizza_tool pizza"])

end
