(* ===== verification/Database.thy ===== *)
theory Database
  imports ErrorInjector
begin

section \<open>The tables and statements of the catalog database\<close>

text \<open>
  The tables that \<^verbatim>\<open>pkg/database/migrations/catalog\<close> creates from the structs of
  \<^verbatim>\<open>pkg/model\<close>, with their primary keys, unique columns and foreign keys, and the statements
  the queries of \<^verbatim>\<open>pkg/database/catalog.go\<close> send: inserts that draw an automatic identifier
  when the field is zero, deletes with their \<^verbatim>\<open>ON DELETE CASCADE\<close>, selections that fail or
  return rows in an arbitrary order, and transactions that are rolled back on an error.
\<close>

subsection \<open>Tables\<close>

record 'r table =
  rows :: "'r list"
  seq :: int              \<comment> \<open>the last value of the identifier sequence\<close>

record pizza_row =
  pr_id :: go_int
  pr_created_at :: go_int
  pr_name :: string
  pr_dough_id :: go_int
  pr_tool :: string

record db = proc +
  db_ingredients :: "ingredient list"
  db_doughs :: "dough list"
  db_tools :: "string list"
  db_users :: "user table"
  db_pizzas :: "pizza_row table"
  db_pizza_to_ingredients :: "(go_int \<times> go_int) list"
  db_ratings :: "rating table"
  db_clock :: nat         \<comment> \<open>the number of statements sent so far\<close>

abbreviation user_ids :: "db \<Rightarrow> int set" where
  "user_ids db \<equiv> user_id ` set (rows (db_users db))"

abbreviation pizza_ids :: "db \<Rightarrow> int set" where
  "pizza_ids db \<equiv> pr_id ` set (rows (db_pizzas db))"

abbreviation rating_ids :: "db \<Rightarrow> int set" where
  "rating_ids db \<equiv> rating_id ` set (rows (db_ratings db))"

abbreviation ingredient_ids :: "db \<Rightarrow> int set" where
  "ingredient_ids db \<equiv> ing_id ` set (db_ingredients db)"

subsection \<open>Statements\<close>

text \<open>One statement: it may be answered with an error, and it counts either way.\<close>

definition stmt :: "platform \<Rightarrow> (nat \<Rightarrow> db \<Rightarrow> 'a result \<times> db) \<Rightarrow> db \<Rightarrow> 'a result \<times> db" where
  "stmt pf body db =
     (let k = db_clock db; db' = db\<lparr>db_clock := Suc k\<rparr> in
      case pf_fault pf k of
        Some e \<Rightarrow> (Inl (ErrDriver e), db')
      | None \<Rightarrow> body k db')"

definition query :: "platform \<Rightarrow> (nat \<Rightarrow> db \<Rightarrow> 'a result) \<Rightarrow> db \<Rightarrow> 'a result \<times> db" where
  "query pf f db = stmt pf (\<lambda>k d. (f k d, d)) db"

text \<open>Scanning into a struct: \<^verbatim>\<open>sql.ErrNoRows\<close> when there is no row.\<close>

fun first_row :: "'r list \<Rightarrow> 'r result" where
  "first_row [] = Inl ErrNoRows"
| "first_row (r # rs) = Inr r"

text \<open>
  Inserting a row whose identifier is zero takes the next value of the sequence. A taken
  identifier or another violated constraint (\<open>ok\<close>) is an error; the value of the sequence is
  used up all the same. An explicit identifier moves the sequence on SQLite only.
\<close>

definition insert_row ::
  "dialect \<Rightarrow> ('r \<Rightarrow> int) \<Rightarrow> (int \<Rightarrow> 'r \<Rightarrow> 'r) \<Rightarrow> ('r \<Rightarrow> bool) \<Rightarrow> 'r \<Rightarrow> 'r table \<Rightarrow> 'r option \<times> 'r table" where
  "insert_row dia key set_key ok r t =
     (let auto = key r = 0;
          r' = (if auto then set_key (seq t + 1) r else r);
          seq' = (if auto then seq t + 1
                  else if dia = SQLite then max (seq t) (key r) else seq t)
      in if auto \<and> seq t \<ge> max_int64 then (None, t)
         else if key r' \<in> key ` set (rows t) \<or> \<not> ok r' then (None, t\<lparr>seq := (if auto then seq' else seq t)\<rparr>)
         else (Some r', \<lparr>rows = rows t @ [r'], seq = seq'\<rparr>))"

definition insert_user :: "platform \<Rightarrow> user \<Rightarrow> nat \<Rightarrow> db \<Rightarrow> user result \<times> db" where
  "insert_user pf u k db =
     (case insert_row (pf_dialect pf) user_id (\<lambda>i u. u\<lparr>user_id := i\<rparr>)
          (\<lambda>u. user_username u \<notin> user_username ` set (rows (db_users db)) \<and>
               user_token u \<notin> user_token ` set (rows (db_users db)))
          (u\<lparr>user_password := []\<rparr>) (db_users db) of
        (None, t) \<Rightarrow> (Inl (ErrConstraint ''users''), db\<lparr>db_users := t\<rparr>)
      | (Some u', t) \<Rightarrow> (Inr (u'\<lparr>user_password := user_password u\<rparr>), db\<lparr>db_users := t\<rparr>))"

definition insert_rating :: "platform \<Rightarrow> rating \<Rightarrow> nat \<Rightarrow> db \<Rightarrow> rating result \<times> db" where
  "insert_rating pf r k db =
     (case insert_row (pf_dialect pf) rating_id (\<lambda>i r. r\<lparr>rating_id := i\<rparr>)
          (\<lambda>r. pf_foreign_keys pf \<longrightarrow> rating_user_id r \<in> user_ids db \<and> rating_pizza_id r \<in> pizza_ids db)
          r (db_ratings db) of
        (None, t) \<Rightarrow> (Inl (ErrConstraint ''ratings''), db\<lparr>db_ratings := t\<rparr>)
      | (Some r', t) \<Rightarrow> (Inr r', db\<lparr>db_ratings := t\<rparr>))"

text \<open>\<^verbatim>\<open>created_at\<close> defaults to the database's clock when it is zero.\<close>

definition pizza_to_row :: "platform \<Rightarrow> nat \<Rightarrow> pizza \<Rightarrow> pizza_row" where
  "pizza_to_row pf k p =
     \<lparr>pr_id = pizza_id p,
      pr_created_at = (if pizza_created_at p = 0 then pf_now pf k else pizza_created_at p),
      pr_name = pizza_name p, pr_dough_id = pizza_dough_id p, pr_tool = pizza_tool p\<rparr>"

definition insert_pizza :: "platform \<Rightarrow> pizza \<Rightarrow> nat \<Rightarrow> db \<Rightarrow> pizza result \<times> db" where
  "insert_pizza pf p k db =
     (case insert_row (pf_dialect pf) pr_id (\<lambda>i r. r\<lparr>pr_id := i\<rparr>)
          (\<lambda>r. pf_foreign_keys pf \<longrightarrow>
                 pr_dough_id r \<in> dough_id ` set (db_doughs db) \<and> pr_tool r \<in> set (db_tools db))
          (pizza_to_row pf k p) (db_pizzas db) of
        (None, t) \<Rightarrow> (Inl (ErrConstraint ''pizzas''), db\<lparr>db_pizzas := t\<rparr>)
      | (Some r, t) \<Rightarrow>
          (Inr (p\<lparr>pizza_id := pr_id r, pizza_created_at := pr_created_at r\<rparr>), db\<lparr>db_pizzas := t\<rparr>))"

definition insert_pizza_to_ingredient ::
  "platform \<Rightarrow> go_int \<Rightarrow> go_int \<Rightarrow> nat \<Rightarrow> db \<Rightarrow> unit result \<times> db" where
  "insert_pizza_to_ingredient pf pid iid k db =
     (if (pid, iid) \<in> set (db_pizza_to_ingredients db) \<or>
         (pf_foreign_keys pf \<and> \<not> (pid \<in> pizza_ids db \<and> iid \<in> ingredient_ids db))
      then (Inl (ErrConstraint ''pizza_to_ingredients''), db)
      else (Inr (), db\<lparr>db_pizza_to_ingredients := db_pizza_to_ingredients db @ [(pid, iid)]\<rparr>))"

definition delete_ratings :: "(rating \<Rightarrow> bool) \<Rightarrow> db \<Rightarrow> db" where
  "delete_ratings P db =
     db\<lparr>db_ratings := (db_ratings db)\<lparr>rows := filter (\<lambda>r. \<not> P r) (rows (db_ratings db))\<rparr>\<rparr>"

definition delete_users :: "platform \<Rightarrow> (user \<Rightarrow> bool) \<Rightarrow> db \<Rightarrow> db" where
  "delete_users pf P db =
     (let gone = user_id ` set (filter P (rows (db_users db)));
          db' = (if pf_foreign_keys pf then delete_ratings (\<lambda>r. rating_user_id r \<in> gone) db else db)
      in db'\<lparr>db_users := (db_users db')\<lparr>rows := filter (\<lambda>u. \<not> P u) (rows (db_users db'))\<rparr>\<rparr>)"

definition delete_pizzas :: "platform \<Rightarrow> (pizza_row \<Rightarrow> bool) \<Rightarrow> db \<Rightarrow> db" where
  "delete_pizzas pf P db =
     (let gone = pr_id ` set (filter P (rows (db_pizzas db)));
          db' = (if pf_foreign_keys pf
                 then (delete_ratings (\<lambda>r. rating_pizza_id r \<in> gone) db)
                        \<lparr>db_pizza_to_ingredients :=
                           filter (\<lambda>(p, _). p \<notin> gone) (db_pizza_to_ingredients db)\<rparr>
                 else db)
      in db'\<lparr>db_pizzas := (db_pizzas db')\<lparr>rows := filter (\<lambda>p. \<not> P p) (rows (db_pizzas db'))\<rparr>\<rparr>)"

subsection \<open>Transactions\<close>

text \<open>
  A rollback restores the tables; the statements already counted, the draws and, on Postgres,
  the values taken from the sequences are not given back.
\<close>

definition rollback :: "platform \<Rightarrow> db \<Rightarrow> db \<Rightarrow> db" where
  "rollback pf before after =
     (let d = before\<lparr>proc_rng := proc_rng after, proc_slept := proc_slept after,
                     proc_pizzas := proc_pizzas after, db_clock := db_clock after\<rparr>
      in if pf_dialect pf = Postgres
         then d\<lparr>db_users := (db_users d)\<lparr>seq := seq (db_users after)\<rparr>,
                db_pizzas := (db_pizzas d)\<lparr>seq := seq (db_pizzas after)\<rparr>,
                db_ratings := (db_ratings d)\<lparr>seq := seq (db_ratings after)\<rparr>\<rparr>
         else d)"

text \<open>\<^verbatim>\<open>RunInTx\<close>: begin, the body, then commit, or rollback if the body returned an error.\<close>

definition run_in_tx :: "platform \<Rightarrow> (db \<Rightarrow> 'a result \<times> db) \<Rightarrow> db \<Rightarrow> 'a result \<times> db" where
  "run_in_tx pf body db =
     (case stmt pf (\<lambda>_ d. (Inr (), d)) db of
        (Inl e, d0) \<Rightarrow> (Inl e, d0)
      | (Inr _, d0) \<Rightarrow>
          (case body d0 of
             (Inl e, d1) \<Rightarrow> (Inl e, rollback pf d0 d1)
           | (Inr x, d1) \<Rightarrow>
               (case stmt pf (\<lambda>_ d. (Inr (), d)) d1 of
                  (Inl e, d2) \<Rightarrow> (Inl e, rollback pf d0 d2)
                | (Inr _, d2) \<Rightarrow> (Inr x, d2))))"

end
