(* ===== verification/DatabaseInv.thy ===== *)
theory DatabaseInv
  imports Database
begin

section \<open>The integrity of the catalog database\<close>

text \<open>
  The interface of a table with a key, with the lemmas on inserting and on keeping the newest
  rows proved once and interpreted for users, pizzas and ratings; the invariant that the
  constraints of the schema maintain; and the proof that every statement and every
  transaction keeps it.
\<close>

subsection \<open>Tables with a key\<close>

locale keyed_rows =
  fixes key :: "'r \<Rightarrow> int" and set_key :: "int \<Rightarrow> 'r \<Rightarrow> 'r"
  assumes key_set_key [simp]: "key (set_key i r) = i"
begin

lemma insert_row_None:
  "insert_row dia key set_key ok r t = (None, t') \<Longrightarrow> rows t' = rows t \<and> seq t \<le> seq t'"
  by (auto simp: insert_row_def Let_def split: if_splits)

lemma insert_row_Some:
  "insert_row dia key set_key ok r t = (Some r', t') \<Longrightarrow>
     rows t' = rows t @ [r'] \<and> key r' \<notin> key ` set (rows t) \<and> ok r' \<and>
     r' = (if key r = 0 then set_key (seq t + 1) r else r) \<and>
     seq t \<le> seq t' \<and> (dia = SQLite \<or> key r = 0 \<longrightarrow> key r' \<le> seq t')"
  by (auto simp: insert_row_def Let_def split: if_splits)

lemma insert_row_distinct:
  "insert_row dia key set_key ok r t = (o', t') \<Longrightarrow> distinct (map key (rows t)) \<Longrightarrow>
   distinct (map key (rows t'))"
  by (cases o') (auto dest!: insert_row_None insert_row_Some)

lemma insert_row_seq:
  "insert_row dia key set_key ok r t = (o', t') \<Longrightarrow> \<forall>x \<in> set (rows t). key x \<le> seq t \<Longrightarrow>
   dia = SQLite \<or> key r = 0 \<Longrightarrow> \<forall>x \<in> set (rows t'). key x \<le> seq t'"
  by (cases o') (force dest!: insert_row_None insert_row_Some)+

text \<open>With the sequence at or above every key, an automatic key is a new one.\<close>

lemma insert_row_auto:
  assumes "key r = 0" "\<forall>x \<in> set (rows t). key x \<le> seq t" "seq t < max_int64"
    "ok (set_key (seq t + 1) r)"
  shows "insert_row dia key set_key ok r t =
    (Some (set_key (seq t + 1) r), \<lparr>rows = rows t @ [set_key (seq t + 1) r], seq = seq t + 1\<rparr>)"
  using assms by (force simp: insert_row_def Let_def)

text \<open>
  Keeping the \<open>n\<close> newest rows and those up to a fixed key. The newest rows are those with
  fewer than \<open>n\<close> newer ones.
\<close>

lemma newest_iff:
  assumes "distinct (map key rs)" "r \<in> set rs"
  shows "key r \<in> set (newest n (map key rs)) \<longleftrightarrow> length (filter (\<lambda>s. key r < key s) rs) < n"
proof -
  have "card {y \<in> set (map key rs). key r < y} = card (set (filter (\<lambda>y. key r < y) (map key rs)))"
    by simp
  also have "\<dots> = length (filter (\<lambda>y. key r < y) (map key rs))"
    using assms(1) by (intro distinct_card) simp
  also have "\<dots> = length (filter (\<lambda>s. key r < key s) rs)"
    by (simp add: filter_map comp_def)
  finally have "card {y \<in> set (map key rs). key r < y} = length (filter (\<lambda>s. key r < key s) rs)" .
  moreover have "key r \<in> set (map key rs)" using assms(2) by simp
  ultimately show ?thesis using set_newest [OF assms(1), of "key r" n] by simp
qed

lemma kept_length:
  assumes "distinct (map key rs)"
  shows "length (filter (\<lambda>r. key r \<in> set (newest n (map key rs)) \<or> \<not> fixed < key r) rs)
    \<le> n + length (filter (\<lambda>r. key r \<le> fixed) rs)"
proof -
  let ?N = "set (newest n (map key rs))"
  have "length (filter (\<lambda>r. key r \<in> ?N \<or> \<not> fixed < key r) rs)
      \<le> length (filter (\<lambda>r. key r \<in> ?N) rs) + length (filter (\<lambda>r. key r \<le> fixed) rs)"
    using length_filter_disj [of "\<lambda>r. key r \<in> ?N" "\<lambda>r. key r \<le> fixed" rs] by (simp add: not_less)
  also have "length (filter (\<lambda>r. key r \<in> ?N) rs) = card (set (map key (filter (\<lambda>r. key r \<in> ?N) rs)))"
    using assms by (subst distinct_card) auto
  also have "\<dots> \<le> card ?N"
    by (intro card_mono) auto
  also have "card ?N \<le> n"
    using card_length [of "newest n (map key rs)"] length_newest [of n "map key rs"] by simp
  finally show ?thesis by simp
qed

lemma newest_survives:
  "distinct (map key rs) \<Longrightarrow> r \<in> set rs \<Longrightarrow> (\<And>s. s \<in> set rs \<Longrightarrow> key s \<le> key r) \<Longrightarrow> 0 < n \<Longrightarrow>
   key r \<in> set (newest n (map key rs))"
  by (intro newest_greatest) auto

lemma fixed_rows_bound:
  assumes "distinct (map key rs)" "\<forall>r \<in> set rs. 0 < key r"
  shows "length (filter (\<lambda>r. key r \<le> fixed) rs) \<le> nat fixed"
proof -
  have "length (filter (\<lambda>r. key r \<le> fixed) rs) = card (set (map key (filter (\<lambda>r. key r \<le> fixed) rs)))"
    using assms(1) by (subst distinct_card) auto
  also have "\<dots> \<le> card {1 .. fixed}"
    using assms(2) by (intro card_mono) force+
  finally show ?thesis by simp
qed

end

interpretation users: keyed_rows user_id "\<lambda>i u. u\<lparr>user_id := i\<rparr>"
  by unfold_locales simp

interpretation pizzas: keyed_rows pr_id "\<lambda>i r. r\<lparr>pr_id := i\<rparr>"
  by unfold_locales simp

interpretation ratings: keyed_rows rating_id "\<lambda>i r. r\<lparr>rating_id := i\<rparr>"
  by unfold_locales simp

subsection \<open>The invariant\<close>

text \<open>Primary keys and unique columns.\<close>

definition keys_ok :: "db \<Rightarrow> bool" where
  "keys_ok db \<longleftrightarrow>
     distinct (map user_id (rows (db_users db))) \<and>
     distinct (map user_username (rows (db_users db))) \<and>
     distinct (map user_token (rows (db_users db))) \<and>
     distinct (map pr_id (rows (db_pizzas db))) \<and>
     distinct (map rating_id (rows (db_ratings db))) \<and>
     distinct (db_pizza_to_ingredients db)"

text \<open>Foreign keys.\<close>

definition refs_ok :: "db \<Rightarrow> bool" where
  "refs_ok db \<longleftrightarrow>
     (\<forall>r \<in> set (rows (db_ratings db)). rating_user_id r \<in> user_ids db \<and> rating_pizza_id r \<in> pizza_ids db) \<and>
     (\<forall>(p, i) \<in> set (db_pizza_to_ingredients db). p \<in> pizza_ids db \<and> i \<in> ingredient_ids db) \<and>
     (\<forall>p \<in> set (rows (db_pizzas db)). pr_dough_id p \<in> dough_id ` set (db_doughs db) \<and>
        pr_tool p \<in> set (db_tools db))"

text \<open>Identifiers the sequences have given out, and no stored password.\<close>

definition seqs_ok :: "db \<Rightarrow> bool" where
  "seqs_ok db \<longleftrightarrow>
     (\<forall>u \<in> set (rows (db_users db)). 0 < user_id u \<and> user_id u \<le> seq (db_users db)) \<and>
     (\<forall>r \<in> set (rows (db_ratings db)). 0 < rating_id r \<and> rating_id r \<le> seq (db_ratings db)) \<and>
     0 \<le> seq (db_users db) \<and> 0 \<le> seq (db_ratings db) \<and>
     (\<forall>u \<in> set (rows (db_users db)). user_password u = [])"

definition db_inv :: "db \<Rightarrow> bool" where
  "db_inv db \<longleftrightarrow> keys_ok db \<and> refs_ok db \<and> seqs_ok db"

lemmas db_inv_defs = db_inv_def keys_ok_def refs_ok_def seqs_ok_def

text \<open>What the invariant is about: the tables and their sequences.\<close>

definition tables :: "db \<Rightarrow> _" where
  "tables db = (db_ingredients db, db_doughs db, db_tools db, rows (db_users db), rows (db_pizzas db),
     db_pizza_to_ingredients db, rows (db_ratings db))"

lemma tables_eqD:
  "tables db = tables db' \<Longrightarrow>
     db_ingredients db = db_ingredients db' \<and> db_doughs db = db_doughs db' \<and>
     db_tools db = db_tools db' \<and> rows (db_users db) = rows (db_users db') \<and>
     rows (db_pizzas db) = rows (db_pizzas db') \<and>
     db_pizza_to_ingredients db = db_pizza_to_ingredients db' \<and>
     rows (db_ratings db) = rows (db_ratings db')"
  by (simp add: tables_def)

lemma db_inv_same_tables:
  assumes "db_inv db" "tables db' = tables db"
    "seq (db_users db) \<le> seq (db_users db')" "seq (db_ratings db) \<le> seq (db_ratings db')"
  shows "db_inv db'"
proof -
  note eq = tables_eqD [OF assms(2)]
  have "keys_ok db'" "refs_ok db'"
    using assms(1) eq by (simp_all add: db_inv_def keys_ok_def refs_ok_def)
  moreover have "seqs_ok db'"
    using assms(1,3,4) eq by (force simp: db_inv_def seqs_ok_def)
  ultimately show ?thesis by (simp add: db_inv_def)
qed

subsection \<open>Statements keep it\<close>

lemma stmt_cases:
  obtains e where "pf_fault pf (db_clock db) = Some e"
      "stmt pf body db = (Inl (ErrDriver e), db\<lparr>db_clock := Suc (db_clock db)\<rparr>)"
  | "pf_fault pf (db_clock db) = None"
      "stmt pf body db = body (db_clock db) (db\<lparr>db_clock := Suc (db_clock db)\<rparr>)"
  by (cases "pf_fault pf (db_clock db)") (auto simp: stmt_def Let_def)

lemma stmt_fault_free:
  "fault_free pf \<Longrightarrow> stmt pf body db = body (db_clock db) (db\<lparr>db_clock := Suc (db_clock db)\<rparr>)"
  by (simp add: stmt_def fault_freeD Let_def)

lemma query_fault_free [db_simps]:
  "fault_free pf \<Longrightarrow> query pf f db =
     (f (db_clock db) (db\<lparr>db_clock := Suc (db_clock db)\<rparr>), db\<lparr>db_clock := Suc (db_clock db)\<rparr>)"
  by (simp add: query_def stmt_fault_free)

lemma tables_clock [simp]: "tables (db\<lparr>db_clock := k\<rparr>) = tables db"
  by (simp add: tables_def)

lemma db_inv_clock [simp]: "db_inv (db\<lparr>db_clock := k\<rparr>) = db_inv db"
  by (simp add: db_inv_defs)

lemma db_inv_proc [simp]:
  "db_inv (db\<lparr>proc_rng := g\<rparr>) = db_inv db" "db_inv (db\<lparr>proc_slept := l\<rparr>) = db_inv db"
  by (simp_all add: db_inv_defs)

lemma stmt_inv:
  "db_inv db \<Longrightarrow> (\<And>k d. db_inv d \<Longrightarrow> db_inv (snd (body k d))) \<Longrightarrow> db_inv (snd (stmt pf body db))"
  by (cases rule: stmt_cases [of pf db body]) simp_all

lemma query_state: "snd (query pf f db) = db\<lparr>db_clock := Suc (db_clock db)\<rparr>"
  by (cases rule: stmt_cases [of pf db "\<lambda>k d. (f k d, d)"]) (simp_all add: query_def)

lemma query_inv: "db_inv db \<Longrightarrow> db_inv (snd (query pf f db))"
  by (simp add: query_state)

lemma tables_query [simp]: "tables (snd (query pf f db)) = tables db"
  by (simp add: query_state)

subsection \<open>One step of the database\<close>

text \<open>
  \<open>evolves db db'\<close>: the invariant is kept, the sequences do not go back, and the tables that
  no code writes and the metrics of the recommendations are as before. Every statement and every operation is such a step.
\<close>

named_theorems evolve_intros \<open>steps of the database\<close>

definition evolves :: "db \<Rightarrow> db \<Rightarrow> bool" where
  "evolves db db' \<longleftrightarrow> (db_inv db \<longrightarrow> db_inv db') \<and>
     seq (db_users db) \<le> seq (db_users db') \<and> seq (db_ratings db) \<le> seq (db_ratings db') \<and>
     db_ingredients db' = db_ingredients db \<and> db_doughs db' = db_doughs db \<and>
     db_tools db' = db_tools db \<and> proc_pizzas db' = proc_pizzas db"

lemma evolves_refl [intro, simp]: "evolves db db"
  by (simp add: evolves_def)

lemma evolves_trans [trans]: "evolves a b \<Longrightarrow> evolves b c \<Longrightarrow> evolves a c"
  by (auto simp: evolves_def)

lemma evolvesD: "evolves db db' \<Longrightarrow> db_inv db \<Longrightarrow> db_inv db'"
  by (simp add: evolves_def)

lemma evolves_clock [simp]:
  "evolves a (b\<lparr>db_clock := k\<rparr>) = evolves a b" "evolves (b\<lparr>db_clock := k\<rparr>) a = evolves b a"
  by (simp_all add: evolves_def)

lemma evolves_proc [simp]:
  "evolves a (b\<lparr>proc_rng := g\<rparr>) = evolves a b" "evolves a (b\<lparr>proc_slept := l\<rparr>) = evolves a b"
  by (simp_all add: evolves_def)

lemma evolves_InjectErrors [evolve_intros]: "evolves db (snd (InjectErrors pf ctx action db))"
  by (simp add: InjectErrors_def inject_delay_def sleep_def draw_def split: option.splits)

lemma evolves_stmt [evolve_intros]:
  "(\<And>k d. evolves d (snd (body k d))) \<Longrightarrow> evolves db (snd (stmt pf body db))"
  by (cases rule: stmt_cases [of pf db body])
    (simp_all, metis evolves_clock(2))

lemma evolves_query [evolve_intros]: "evolves db (snd (query pf f db))"
  by (simp add: query_state)

lemma evolves_insert_user [evolve_intros]:
  assumes "user_id u = 0"
  shows "evolves db (snd (insert_user pf u k db))"
proof -
  let ?ok = "\<lambda>u. user_username u \<notin> user_username ` set (rows (db_users db)) \<and>
      user_token u \<notin> user_token ` set (rows (db_users db))"
  obtain o' t where i: "insert_row (pf_dialect pf) user_id (\<lambda>i u. u\<lparr>user_id := i\<rparr>) ?ok
      (u\<lparr>user_password := []\<rparr>) (db_users db) = (o', t)" by fastforce
  show ?thesis
  proof (cases o')
    case None
    with users.insert_row_None [OF i [unfolded None]] i show ?thesis
      by (force simp: insert_user_def evolves_def db_inv_defs)
  next
    case (Some u')
    from users.insert_row_Some [OF i [unfolded Some]] i Some assms show ?thesis
      by (auto simp: insert_user_def evolves_def db_inv_defs)
  qed
qed

lemma evolves_insert_rating [evolve_intros]:
  assumes "pf_foreign_keys pf" "rating_id r = 0"
  shows "evolves db (snd (insert_rating pf r k db))"
proof -
  let ?ok = "\<lambda>r. pf_foreign_keys pf \<longrightarrow>
      rating_user_id r \<in> user_ids db \<and> rating_pizza_id r \<in> pizza_ids db"
  obtain o' t where i: "insert_row (pf_dialect pf) rating_id (\<lambda>i r. r\<lparr>rating_id := i\<rparr>) ?ok
      r (db_ratings db) = (o', t)" by fastforce
  show ?thesis
  proof (cases o')
    case None
    with ratings.insert_row_None [OF i [unfolded None]] i show ?thesis
      by (force simp: insert_rating_def evolves_def db_inv_defs)
  next
    case (Some r')
    from ratings.insert_row_Some [OF i [unfolded Some]] i Some assms show ?thesis
      by (auto simp: insert_rating_def evolves_def db_inv_defs)
  qed
qed

lemma evolves_insert_pizza [evolve_intros]:
  assumes "pf_foreign_keys pf"
  shows "evolves db (snd (insert_pizza pf p k db))"
proof -
  let ?ok = "\<lambda>r. pf_foreign_keys pf \<longrightarrow>
      pr_dough_id r \<in> dough_id ` set (db_doughs db) \<and> pr_tool r \<in> set (db_tools db)"
  obtain o' t where i: "insert_row (pf_dialect pf) pr_id (\<lambda>i r. r\<lparr>pr_id := i\<rparr>) ?ok
      (pizza_to_row pf k p) (db_pizzas db) = (o', t)" by fastforce
  show ?thesis
  proof (cases o')
    case None
    with pizzas.insert_row_None [OF i [unfolded None]] i show ?thesis
      by (simp add: insert_pizza_def evolves_def db_inv_defs)
  next
    case (Some r)
    from pizzas.insert_row_Some [OF i [unfolded Some]] i Some assms show ?thesis
      by (auto simp: insert_pizza_def evolves_def db_inv_defs)
  qed
qed

lemma evolves_insert_pizza_to_ingredient [evolve_intros]:
  "pf_foreign_keys pf \<Longrightarrow> evolves db (snd (insert_pizza_to_ingredient pf pid iid k db))"
  by (auto simp: insert_pizza_to_ingredient_def evolves_def db_inv_defs)

lemma evolves_delete_ratings [evolve_intros]: "evolves db (delete_ratings P db)"
  by (auto simp: delete_ratings_def evolves_def db_inv_defs)

lemma evolves_delete_users [evolve_intros]:
  "pf_foreign_keys pf \<Longrightarrow> evolves db (delete_users pf P db)"
  by (auto simp: delete_users_def delete_ratings_def Let_def evolves_def db_inv_defs
      intro: image_kept)

lemma evolves_delete_pizzas [evolve_intros]:
  "pf_foreign_keys pf \<Longrightarrow> evolves db (delete_pizzas pf P db)"
  by (auto simp: delete_pizzas_def delete_ratings_def Let_def evolves_def db_inv_defs
      intro: image_kept)

subsection \<open>Transactions\<close>

lemma tables_rollback [simp]: "tables (rollback pf before after) = tables before"
  by (simp add: rollback_def tables_def Let_def)

lemma evolves_rollback: "evolves before after \<Longrightarrow> evolves before (rollback pf before after)"
  by (auto simp: evolves_def rollback_def Let_def elim!: db_inv_same_tables)
    (auto simp: tables_def)

lemma evolves_run_in_tx [evolve_intros]:
  assumes "\<And>d. evolves d (snd (body d))"
  shows "evolves db (snd (run_in_tx pf body db))"
proof -
  obtain o0 d0 where b: "stmt pf (\<lambda>_ d. (Inr (), d)) db = (o0, d0)" by fastforce
  obtain o1 d1 where x: "body d0 = (o1, d1)" by fastforce
  obtain o2 d2 where c: "stmt pf (\<lambda>_ d. (Inr (), d)) d1 = (o2, d2)" by fastforce
  have e0: "evolves db d0" using evolves_stmt [of "\<lambda>_ d. (Inr (), d)" db pf] b by simp
  have e1: "evolves d0 d1" using assms [of d0] x by simp
  have "evolves d1 d2" using evolves_stmt [of "\<lambda>_ d. (Inr (), d)" d1 pf] c by simp
  with e1 have e2: "evolves d0 d2" by (rule evolves_trans)
  show ?thesis
    using b x c e0 e1 e2
    by (auto simp: run_in_tx_def intro: evolves_trans [OF e0] evolves_rollback split: sum.splits)
qed

text \<open>A transaction that returns an error leaves every table as it was.\<close>

lemma run_in_tx_atomic:
  "run_in_tx pf body db = (Inl e, db') \<Longrightarrow> tables db' = tables db"
  by (auto simp: run_in_tx_def stmt_def Let_def split: prod.splits sum.splits option.splits)

lemma run_in_tx_fault_free:
  "fault_free pf \<Longrightarrow>
   run_in_tx pf body db =
     (case body (db\<lparr>db_clock := Suc (db_clock db)\<rparr>) of
        (Inl e, d) \<Rightarrow> (Inl e, rollback pf (db\<lparr>db_clock := Suc (db_clock db)\<rparr>) d)
      | (Inr x, d) \<Rightarrow> (Inr x, d\<lparr>db_clock := Suc (db_clock d)\<rparr>))"
  by (simp add: run_in_tx_def stmt_fault_free split: prod.splits sum.splits)

text \<open>What holds of the state after a transaction that returned no error.\<close>

lemma run_in_tx_Inr:
  assumes "run_in_tx pf body db = (Inr x, db')"
  obtains d where "body (db\<lparr>db_clock := Suc (db_clock db)\<rparr>) = (Inr x, d)"
    "db' = d\<lparr>db_clock := Suc (db_clock d)\<rparr>"
  using assms by (auto simp: run_in_tx_def stmt_def Let_def split: prod.splits sum.splits option.splits)

end
