(* ===== verification/Catalog.thy ===== *)
theory Catalog
  imports DatabaseInv Util
begin

section \<open>The catalog (\<^verbatim>\<open>pkg/database/catalog.go\<close>)\<close>

text \<open>
  The operations of \<open>Catalog\<close>, each the sequence of statements the method sends, with every
  early return. An operation takes the platform and the state of the database and returns
  its result (the error or the value) and the new state; a pointer that may be nil is an
  \<open>option\<close>.
\<close>

subsection \<open>Configuration\<close>

record config =
  fixedPizzas :: go_int
  fixedUsers :: go_int
  fixedRatings :: go_int
  maxPizzas :: go_int
  maxUsers :: go_int
  maxRatings :: go_int

definition catalog_envInt :: "environ \<Rightarrow> string \<Rightarrow> go_int \<Rightarrow> go_int" where
  "catalog_envInt env name defaultVal =
     (case env name of
        None \<Rightarrow> defaultVal
      | Some v \<Rightarrow> (case Atoi v of (_, Some _) \<Rightarrow> defaultVal | (b, None) \<Rightarrow> b))"

text \<open>The parameters \<open>NewCatalog\<close> reads once its migrations have run.\<close>

definition catalog_config :: "environ \<Rightarrow> config" where
  "catalog_config env =
     \<lparr>fixedPizzas = catalog_envInt env ''QUICKPIZZA_DB_FIXED_PIZZAS'' 100,
      fixedUsers = catalog_envInt env ''QUICKPIZZA_DB_FIXED_USERS'' 10,
      fixedRatings = catalog_envInt env ''QUICKPIZZA_DB_FIXED_RATINGS'' 10,
      maxPizzas = catalog_envInt env ''QUICKPIZZA_DB_MAX_PIZZAS'' 5000,
      maxUsers = catalog_envInt env ''QUICKPIZZA_DB_MAX_USERS'' 5000,
      maxRatings = catalog_envInt env ''QUICKPIZZA_DB_MAX_RATINGS'' 10000\<rparr>"

definition getRatingsMax :: nat where
  "getRatingsMax = 50"

subsection \<open>Limits on the size of a table\<close>

datatype model_table = RatingTable | UserTable | PizzaTable

text \<open>\<^verbatim>\<open>id NOT IN (SELECT id ... ORDER BY id DESC LIMIT maximum) AND id > fixed\<close>\<close>

definition evicted :: "int list \<Rightarrow> go_int \<Rightarrow> go_int \<Rightarrow> int \<Rightarrow> bool" where
  "evicted ids fixed maximum i \<longleftrightarrow> i \<notin> set (newest (nat maximum) ids) \<and> i > fixed"

definition enforceTableSizeLimits ::
  "platform \<Rightarrow> model_table \<Rightarrow> go_int \<Rightarrow> go_int \<Rightarrow> db \<Rightarrow> unit result \<times> db" where
  "enforceTableSizeLimits pf model fixed maximum db =
     (if maximum \<le> 0 then (Inr (), db)
      else stmt pf (\<lambda>k d. (Inr (),
        case model of
          RatingTable \<Rightarrow>
            delete_ratings (\<lambda>r. evicted (map rating_id (rows (db_ratings d))) fixed maximum (rating_id r)) d
        | UserTable \<Rightarrow>
            delete_users pf (\<lambda>u. evicted (map user_id (rows (db_users d))) fixed maximum (user_id u)) d
        | PizzaTable \<Rightarrow>
            delete_pizzas pf (\<lambda>p. evicted (map pr_id (rows (db_pizzas d))) fixed maximum (pr_id p)) d)) db)"

subsection \<open>Ingredients, doughs and tools\<close>

definition GetIngredients :: "platform \<Rightarrow> ctx_values \<Rightarrow> string \<Rightarrow> db \<Rightarrow> ingredient list result \<times> db" where
  "GetIngredients pf ctx t db =
     (case InjectErrors pf ctx ''get-ingredients'' db of
        (Some e, d) \<Rightarrow> (Inl e, d)
      | (None, d) \<Rightarrow>
          query pf (\<lambda>k d. Inr (scan pf k (filter (\<lambda>i. ing_type i = t) (db_ingredients d)))) d)"

definition GetDoughs :: "platform \<Rightarrow> db \<Rightarrow> dough list result \<times> db" where
  "GetDoughs pf db = query pf (\<lambda>k d. Inr (scan pf k (db_doughs d))) db"

definition GetTools :: "platform \<Rightarrow> db \<Rightarrow> string list result \<times> db" where
  "GetTools pf db = query pf (\<lambda>k d. Inr (scan pf k (db_tools d))) db"

subsection \<open>Pizzas\<close>

text \<open>
  A pizza is loaded with its dough, joined in the same statement, and its ingredients, which
  a second statement joins through \<^verbatim>\<open>pizza_to_ingredients\<close>.
\<close>

definition joined_dough :: "db \<Rightarrow> go_int \<Rightarrow> dough" where
  "joined_dough db i =
     (case filter (\<lambda>d. dough_id d = i) (db_doughs db) of [] \<Rightarrow> zero_dough | d # _ \<Rightarrow> d)"

definition m2m_rows :: "go_int list \<Rightarrow> db \<Rightarrow> (go_int \<times> ingredient) list" where
  "m2m_rows pids db =
     [(p, ing). (p, i) \<leftarrow> db_pizza_to_ingredients db, p \<in> set pids,
                ing \<leftarrow> db_ingredients db, ing_id ing = i]"

definition load_pizza :: "db \<Rightarrow> (go_int \<times> ingredient) list \<Rightarrow> pizza_row \<Rightarrow> pizza" where
  "load_pizza db m r =
     \<lparr>pizza_id = pr_id r, pizza_created_at = pr_created_at r, pizza_name = pr_name r,
      pizza_dough_id = pr_dough_id r, pizza_dough = joined_dough db (pr_dough_id r),
      pizza_ingredients = map snd (filter (\<lambda>(p, _). p = pr_id r) m), pizza_tool = pr_tool r\<rparr>"

definition GetHistory :: "platform \<Rightarrow> nat \<Rightarrow> db \<Rightarrow> pizza list result \<times> db" where
  "GetHistory pf limit db =
     (case query pf (\<lambda>k d. Inr (take limit
          (sort_key (\<lambda>r. - pr_created_at r) (scan pf k (rows (db_pizzas d)))))) db of
        (Inl e, d) \<Rightarrow> (Inl e, d)
      | (Inr [], d) \<Rightarrow> (Inr [], d)
      | (Inr rs, d) \<Rightarrow>
          (case query pf (\<lambda>k d. Inr (scan pf k (m2m_rows (map pr_id rs) d))) d of
             (Inl e, d') \<Rightarrow> (Inl e, d')
           | (Inr m, d') \<Rightarrow> (Inr (map (load_pizza d' m) rs), d')))"

definition GetRecommendation :: "platform \<Rightarrow> go_int \<Rightarrow> db \<Rightarrow> pizza option result \<times> db" where
  "GetRecommendation pf i db =
     (case query pf (\<lambda>k d. first_row (scan pf k (filter (\<lambda>r. pr_id r = i) (rows (db_pizzas d))))) db of
        (Inl e, d) \<Rightarrow> (if e = ErrNoRows then (Inr None, d) else (Inl e, d))
      | (Inr r, d) \<Rightarrow>
          (case query pf (\<lambda>k d. Inr (scan pf k (m2m_rows [pr_id r] d))) d of
             (Inl e, d') \<Rightarrow> (Inl e, d')
           | (Inr m, d') \<Rightarrow> (Inr (Some (load_pizza d' m r)), d')))"

fun insert_ingredients :: "platform \<Rightarrow> go_int \<Rightarrow> ingredient list \<Rightarrow> db \<Rightarrow> unit result \<times> db" where
  "insert_ingredients pf pid [] db = (Inr (), db)"
| "insert_ingredients pf pid (i # is) db =
     (case stmt pf (insert_pizza_to_ingredient pf pid (ing_id i)) db of
        (Inl e, d) \<Rightarrow> (Inl e, d)
      | (Inr _, d) \<Rightarrow> insert_ingredients pf pid is d)"

definition record_pizza_tx :: "platform \<Rightarrow> config \<Rightarrow> pizza \<Rightarrow> db \<Rightarrow> pizza result \<times> db" where
  "record_pizza_tx pf cfg pizza db =
     (case stmt pf (insert_pizza pf pizza) db of
        (Inl e, d) \<Rightarrow> (Inl e, d)
      | (Inr pizza', d) \<Rightarrow>
          (case insert_ingredients pf (pizza_id pizza') (pizza_ingredients pizza') d of
             (Inl e, d') \<Rightarrow> (Inl e, d')
           | (Inr _, d') \<Rightarrow>
               (case enforceTableSizeLimits pf PizzaTable (fixedPizzas cfg) (maxPizzas cfg) d' of
                  (Inl e, d'') \<Rightarrow> (Inl e, d'')
                | (Inr _, d'') \<Rightarrow> (Inr pizza', d''))))"

definition RecordRecommendation ::
  "platform \<Rightarrow> config \<Rightarrow> ctx_values \<Rightarrow> pizza \<Rightarrow> db \<Rightarrow> pizza result \<times> db" where
  "RecordRecommendation pf cfg ctx pizza db =
     (case InjectErrors pf ctx ''record-recommendation'' db of
        (Some e, d) \<Rightarrow> (Inl e, d)
      | (None, d) \<Rightarrow>
          run_in_tx pf (record_pizza_tx pf cfg
            (pizza\<lparr>pizza_dough_id := dough_id (pizza_dough pizza)\<rparr>)) d)"

subsection \<open>Ratings\<close>

definition GetRatings :: "platform \<Rightarrow> user \<Rightarrow> db \<Rightarrow> rating list result \<times> db" where
  "GetRatings pf user db =
     query pf (\<lambda>k d. Inr (take getRatingsMax (scan pf k
       (filter (\<lambda>r. rating_user_id r = user_id user) (rows (db_ratings d)))))) db"

definition GetRating :: "platform \<Rightarrow> user \<Rightarrow> go_int \<Rightarrow> db \<Rightarrow> rating option result \<times> db" where
  "GetRating pf user ratingID db =
     (case query pf (\<lambda>k d. first_row (scan pf k
         (filter (\<lambda>r. rating_id r = ratingID \<and> rating_user_id r = user_id user) (rows (db_ratings d))))) db of
        (Inl e, d) \<Rightarrow> (if e = ErrNoRows then (Inr None, d) else (Inl e, d))
      | (Inr r, d) \<Rightarrow> (Inr (Some r), d))"

definition DeleteRatings :: "platform \<Rightarrow> user \<Rightarrow> db \<Rightarrow> unit result \<times> db" where
  "DeleteRatings pf user db =
     (if IsGlobal user then (Inl ErrGlobalOperationNotPermitted, db)
      else stmt pf (\<lambda>k d. (Inr (), delete_ratings (\<lambda>r. rating_user_id r = user_id user) d)) db)"

definition DeleteRating :: "platform \<Rightarrow> user \<Rightarrow> go_int \<Rightarrow> db \<Rightarrow> unit result \<times> db" where
  "DeleteRating pf user ratingID db =
     (if user_username user = GlobalUsername then (Inl ErrGlobalOperationNotPermitted, db)
      else case GetRating pf user ratingID db of
        (Inl e, d) \<Rightarrow> (Inl e, d)
      | (Inr None, d) \<Rightarrow> (Inl (ErrRatingNotFound ratingID), d)
      | (Inr (Some rating), d) \<Rightarrow>
          stmt pf (\<lambda>k d. (Inr (), delete_ratings (\<lambda>r. rating_id r = rating_id rating) d)) d)"

definition update_stars :: "go_int \<Rightarrow> go_int \<Rightarrow> db \<Rightarrow> db" where
  "update_stars i stars db =
     db\<lparr>db_ratings := (db_ratings db)\<lparr>rows :=
       map (\<lambda>r. if rating_id r = i then r\<lparr>rating_stars := stars\<rparr> else r) (rows (db_ratings db))\<rparr>\<rparr>"

definition UpdateRating :: "platform \<Rightarrow> user \<Rightarrow> rating \<Rightarrow> db \<Rightarrow> rating result \<times> db" where
  "UpdateRating pf user rating db =
     (if IsGlobal user then (Inl ErrGlobalOperationNotPermitted, db)
      else case GetRating pf user (rating_id rating) db of
        (Inl e, d) \<Rightarrow> (Inl e, d)
      | (Inr None, d) \<Rightarrow> (Inl (ErrRatingNotFound (rating_id rating)), d)
      | (Inr (Some existing), d) \<Rightarrow>
          if rating_user_id existing \<noteq> user_id user
          then (Inl (ErrRatingNotFound (rating_id rating)), d)
          else
            let existing' = existing\<lparr>rating_stars := rating_stars rating\<rparr> in
            run_in_tx pf (stmt pf (\<lambda>k d. (Inr existing',
              update_stars (rating_id existing') (rating_stars existing') d))) d)"

definition record_rating_tx :: "platform \<Rightarrow> config \<Rightarrow> rating \<Rightarrow> db \<Rightarrow> rating result \<times> db" where
  "record_rating_tx pf cfg rating db =
     (case stmt pf (insert_rating pf rating) db of
        (Inl e, d) \<Rightarrow> (Inl e, d)
      | (Inr rating', d) \<Rightarrow>
          (case enforceTableSizeLimits pf RatingTable (fixedRatings cfg) (maxRatings cfg) d of
             (Inl e, d') \<Rightarrow> (Inl e, d')
           | (Inr _, d') \<Rightarrow> (Inr rating', d')))"

definition RecordRating :: "platform \<Rightarrow> config \<Rightarrow> rating \<Rightarrow> db \<Rightarrow> rating result \<times> db" where
  "RecordRating pf cfg rating db =
     (case GetRecommendation pf (rating_pizza_id rating) db of
        (Inl e, d) \<Rightarrow> (Inl e, d)
      | (Inr None, d) \<Rightarrow> (Inl (ErrPizzaNotFound (rating_pizza_id rating)), d)
      | (Inr (Some _), d) \<Rightarrow> run_in_tx pf (record_rating_tx pf cfg (rating\<lparr>rating_id := 0\<rparr>)) d)"

subsection \<open>Users\<close>

definition record_user_tx :: "platform \<Rightarrow> config \<Rightarrow> user \<Rightarrow> db \<Rightarrow> user result \<times> db" where
  "record_user_tx pf cfg user db =
     (case stmt pf (insert_user pf user) db of
        (Inl e, d) \<Rightarrow> (Inl e, d)
      | (Inr user', d) \<Rightarrow>
          (case enforceTableSizeLimits pf UserTable (fixedUsers cfg) (maxUsers cfg) d of
             (Inl e, d') \<Rightarrow> (Inl e, d')
           | (Inr _, d') \<Rightarrow> (Inr user', d')))"

text \<open>The user as \<open>RecordUser\<close> fills it in before it looks the name up.\<close>

definition prepare_user :: "string \<Rightarrow> user \<Rightarrow> db \<Rightarrow> user \<times> db" where
  "prepare_user passwordHash user db =
     (let (token, d) = GenerateAlphaNumToken UserTokenLength db in
      (user\<lparr>user_password_hash := passwordHash, user_token := token, user_id := 0\<rparr>, d))"

definition username_taken :: "platform \<Rightarrow> string \<Rightarrow> db \<Rightarrow> user result \<times> db" where
  "username_taken pf name db =
     query pf (\<lambda>k d. first_row (scan pf k (filter (\<lambda>u. user_username u = name) (rows (db_users d))))) db"

definition RecordUser :: "platform \<Rightarrow> config \<Rightarrow> user \<Rightarrow> db \<Rightarrow> user result \<times> db" where
  "RecordUser pf cfg user db =
     (case HashPassword pf (db_clock db) (user_password user) of
        Inl e \<Rightarrow> (Inl e, db)
      | Inr passwordHash \<Rightarrow>
          (let (user', d) = prepare_user passwordHash user db in
           case username_taken pf (user_username user') d of
             (Inr _, d') \<Rightarrow> (Inl ErrUsernameTaken, d')
           | (Inl e, d') \<Rightarrow>
               (if e = ErrNoRows then run_in_tx pf (record_user_tx pf cfg user') d' else (Inl e, d'))))"

text \<open>
  After \<^verbatim>\<open>sql.ErrNoRows\<close> the method does not look at the error again: on any other one it goes
  on with the zero user.
\<close>

definition LoginUser :: "platform \<Rightarrow> string \<Rightarrow> string \<Rightarrow> db \<Rightarrow> user option result \<times> db" where
  "LoginUser pf username passwordText db =
     (let (r, d) = query pf (\<lambda>k d. first_row (scan pf k
            (filter (\<lambda>u. user_username u = username) (rows (db_users d))))) db in
      if r = Inl ErrNoRows then (Inr None, d)
      else
        let user = (case r of Inl _ \<Rightarrow> zero_user | Inr u \<Rightarrow> u) in
        if user_password_plaintext user \<noteq> []
        then (Inr (if passwordText = user_password_plaintext user then Some user else None), d)
        else if IsGlobal user \<or> CheckPassword pf passwordText (user_password_hash user)
        then (Inr (Some user), d)
        else (Inr None, d))"

definition Authenticate :: "platform \<Rightarrow> string \<Rightarrow> db \<Rightarrow> user result \<times> db" where
  "Authenticate pf token db =
     (case query pf (\<lambda>k d. first_row (scan pf k
         (filter (\<lambda>u. user_token u = token) (rows (db_users d))))) db of
        (Inl e, d) \<Rightarrow>
          (if e = ErrNoRows
           then query pf (\<lambda>k d. first_row (scan pf k
                  (filter (\<lambda>u. user_id u = 1) (rows (db_users d))))) d
           else (Inl e, d))
      | (Inr user, d) \<Rightarrow> (Inr user, d))"

end
