(* ===== verification/CatalogInv.thy ===== *)
theory CatalogInv
  imports Catalog
begin

section \<open>The catalog keeps the integrity of its database\<close>

text \<open>
  Every operation of the catalog is a step of the database in the sense of \<open>evolves\<close>, under
  any fault of the database and in any order; so every run of operations keeps the
  invariant. The run is the client of the interface \<open>invariant_machine\<close>.
\<close>

subsection \<open>Every operation is a step\<close>

lemma evolves_enforce [evolve_intros]:
  "pf_foreign_keys pf \<Longrightarrow> evolves db (snd (enforceTableSizeLimits pf model fixed maximum db))"
  by (auto simp: enforceTableSizeLimits_def intro!: evolve_intros split: model_table.splits)

lemma evolves_case:
  assumes "evolves db (snd x)"
    and "\<And>r d. x = (r, d) \<Longrightarrow> evolves d (snd (f r d))"
  shows "evolves db (snd (case x of (r, d) \<Rightarrow> f r d))"
  using assms by (cases x) (auto intro: evolves_trans)

lemma evolves_GetIngredients [evolve_intros]: "evolves db (snd (GetIngredients pf ctx t db))"
  unfolding GetIngredients_def
  by (rule evolves_case) (auto intro!: evolve_intros split: option.splits)

lemma evolves_GetDoughs [evolve_intros]: "evolves db (snd (GetDoughs pf db))"
  by (simp add: GetDoughs_def evolve_intros)

lemma evolves_GetTools [evolve_intros]: "evolves db (snd (GetTools pf db))"
  by (simp add: GetTools_def evolve_intros)

lemma evolves_GetHistory [evolve_intros]: "evolves db (snd (GetHistory pf limit db))"
  unfolding GetHistory_def
  by (rule evolves_case)
    (auto intro!: evolve_intros evolves_case [of _ "query pf _ _"] split: sum.splits list.splits)

lemma evolves_GetRecommendation [evolve_intros]: "evolves db (snd (GetRecommendation pf i db))"
  unfolding GetRecommendation_def
  by (rule evolves_case)
    (auto intro!: evolve_intros evolves_case [of _ "query pf _ _"] split: sum.splits)

lemma evolves_insert_ingredients [evolve_intros]:
  "pf_foreign_keys pf \<Longrightarrow> evolves db (snd (insert_ingredients pf pid is db))"
proof (induction "is" arbitrary: db)
  case (Cons i "is")
  then show ?case
    by (auto intro!: evolve_intros evolves_case [of _ "stmt pf _ _"] split: sum.splits)
qed simp

lemma evolves_record_pizza_tx [evolve_intros]:
  "pf_foreign_keys pf \<Longrightarrow> evolves db (snd (record_pizza_tx pf cfg pizza db))"
  unfolding record_pizza_tx_def
  by (rule evolves_case)
    (auto intro!: evolve_intros evolves_case [of _ "insert_ingredients _ _ _ _"]
       evolves_case [of _ "enforceTableSizeLimits _ _ _ _ _"] split: sum.splits)

lemma evolves_RecordRecommendation [evolve_intros]:
  "pf_foreign_keys pf \<Longrightarrow> evolves db (snd (RecordRecommendation pf cfg ctx pizza db))"
  unfolding RecordRecommendation_def
  by (rule evolves_case) (auto intro!: evolve_intros split: option.splits)

lemma evolves_GetRatings [evolve_intros]: "evolves db (snd (GetRatings pf user db))"
  by (simp add: GetRatings_def evolve_intros)

lemma evolves_GetRating [evolve_intros]: "evolves db (snd (GetRating pf user i db))"
  unfolding GetRating_def
  by (rule evolves_case) (auto intro!: evolve_intros split: sum.splits)

lemma evolves_DeleteRatings [evolve_intros]: "evolves db (snd (DeleteRatings pf user db))"
  by (auto simp: DeleteRatings_def intro!: evolve_intros)

lemma evolves_DeleteRating [evolve_intros]: "evolves db (snd (DeleteRating pf user i db))"
  by (auto simp: DeleteRating_def intro!: evolve_intros evolves_case split: sum.splits option.splits)

lemma rating_id_update [simp]:
  "rating_id \<circ> (\<lambda>r. if rating_id r = i then r\<lparr>rating_stars := stars\<rparr> else r) = rating_id"
  by (simp add: fun_eq_iff)

lemma evolves_update_stars [evolve_intros]: "evolves db (update_stars i stars db)"
  by (auto simp: update_stars_def evolves_def db_inv_defs)

lemma evolves_UpdateRating [evolve_intros]: "evolves db (snd (UpdateRating pf user rating db))"
  by (auto simp: UpdateRating_def Let_def intro!: evolve_intros evolves_case
      split: sum.splits option.splits)

lemma evolves_record_rating_tx [evolve_intros]:
  "pf_foreign_keys pf \<Longrightarrow> rating_id rating = 0 \<Longrightarrow> evolves db (snd (record_rating_tx pf cfg rating db))"
  unfolding record_rating_tx_def
  by (rule evolves_case)
    (auto intro!: evolve_intros evolves_case [of _ "enforceTableSizeLimits _ _ _ _ _"] split: sum.splits)

lemma evolves_RecordRating [evolve_intros]:
  "pf_foreign_keys pf \<Longrightarrow> evolves db (snd (RecordRating pf cfg rating db))"
  unfolding RecordRating_def
  by (rule evolves_case) (auto intro!: evolve_intros split: sum.splits option.splits)

lemma evolves_record_user_tx [evolve_intros]:
  "pf_foreign_keys pf \<Longrightarrow> user_id user = 0 \<Longrightarrow> evolves db (snd (record_user_tx pf cfg user db))"
  unfolding record_user_tx_def
  by (rule evolves_case)
    (auto intro!: evolve_intros evolves_case [of _ "enforceTableSizeLimits _ _ _ _ _"] split: sum.splits)

lemma prepare_user_spec:
  "prepare_user h user db = (u, d) \<Longrightarrow>
     user_id u = 0 \<and> user_username u = user_username user \<and> user_password u = user_password user \<and>
     user_password_hash u = h \<and> user_password_plaintext u = user_password_plaintext user \<and>
     length (user_token u) = 16 \<and> set (user_token u) \<subseteq> set characters \<and>
     (\<exists>g. d = db\<lparr>proc_rng := g\<rparr>)"
  using GenerateAlphaNumToken_spec [of UserTokenLength db]
  by (auto simp: prepare_user_def GenerateAlphaNumToken_def UserTokenLength_def split: prod.splits)

lemma evolves_RecordUser [evolve_intros]:
  assumes "pf_foreign_keys pf"
  shows "evolves db (snd (RecordUser pf cfg user db))"
proof (cases "HashPassword pf (db_clock db) (user_password user)")
  case (Inr h)
  obtain u d where p: "prepare_user h user db = (u, d)" by fastforce
  obtain r d' where q: "username_taken pf (user_username u) d = (r, d')" by fastforce
  from p have u0: "user_id u = 0" and "evolves db d"
    by (auto dest!: prepare_user_spec)
  moreover have "evolves d d'"
    using q evolves_query [of d pf] by (metis username_taken_def snd_conv)
  ultimately have "evolves db d'" by (metis evolves_trans)
  moreover have "evolves d' (snd (run_in_tx pf (record_user_tx pf cfg u) d'))"
    using assms u0 by (intro evolve_intros)
  ultimately show ?thesis
    using Inr p q by (auto simp: RecordUser_def intro: evolves_trans split: sum.splits)
qed (simp add: RecordUser_def)

lemma evolves_LoginUser [evolve_intros]: "evolves db (snd (LoginUser pf username pw db))"
  by (auto simp: LoginUser_def Let_def case_prod_beta intro!: evolve_intros)

lemma evolves_Authenticate [evolve_intros]: "evolves db (snd (Authenticate pf token db))"
  unfolding Authenticate_def
  by (rule evolves_case) (auto intro!: evolve_intros split: sum.splits)

subsection \<open>Runs of operations\<close>

text \<open>One call of the catalog's API, with its arguments.\<close>

datatype call =
    CallGetIngredients ctx_values string
  | CallGetDoughs
  | CallGetTools
  | CallGetHistory nat
  | CallGetRecommendation go_int
  | CallGetRatings user
  | CallGetRating user go_int
  | CallDeleteRatings user
  | CallDeleteRating user go_int
  | CallUpdateRating user rating
  | CallRecordRating rating
  | CallRecordUser user
  | CallLoginUser string string
  | CallAuthenticate string
  | CallRecordRecommendation ctx_values pizza

fun call_step :: "platform \<Rightarrow> config \<Rightarrow> call \<Rightarrow> db \<Rightarrow> db" where
  "call_step pf cfg (CallGetIngredients ctx t) db = snd (GetIngredients pf ctx t db)"
| "call_step pf cfg CallGetDoughs db = snd (GetDoughs pf db)"
| "call_step pf cfg CallGetTools db = snd (GetTools pf db)"
| "call_step pf cfg (CallGetHistory n) db = snd (GetHistory pf n db)"
| "call_step pf cfg (CallGetRecommendation i) db = snd (GetRecommendation pf i db)"
| "call_step pf cfg (CallGetRatings u) db = snd (GetRatings pf u db)"
| "call_step pf cfg (CallGetRating u i) db = snd (GetRating pf u i db)"
| "call_step pf cfg (CallDeleteRatings u) db = snd (DeleteRatings pf u db)"
| "call_step pf cfg (CallDeleteRating u i) db = snd (DeleteRating pf u i db)"
| "call_step pf cfg (CallUpdateRating u r) db = snd (UpdateRating pf u r db)"
| "call_step pf cfg (CallRecordRating r) db = snd (RecordRating pf cfg r db)"
| "call_step pf cfg (CallRecordUser u) db = snd (RecordUser pf cfg u db)"
| "call_step pf cfg (CallLoginUser n p) db = snd (LoginUser pf n p db)"
| "call_step pf cfg (CallAuthenticate t) db = snd (Authenticate pf t db)"
| "call_step pf cfg (CallRecordRecommendation ctx p) db = snd (RecordRecommendation pf cfg ctx p db)"

fun run_calls :: "platform \<Rightarrow> config \<Rightarrow> call list \<Rightarrow> db \<Rightarrow> db" where
  "run_calls pf cfg [] db = db"
| "run_calls pf cfg (c # cs) db = run_calls pf cfg cs (call_step pf cfg c db)"

lemma evolves_call_step: "pf_foreign_keys pf \<Longrightarrow> evolves db (call_step pf cfg c db)"
  by (cases c) (simp_all add: evolve_intros)

text \<open>A machine whose every step keeps an invariant keeps it over any run.\<close>

locale invariant_machine =
  fixes step :: "'e \<Rightarrow> 's \<Rightarrow> 's"
    and run :: "'e list \<Rightarrow> 's \<Rightarrow> 's"
    and inv :: "'s \<Rightarrow> bool"
  assumes run_Nil: "run [] s = s"
    and run_Cons: "run (e # es) s = run es (step e s)"
    and step_inv: "inv s \<Longrightarrow> inv (step e s)"
begin

lemma run_inv: "inv s \<Longrightarrow> inv (run es s)"
  by (induction es arbitrary: s) (simp_all add: run_Nil run_Cons step_inv)

lemma run_append: "run (es @ es') s = run es' (run es s)"
  by (induction es arbitrary: s) (simp_all add: run_Nil run_Cons)

end

interpretation catalog: invariant_machine "call_step pf cfg" "run_calls pf cfg"
    "\<lambda>db. pf_foreign_keys pf \<and> evolves db0 db"
  for pf cfg db0
  by unfold_locales (auto intro: evolves_trans evolves_call_step)

lemma evolves_run_calls: "pf_foreign_keys pf \<Longrightarrow> evolves db (run_calls pf cfg cs db)"
  using catalog.run_inv [of pf db db cfg cs] by simp

end
