(* ===== verification/Seed.thy ===== *)
theory Seed
  imports DatabaseInv
begin

section \<open>The seeded catalog database\<close>

text \<open>
  The rows that the migration of \<^verbatim>\<open>20230830134500_seed_db.go\<close> loads from \<^verbatim>\<open>testdata.yaml\<close>
  into the tables of \<^verbatim>\<open>20230829142500_initialize_db.go\<close>, with the sequences at the largest
  identifiers. The time of the seeding and the random source are arguments.
\<close>

definition seed_ingredients :: "ingredient list" where
  "seed_ingredients = [
     \<lparr>ing_id = 1, ing_name = ''Extra virgin olive oil'', ing_calories = 50, ing_vegetarian = True, ing_type = ''olive_oil''\<rparr>,
     \<lparr>ing_id = 2, ing_name = ''Olive oil'', ing_calories = 100, ing_vegetarian = True, ing_type = ''olive_oil''\<rparr>,
     \<lparr>ing_id = 3, ing_name = ''San Marzano tomatoes'', ing_calories = 50, ing_vegetarian = True, ing_type = ''tomato''\<rparr>,
     \<lparr>ing_id = 4, ing_name = ''Bianco di Nizza tomatoes'', ing_calories = 50, ing_vegetarian = True, ing_type = ''tomato''\<rparr>,
     \<lparr>ing_id = 5, ing_name = ''Roma tomatoes'', ing_calories = 50, ing_vegetarian = True, ing_type = ''tomato''\<rparr>,
     \<lparr>ing_id = 6, ing_name = ''Mozzarella'', ing_calories = 100, ing_vegetarian = True, ing_type = ''mozzarella''\<rparr>,
     \<lparr>ing_id = 7, ing_name = ''Mozzarella di bufala'', ing_calories = 150, ing_vegetarian = True, ing_type = ''mozzarella''\<rparr>,
     \<lparr>ing_id = 8, ing_name = ''Mozzarella fior di latte'', ing_calories = 150, ing_vegetarian = True, ing_type = ''mozzarella''\<rparr>,
     \<lparr>ing_id = 9, ing_name = ''Pepperoni'', ing_calories = 100, ing_vegetarian = False, ing_type = ''topping''\<rparr>,
     \<lparr>ing_id = 10, ing_name = ''Mushrooms'', ing_calories = 50, ing_vegetarian = True, ing_type = ''topping''\<rparr>,
     \<lparr>ing_id = 11, ing_name = ''Onions'', ing_calories = 50, ing_vegetarian = True, ing_type = ''topping''\<rparr>,
     \<lparr>ing_id = 12, ing_name = ''Sausage'', ing_calories = 200, ing_vegetarian = False, ing_type = ''topping''\<rparr>,
     \<lparr>ing_id = 13, ing_name = ''Bacon'', ing_calories = 250, ing_vegetarian = False, ing_type = ''topping''\<rparr>,
     \<lparr>ing_id = 14, ing_name = ''Extra cheese'', ing_calories = 100, ing_vegetarian = True, ing_type = ''topping''\<rparr>,
     \<lparr>ing_id = 15, ing_name = ''Black olives'', ing_calories = 50, ing_vegetarian = True, ing_type = ''topping''\<rparr>,
     \<lparr>ing_id = 16, ing_name = ''Green peppers'', ing_calories = 50, ing_vegetarian = True, ing_type = ''topping''\<rparr>,
     \<lparr>ing_id = 17, ing_name = ''Pineapple'', ing_calories = 75, ing_vegetarian = True, ing_type = ''topping''\<rparr>,
     \<lparr>ing_id = 18, ing_name = ''Spinach'', ing_calories = 25, ing_vegetarian = True, ing_type = ''topping''\<rparr>,
     \<lparr>ing_id = 19, ing_name = ''Garlic'', ing_calories = 25, ing_vegetarian = True, ing_type = ''topping''\<rparr>,
     \<lparr>ing_id = 20, ing_name = ''Jalapenos'', ing_calories = 50, ing_vegetarian = True, ing_type = ''topping''\<rparr>,
     \<lparr>ing_id = 21, ing_name = ''Roasted red peppers'', ing_calories = 50, ing_vegetarian = True, ing_type = ''topping''\<rparr>,
     \<lparr>ing_id = 22, ing_name = ''Feta cheese'', ing_calories = 100, ing_vegetarian = True, ing_type = ''topping''\<rparr>,
     \<lparr>ing_id = 23, ing_name = ''Prosciutto'', ing_calories = 100, ing_vegetarian = False, ing_type = ''topping''\<rparr>,
     \<lparr>ing_id = 24, ing_name = ''Ricotta cheese'', ing_calories = 100, ing_vegetarian = True, ing_type = ''topping''\<rparr>,
     \<lparr>ing_id = 25, ing_name = ''Salami'', ing_calories = 100, ing_vegetarian = False, ing_type = ''topping''\<rparr>,
     \<lparr>ing_id = 26, ing_name = ''Zucchini'', ing_calories = 50, ing_vegetarian = True, ing_type = ''topping''\<rparr>,
     \<lparr>ing_id = 27, ing_name = ''Buffalo mozzarella'', ing_calories = 150, ing_vegetarian = True, ing_type = ''topping''\<rparr>,
     \<lparr>ing_id = 28, ing_name = ''Eggplant'', ing_calories = 50, ing_vegetarian = True, ing_type = ''topping''\<rparr>,
     \<lparr>ing_id = 29, ing_name = ''Kalamata olives'', ing_calories = 50, ing_vegetarian = True, ing_type = ''topping''\<rparr>,
     \<lparr>ing_id = 30, ing_name = ''Parmesan cheese'', ing_calories = 100, ing_vegetarian = True, ing_type = ''topping''\<rparr>,
     \<lparr>ing_id = 31, ing_name = ''Shrimp'', ing_calories = 100, ing_vegetarian = False, ing_type = ''topping''\<rparr>,
     \<lparr>ing_id = 32, ing_name = ''Chicken'', ing_calories = 100, ing_vegetarian = False, ing_type = ''topping''\<rparr>,
     \<lparr>ing_id = 33, ing_name = ''Beef'', ing_calories = 100, ing_vegetarian = False, ing_type = ''topping''\<rparr>,
     \<lparr>ing_id = 34, ing_name = ''Ham'', ing_calories = 100, ing_vegetarian = False, ing_type = ''topping''\<rparr>,
     \<lparr>ing_id = 35, ing_name = ''Asparagus'', ing_calories = 50, ing_vegetarian = True, ing_type = ''topping''\<rparr>,
     \<lparr>ing_id = 36, ing_name = ''Broccoli'', ing_calories = 50, ing_vegetarian = True, ing_type = ''topping''\<rparr>,
     \<lparr>ing_id = 37, ing_name = ''Caramelized onions'', ing_calories = 50, ing_vegetarian = True, ing_type = ''topping''\<rparr>,
     \<lparr>ing_id = 38, ing_name = ''Cherry tomatoes'', ing_calories = 50, ing_vegetarian = True, ing_type = ''topping''\<rparr>,
     \<lparr>ing_id = 39, ing_name = ''Fresh basil'', ing_calories = 25, ing_vegetarian = True, ing_type = ''topping''\<rparr>,
     \<lparr>ing_id = 40, ing_name = ''Fresh oregano'', ing_calories = 25, ing_vegetarian = True, ing_type = ''topping''\<rparr>]"

definition seed_doughs :: "dough list" where
  "seed_doughs = [
     \<lparr>dough_id = 1, dough_name = ''Thin'', dough_calories = 100\<rparr>,
     \<lparr>dough_id = 2, dough_name = ''Thick'', dough_calories = 200\<rparr>,
     \<lparr>dough_id = 3, dough_name = ''Stuffed'', dough_calories = 300\<rparr>]"

definition seed_tools :: "string list" where
  "seed_tools = [''Knife'', ''Pizza cutter'', ''Scissors'']"

definition seed_users :: "user list" where
  "seed_users = [
     \<lparr>user_id = 1, user_username = ''default'', user_token = ''abcdef0123456789'', user_password = [], user_password_hash = [], user_password_plaintext = []\<rparr>,
     \<lparr>user_id = 2, user_username = ''synthetics_multihttp_example'', user_token = ''woSyhhrE3pQVUxMU'', user_password = [], user_password_hash = [], user_password_plaintext = ''synthetics_multihttp_example''\<rparr>,
     \<lparr>user_id = 3, user_username = ''studio-user'', user_token = ''oBGOPc5tVtk9WAgf'', user_password = [], user_password_hash = [], user_password_plaintext = ''k6studiorocks''\<rparr>]"

definition seed_pizzas :: "go_int \<Rightarrow> pizza_row list" where
  "seed_pizzas created = [
     \<lparr>pr_id = 1, pr_created_at = created, pr_name = ''A Funny Capricciosa'', pr_dough_id = 1, pr_tool = ''Scissors''\<rparr>,
     \<lparr>pr_id = 2, pr_created_at = created, pr_name = ''The Database Special'', pr_dough_id = 2, pr_tool = ''Knife''\<rparr>,
     \<lparr>pr_id = 3, pr_created_at = created, pr_name = ''The Deep Bolognese'', pr_dough_id = 3, pr_tool = ''Knife''\<rparr>]"

definition seed_pizza_to_ingredients :: "(go_int \<times> go_int) list" where
  "seed_pizza_to_ingredients =
     [(1, 2), (1, 5), (1, 6), (1, 24), (1, 18), (2, 3), (2, 5), (2, 7), (2, 22), (3, 3), (3, 6), (3, 9)]"

definition seed_ratings :: "rating list" where
  "seed_ratings = [
     \<lparr>rating_id = 1, rating_stars = 5, rating_user_id = 1, rating_pizza_id = 1\<rparr>,
     \<lparr>rating_id = 2, rating_stars = 1, rating_user_id = 1, rating_pizza_id = 2\<rparr>,
     \<lparr>rating_id = 3, rating_stars = 1, rating_user_id = 1, rating_pizza_id = 3\<rparr>]"

definition seed_db :: "go_int \<Rightarrow> rng \<Rightarrow> db" where
  "seed_db created g =
     \<lparr>proc_rng = g, proc_slept = [], proc_pizzas = no_pizzas,
      db_ingredients = seed_ingredients, db_doughs = seed_doughs, db_tools = seed_tools,
      db_users = \<lparr>rows = seed_users, seq = 3\<rparr>,
      db_pizzas = \<lparr>rows = seed_pizzas created, seq = 3\<rparr>,
      db_pizza_to_ingredients = seed_pizza_to_ingredients,
      db_ratings = \<lparr>rows = seed_ratings, seq = 3\<rparr>,
      db_clock = 0\<rparr>"

lemmas seed_defs = seed_db_def seed_ingredients_def seed_doughs_def seed_tools_def seed_users_def
  seed_pizzas_def seed_pizza_to_ingredients_def seed_ratings_def

lemma seed_inv: "db_inv (seed_db created g)"
  by (simp add: db_inv_defs seed_defs)

end
