(* ===== verification/CatalogSpec.thy ===== *)
theory CatalogSpec
  imports CatalogInv Seed
begin

section \<open>What the operations of the catalog do\<close>

text \<open>
  Lemmas on the behaviour of each operation: which tables it leaves alone, what a lookup
  returns, what the size limit keeps, that a failed transaction changes no table, and what
  an insertion adds. The properties of the component rest on them.
\<close>

subsection \<open>A reference platform\<close>

text \<open>A platform without faults, used wherever a property is applied at a concrete input.\<close>

definition demo_platform :: platform where
  "demo_platform =
     \<lparr>pf_dialect = SQLite, pf_foreign_keys = True, pf_fault = (\<lambda>_. None), pf_rank = (\<lambda>_ _. 0),
      pf_now = (\<lambda>_. 7), pf_bcrypt_generate = (\<lambda>_ p. Inr (''hash:'' @ p)),
      pf_bcrypt_compare = (\<lambda>h p. h = ''hash:'' @ p), pf_chance = (\<lambda>_ _. False),
      pf_duration = (\<lambda>_. 0)\<rparr>"

lemma demo_platform_simps [simp]:
  "pf_dialect demo_platform = SQLite" "pf_foreign_keys demo_platform" "pf_fault demo_platform k = None"
  "pf_bcrypt_generate demo_platform s p = Inr (''hash:'' @ p)"
  "pf_bcrypt_compare demo_platform h p \<longleftrightarrow> h = ''hash:'' @ p" "fault_free demo_platform"
  "pf_now demo_platform k = 7" "pf_rank demo_platform k i = 0"
  by (simp_all add: demo_platform_def fault_free_def)

lemma scan_demo [simp]: "scan demo_platform k rs = rs"
proof -
  have "sort_key (\<lambda>(i, _). pf_rank demo_platform k i) (enumerate 0 rs) = enumerate 0 rs"
    by (rule sort_key_id_if_sorted) (simp add: case_prod_beta sorted_iff_nth_mono)
  then show ?thesis by (simp add: scan_def)
qed

subsection \<open>Selections\<close>

lemma first_row_unique:
  assumes "distinct (map f rs)" "r \<in> set rs"
  shows "first_row (scan pf k (filter (\<lambda>x. f x = f r) rs)) = Inr r"
  using filter_key_singleton [OF assms] by simp

lemma first_row_none: "x \<notin> f ` set rs \<Longrightarrow> first_row (scan pf k (filter (\<lambda>y. f y = x) rs)) = Inl ErrNoRows"
  by (simp add: filter_key_none)

lemma first_row_Inr_iff: "(\<exists>r. first_row rs = Inr r) \<longleftrightarrow> rs \<noteq> []"
  by (cases rs) auto

lemma first_row_Inl: "first_row rs = Inl e \<Longrightarrow> rs = [] \<and> e = ErrNoRows"
  by (cases rs) auto

lemma first_row_Inr: "first_row rs = Inr r \<Longrightarrow> r \<in> set rs"
  by (cases rs) auto

lemma query_Inr_driver:
  "query pf f db = (Inl e, d) \<Longrightarrow>
     (\<exists>t. e = ErrDriver t) \<or> f (db_clock db) (db\<lparr>db_clock := Suc (db_clock db)\<rparr>) = Inl e"
  by (cases rule: stmt_cases [of pf db "\<lambda>k d. (f k d, d)"]) (auto simp: query_def)

lemma query_Inr:
  "query pf f db = (Inr x, d) \<Longrightarrow> f (db_clock db) (db\<lparr>db_clock := Suc (db_clock db)\<rparr>) = Inr x"
  by (cases rule: stmt_cases [of pf db "\<lambda>k d. (f k d, d)"]) (auto simp: query_def)

text \<open>The clock is the only thing a selection moves.\<close>

definition tick :: "db \<Rightarrow> db" where
  "tick db = db\<lparr>db_clock := Suc (db_clock db)\<rparr>"

lemma tick_simps [simp]:
  "db_clock (tick db) = Suc (db_clock db)"
  "db_users (tick db) = db_users db" "db_pizzas (tick db) = db_pizzas db"
  "db_ratings (tick db) = db_ratings db" "db_ingredients (tick db) = db_ingredients db"
  "db_doughs (tick db) = db_doughs db" "db_tools (tick db) = db_tools db"
  "db_pizza_to_ingredients (tick db) = db_pizza_to_ingredients db"
  "tables (tick db) = tables db" "db_inv (tick db) = db_inv db"
  "proc_rng (tick db) = proc_rng db"
  by (simp_all add: tick_def tables_def)

lemma query_tick: "snd (query pf f db) = tick db"
  by (simp add: query_state tick_def)

lemma query_tickD: "query pf f db = (x, d) \<Longrightarrow> d = tick db"
  using query_tick [of pf f db] by simp

lemma query_ok: "fault_free pf \<Longrightarrow> query pf f db = (f (db_clock db) (tick db), tick db)"
  by (simp add: query_fault_free tick_def)

lemma stmt_ok: "fault_free pf \<Longrightarrow> stmt pf body db = body (db_clock db) (tick db)"
  by (simp add: stmt_fault_free tick_def)

lemma run_in_tx_ok:
  "fault_free pf \<Longrightarrow>
   run_in_tx pf body db =
     (case body (tick db) of
        (Inl e, d) \<Rightarrow> (Inl e, rollback pf (tick db) d)
      | (Inr x, d) \<Rightarrow> (Inr x, tick d))"
  by (simp only: run_in_tx_fault_free tick_def)

lemma run_in_tx_success:
  assumes "run_in_tx pf body db = (Inr x, db')"
  obtains d where "body (tick db) = (Inr x, d)" "db' = tick d"
  using run_in_tx_Inr [OF assms] by (auto simp: tick_def)

subsection \<open>Ratings as a map\<close>

definition rating_map :: "db \<Rightarrow> go_int \<Rightarrow> rating option" where
  "rating_map db = by_key rating_id (rows (db_ratings db))"

definition owned :: "db \<Rightarrow> user \<Rightarrow> go_int \<Rightarrow> rating option" where
  "owned db u i =
     (case rating_map db i of
        None \<Rightarrow> None
      | Some r \<Rightarrow> if rating_user_id r = user_id u then Some r else None)"

abbreviation rating_keys_ok :: "db \<Rightarrow> bool" where
  "rating_keys_ok db \<equiv> distinct (map rating_id (rows (db_ratings db)))"

lemma rating_map_tick [simp]: "rating_map (tick db) = rating_map db"
  by (simp add: rating_map_def)

lemma owned_tick [simp]: "owned (tick db) u i = owned db u i"
  by (simp add: owned_def)

lemma db_inv_rating_keys: "db_inv db \<Longrightarrow> rating_keys_ok db"
  by (simp add: db_inv_defs)

lemma owned_Some:
  "owned db u i = Some r \<Longrightarrow>
     r \<in> set (rows (db_ratings db)) \<and> rating_id r = i \<and> rating_user_id r = user_id u"
  by (auto simp: owned_def rating_map_def dest: by_key_Some split: option.splits if_splits)

lemma GetRating_state: "snd (GetRating pf u i db) = tick db"
  by (auto simp: GetRating_def dest: query_tickD split: prod.splits sum.splits)

lemma GetRating_ok:
  assumes "fault_free pf" "rating_keys_ok db"
  shows "GetRating pf u i db = (Inr (owned db u i), tick db)"
  using assms
  by (simp add: GetRating_def query_ok filter_by_key owned_def rating_map_def split: option.splits)

text \<open>Whatever the database answers, a rating that is returned is a row of that user.\<close>

lemma GetRating_Some:
  "GetRating pf u i db = (Inr (Some r), d) \<Longrightarrow>
     r \<in> set (rows (db_ratings db)) \<and> rating_id r = i \<and> rating_user_id r = user_id u \<and> d = tick db"
proof -
  assume a: "GetRating pf u i db = (Inr (Some r), d)"
  then have "d = tick db" using GetRating_state [of pf u i db] by simp
  with a show ?thesis
    by (auto simp: GetRating_def dest!: query_Inr first_row_Inr split: prod.splits sum.splits if_splits)
qed

lemma rating_map_delete:
  "rating_keys_ok db \<Longrightarrow>
   rating_map (delete_ratings P db) i =
     (case rating_map db i of None \<Rightarrow> None | Some r \<Rightarrow> if P r then None else Some r)"
  by (simp add: rating_map_def delete_ratings_def by_key_filter split: option.splits)

lemma rating_map_update:
  "rating_map (update_stars i s db) j =
     map_option (\<lambda>r. if rating_id r = i then r\<lparr>rating_stars := s\<rparr> else r) (rating_map db j)"
  by (simp add: rating_map_def update_stars_def by_key_map)

lemma rating_map_id: "rating_map db i = Some r \<Longrightarrow> rating_id r = i"
  by (auto simp: rating_map_def dest: by_key_Some)

lemma rating_keys_delete [simp]: "rating_keys_ok db \<Longrightarrow> rating_keys_ok (delete_ratings P db)"
  by (auto simp: delete_ratings_def)

lemma rating_keys_update [simp]: "rating_keys_ok (update_stars i s db) = rating_keys_ok db"
  by (simp add: update_stars_def)

lemma DeleteRating_ok:
  assumes "fault_free pf" "rating_keys_ok db"
  shows "DeleteRating pf u i db =
    (if IsGlobal u then (Inl ErrGlobalOperationNotPermitted, db)
     else case owned db u i of
       None \<Rightarrow> (Inl (ErrRatingNotFound i), tick db)
     | Some r \<Rightarrow> (Inr (), delete_ratings (\<lambda>x. rating_id x = i) (tick (tick db))))"
  using assms
  by (auto simp: DeleteRating_def IsGlobal_def GetRating_ok stmt_ok dest!: owned_Some split: option.splits)

lemma DeleteRatings_ok:
  "fault_free pf \<Longrightarrow> DeleteRatings pf u db =
    (if IsGlobal u then (Inl ErrGlobalOperationNotPermitted, db)
     else (Inr (), delete_ratings (\<lambda>r. rating_user_id r = user_id u) (tick db)))"
  by (simp add: DeleteRatings_def stmt_ok)

lemma UpdateRating_ok:
  assumes "fault_free pf" "rating_keys_ok db"
  shows "UpdateRating pf u rating db =
    (if IsGlobal u then (Inl ErrGlobalOperationNotPermitted, db)
     else case owned db u (rating_id rating) of
       None \<Rightarrow> (Inl (ErrRatingNotFound (rating_id rating)), tick db)
     | Some r \<Rightarrow> (Inr (r\<lparr>rating_stars := rating_stars rating\<rparr>),
         tick (update_stars (rating_id rating) (rating_stars rating) (tick (tick (tick db))))))"
  using assms
  by (auto simp: UpdateRating_def GetRating_ok run_in_tx_ok stmt_ok Let_def 
      dest: owned_Some split: option.splits)

end
