(* ===== verification/CatalogLimits.thy ===== *)
theory CatalogLimits
  imports CatalogSpec
begin

section \<open>Table size limits and recorded rows\<close>

text \<open>
  What \<open>enforceTableSizeLimits\<close> keeps, that an automatic row survives its own transaction,
  the bound on the size of the tables over any run, and the atomicity of the recording
  operations.
\<close>

subsection \<open>Kept rows\<close>

text \<open>A row is kept when it is fixed or has fewer than \<open>maximum\<close> newer rows.\<close>

definition row_kept :: "('r \<Rightarrow> int) \<Rightarrow> go_int \<Rightarrow> go_int \<Rightarrow> 'r list \<Rightarrow> 'r \<Rightarrow> bool" where
  "row_kept key fixed maximum rs r \<longleftrightarrow>
     key r \<le> fixed \<or> int (length (filter (\<lambda>s. key r < key s) rs)) < maximum"

context keyed_rows
begin

lemma not_evicted_iff:
  assumes "distinct (map key rs)" "r \<in> set rs" "0 < maximum"
  shows "\<not> evicted (map key rs) fixed maximum (key r) \<longleftrightarrow> row_kept key fixed maximum rs r"
  using newest_iff [OF assms(1,2), of "nat maximum"] assms(3)
  by (auto simp: evicted_def row_kept_def)

lemma filter_not_evicted:
  assumes "distinct (map key rs)" "0 < maximum"
  shows "filter (\<lambda>r. \<not> evicted (map key rs) fixed maximum (key r)) rs = filter (row_kept key fixed maximum rs) rs"
  using not_evicted_iff [OF assms(1) _ assms(2)] by (intro filter_cong) auto

lemma length_kept:
  assumes "distinct (map key rs)" "0 < maximum"
  shows "int (length (filter (\<lambda>r. \<not> evicted (map key rs) fixed maximum (key r)) rs))
    \<le> maximum + int (length (filter (\<lambda>r. key r \<le> fixed) rs))"
proof -
  have "filter (\<lambda>r. \<not> evicted (map key rs) fixed maximum (key r)) rs =
      filter (\<lambda>r. key r \<in> set (newest (nat maximum) (map key rs)) \<or> \<not> fixed < key r) rs"
    by (intro filter_cong) (auto simp: evicted_def)
  with kept_length [OF assms(1), of "nat maximum" fixed] assms(2) show ?thesis by simp
qed

lemma last_row_kept:
  assumes "0 < maximum" "\<forall>s \<in> set rs. key s < key r"
  shows "row_kept key fixed maximum (rs @ [r]) r"
proof -
  have "filter (\<lambda>s. key r < key s) (rs @ [r]) = []"
    using assms(2) by (auto simp: filter_empty_conv)
  with assms(1) show ?thesis by (simp add: row_kept_def)
qed

end

lemma enforce_off: "maximum \<le> 0 \<Longrightarrow> enforceTableSizeLimits pf model fixed maximum db = (Inr (), db)"
  by (simp add: enforceTableSizeLimits_def)

lemma enforce_ratings_Inr:
  assumes "enforceTableSizeLimits pf RatingTable fixed maximum db = (Inr (), d)" "0 < maximum"
    "rating_keys_ok db"
  shows "d = delete_ratings (\<lambda>r. evicted (map rating_id (rows (db_ratings db))) fixed maximum (rating_id r)) (tick db)"
  using assms(1,2)
  by (cases rule: stmt_cases [of pf db "\<lambda>k d. (Inr (), delete_ratings (\<lambda>r. evicted (map rating_id
        (rows (db_ratings d))) fixed maximum (rating_id r)) d)"])
    (auto simp: enforceTableSizeLimits_def tick_def)

lemma enforce_users_Inr:
  assumes "enforceTableSizeLimits pf UserTable fixed maximum db = (Inr (), d)" "0 < maximum"
  shows "d = delete_users pf (\<lambda>u. evicted (map user_id (rows (db_users db))) fixed maximum (user_id u)) (tick db)"
  using assms
  by (cases rule: stmt_cases [of pf db "\<lambda>k d. (Inr (), delete_users pf (\<lambda>u. evicted (map user_id
        (rows (db_users d))) fixed maximum (user_id u)) d)"])
    (auto simp: enforceTableSizeLimits_def tick_def)

lemma enforce_pizzas_Inr:
  assumes "enforceTableSizeLimits pf PizzaTable fixed maximum db = (Inr (), d)" "0 < maximum"
  shows "d = delete_pizzas pf (\<lambda>p. evicted (map pr_id (rows (db_pizzas db))) fixed maximum (pr_id p)) (tick db)"
  using assms
  by (cases rule: stmt_cases [of pf db "\<lambda>k d. (Inr (), delete_pizzas pf (\<lambda>p. evicted (map pr_id
        (rows (db_pizzas d))) fixed maximum (pr_id p)) d)"])
    (auto simp: enforceTableSizeLimits_def tick_def)

lemma enforce_Inl: "enforceTableSizeLimits pf model fixed maximum db = (Inl e, d) \<Longrightarrow> d = tick db"
  by (cases "maximum \<le> 0"; cases "pf_fault pf (db_clock db)")
    (auto simp: enforceTableSizeLimits_def stmt_def tick_def Let_def)

subsection \<open>What an insertion adds\<close>


lemma insert_rating_Inr:
  assumes "insert_rating pf r k db = (Inr r', d)"
  shows "rows (db_ratings d) = rows (db_ratings db) @ [r'] \<and> rating_id r' \<notin> rating_ids db \<and>
    (pf_foreign_keys pf \<longrightarrow> rating_user_id r \<in> user_ids db \<and> rating_pizza_id r \<in> pizza_ids db) \<and>
    r' = (if rating_id r = 0 then r\<lparr>rating_id := seq (db_ratings db) + 1\<rparr> else r) \<and>
    d = db\<lparr>db_ratings := db_ratings d\<rparr>"
  using assms
  by (auto simp: insert_rating_def dest!: ratings.insert_row_Some split: prod.splits option.splits if_splits)

lemma insert_user_Inr:
  assumes "insert_user pf u k db = (Inr u', d)"
  shows "\<exists>i. rows (db_users d) = rows (db_users db) @ [u\<lparr>user_password := [], user_id := i\<rparr>] \<and>
    i \<notin> user_ids db \<and> user_username u \<notin> user_username ` set (rows (db_users db)) \<and>
    user_token u \<notin> user_token ` set (rows (db_users db)) \<and>
    i = (if user_id u = 0 then seq (db_users db) + 1 else user_id u) \<and>
    u' = u\<lparr>user_id := i\<rparr> \<and> d = db\<lparr>db_users := db_users d\<rparr>"
proof -
  obtain u0 t where i: "insert_row (pf_dialect pf) user_id (\<lambda>i u. u\<lparr>user_id := i\<rparr>)
          (\<lambda>u. user_username u \<notin> user_username ` set (rows (db_users db)) \<and>
               user_token u \<notin> user_token ` set (rows (db_users db)))
          (u\<lparr>user_password := []\<rparr>) (db_users db) = (Some u0, t)"
      "u' = u0\<lparr>user_password := user_password u\<rparr>" "d = db\<lparr>db_users := t\<rparr>"
    using assms by (auto simp: insert_user_def split: prod.splits option.splits)
  from users.insert_row_Some [OF i(1)] i(2,3) show ?thesis by (auto split: if_splits)
qed

lemma insert_pizza_Inr:
  assumes "insert_pizza pf p k db = (Inr p', d)"
  shows "rows (db_pizzas d) = rows (db_pizzas db) @ [(pizza_to_row pf k p)\<lparr>pr_id := pizza_id p'\<rparr>] \<and>
    pizza_id p' \<notin> pizza_ids db \<and>
    pizza_id p' = (if pizza_id p = 0 then seq (db_pizzas db) + 1 else pizza_id p) \<and>
    (pf_foreign_keys pf \<longrightarrow> pizza_dough_id p \<in> dough_id ` set (db_doughs db) \<and>
       pizza_tool p \<in> set (db_tools db)) \<and>
    p' = p\<lparr>pizza_id := pizza_id p', pizza_created_at := pr_created_at (pizza_to_row pf k p)\<rparr> \<and>
    d = db\<lparr>db_pizzas := db_pizzas d\<rparr>"
proof -
  obtain r t where i: "insert_row (pf_dialect pf) pr_id (\<lambda>i r. r\<lparr>pr_id := i\<rparr>)
          (\<lambda>r. pf_foreign_keys pf \<longrightarrow>
                 pr_dough_id r \<in> dough_id ` set (db_doughs db) \<and> pr_tool r \<in> set (db_tools db))
          (pizza_to_row pf k p) (db_pizzas db) = (Some r, t)"
      "p' = p\<lparr>pizza_id := pr_id r, pizza_created_at := pr_created_at r\<rparr>" "d = db\<lparr>db_pizzas := t\<rparr>"
    using assms by (auto simp: insert_pizza_def split: prod.splits option.splits)
  from pizzas.insert_row_Some [OF i(1)] i(2,3) show ?thesis
    by (auto simp: pizza_to_row_def split: if_splits)
qed

lemma stmt_Inr:
  assumes "stmt pf body db = (Inr x, d)"
  shows "body (db_clock db) (tick db) = (Inr x, d)"
  using assms by (cases rule: stmt_cases [of pf db body]) (auto simp: tick_def)

lemma record_rating_tx_Inr:
  assumes "record_rating_tx pf cfg r db = (Inr r', d)"
  obtains d1 where "insert_rating pf r (db_clock db) (tick db) = (Inr r', d1)"
    "enforceTableSizeLimits pf RatingTable (fixedRatings cfg) (maxRatings cfg) d1 = (Inr (), d)"
  using assms
  by (auto simp: record_rating_tx_def dest!: stmt_Inr split: prod.splits sum.splits)

lemma record_user_tx_Inr:
  assumes "record_user_tx pf cfg u db = (Inr u', d)"
  obtains d1 where "insert_user pf u (db_clock db) (tick db) = (Inr u', d1)"
    "enforceTableSizeLimits pf UserTable (fixedUsers cfg) (maxUsers cfg) d1 = (Inr (), d)"
  using assms
  by (auto simp: record_user_tx_def dest!: stmt_Inr split: prod.splits sum.splits)

subsection \<open>Sizes and fixed rows over any run\<close>

lemma delete_tables [simp]:
  "rows (db_ratings (delete_ratings P db)) = filter (\<lambda>r. \<not> P r) (rows (db_ratings db))"
  "db_users (delete_ratings P db) = db_users db" "db_pizzas (delete_ratings P db) = db_pizzas db"
  "rows (db_users (delete_users pf Q db)) = filter (\<lambda>u. \<not> Q u) (rows (db_users db))"
  "db_pizzas (delete_users pf Q db) = db_pizzas db"
  "rows (db_pizzas (delete_pizzas pf R db)) = filter (\<lambda>p. \<not> R p) (rows (db_pizzas db))"
  "db_users (delete_pizzas pf R db) = db_users db"
  by (auto simp: delete_ratings_def delete_users_def delete_pizzas_def Let_def)

lemma length_delete_cascade:
  "length (rows (db_ratings (delete_users pf Q db))) \<le> length (rows (db_ratings db))"
  "length (rows (db_ratings (delete_pizzas pf R db))) \<le> length (rows (db_ratings db))"
  by (auto simp: delete_ratings_def delete_users_def delete_pizzas_def Let_def)

text \<open>\<open>within\<close>: at most as many ratings and users as the limits allow, and every fixed user kept.\<close>

definition size_limit :: "go_int \<Rightarrow> go_int \<Rightarrow> go_int" where
  "size_limit fixed maximum = maximum + max 0 fixed"

definition within :: "config \<Rightarrow> db \<Rightarrow> db \<Rightarrow> bool" where
  "within cfg db db' \<longleftrightarrow>
     (0 < maxRatings cfg \<and> int (length (rows (db_ratings db))) \<le> size_limit (fixedRatings cfg) (maxRatings cfg)
        \<longrightarrow> int (length (rows (db_ratings db'))) \<le> size_limit (fixedRatings cfg) (maxRatings cfg)) \<and>
     (0 < maxUsers cfg \<and> int (length (rows (db_users db))) \<le> size_limit (fixedUsers cfg) (maxUsers cfg)
        \<longrightarrow> int (length (rows (db_users db'))) \<le> size_limit (fixedUsers cfg) (maxUsers cfg)) \<and>
     (\<forall>u \<in> set (rows (db_users db)). user_id u \<le> fixedUsers cfg \<longrightarrow> u \<in> set (rows (db_users db')))"

lemma within_trans: "within cfg a b \<Longrightarrow> within cfg b c \<Longrightarrow> within cfg a c"
  unfolding within_def by blast

lemma within_shrinks:
  "rows (db_users db') = rows (db_users db) \<Longrightarrow>
   length (rows (db_ratings db')) \<le> length (rows (db_ratings db)) \<Longrightarrow> within cfg db db'"
  by (auto simp: within_def)

lemma within_same: "tables db' = tables db \<Longrightarrow> within cfg db db'"
  by (auto dest: tables_eqD intro!: within_shrinks)

lemma within_enforce_pizzas: "within cfg db (snd (enforceTableSizeLimits pf PizzaTable fixed maximum db))"
proof -
  obtain x d where e: "enforceTableSizeLimits pf PizzaTable fixed maximum db = (x, d)" by fastforce
  show ?thesis
  proof (cases x)
    case (Inl err)
    with e have "d = tick db" by (simp add: enforce_Inl)
    with e show ?thesis by (simp add: within_same)
  next
    case (Inr u)
    show ?thesis
    proof (cases "0 < maximum")
      case True
      with e Inr have "d = delete_pizzas pf (\<lambda>p. evicted (map pr_id (rows (db_pizzas db))) fixed maximum (pr_id p)) (tick db)"
        by (simp add: enforce_pizzas_Inr)
      then show ?thesis using e length_delete_cascade(2) [of pf _ "tick db"] by (auto intro!: within_shrinks)
    qed (simp add: enforce_off within_same)
  qed
qed

lemma keyed_size_limit:
  assumes "keyed_rows key set_key" "distinct (map key rs)" "\<forall>r \<in> set rs. 0 < key r" "0 < maximum"
  shows "int (length (filter (\<lambda>r. \<not> evicted (map key rs) fixed maximum (key r)) rs)) \<le> size_limit fixed maximum"
  using keyed_rows.length_kept [OF assms(1,2,4), of fixed] keyed_rows.fixed_rows_bound [OF assms(1,2,3), of fixed]
  by (simp add: size_limit_def)

lemma within_record_rating_tx:
  assumes "record_rating_tx pf cfg r db = (Inr r', d)" "pf_foreign_keys pf" "rating_id r = 0" "db_inv db"
  shows "within cfg db d"
  using assms(1)
proof (cases rule: record_rating_tx_Inr)
  case (1 d1)
  have "db_inv d1"
    using evolvesD [OF evolves_insert_rating [OF assms(2,3)], of "tick db" "db_clock db"] 1(1) assms(4)
    by simp
  then have d1: "rating_keys_ok d1" "\<forall>r \<in> set (rows (db_ratings d1)). 0 < rating_id r"
    by (auto simp: db_inv_defs)
  have "d1 = (tick db)\<lparr>db_ratings := db_ratings d1\<rparr>"
    using insert_rating_Inr [OF 1(1)] by blast
  from arg_cong [OF this, of db_users] have u1: "db_users d1 = db_users db" by simp
  show ?thesis
  proof (cases "0 < maxRatings cfg")
    case True
    note e = enforce_ratings_Inr [OF 1(2) True d1(1)]
    from keyed_size_limit [OF ratings.keyed_rows_axioms d1 True] show ?thesis
      by (simp add: within_def e u1)
  next
    case False
    with 1(2) have "d = d1" by (simp add: enforce_off)
    with False u1 show ?thesis by (simp add: within_def)
  qed
qed


lemma within_record_user_tx:
  assumes "record_user_tx pf cfg u db = (Inr u', d)" "user_id u = 0" "db_inv db"
  shows "within cfg db d"
  using assms(1)
proof (cases rule: record_user_tx_Inr)
  case (1 d1)
  have "db_inv d1"
    using evolvesD [OF evolves_insert_user [OF assms(2)], of "tick db" pf "db_clock db"] 1(1) assms(3)
    by simp
  then have keys: "distinct (map user_id (rows (db_users d1)))" "\<forall>u \<in> set (rows (db_users d1)). 0 < user_id u"
    by (auto simp: db_inv_defs)
  have "d1 = (tick db)\<lparr>db_users := db_users d1\<rparr>" and
    kept: "set (rows (db_users db)) \<subseteq> set (rows (db_users d1))"
    using insert_user_Inr [OF 1(1)] by auto
  from arg_cong [OF this(1), of db_ratings] have r1: "db_ratings d1 = db_ratings db" by simp
  show ?thesis
  proof (cases "0 < maxUsers cfg")
    case True
    note e = enforce_users_Inr [OF 1(2) True]
    have "length (rows (db_ratings d)) \<le> length (rows (db_ratings db))"
      using length_delete_cascade(1) [of pf _ "tick d1"] e r1 by simp
    with keyed_size_limit [OF users.keyed_rows_axioms keys True] kept show ?thesis
      by (auto simp: within_def e evicted_def)
  next
    case False
    with 1(2) have "d = d1" by (simp add: enforce_off)
    with False r1 kept show ?thesis by (auto simp: within_def)
  qed
qed

subsection \<open>Operations that only read\<close>

lemma InjectErrors_tables [simp]: "tables (snd (InjectErrors pf ctx action db)) = tables db"
  by (simp add: InjectErrors_def inject_delay_def sleep_def draw_def tables_def split: option.splits)

lemma InjectErrors_tablesD: "InjectErrors pf ctx action db = (x, d) \<Longrightarrow> tables d = tables db"
  using InjectErrors_tables [of pf ctx action db] by simp

lemma tables_reading [simp]:
  "tables (snd (GetIngredients pf ctx t db)) = tables db"
  "tables (snd (GetDoughs pf db)) = tables db"
  "tables (snd (GetTools pf db)) = tables db"
  "tables (snd (GetHistory pf n db)) = tables db"
  "tables (snd (GetRecommendation pf i db)) = tables db"
  "tables (snd (GetRatings pf u db)) = tables db"
  "tables (snd (GetRating pf u i db)) = tables db"
  "tables (snd (LoginUser pf name pw db)) = tables db"
  "tables (snd (Authenticate pf token db)) = tables db"
  by (auto simp: GetIngredients_def GetDoughs_def GetTools_def GetHistory_def GetRecommendation_def
      GetRatings_def GetRating_def LoginUser_def Authenticate_def Let_def case_prod_beta query_tick
      split: option.splits sum.splits list.splits)

lemma GetRecommendation_tables: "GetRecommendation pf i db = (x, d) \<Longrightarrow> tables d = tables db"
  using tables_reading(5) [of pf i db] by simp

lemma GetRating_tables: "GetRating pf u i db = (x, d) \<Longrightarrow> tables d = tables db"
  using tables_reading(7) [of pf u i db] by simp

subsection \<open>A failed operation writes nothing\<close>

lemma DeleteRating_Inl: "DeleteRating pf u i db = (Inl e, d) \<Longrightarrow> tables d = tables db"
  by (auto simp: DeleteRating_def stmt_def Let_def dest: GetRating_tables
      split: if_splits prod.splits sum.splits option.splits)

lemma DeleteRatings_Inl: "DeleteRatings pf u db = (Inl e, d) \<Longrightarrow> tables d = tables db"
  by (auto simp: DeleteRatings_def stmt_def Let_def split: if_splits option.splits)

lemma UpdateRating_Inl: "UpdateRating pf u r db = (Inl e, d) \<Longrightarrow> tables d = tables db"
  by (auto simp: UpdateRating_def Let_def dest!: GetRating_tables run_in_tx_atomic
      split: if_splits prod.splits sum.splits option.splits)

lemma RecordRating_Inl: "RecordRating pf cfg r db = (Inl e, d) \<Longrightarrow> tables d = tables db"
  by (auto simp: RecordRating_def dest!: GetRecommendation_tables run_in_tx_atomic
      split: prod.splits sum.splits option.splits)

lemma RecordRecommendation_Inl: "RecordRecommendation pf cfg ctx p db = (Inl e, d) \<Longrightarrow> tables d = tables db"
  by (auto simp: RecordRecommendation_def dest!: InjectErrors_tablesD run_in_tx_atomic
      split: prod.splits option.splits)

lemma username_taken_tables: "username_taken pf name db = (x, d) \<Longrightarrow> tables d = tables db"
  by (auto simp: username_taken_def dest: query_tickD)

lemma prepare_user_tables: "prepare_user h u db = (u', d) \<Longrightarrow> tables d = tables db"
  by (auto dest!: prepare_user_spec simp: tables_def)

lemma RecordUser_Inl: "RecordUser pf cfg u db = (Inl e, d) \<Longrightarrow> tables d = tables db"
  by (auto simp: RecordUser_def dest!: prepare_user_tables username_taken_tables run_in_tx_atomic
      split: prod.splits sum.splits if_splits)

subsection \<open>A successful one\<close>

lemma RecordRating_Inr:
  assumes "RecordRating pf cfg r db = (Inr r', d)"
  obtains p d0 d1 where "GetRecommendation pf (rating_pizza_id r) db = (Inr (Some p), d0)"
    "record_rating_tx pf cfg (r\<lparr>rating_id := 0\<rparr>) (tick d0) = (Inr r', d1)" "d = tick d1"
  using assms
  by (auto simp: RecordRating_def elim!: run_in_tx_success split: prod.splits sum.splits option.splits)

lemma RecordUser_Inr:
  assumes "RecordUser pf cfg u db = (Inr u', d)"
  obtains h u0 d0 d1 where "HashPassword pf (db_clock db) (user_password u) = Inr h"
    "prepare_user h u db = (u0, d0)"
    "username_taken pf (user_username u) d0 = (Inl ErrNoRows, tick d0)"
    "record_user_tx pf cfg u0 (tick (tick d0)) = (Inr u', d1)" "d = tick d1"
proof -
  obtain h where h: "HashPassword pf (db_clock db) (user_password u) = Inr h"
    using assms by (auto simp: RecordUser_def split: sum.splits)
  obtain u0 d0 where p: "prepare_user h u db = (u0, d0)" by fastforce
  then have name: "user_username u0 = user_username u" by (auto dest: prepare_user_spec)
  obtain x where q: "username_taken pf (user_username u) d0 = (x, tick d0)"
    using query_tickD by (metis username_taken_def prod.exhaust)
  have x: "x = Inl ErrNoRows" and tx: "run_in_tx pf (record_user_tx pf cfg u0) (tick d0) = (Inr u', d)"
    using assms h p q name by (auto simp: RecordUser_def split: sum.splits if_splits)
  from tx obtain d1 where "record_user_tx pf cfg u0 (tick (tick d0)) = (Inr u', d1)" "d = tick d1"
    by (rule run_in_tx_success)
  with that h p q x show thesis by blast
qed

lemma RecordRecommendation_Inr:
  assumes "RecordRecommendation pf cfg ctx p db = (Inr p', d)"
  obtains d0 d1 where "InjectErrors pf ctx ''record-recommendation'' db = (None, d0)"
    "record_pizza_tx pf cfg (p\<lparr>pizza_dough_id := dough_id (pizza_dough p)\<rparr>) (tick d0) = (Inr p', d1)"
    "d = tick d1"
  using assms
  by (auto simp: RecordRecommendation_def elim!: run_in_tx_success split: prod.splits option.splits)

subsection \<open>Every operation keeps within the limits\<close>

lemma db_inv_tables: "tables d = tables db \<Longrightarrow> evolves db d \<Longrightarrow> db_inv db \<Longrightarrow> db_inv d"
  by (simp add: evolves_def)

lemma within_tick [simp]: "within cfg a (tick b) = within cfg a b" "within cfg (tick a) b = within cfg a b"
  by (simp_all add: within_def)

lemma within_result:
  assumes "\<And>e d. op = (Inl e, d) \<Longrightarrow> tables d = tables db"
    and "\<And>x d. op = (Inr x, d) \<Longrightarrow> within cfg db d"
  shows "within cfg db (snd op)"
proof (cases op)
  case (Pair r d)
  with assms show ?thesis by (cases r) (auto intro: within_same)
qed

lemma within_RecordRating:
  assumes "pf_foreign_keys pf" "db_inv db"
  shows "within cfg db (snd (RecordRating pf cfg r db))"
proof (rule within_result)
  fix r' d assume "RecordRating pf cfg r db = (Inr r', d)"
  then show "within cfg db d"
  proof (cases rule: RecordRating_Inr)
    case (1 p d0 d1)
    from 1(1) evolves_GetRecommendation [of db pf] have "evolves db d0" by (metis snd_conv)
    with assms(2) have inv: "db_inv (tick d0)" by (simp add: evolvesD)
    have "within cfg (tick d0) d1"
      by (rule within_record_rating_tx [OF 1(2) assms(1) _ inv]) simp
    moreover have "within cfg db d0" using 1(1) by (simp add: GetRecommendation_tables within_same)
    ultimately show ?thesis using 1(3) by (simp add: within_trans)
  qed
qed (rule RecordRating_Inl)

lemma within_RecordUser:
  assumes "db_inv db"
  shows "within cfg db (snd (RecordUser pf cfg u db))"
proof (rule within_result)
  fix u' d assume "RecordUser pf cfg u db = (Inr u', d)"
  then show "within cfg db d"
  proof (cases rule: RecordUser_Inr)
    case (1 h u0 d0 d1)
    note p = prepare_user_spec [OF 1(2)]
    have inv: "db_inv (tick (tick d0))" using p assms by auto
    have "within cfg (tick (tick d0)) d1"
      by (rule within_record_user_tx [OF 1(4) _ inv]) (simp add: p)
    moreover have "within cfg db d0" using 1(2) by (simp add: prepare_user_tables within_same)
    ultimately show ?thesis using 1(5) by (simp add: within_trans)
  qed
qed (rule RecordUser_Inl)

lemma stmt_snd:
  assumes "\<And>k d. P d (snd (body k d))" and "\<And>a. P a (tick a)" and "\<And>a b c. P a b \<Longrightarrow> P b c \<Longrightarrow> P a c"
  shows "P db (snd (stmt pf body db))"
proof (cases rule: stmt_cases [of pf db body])
  case 1
  with assms(2) show ?thesis by (simp add: tick_def)
next
  case 2
  then have "stmt pf body db = body (db_clock db) (tick db)" by (simp add: tick_def)
  with assms(1) [of "tick db" "db_clock db"] show ?thesis
    using assms(3) [OF assms(2)] by simp
qed

lemma within_stmt: "(\<And>k d. within cfg d (snd (body k d))) \<Longrightarrow> within cfg db (snd (stmt pf body db))"
  by (rule stmt_snd [where P = "within cfg"]) (auto intro: within_same within_trans)

lemma within_case:
  assumes "within cfg db (snd x)" and "\<And>r d. x = (r, d) \<Longrightarrow> within cfg d (snd (f r d))"
  shows "within cfg db (snd (case x of (r, d) \<Rightarrow> f r d))"
  using assms by (cases x) (auto intro: within_trans)

lemma within_delete_ratings: "within cfg db (delete_ratings P db)"
  by (rule within_shrinks) simp_all

lemma within_update_stars: "within cfg db (update_stars i s db)"
  by (rule within_shrinks) (simp_all add: update_stars_def)

lemma within_refl [simp]: "within cfg db db"
  by (simp add: within_same)

lemma within_insert_pizza: "within cfg db (snd (insert_pizza pf p k db))"
  by (rule within_shrinks) (auto simp: insert_pizza_def split: prod.splits option.splits)

lemma within_insert_m2m: "within cfg db (snd (insert_pizza_to_ingredient pf pid iid k db))"
  by (rule within_shrinks) (auto simp: insert_pizza_to_ingredient_def)

lemma within_insert_ingredients: "within cfg db (snd (insert_ingredients pf pid is db))"
proof (induction "is" arbitrary: db)
  case (Cons i "is")
  have "within cfg db (snd (stmt pf (insert_pizza_to_ingredient pf pid (ing_id i)) db))"
    by (intro within_stmt within_insert_m2m)
  then show ?case
    by (auto intro!: within_case Cons split: sum.splits)
qed simp

lemma within_record_pizza_tx: "within cfg db (snd (record_pizza_tx pf cfg p db))"
  unfolding record_pizza_tx_def
  by (rule within_case)
    (auto intro!: within_stmt within_insert_pizza within_insert_ingredients within_enforce_pizzas
       within_case [of _ _ "insert_ingredients _ _ _ _"]
       within_case [of _ _ "enforceTableSizeLimits _ _ _ _ _"] split: sum.splits)

lemma within_RecordRecommendation: "within cfg db (snd (RecordRecommendation pf cfg ctx p db))"
proof (rule within_result)
  fix p' d assume "RecordRecommendation pf cfg ctx p db = (Inr p', d)"
  then show "within cfg db d"
  proof (cases rule: RecordRecommendation_Inr)
    case (1 d0 d1)
    have "within cfg (tick d0) d1"
      using within_record_pizza_tx [of cfg "tick d0" pf] 1(2) by (metis snd_conv)
    moreover have "within cfg db d0" using 1(1) by (simp add: InjectErrors_tablesD within_same)
    ultimately show ?thesis using 1(3) by (simp add: within_trans)
  qed
qed (rule RecordRecommendation_Inl)

lemma within_GetRating: "within cfg db (snd (GetRating pf u i db))"
  by (simp add: within_same)

lemma within_DeleteRatings: "within cfg db (snd (DeleteRatings pf u db))"
  by (auto simp: DeleteRatings_def intro!: within_stmt within_delete_ratings)

lemma within_DeleteRating: "within cfg db (snd (DeleteRating pf u i db))"
  by (auto simp: DeleteRating_def intro!: within_case within_stmt within_delete_ratings within_GetRating
      split: sum.splits option.splits)

lemma within_UpdateRating: "within cfg db (snd (UpdateRating pf u r db))"
proof (rule within_result)
  fix r' d assume "UpdateRating pf u r db = (Inr r', d)"
  then obtain x d0 where "GetRating pf u (rating_id r) db = (Inr (Some x), d0)"
    and "run_in_tx pf (stmt pf (\<lambda>k d. (Inr (x\<lparr>rating_stars := rating_stars r\<rparr>),
              update_stars (rating_id x) (rating_stars r) d))) d0 = (Inr r', d)"
    by (auto simp: UpdateRating_def Let_def split: if_splits prod.splits sum.splits option.splits)
  note g = this
  from g(2) obtain d1 where "stmt pf (\<lambda>k d. (Inr (x\<lparr>rating_stars := rating_stars r\<rparr>),
              update_stars (rating_id x) (rating_stars r) d)) (tick d0) = (Inr r', d1)" "d = tick d1"
    by (rule run_in_tx_success)
  note t = this
  from stmt_Inr [OF t(1)] have "within cfg d0 d1"
    using within_update_stars [of cfg "tick (tick d0)"] by auto
  moreover have "within cfg db d0" using g(1) by (simp add: GetRating_tables within_same)
  ultimately show "within cfg db d" using t(2) by (simp add: within_trans)
qed (rule UpdateRating_Inl)

lemma within_call_step:
  assumes "pf_foreign_keys pf" "db_inv db"
  shows "within cfg db (call_step pf cfg c db)"
  using assms
  by (cases c)
    (simp_all add: within_same within_RecordRating within_RecordUser within_RecordRecommendation
       within_DeleteRatings within_DeleteRating within_UpdateRating)

interpretation limits: invariant_machine "call_step pf cfg" "run_calls pf cfg"
    "\<lambda>db. pf_foreign_keys pf \<and> db_inv db \<and> within cfg db0 db"
  for pf cfg db0
  by unfold_locales
    (auto intro: within_trans within_call_step evolvesD [OF evolves_call_step])

lemma within_run_calls:
  "pf_foreign_keys pf \<Longrightarrow> db_inv db \<Longrightarrow> within cfg db (run_calls pf cfg cs db)"
  using limits.run_inv [of pf db cfg db cs] by simp

end
