(* ===== verification/CatalogProps.thy ===== *)
theory CatalogProps
  imports CatalogLimits
begin

section \<open>Properties of the catalog\<close>

text \<open>
  The properties of \<^verbatim>\<open>pkg/database/catalog.go\<close>: integrity, bounds on the tables, the default
  user, accounts, ratings, recommendations and history. Each is applied at the seeded database
  on the reference platform where it has hypotheses.
\<close>

definition demo_config :: config where
  "demo_config = catalog_config (\<lambda>_. None)"

definition demo_db :: db where
  "demo_db = seed_db 0 (sconst 0)"

definition studio_user :: user where
  "studio_user = seed_users ! 2"

lemma demo_config_simps [simp]:
  "fixedPizzas demo_config = 100" "fixedUsers demo_config = 10" "fixedRatings demo_config = 10"
  "maxPizzas demo_config = 5000" "maxUsers demo_config = 5000" "maxRatings demo_config = 10000"
  by (simp_all add: demo_config_def catalog_config_def catalog_envInt_def)

lemma demo_db_inv [simp]: "db_inv demo_db"
  by (simp add: demo_db_def seed_inv)

lemma demo_db_rows [simp]:
  "rows (db_users demo_db) = seed_users" "rows (db_ratings demo_db) = seed_ratings"
  "rows (db_pizzas demo_db) = seed_pizzas 0" "db_clock demo_db = 0"
  "seq (db_users demo_db) = 3" "seq (db_ratings demo_db) = 3" "seq (db_pizzas demo_db) = 3"
  "db_ingredients demo_db = seed_ingredients" "db_doughs demo_db = seed_doughs"
  "db_tools demo_db = seed_tools" "db_pizza_to_ingredients demo_db = seed_pizza_to_ingredients"
  "proc_rng demo_db = sconst 0" "proc_slept demo_db = []"
  by (simp_all add: demo_db_def seed_db_def)

lemma studio_user_simps [simp]:
  "user_id studio_user = 3" "user_username studio_user = ''studio-user''" "\<not> IsGlobal studio_user"
  "user_token studio_user = ''oBGOPc5tVtk9WAgf''"
  by (simp_all add: studio_user_def seed_users_def IsGlobal_def GlobalUsername_def)

text \<open>What \<open>Authenticate\<close> answers when the default user is there.\<close>

lemma select_user_cases:
  assumes "query pf (\<lambda>k d. first_row (scan pf k (filter P (rows (db_users d))))) db = (r, d)"
  obtains (found) u where "r = Inr u" "u \<in> set (rows (db_users db))" "P u"
  | (none) "r = Inl ErrNoRows" "\<forall>u \<in> set (rows (db_users db)). \<not> P u"
  | (failed) t where "r = Inl (ErrDriver t)"
proof (cases r)
  case (Inl e)
  with assms have "(\<exists>t. e = ErrDriver t) \<or> first_row (scan pf (db_clock db) (filter P (rows (db_users db)))) = Inl e"
    by (auto dest!: query_Inr_driver)
  with Inl show thesis by (auto dest!: first_row_Inl simp: filter_empty_conv intro: none failed)
next
  case (Inr u)
  with assms show thesis by (auto dest!: query_Inr first_row_Inr intro: found)
qed

lemma Authenticate_cases:
  assumes "Authenticate pf token db = (r, d)" "distinct (map user_id (rows (db_users db)))"
    and "u1 \<in> set (rows (db_users db))" "user_id u1 = 1"
  obtains (holder) u where "r = Inr u" "u \<in> set (rows (db_users db))" "user_token u = token"
  | (default) "r = Inr u1" "token \<notin> user_token ` set (rows (db_users db))"
  | (failed) t where "r = Inl (ErrDriver t)"
proof -
  obtain r1 d1 where q1: "query pf (\<lambda>k d. first_row (scan pf k
      (filter (\<lambda>u. user_token u = token) (rows (db_users d))))) db = (r1, d1)" by fastforce
  obtain r2 d2 where q2: "query pf (\<lambda>k d. first_row (scan pf k
      (filter (\<lambda>u. user_id u = 1) (rows (db_users d))))) d1 = (r2, d2)" by fastforce
  have d1: "rows (db_users d1) = rows (db_users db)" using q1 by (auto dest: query_tickD)
  have one: "u = u1" if "u \<in> set (rows (db_users db))" "user_id u = 1" for u
    using assms(2-4) that by (metis distinct_map inj_onD)
  show thesis
    using q1
  proof (cases rule: select_user_cases)
    case found
    with assms(1) q1 holder show thesis by (auto simp: Authenticate_def)
  next
    case none
    with assms(1) q1 q2 have r: "r = r2" by (simp add: Authenticate_def)
    have "\<exists>u \<in> set (rows (db_users db)). user_id u = 1" using assms(3,4) by blast
    then show thesis
      using none by (cases rule: select_user_cases [OF q2])
        (auto simp: r d1 one intro: default failed)
  next
    case failed
    with assms(1) q1 that(3) show thesis by (auto simp: Authenticate_def)
  qed
qed

subsection \<open>Integrity and bounds\<close>



text \<open>The integrity rests on the connections that enforce foreign keys: on one that does not,
  a rating of a user that does not exist is recorded.\<close>

theorem integrity_needs_foreign_keys:
  "\<exists>pf cfg c db. fault_free pf \<and> \<not> pf_foreign_keys pf \<and> db_inv db \<and> \<not> db_inv (call_step pf cfg c db)"
proof (intro exI conjI)
  let ?pf = "demo_platform\<lparr>pf_foreign_keys := False\<rparr>"
  let ?c = "CallRecordRating \<lparr>rating_id = 0, rating_stars = 4, rating_user_id = 99, rating_pizza_id = 2\<rparr>"
  let ?cfg = "demo_config\<lparr>maxRatings := 0\<rparr>"
  have ff: "fault_free ?pf" by (simp add: fault_free_def demo_platform_def)
  then show "fault_free ?pf" .
  show "\<not> pf_foreign_keys ?pf" "db_inv demo_db" by simp_all
  show "\<not> db_inv (call_step ?pf ?cfg ?c demo_db)"
    by (simp add: RecordRating_def GetRecommendation_def query_ok [OF ff] run_in_tx_ok [OF ff]
        stmt_ok [OF ff] record_rating_tx_def insert_rating_def insert_row_def seed_defs
        enforceTableSizeLimits_def max_int64_def db_inv_defs)
qed

text \<open>C10: over any run, with any faults, the tables of ratings and of users never grow beyond the
  configured maximum plus the number of fixed rows, as long as a maximum is configured.\<close>

theorem tables_bounded:
  assumes "pf_foreign_keys pf" and "db_inv db" and "0 < maxRatings cfg" and "0 < maxUsers cfg"
    and "int (length (rows (db_ratings db))) \<le> maxRatings cfg + max 0 (fixedRatings cfg)"
    and "int (length (rows (db_users db))) \<le> maxUsers cfg + max 0 (fixedUsers cfg)"
  shows "int (length (rows (db_ratings (run_calls pf cfg cs db)))) \<le> maxRatings cfg + max 0 (fixedRatings cfg) \<and>
    int (length (rows (db_users (run_calls pf cfg cs db)))) \<le> maxUsers cfg + max 0 (fixedUsers cfg)"
  using within_run_calls [OF assms(1,2), of cfg cs] assms(3-6) by (simp add: within_def size_limit_def)

theorem tables_bounded_witness:
  "length (rows (db_ratings (run_calls demo_platform demo_config
      (replicate 20000 (CallRecordRating (seed_ratings ! 1))) demo_db))) \<le> 10010"
  using tables_bounded [of demo_platform demo_db demo_config "replicate 20000 (CallRecordRating (seed_ratings ! 1))"]
  by (simp add: seed_ratings_def seed_users_def)

text \<open>The default user is never lost, and \<open>Authenticate\<close> always returns a user unless the
  database fails: the one who holds the token, else the default user with identifier 1. This
  needs one fixed user at least and holds after any run of operations with any faults.\<close>

theorem authenticate_always_user:
  assumes "pf_foreign_keys pf" and "db_inv db" and "1 \<le> fixedUsers cfg"
    and "u1 \<in> set (rows (db_users db))" and "user_id u1 = 1"
  shows "let db' = run_calls pf cfg cs db in
    case Authenticate pf token db' of
      (Inl e, _) \<Rightarrow> (\<exists>t. e = ErrDriver t)
    | (Inr u, _) \<Rightarrow> u \<in> set (rows (db_users db')) \<and>
        user_token u = (if token \<in> user_token ` set (rows (db_users db')) then token else user_token u1) \<and>
        (token \<in> user_token ` set (rows (db_users db')) \<or> u = u1)"
proof -
  let ?db = "run_calls pf cfg cs db"
  have u1: "u1 \<in> set (rows (db_users ?db))"
    using within_run_calls [OF assms(1,2), of cfg cs] assms(3-5) by (simp add: within_def)
  have ids: "distinct (map user_id (rows (db_users ?db)))"
    using evolvesD [OF evolves_run_calls [OF assms(1)] assms(2)] by (simp add: db_inv_defs)
  obtain r d where a: "Authenticate pf token ?db = (r, d)" by fastforce
  show ?thesis
    using u1 by (cases rule: Authenticate_cases [OF a ids u1 assms(5)]) (auto simp: a Let_def)
qed

theorem authenticate_always_user_witness:
  "let db' = run_calls demo_platform demo_config [CallDeleteRatings studio_user] demo_db in
    case Authenticate demo_platform ''oBGOPc5tVtk9WAgf'' db' of
      (Inl e, _) \<Rightarrow> (\<exists>t. e = ErrDriver t)
    | (Inr u, _) \<Rightarrow> u \<in> set (rows (db_users db')) \<and>
        user_token u = (if ''oBGOPc5tVtk9WAgf'' \<in> user_token ` set (rows (db_users db'))
                        then ''oBGOPc5tVtk9WAgf'' else user_token (seed_users ! 0)) \<and>
        (''oBGOPc5tVtk9WAgf'' \<in> user_token ` set (rows (db_users db')) \<or> u = seed_users ! 0)"
  by (rule authenticate_always_user) (simp_all add: seed_users_def)

end
