(* ===== verification/RecommendProps.thy ===== *)
theory RecommendProps
  imports Recommend K6Ext CatalogProps
begin

section \<open>Properties of generated pizzas\<close>

text \<open>
  What a generated pizza contains, that the generation returns, when it panics, that the calorie
  limit can be missed after ten attempts, and what the k6 check says about a generated pizza.
\<close>

definition demo_pantry :: pantry where
  "demo_pantry = \<lparr>olive_oils = [seed_ingredients ! 0], tomatoes = [seed_ingredients ! 2],
     mozzarellas = [seed_ingredients ! 5], toppings = [seed_ingredients ! 8, seed_ingredients ! 9],
     tools = seed_tools, doughs = seed_doughs, adjectives = [''Tasty''], names = [''Margherita'']\<rparr>"

definition demo_restrictions :: restrictions where
  "demo_restrictions = WithDefaults (zero_restrictions\<lparr>res_custom_name := ''Mine'', res_vegetarian := True\<rparr>)"

lemma demo_restrictions_simps [simp]:
  "res_max_calories demo_restrictions = 1000" "res_vegetarian demo_restrictions"
  "res_excluded_ingredients demo_restrictions = []" "res_excluded_tools demo_restrictions = []"
  "res_max_toppings demo_restrictions = 5" "res_min_toppings demo_restrictions = 3"
  "res_custom_name demo_restrictions = ''Mine''"
  by (simp_all add: demo_restrictions_def WithDefaults_def zero_restrictions_def Let_def)

lemma restrict_pantry_simps [simp]:
  "doughs (restrict_pantry r p) = doughs p" "adjectives (restrict_pantry r p) = adjectives p"
  "names (restrict_pantry r p) = names p" "tools (restrict_pantry r p) = valid_tools r (tools p)"
  "olive_oils (restrict_pantry r p) = valid_ingredients r (olive_oils p)"
  "tomatoes (restrict_pantry r p) = valid_ingredients r (tomatoes p)"
  "mozzarellas (restrict_pantry r p) = valid_ingredients r (mozzarellas p)"
  "toppings (restrict_pantry r p) = valid_ingredients r (toppings p)"
  by (simp_all add: restrict_pantry_def)

lemma demo_seeds [simp]:
  "seed_ingredients ! 0 = \<lparr>ing_id = 1, ing_name = ''Extra virgin olive oil'', ing_calories = 50, ing_vegetarian = True, ing_type = ''olive_oil''\<rparr>"
  "seed_ingredients ! 2 = \<lparr>ing_id = 3, ing_name = ''San Marzano tomatoes'', ing_calories = 50, ing_vegetarian = True, ing_type = ''tomato''\<rparr>"
  "seed_ingredients ! 5 = \<lparr>ing_id = 6, ing_name = ''Mozzarella'', ing_calories = 100, ing_vegetarian = True, ing_type = ''mozzarella''\<rparr>"
  "seed_ingredients ! 8 = \<lparr>ing_id = 9, ing_name = ''Pepperoni'', ing_calories = 100, ing_vegetarian = False, ing_type = ''topping''\<rparr>"
  "seed_ingredients ! 9 = \<lparr>ing_id = 10, ing_name = ''Mushrooms'', ing_calories = 50, ing_vegetarian = True, ing_type = ''topping''\<rparr>"
  by (simp_all add: seed_ingredients_def)

lemma demo_stocked:
  "stocked (restrict_pantry demo_restrictions demo_pantry)"
  "toppings (restrict_pantry demo_restrictions demo_pantry) \<noteq> []"
  by (simp_all add: stocked_def demo_pantry_def valid_ingredients_filter valid_tools_filter
      seed_tools_def seed_doughs_def)

lemma recurring_sconst: "n mod 100 < 50 \<Longrightarrow> recurring (sconst n)"
  by (simp add: recurring_def accepting_at_def)

lemma generated_pizza_facts:
  fixes s :: "'a proc_scheme"
  assumes "generate_pizza order r (restrict_pantry r p) s = Some (Returned (q, s'))"
    and "\<And>xs. mset (order xs) = mset xs"
    and "0 \<le> res_max_toppings r" and "0 \<le> res_min_toppings r"
    and "in_int64 (res_max_toppings r)" and "in_int64 (res_min_toppings r)"
  shows "composed r (restrict_pantry r p) q \<and> pizza_tool q \<notin> set (res_excluded_tools r) \<and>
    (\<forall>i \<in> set (pizza_ingredients q). ing_name i \<notin> set (res_excluded_ingredients r)) \<and>
    (res_vegetarian r \<longrightarrow> IsVegetarian q) \<and>
    int (length (pizza_ingredients q)) \<le> res_max_toppings r + 3 \<and>
    (res_custom_name r \<noteq> [] \<longrightarrow> pizza_name q = res_custom_name r)"
proof -
  let ?p = "restrict_pantry r p"
  obtain name and s1 s2 :: "'a proc_scheme" where c: "compose_pizza order r ?p name s1 = Returned (q, s2)"
    and custom: "res_custom_name r = [] \<or> name = res_custom_name r"
    using attempts_composed [OF assms(1) [unfolded generate_pizza_def]] by auto
  show ?thesis
  proof (rule compose_pizza_Returned [OF c assms(2)])
    fix n e and s5 s6 :: "'a proc_scheme"
    assume *: "composed r ?p q" "pizza_name q = name" "extra_toppings r s5 = Returned (e, s6)"
      "n = nat (wrap64 (e + res_min_toppings r))" "length (pizza_ingredients q) \<le> 3 + n"
    have n: "int n \<le> res_max_toppings r"
      using extra_toppings_Returned [OF *(3) assms(3-6)] *(4) assms(3) by simp
    have valid: "ing_name i \<notin> set (res_excluded_ingredients r) \<and> (res_vegetarian r \<longrightarrow> ing_vegetarian i)"
      if "i \<in> set (pizza_ingredients q)" for i
      using *(1) that by (auto simp: composed_def valid_ingredients_filter)
    have tool: "pizza_tool q \<notin> set (res_excluded_tools r)"
      using *(1) by (simp add: composed_def valid_tools_filter)
    have "int (length (pizza_ingredients q)) \<le> res_max_toppings r + 3"
      using *(5) n by linarith
    then show ?thesis using *(1,2) custom valid tool by (auto simp: IsVegetarian_iff)
  qed
qed

text \<open>C4: whatever the draws and the order in which a map is listed, a generated pizza respects the
  restrictions that are filters: its dough and tool come from the catalog and the tool is not
  excluded, its ingredients come from the catalog, none is excluded, all are vegetarian if that was
  asked, no two have the same name, an oil, a tomato and a mozzarella are among them, and there are
  at most three more than the maximal number of toppings. A custom name is used as it is.\<close>

theorem generated_pizza_respects_restrictions:
  fixes s :: "'a proc_scheme"
  assumes "generate_pizza order r (restrict_pantry r p) s = Some (Returned (q, s'))"
    and "\<And>xs. mset (order xs) = mset xs"
    and "0 \<le> res_max_toppings r" and "0 \<le> res_min_toppings r"
    and "in_int64 (res_max_toppings r)" and "in_int64 (res_min_toppings r)"
  shows "composed r (restrict_pantry r p) q \<and> pizza_tool q \<notin> set (res_excluded_tools r) \<and>
    (\<forall>i \<in> set (pizza_ingredients q). ing_name i \<notin> set (res_excluded_ingredients r)) \<and>
    (res_vegetarian r \<longrightarrow> IsVegetarian q) \<and>
    int (length (pizza_ingredients q)) \<le> res_max_toppings r + 3 \<and>
    (res_custom_name r \<noteq> [] \<longrightarrow> pizza_name q = res_custom_name r)"
  by (rule generated_pizza_facts [OF assms])

lemma demo_generate:
  "\<exists>q s'. generate_pizza (\<lambda>xs. xs) demo_restrictions (restrict_pantry demo_restrictions demo_pantry) demo_db =
     Some (Returned (q, s'))"
  unfolding generate_pizza_def
  by (rule attempts_end)
    (use demo_stocked in \<open>simp_all add: demo_pantry_def max_int64_def in_int64_def min_int64_def recurring_sconst\<close>)

theorem generated_pizza_respects_restrictions_witness:
  "\<exists>q s'. generate_pizza (\<lambda>xs. xs) demo_restrictions (restrict_pantry demo_restrictions demo_pantry) demo_db =
     Some (Returned (q, s')) \<and> IsVegetarian q \<and> pizza_name q = ''Mine'' \<and> length (pizza_ingredients q) \<le> 8"
proof -
  obtain q s' where g: "generate_pizza (\<lambda>xs. xs) demo_restrictions
      (restrict_pantry demo_restrictions demo_pantry) demo_db = Some (Returned (q, s'))"
    using demo_generate by blast
  from generated_pizza_respects_restrictions [OF g] g show ?thesis
    by (auto simp: in_int64_def min_int64_def max_int64_def)
qed

text \<open>C21: the generation returns a pizza, without a panic and without running forever, when the
  filters leave something in every list and the random source goes on accepting: after every
  position it has four draws in a row below 50 (modulo 100).\<close>

theorem generation_returns:
  assumes "stocked p" and "toppings p \<noteq> []" and "adjectives p \<noteq> []" and "names p \<noteq> []"
    and "0 \<le> res_max_toppings r" and "0 \<le> res_min_toppings r"
    and "res_max_toppings r < max_int64" and "in_int64 (res_min_toppings r)"
    and "recurring (proc_rng s)"
  shows "\<exists>q s'. generate_pizza order r p s = Some (Returned (q, s'))"
  unfolding generate_pizza_def by (rule attempts_end [OF assms])

theorem generation_returns_witness:
  "\<exists>q s'. generate_pizza rev (demo_restrictions\<lparr>res_custom_name := []\<rparr>)
     (restrict_pantry demo_restrictions demo_pantry) demo_db = Some (Returned (q, s'))"
  by (rule generation_returns)
    (use demo_stocked in \<open>simp_all add: demo_pantry_def max_int64_def in_int64_def min_int64_def recurring_sconst\<close>)

lemma pick_panics:
  "xs = [] \<or> (\<forall>x s'. f (x, s') = Panicked ''invalid argument to Intn'') \<Longrightarrow>
   and_then (pick xs s) f = Panicked ''invalid argument to Intn''"
  using pick_nonempty [of xs s] by (cases "xs = []") (auto simp: pick_empty)

text \<open>With a list that the filters have emptied, the handler cannot answer: drawing an index from
  an empty list panics (for a custom name, where no name has to be found first).\<close>

theorem generation_panics_without_stock:
  fixes s :: "'a proc_scheme"
  assumes "\<not> stocked p" and "res_custom_name r \<noteq> []"
  shows "generate_pizza order r p s = Some (Panicked ''invalid argument to Intn'')"
proof -
  have "compose_pizza order r p name s1 = Panicked ''invalid argument to Intn''" for name and s1 :: "'a proc_scheme"
    using assms(1) unfolding stocked_def compose_pizza_def by (auto intro!: pick_panics)
  then have "attempts (Suc n) order r p q s = Some (Panicked ''invalid argument to Intn'')" for n q and s :: "'a proc_scheme"
    using assms(2) by simp
  from this [of 9] show ?thesis by (simp add: generate_pizza_def numeral_eq_Suc)
qed

theorem generation_panics_without_stock_witness:
  "generate_pizza (\<lambda>xs. xs) (demo_restrictions\<lparr>res_excluded_tools := seed_tools\<rparr>)
     (restrict_pantry (demo_restrictions\<lparr>res_excluded_tools := seed_tools\<rparr>) demo_pantry) demo_db =
   Some (Panicked ''invalid argument to Intn'')"
  by (rule generation_panics_without_stock)
    (simp_all add: stocked_def demo_pantry_def valid_tools_filter)

subsection \<open>Calories and the k6 check\<close>

lemma constant_source:
  assumes "proc_rng s = sconst 0"
  shows "pick (x # xs) s = Returned (x, s)" "0 < n \<Longrightarrow> rand n s = Returned (0, s)"
proof -
  have "s\<lparr>proc_rng := sconst 0\<rparr> = s" using assms by (cases s) simp
  then show "pick (x # xs) s = Returned (x, s)" "0 < n \<Longrightarrow> rand n s = Returned (0, s)"
    using assms by (simp_all add: pick_def rand_pos)
qed

definition mine :: pizza where
  "mine = zero_pizza\<lparr>pizza_name := ''Mine'', pizza_dough := seed_doughs ! 0,
     pizza_ingredients := [seed_ingredients ! 0, seed_ingredients ! 2, seed_ingredients ! 5, seed_ingredients ! 9],
     pizza_tool := seed_tools ! 0\<rparr>"

lemma compose_mine:
  assumes "res_max_toppings r = 5" "res_min_toppings r = 3"
  shows "compose_pizza (\<lambda>xs. xs) r (restrict_pantry demo_restrictions demo_pantry) ''Mine'' demo_db =
    Returned (mine, demo_db)"
proof -
  have n: "wrap64 2 = 2" "wrap64 3 = 3" "(3::nat) = Suc (Suc (Suc 0))"
    by (simp_all add: wrap64_def)
  have rng: "proc_rng demo_db = sconst 0" by simp
  show ?thesis
    by (simp add: compose_pizza_def demo_pantry_def seed_doughs_def seed_tools_def valid_tools_filter
        constant_source [OF rng] extra_toppings_def assms n Let_def mine_def zero_pizza_def)
qed

lemma attempts_mine:
  assumes "res_max_toppings r = 5" "res_min_toppings r = 3" "res_custom_name r = ''Mine''"
  shows "attempts (Suc n) (\<lambda>xs. xs) r (restrict_pantry demo_restrictions demo_pantry) q demo_db =
    Some (Returned (mine, demo_db))"
proof (induction n arbitrary: q)
  case (Suc n)
  show ?case
    by (subst attempts.simps(2)) (simp add: assms compose_mine Suc del: attempts.simps(2))
qed (simp add: assms compose_mine)

lemma generate_mine:
  assumes "res_max_toppings r = 5" "res_min_toppings r = 3" "res_custom_name r = ''Mine''"
  shows "generate_pizza (\<lambda>xs. xs) r (restrict_pantry demo_restrictions demo_pantry) demo_db =
    Some (Returned (mine, demo_db))"
  using attempts_mine [OF assms, of 9] by (simp add: generate_pizza_def)

lemma mine_calories: "CalculateCalories mine = 250" "length (pizza_ingredients mine) = 4"
  by (simp_all add: CalculateCalories_def mine_def zero_pizza_def wrap64_def)

text \<open>The calorie limit is not guaranteed: after ten attempts the last pizza is returned whatever
  its calories are. With a limit of 10, the pizza below has 250 calories.\<close>

theorem calorie_limit_can_be_missed:
  "\<exists>r p q s'. generate_pizza (\<lambda>xs. xs) r p demo_db = Some (Returned (q, s')) \<and>
     res_max_calories r = 10 \<and> CalculateCalories q = 250"
proof -
  have "generate_pizza (\<lambda>xs. xs) (demo_restrictions\<lparr>res_max_calories := 10\<rparr>)
      (restrict_pantry demo_restrictions demo_pantry) demo_db = Some (Returned (mine, demo_db))"
    by (rule generate_mine) simp_all
  then show ?thesis using mine_calories
    by (intro exI [of _ "demo_restrictions\<lparr>res_max_calories := 10\<rparr>"]
        exI [of _ "restrict_pantry demo_restrictions demo_pantry"] exI [of _ mine] exI [of _ demo_db]) simp
qed

definition goja :: "restrictions \<Rightarrow> goja_restrictions" where
  "goja r = \<lparr>goja_max_calories = res_max_calories r, goja_vegetarian = res_vegetarian r,
     goja_excluded_ingredients = res_excluded_ingredients r, goja_excluded_tools = res_excluded_tools r,
     goja_min_toppings = res_min_toppings r, goja_max_toppings = res_max_toppings r\<rparr>"

text \<open>C22: the check of the k6 extension accepts a generated pizza exactly when it keeps the calorie
  limit and has at least three ingredients more than the minimal number of toppings; every other
  restriction it checks always holds. The second condition can fail, as toppings drawn twice count
  once: the witness is a pizza with four ingredients where six are expected.\<close>

theorem k6_check_of_generated_pizza:
  fixes s :: "'a proc_scheme"
  assumes "generate_pizza order r (restrict_pantry r p) s = Some (Returned (q, s'))"
    and "\<And>xs. mset (order xs) = mset xs"
    and "0 \<le> res_max_toppings r" and "0 \<le> res_min_toppings r"
    and "in_int64 (res_max_toppings r + 3)" and "in_int64 (res_min_toppings r + 3)"
  shows "fst (CheckRestrictions q (goja r)) \<longleftrightarrow>
    CalculateCalories q \<le> res_max_calories r \<and> res_min_toppings r + 3 \<le> int (length (pizza_ingredients q))"
proof -
  have "in_int64 (res_max_toppings r)" "in_int64 (res_min_toppings r)"
    using assms(3-6) by (simp_all add: in_int64_def min_int64_def)
  note g = generated_pizza_facts [OF assms(1-4) this]
  then show ?thesis
    using assms(5,6) by (auto simp: CheckRestrictions_iff goja_def IsVegetarian_iff)
qed

theorem k6_check_of_generated_pizza_witness:
  "\<exists>q s'. generate_pizza (\<lambda>xs. xs) demo_restrictions (restrict_pantry demo_restrictions demo_pantry) demo_db =
     Some (Returned (q, s')) \<and> length (pizza_ingredients q) = 4 \<and> \<not> fst (CheckRestrictions q (goja demo_restrictions))"
proof -
  have g: "generate_pizza (\<lambda>xs. xs) demo_restrictions (restrict_pantry demo_restrictions demo_pantry) demo_db =
      Some (Returned (mine, demo_db))"
    by (rule generate_mine) simp_all
  from k6_check_of_generated_pizza [OF g] g show ?thesis
    by (auto simp: in_int64_def min_int64_def max_int64_def mine_calories)
qed

end
