(* ===== verification/Accounts.thy ===== *)
theory Accounts
  imports CatalogProps
begin

section \<open>Accounts\<close>

text \<open>
  \<open>RecordUser\<close>, \<open>LoginUser\<close> and \<open>Authenticate\<close>: what a registration stores and answers,
  and that the account it creates can be used.
\<close>

lemma record_user_tx_stored:
  assumes "record_user_tx pf cfg u db = (Inr u', d)" "user_id u = 0" "db_inv db"
  shows "u'\<lparr>user_password := []\<rparr> \<in> set (rows (db_users d)) \<and>
    u' = u\<lparr>user_id := seq (db_users db) + 1\<rparr>"
  using assms(1)
proof (cases rule: record_user_tx_Inr)
  case (1 d1)
  note i = insert_user_Inr [OF 1(1)]
  let ?row = "u\<lparr>user_password := [], user_id := seq (db_users db) + 1\<rparr>"
  have rows1: "rows (db_users d1) = rows (db_users db) @ [?row]"
    and u': "u' = u\<lparr>user_id := seq (db_users db) + 1\<rparr>"
    using i assms(2) by auto
  have below: "\<forall>s \<in> set (rows (db_users db)). user_id s < user_id ?row"
    using assms(3) by (auto simp: db_inv_defs)
  then have keys: "distinct (map user_id (rows (db_users d1)))"
    using assms(3) rows1 by (auto simp: db_inv_defs)
  show ?thesis
  proof (cases "0 < maxUsers cfg")
    case True
    have "\<not> evicted (map user_id (rows (db_users d1))) (fixedUsers cfg) (maxUsers cfg) (user_id ?row)"
      using users.not_evicted_iff [OF keys _ True, of ?row] users.last_row_kept [OF True below] rows1 by simp
    with enforce_users_Inr [OF 1(2) True] rows1 u' show ?thesis by simp
  next
    case False
    with 1(2) have "d = d1" by (simp add: enforce_off)
    with rows1 u' show ?thesis by simp
  qed
qed

lemma RecordUser_stored:
  assumes "RecordUser pf cfg u db = (Inr u', db')" "db_inv db"
  shows "u'\<lparr>user_password := []\<rparr> \<in> set (rows (db_users db')) \<and> user_username u' = user_username u \<and>
    user_password u' = user_password u \<and> user_password_plaintext u' = user_password_plaintext u \<and>
    length (user_token u') = 16 \<and> user_id u' = seq (db_users db) + 1 \<and>
    HashPassword pf (db_clock db) (user_password u) = Inr (user_password_hash u')"
  using assms(1)
proof (cases rule: RecordUser_Inr)
  case (1 h u0 d0 d1)
  note p = prepare_user_spec [OF 1(2)]
  have "db_inv (tick (tick d0))" using p assms(2) by auto
  from record_user_tx_stored [OF 1(4) _ this] p have
    "u'\<lparr>user_password := []\<rparr> \<in> set (rows (db_users d1))" "u' = u0\<lparr>user_id := seq (db_users d0) + 1\<rparr>"
    by auto
  with p 1(1,5) show ?thesis by auto
qed

lemma first_user_unique:
  assumes "distinct (map f (rows (db_users db)))" "u \<in> set (rows (db_users db))"
  shows "first_row (scan pf k (filter (\<lambda>x. f x = f u) (rows (db_users db)))) = Inr u"
  using first_row_unique [OF assms] .

lemma LoginUser_ok:
  assumes "fault_free pf" "keys_ok db" "u \<in> set (rows (db_users db))"
  shows "fst (LoginUser pf (user_username u) pw db) = Inr
    (if user_password_plaintext u \<noteq> [] then (if pw = user_password_plaintext u then Some u else None)
     else if IsGlobal u \<or> CheckPassword pf pw (user_password_hash u) then Some u else None)"
  using assms first_row_unique [of user_username "rows (db_users db)" u pf "db_clock db"]
  by (simp add: LoginUser_def query_ok keys_ok_def Let_def)

lemma Authenticate_ok:
  assumes "fault_free pf" "keys_ok db" "u \<in> set (rows (db_users db))"
  shows "fst (Authenticate pf (user_token u) db) = Inr u"
  using assms first_row_unique [of user_token "rows (db_users db)" u pf "db_clock db"]
  by (simp add: Authenticate_def query_ok keys_ok_def Let_def)

lemma enforce_ok:
  "fault_free pf \<Longrightarrow> fst (enforceTableSizeLimits pf model fixed maximum db) = Inr ()"
  by (simp add: enforceTableSizeLimits_def stmt_ok)

lemma record_user_tx_ok:
  assumes "fault_free pf" "user_id u = 0" "db_inv db" "seq (db_users db) < max_int64"
    "user_username u \<notin> user_username ` set (rows (db_users db))"
  shows "fst (record_user_tx pf cfg u db) =
    (if user_token u \<in> user_token ` set (rows (db_users db)) then Inl (ErrConstraint ''users'')
     else Inr (u\<lparr>user_id := seq (db_users db) + 1\<rparr>))"
proof -
  have "seq (db_users db) + 1 \<notin> user_ids db"
    using assms(3) by (force simp: db_inv_defs)
  then have "fst (insert_user pf u (db_clock db) (tick db)) =
    (if user_token u \<in> user_token ` set (rows (db_users db)) then Inl (ErrConstraint ''users'')
     else Inr (u\<lparr>user_id := seq (db_users db) + 1\<rparr>))"
    using assms(2,4,5) by (simp add: insert_user_def insert_row_def Let_def)
  then show ?thesis
    using enforce_ok [OF assms(1), of UserTable "fixedUsers cfg" "maxUsers cfg"]
    by (auto simp: record_user_tx_def stmt_ok [OF assms(1)] case_prod_beta split: sum.splits if_splits)
qed

lemma run_in_tx_fst:
  "fault_free pf \<Longrightarrow> fst (run_in_tx pf body db) = fst (body (tick db))"
  by (simp add: run_in_tx_ok split: prod.splits sum.splits)

lemma RecordUser_ok:
  assumes "fault_free pf" and "db_inv db" and "seq (db_users db) < max_int64"
  shows "fst (RecordUser pf cfg u db) =
    (if user_password u = [] then Inl ErrPasswordEmpty
     else case pf_bcrypt_generate pf (db_clock db) (user_password u) of
       Inl e \<Rightarrow> Inl (ErrBcrypt e)
     | Inr h \<Rightarrow>
         let t = fst (GenerateAlphaNumToken UserTokenLength db) in
         if user_username u \<in> user_username ` set (rows (db_users db)) then Inl ErrUsernameTaken
         else if t \<in> user_token ` set (rows (db_users db)) then Inl (ErrConstraint ''users'')
         else Inr (u\<lparr>user_id := seq (db_users db) + 1, user_token := t, user_password_hash := h\<rparr>))"
proof (cases "HashPassword pf (db_clock db) (user_password u)")
  case (Inl e)
  then show ?thesis by (auto simp: RecordUser_def HashPassword_def split: if_splits sum.splits)
next
  case (Inr h)
  obtain t d where g: "GenerateAlphaNumToken UserTokenLength db = (t, d)" by fastforce
  then obtain g' where d: "d = db\<lparr>proc_rng := g'\<rparr>"
    by (auto simp: GenerateAlphaNumToken_def split: prod.splits)
  let ?u = "u\<lparr>user_password_hash := h, user_token := t, user_id := 0\<rparr>"
  have p: "prepare_user h u db = (?u, d)" by (simp add: prepare_user_def g)
  have inv: "db_inv (tick (tick d))" using assms(2) d by simp
  show ?thesis
  proof (cases "user_username u \<in> user_username ` set (rows (db_users db))")
    case True
    then have "filter (\<lambda>x. user_username x = user_username u) (rows (db_users db)) \<noteq> []"
      by (force simp: filter_empty_conv)
    then obtain x where "fst (username_taken pf (user_username u) d) = Inr x"
      using d by (auto simp: username_taken_def query_ok [OF assms(1)]) (metis first_row.elims scan_Nil_iff)
    then show ?thesis
      using Inr True by (auto simp: RecordUser_def p g HashPassword_def split: prod.splits if_splits sum.splits)
  next
    case False
    then have "username_taken pf (user_username u) d = (Inl ErrNoRows, tick d)"
      using d by (simp add: username_taken_def query_ok [OF assms(1)] first_row_none)
    then have "fst (RecordUser pf cfg u db) = fst (record_user_tx pf cfg ?u (tick (tick d)))"
      using Inr by (simp add: RecordUser_def p run_in_tx_fst [OF assms(1)])
    with record_user_tx_ok [OF assms(1) _ inv, of ?u cfg] False d assms(3) Inr show ?thesis
      by (auto simp: g HashPassword_def Let_def split: if_splits sum.splits)
  qed
qed

text \<open>A new account on the seeded database, used to apply the properties.\<close>

definition ada :: user where
  "ada = zero_user\<lparr>user_username := ''ada'', user_password := ''pw''\<rparr>"

lemma ada_simps [simp]:
  "user_username ada = ''ada''" "user_password ada = ''pw''" "user_password_plaintext ada = []"
  by (simp_all add: ada_def zero_user_def)

lemma demo_token: "fst (GenerateAlphaNumToken UserTokenLength demo_db) = ''aaaaaaaaaaaaaaaa''"
proof -
  have loop: "token_loop n (sconst 0) = (replicate n CHR ''a'', sconst 0)" for n
    by (induction n) (simp_all add: characters_def)
  have "replicate 16 CHR ''a'' = ''aaaaaaaaaaaaaaaa''" by (simp add: eval_nat_numeral)
  then show ?thesis by (simp add: GenerateAlphaNumToken_def UserTokenLength_def loop)
qed

lemma demo_RecordUser: "\<exists>u' db'. RecordUser demo_platform demo_config ada demo_db = (Inr u', db')"
proof -
  have "\<exists>u'. fst (RecordUser demo_platform demo_config ada demo_db) = Inr u'"
    using RecordUser_ok [of demo_platform demo_db demo_config ada]
    by (simp add: Let_def demo_token seed_users_def max_int64_def)
  then show ?thesis by (metis prod.collapse)
qed

text \<open>C7: an account that \<open>RecordUser\<close> recorded can be used at once: the new user's token
  authenticates as that user, and a login under the name succeeds with exactly the passwords that
  match the stored hash, the one it was registered with among them. What is stored has no
  password in it.\<close>

theorem account_round_trip:
  assumes "fault_free pf" and "pf_foreign_keys pf" and "db_inv db"
    and "\<forall>salt p h. pf_bcrypt_generate pf salt p = Inr h \<longrightarrow> pf_bcrypt_compare pf h p"
    and "user_password_plaintext u = []" and "user_username u \<noteq> GlobalUsername"
    and "RecordUser pf cfg u db = (Inr u', db')"
  shows "length (user_token u') = 16 \<and> user_username u' = user_username u \<and>
    fst (Authenticate pf (user_token u') db') = Inr (u'\<lparr>user_password := []\<rparr>) \<and>
    (\<forall>pw. fst (LoginUser pf (user_username u) pw db') = Inr
       (if pf_bcrypt_compare pf (user_password_hash u') pw then Some (u'\<lparr>user_password := []\<rparr>) else None)) \<and>
    pf_bcrypt_compare pf (user_password_hash u') (user_password u)"
proof -
  note s = RecordUser_stored [OF assms(7,3)]
  have "db_inv db'"
    using evolvesD [OF evolves_RecordUser [OF assms(2)] assms(3)] assms(7) by (metis snd_conv)
  then have k: "keys_ok db'" by (simp add: db_inv_def)
  have row: "u'\<lparr>user_password := []\<rparr> \<in> set (rows (db_users db'))" using s by blast
  have a: "fst (Authenticate pf (user_token u') db') = Inr (u'\<lparr>user_password := []\<rparr>)"
    using Authenticate_ok [OF assms(1) k row] by simp
  have l: "fst (LoginUser pf (user_username u) pw db') = Inr
       (if pf_bcrypt_compare pf (user_password_hash u') pw then Some (u'\<lparr>user_password := []\<rparr>) else None)" for pw
    using LoginUser_ok [OF assms(1) k row, of pw] s assms(5,6)
    by (simp add: IsGlobal_def CheckPassword_def)
  have "pf_bcrypt_compare pf (user_password_hash u') (user_password u)"
    using s assms(4) by (auto simp: HashPassword_def split: if_splits sum.splits)
  with a l s show ?thesis by blast
qed

theorem account_round_trip_witness:
  "\<exists>u' db'. RecordUser demo_platform demo_config ada demo_db = (Inr u', db') \<and>
    length (user_token u') = 16 \<and> user_username u' = user_username ada \<and>
    fst (Authenticate demo_platform (user_token u') db') = Inr (u'\<lparr>user_password := []\<rparr>) \<and>
    (\<forall>pw. fst (LoginUser demo_platform (user_username ada) pw db') = Inr
       (if pf_bcrypt_compare demo_platform (user_password_hash u') pw
        then Some (u'\<lparr>user_password := []\<rparr>) else None)) \<and>
    pf_bcrypt_compare demo_platform (user_password_hash u') (user_password ada)"
proof -
  obtain u' db' where r: "RecordUser demo_platform demo_config ada demo_db = (Inr u', db')"
    using demo_RecordUser by blast
  from account_round_trip [OF _ _ _ _ _ _ r] r show ?thesis
    by (intro exI [of _ u'] exI [of _ db'] conjI) (simp_all add: GlobalUsername_def)
qed

text \<open>What \<open>RecordUser\<close> answers, on every path: an empty password and a failure of the hash
  are reported first, then a taken name, then a collision of the drawn token with an existing one
  (the unique column), and else the user comes back with the hash, a token of 16 characters and
  the next identifier, whatever identifier and token the caller supplied.\<close>

theorem RecordUser_result:
  assumes "fault_free pf" and "db_inv db" and "seq (db_users db) < max_int64"
  shows "fst (RecordUser pf cfg u db) =
    (if user_password u = [] then Inl ErrPasswordEmpty
     else case pf_bcrypt_generate pf (db_clock db) (user_password u) of
       Inl e \<Rightarrow> Inl (ErrBcrypt e)
     | Inr h \<Rightarrow>
         let t = fst (GenerateAlphaNumToken UserTokenLength db) in
         if user_username u \<in> user_username ` set (rows (db_users db)) then Inl ErrUsernameTaken
         else if t \<in> user_token ` set (rows (db_users db)) then Inl (ErrConstraint ''users'')
         else Inr (u\<lparr>user_id := seq (db_users db) + 1, user_token := t, user_password_hash := h\<rparr>))"
  by (rule RecordUser_ok [OF assms])

theorem RecordUser_result_witness:
  "fst (RecordUser demo_platform demo_config (ada\<lparr>user_username := ''studio-user''\<rparr>) demo_db) = Inl ErrUsernameTaken"
  using RecordUser_result [of demo_platform demo_db demo_config "ada\<lparr>user_username := ''studio-user''\<rparr>"]
  by (simp add: max_int64_def seed_users_def)

end
