(* ===== verification/Ratings.thy ===== *)
theory Ratings
  imports Accounts
begin

section \<open>Ratings\<close>

text \<open>
  The interface of a store of owned ratings with its laws, interpreted on the operations of the
  catalog; whose rows an operation may touch when statements fail; and what is in the table after
  a rating is recorded.
\<close>

subsection \<open>A store of owned ratings\<close>

text \<open>
  The interface through which the handlers read and change ratings: every user sees the ratings
  of their own, and the laws say what each operation answers and what everyone sees after it.
\<close>

locale rating_store =
  fixes valid :: "'s \<Rightarrow> bool"
    and view :: "'s \<Rightarrow> user \<Rightarrow> go_int \<Rightarrow> rating option"
    and get :: "user \<Rightarrow> go_int \<Rightarrow> 's \<Rightarrow> rating option result \<times> 's"
    and upd :: "user \<Rightarrow> rating \<Rightarrow> 's \<Rightarrow> rating result \<times> 's"
    and del :: "user \<Rightarrow> go_int \<Rightarrow> 's \<Rightarrow> unit result \<times> 's"
    and clear :: "user \<Rightarrow> 's \<Rightarrow> unit result \<times> 's"
  assumes view_owner: "view s u i = Some r \<Longrightarrow> rating_user_id r = user_id u \<and> rating_id r = i"
    and view_one: "view s u i = Some r \<Longrightarrow> user_id v \<noteq> user_id u \<Longrightarrow> view s v i = None"
    and valid_ops: "valid s \<Longrightarrow> valid (snd (get u i s)) \<and> valid (snd (upd u r s)) \<and>
      valid (snd (del u i s)) \<and> valid (snd (clear u s))"
    and get_result: "valid s \<Longrightarrow> fst (get u i s) = Inr (view s u i)"
    and get_view: "valid s \<Longrightarrow> view (snd (get u i s)) = view s"
    and upd_result: "valid s \<Longrightarrow> fst (upd u r s) =
      (if IsGlobal u then Inl ErrGlobalOperationNotPermitted
       else case view s u (rating_id r) of
         None \<Rightarrow> Inl (ErrRatingNotFound (rating_id r))
       | Some x \<Rightarrow> Inr (x\<lparr>rating_stars := rating_stars r\<rparr>))"
    and upd_view: "valid s \<Longrightarrow> view (snd (upd u r s)) v i =
      (if \<not> IsGlobal u \<and> view s u (rating_id r) \<noteq> None \<and> i = rating_id r
       then map_option (\<lambda>x. x\<lparr>rating_stars := rating_stars r\<rparr>) (view s v i) else view s v i)"
    and del_result: "valid s \<Longrightarrow> fst (del u i s) =
      (if IsGlobal u then Inl ErrGlobalOperationNotPermitted
       else case view s u i of None \<Rightarrow> Inl (ErrRatingNotFound i) | Some _ \<Rightarrow> Inr ())"
    and del_view: "valid s \<Longrightarrow> view (snd (del u i s)) v j =
      (if \<not> IsGlobal u \<and> view s u i \<noteq> None \<and> j = i then None else view s v j)"
    and clear_result: "valid s \<Longrightarrow> fst (clear u s) =
      (if IsGlobal u then Inl ErrGlobalOperationNotPermitted else Inr ())"
    and clear_view: "valid s \<Longrightarrow> view (snd (clear u s)) v j =
      (if \<not> IsGlobal u \<and> user_id v = user_id u then None else view s v j)"
begin

lemma get_after_upd:
  assumes "valid s" "fst (upd u r s) = Inr r'"
  shows "fst (get u (rating_id r) (snd (upd u r s))) = Inr (Some r') \<and>
    rating_stars r' = rating_stars r \<and> rating_id r' = rating_id r \<and> rating_user_id r' = user_id u"
  using assms valid_ops [OF assms(1)]
  by (auto simp: upd_result upd_view get_result dest: view_owner split: if_splits option.splits)

lemma upd_upd:
  assumes "valid s" "rating_id r' = rating_id r" "fst (upd u r s) = Inr x"
  shows "fst (upd u r' (snd (upd u r s))) = Inr (x\<lparr>rating_stars := rating_stars r'\<rparr>)"
  using assms valid_ops [OF assms(1)]
  by (auto simp: upd_result upd_view split: if_splits option.splits)

lemma get_after_del:
  assumes "valid s" "fst (del u i s) = Inr ()"
  shows "fst (get v i (snd (del u i s))) = Inr None \<and>
    fst (del u i (snd (del u i s))) = Inl (ErrRatingNotFound i)"
  using assms valid_ops [OF assms(1)]
  by (auto simp: del_result del_view get_result split: if_splits option.splits)

lemma get_after_clear:
  "valid s \<Longrightarrow> fst (clear u s) = Inr () \<Longrightarrow> fst (get u i (snd (clear u s))) = Inr None"
  using valid_ops by (auto simp: clear_result clear_view get_result split: if_splits)

text \<open>Nobody sees a change by another user.\<close>

lemma isolation:
  assumes "valid s" "user_id v \<noteq> user_id u"
  shows "fst (get v j (snd (upd u r s))) = fst (get v j s) \<and>
    fst (get v j (snd (del u i s))) = fst (get v j s) \<and>
    fst (get v j (snd (clear u s))) = fst (get v j s)"
  using assms valid_ops [OF assms(1)] view_one [of s u _ _ v]
  by (auto simp: upd_view del_view clear_view get_result)

text \<open>The default user changes nothing.\<close>

lemma global_readonly:
  "valid s \<Longrightarrow> IsGlobal u \<Longrightarrow> view (snd (upd u r s)) = view s \<and> view (snd (del u i s)) = view s \<and>
     view (snd (clear u s)) = view s"
  by (auto simp: fun_eq_iff upd_view del_view clear_view)

end

lemma owned_one: "owned db u i = Some r \<Longrightarrow> user_id v \<noteq> user_id u \<Longrightarrow> owned db v i = None"
  by (auto simp: owned_def split: option.splits if_splits)

lemma owned_delete:
  "rating_keys_ok db \<Longrightarrow> owned (delete_ratings P db) v j =
     (case owned db v j of None \<Rightarrow> None | Some r \<Rightarrow> if P r then None else Some r)"
  by (auto simp: owned_def rating_map_delete split: option.splits)

lemma owned_update:
  "owned (update_stars k s db) v j =
     (if j = k then map_option (\<lambda>r. r\<lparr>rating_stars := s\<rparr>) (owned db v j) else owned db v j)"
  by (auto simp: owned_def rating_map_update dest: rating_map_id split: option.splits)

lemma rating_keys_tick [simp]: "rating_keys_ok (tick db) = rating_keys_ok db"
  by simp

interpretation store: rating_store "\<lambda>db. fault_free pf \<and> rating_keys_ok db" owned "GetRating pf"
    "UpdateRating pf" "DeleteRating pf" "DeleteRatings pf" for pf
proof (unfold_locales, goal_cases)
  case 1 then show ?case using owned_Some by blast
next
  case 2 then show ?case by (rule owned_one)
next
  case 3 then show ?case
    by (auto simp: GetRating_ok UpdateRating_ok DeleteRating_ok DeleteRatings_ok split: option.splits)
next
  case 7 then show ?case
    by (auto simp: UpdateRating_ok owned_update dest: owned_Some split: option.splits)
next
  case 9 then show ?case
    by (auto simp: DeleteRating_ok owned_delete dest: owned_Some split: option.splits)
next
  case 11 then show ?case
    by (auto simp: DeleteRatings_ok owned_delete dest: owned_Some split: option.splits)
qed (auto simp: GetRating_ok UpdateRating_ok DeleteRating_ok DeleteRatings_ok fun_eq_iff split: option.splits)


subsection \<open>Whose ratings an operation touches\<close>

definition others :: "user \<Rightarrow> db \<Rightarrow> rating list" where
  "others u db = filter (\<lambda>r. rating_user_id r \<noteq> user_id u) (rows (db_ratings db))"

lemma others_tables: "tables d = tables db \<Longrightarrow> others u d = others u db"
  by (auto simp: others_def dest: tables_eqD)

lemma others_tick [simp]: "others u (tick db) = others u db"
  by (simp add: others_def)

lemma others_delete_own:
  "(\<And>r. r \<in> set (rows (db_ratings db)) \<Longrightarrow> P r \<Longrightarrow> rating_user_id r = user_id u) \<Longrightarrow>
   others u (delete_ratings P db) = others u db"
  by (auto simp: others_def intro!: filter_cong)

lemma others_update_own:
  assumes "\<And>r. r \<in> set (rows (db_ratings db)) \<Longrightarrow> rating_id r = i \<Longrightarrow> rating_user_id r = user_id u"
  shows "others u (update_stars i s db) = others u db"
proof -
  have "filter (\<lambda>r. rating_user_id r \<noteq> user_id u)
      (map (\<lambda>r. if rating_id r = i then r\<lparr>rating_stars := s\<rparr> else r) rs) =
      filter (\<lambda>r. rating_user_id r \<noteq> user_id u) rs"
    if "\<forall>r \<in> set rs. rating_id r = i \<longrightarrow> rating_user_id r = user_id u" for rs
    using that by (induction rs) auto
  from this [of "rows (db_ratings db)"] show ?thesis
    using assms by (auto simp: others_def update_stars_def)
qed

lemma own_by_id:
  "rating_keys_ok db \<Longrightarrow> x \<in> set (rows (db_ratings db)) \<Longrightarrow> rating_user_id x = user_id u \<Longrightarrow>
   r \<in> set (rows (db_ratings db)) \<Longrightarrow> rating_id r = rating_id x \<Longrightarrow> rating_user_id r = user_id u"
  by (metis distinct_map inj_onD)

lemma GetRating_SomeD:
  "GetRating pf u i db = (Inr (Some x), d) \<Longrightarrow> rating_keys_ok db \<Longrightarrow>
   d = tick db \<and> rating_id x = i \<and> x \<in> set (rows (db_ratings db)) \<and> rating_user_id x = user_id u"
  by (auto dest: GetRating_Some)

lemma stmt_unfold:
  "stmt pf body db =
     (case pf_fault pf (db_clock db) of
        Some e \<Rightarrow> (Inl (ErrDriver e), tick db)
      | None \<Rightarrow> body (db_clock db) (tick db))"
  by (simp add: stmt_def tick_def Let_def split: option.splits)

lemma others_DeleteRatings: "others u (snd (DeleteRatings pf u db)) = others u db"
  by (simp add: DeleteRatings_def stmt_unfold others_delete_own split: option.splits)

lemma others_DeleteRating:
  assumes "rating_keys_ok db" shows "others u (snd (DeleteRating pf u i db)) = others u db"
proof -
  obtain x d where g: "GetRating pf u i db = (x, d)" by fastforce
  then have d: "d = tick db" using GetRating_state [of pf u i db] by simp
  have del: "others u (delete_ratings (\<lambda>r. rating_id r = rating_id y) (tick (tick db))) = others u db"
    if "x = Inr (Some y)" for y
    using GetRating_SomeD [of pf u i db y d] g that own_by_id [OF assms, of y u] assms
    by (subst others_delete_own) auto
  show ?thesis
    using del by (simp add: DeleteRating_def g d stmt_unfold split: sum.splits option.splits)
qed

lemma others_UpdateRating:
  assumes "rating_keys_ok db" shows "others u (snd (UpdateRating pf u r db)) = others u db"
proof (cases "UpdateRating pf u r db")
  case (Pair y d)
  show ?thesis
  proof (cases y)
    case (Inl e)
    with Pair have "tables d = tables db" by (simp add: UpdateRating_Inl)
    with Pair show ?thesis by (simp add: others_tables [of d db])
  next
    case (Inr r')
    with Pair obtain x d0 where g: "GetRating pf u (rating_id r) db = (Inr (Some x), d0)"
      and t: "run_in_tx pf (stmt pf (\<lambda>k d. (Inr (x\<lparr>rating_stars := rating_stars r\<rparr>),
              update_stars (rating_id x) (rating_stars r) d))) d0 = (Inr r', d)"
      by (auto simp: UpdateRating_def Let_def split: if_splits prod.splits sum.splits option.splits)
    note x = GetRating_SomeD [OF g assms]
    from t obtain d1 where "stmt pf (\<lambda>k d. (Inr (x\<lparr>rating_stars := rating_stars r\<rparr>),
              update_stars (rating_id x) (rating_stars r) d)) (tick d0) = (Inr r', d1)" "d = tick d1"
      by (rule run_in_tx_success)
    with stmt_Inr [OF this(1)] have "d = tick (update_stars (rating_id x) (rating_stars r) (tick (tick d0)))"
      by simp
    moreover have "others u (update_stars (rating_id x) (rating_stars r) (tick (tick d0))) = others u (tick (tick d0))"
      using x own_by_id [OF assms, of x u] by (intro others_update_own) auto
    ultimately show ?thesis using Pair x by simp
  qed
qed

subsection \<open>Recording a rating\<close>

lemma record_rating_tx_rows:
  assumes "record_rating_tx pf cfg r db = (Inr r', d)" "rating_id r = 0" "db_inv db"
  shows "r' = r\<lparr>rating_id := seq (db_ratings db) + 1\<rparr> \<and> r' \<in> set (rows (db_ratings d)) \<and>
    rows (db_ratings d) = (if maxRatings cfg \<le> 0 then rows (db_ratings db) @ [r']
       else filter (row_kept rating_id (fixedRatings cfg) (maxRatings cfg) (rows (db_ratings db) @ [r']))
              (rows (db_ratings db) @ [r']))"
  using assms(1)
proof (cases rule: record_rating_tx_Inr)
  case (1 d1)
  note i = insert_rating_Inr [OF 1(1)]
  have rows1: "rows (db_ratings d1) = rows (db_ratings db) @ [r']"
    and r': "r' = r\<lparr>rating_id := seq (db_ratings db) + 1\<rparr>"
    using i assms(2) by auto
  have below: "\<forall>s \<in> set (rows (db_ratings db)). rating_id s < rating_id r'"
    using assms(3) r' by (auto simp: db_inv_defs)
  then have keys: "distinct (map rating_id (rows (db_ratings d1)))"
    using assms(3) rows1 by (auto simp: db_inv_defs)
  show ?thesis
  proof (cases "0 < maxRatings cfg")
    case True
    with enforce_ratings_Inr [OF 1(2) True] keys rows1
      ratings.filter_not_evicted [OF keys True, of "fixedRatings cfg"]
      ratings.last_row_kept [OF True below, of "fixedRatings cfg"] r'
    show ?thesis by simp
  next
    case False
    with 1(2) have "d = d1" by (simp add: enforce_off)
    with rows1 r' False show ?thesis by simp
  qed
qed

lemma GetRecommendation_known:
  assumes "GetRecommendation pf i db = (Inr (Some p), d)"
  shows "i \<in> pizza_ids db"
  using assms
  by (auto simp: GetRecommendation_def dest!: query_Inr first_row_Inr split: prod.splits sum.splits if_splits)

lemma RecordRating_rows:
  assumes "RecordRating pf cfg r db = (Inr r', db')" "db_inv db"
  shows "r' = r\<lparr>rating_id := seq (db_ratings db) + 1\<rparr> \<and> rating_pizza_id r \<in> pizza_ids db \<and>
    r' \<in> set (rows (db_ratings db')) \<and>
    rows (db_ratings db') = (if maxRatings cfg \<le> 0 then rows (db_ratings db) @ [r']
       else filter (row_kept rating_id (fixedRatings cfg) (maxRatings cfg) (rows (db_ratings db) @ [r']))
              (rows (db_ratings db) @ [r']))"
  using assms(1)
proof (cases rule: RecordRating_Inr)
  case (1 p d0 d1)
  have d0: "tables d0 = tables db" "evolves db d0"
    using 1(1) evolves_GetRecommendation [of db pf "rating_pizza_id r"] by (auto dest: GetRecommendation_tables)
  have "d0 = db\<lparr>db_clock := db_clock d0\<rparr>"
    using 1(1) by (auto simp: GetRecommendation_def tick_def dest!: query_tickD split: prod.splits sum.splits if_splits)
  then obtain k where k: "d0 = db\<lparr>db_clock := k\<rparr>" by blast
  have inv: "db_inv (tick d0)" using d0(2) assms(2) by (simp add: evolvesD)
  have "rating_id (r\<lparr>rating_id := 0\<rparr>) = 0" by simp
  note t = record_rating_tx_rows [OF 1(2) this inv]
  have eq: "db_ratings d0 = db_ratings db" "db_ratings db' = db_ratings d1"
    by (simp_all add: k 1(3))
  have r': "r' = r\<lparr>rating_id := seq (db_ratings db) + 1\<rparr>"
    using t by (simp add: eq)
  have "rating_pizza_id r \<in> pizza_ids db" using GetRecommendation_known [OF 1(1)] .
  then show ?thesis
    using t unfolding eq tick_simps by (intro conjI r') blast+
qed

lemma GetRecommendation_fst:
  assumes "fault_free pf"
  shows "(\<exists>p. fst (GetRecommendation pf i db) = Inr (Some p)) \<longleftrightarrow> i \<in> pizza_ids db"
    and "i \<notin> pizza_ids db \<Longrightarrow> fst (GetRecommendation pf i db) = Inr None"
proof -
  show none: "fst (GetRecommendation pf i db) = Inr None" if "i \<notin> pizza_ids db"
    using that by (simp add: GetRecommendation_def query_ok [OF assms] first_row_none)
  have "\<exists>p. fst (GetRecommendation pf i db) = Inr (Some p)" if i: "i \<in> pizza_ids db"
  proof -
    have "\<exists>r. first_row (scan pf (db_clock db) (filter (\<lambda>r. pr_id r = i) (rows (db_pizzas db)))) = Inr r"
      using i unfolding first_row_Inr_iff by (auto simp: filter_empty_conv)
    then show ?thesis by (auto simp: GetRecommendation_def query_ok [OF assms])
  qed
  with none show "(\<exists>p. fst (GetRecommendation pf i db) = Inr (Some p)) \<longleftrightarrow> i \<in> pizza_ids db"
    by (cases "i \<in> pizza_ids db") simp_all
qed

lemma GetRecommendation_state:
  "fault_free pf \<Longrightarrow> \<exists>k. snd (GetRecommendation pf i db) = db\<lparr>db_clock := k\<rparr>"
  by (auto simp: GetRecommendation_def query_ok tick_def split: sum.splits)

lemma record_rating_tx_ok:
  assumes "fault_free pf" "rating_id r = 0" "db_inv db" "seq (db_ratings db) < max_int64"
  shows "fst (record_rating_tx pf cfg r db) =
    (if pf_foreign_keys pf \<and> \<not> (rating_user_id r \<in> user_ids db \<and> rating_pizza_id r \<in> pizza_ids db)
     then Inl (ErrConstraint ''ratings'') else Inr (r\<lparr>rating_id := seq (db_ratings db) + 1\<rparr>))"
proof -
  have "seq (db_ratings db) + 1 \<notin> rating_ids db"
    using assms(3) by (force simp: db_inv_defs)
  then have "fst (insert_rating pf r (db_clock db) (tick db)) =
    (if pf_foreign_keys pf \<and> \<not> (rating_user_id r \<in> user_ids db \<and> rating_pizza_id r \<in> pizza_ids db)
     then Inl (ErrConstraint ''ratings'') else Inr (r\<lparr>rating_id := seq (db_ratings db) + 1\<rparr>))"
    using assms(2,4) by (auto simp: insert_rating_def insert_row_def Let_def)
  then show ?thesis
    using enforce_ok [OF assms(1), of RatingTable "fixedRatings cfg" "maxRatings cfg"]
    by (auto simp: record_rating_tx_def stmt_ok [OF assms(1)] case_prod_beta split: sum.splits if_splits)
qed

lemma RecordRating_ok:
  assumes "fault_free pf" "db_inv db" "seq (db_ratings db) < max_int64"
  shows "fst (RecordRating pf cfg r db) =
    (if rating_pizza_id r \<notin> pizza_ids db then Inl (ErrPizzaNotFound (rating_pizza_id r))
     else if pf_foreign_keys pf \<and> rating_user_id r \<notin> user_ids db then Inl (ErrConstraint ''ratings'')
     else Inr (r\<lparr>rating_id := seq (db_ratings db) + 1\<rparr>))"
proof -
  obtain x d where g: "GetRecommendation pf (rating_pizza_id r) db = (x, d)" by fastforce
  obtain k where d: "d = db\<lparr>db_clock := k\<rparr>"
    using GetRecommendation_state [OF assms(1), of "rating_pizza_id r" db] g by auto
  show ?thesis
  proof (cases "rating_pizza_id r \<in> pizza_ids db")
    case False
    with GetRecommendation_fst(2) [OF assms(1), of "rating_pizza_id r" db] g
    show ?thesis by (simp add: RecordRating_def)
  next
    case True
    with GetRecommendation_fst(1) [OF assms(1), of "rating_pizza_id r" db] g
    obtain p where "x = Inr (Some p)" by auto
    with g have "fst (RecordRating pf cfg r db) = fst (record_rating_tx pf cfg (r\<lparr>rating_id := 0\<rparr>) (tick d))"
      by (simp add: RecordRating_def run_in_tx_fst [OF assms(1)])
    also have "\<dots> = (if pf_foreign_keys pf \<and> rating_user_id r \<notin> user_ids db then Inl (ErrConstraint ''ratings'')
        else Inr (r\<lparr>rating_id := seq (db_ratings db) + 1\<rparr>))"
      using record_rating_tx_ok [OF assms(1), of "r\<lparr>rating_id := 0\<rparr>" "tick d" cfg] assms(2,3) d True by simp
    finally show ?thesis using True by simp
  qed
qed

subsection \<open>Properties\<close>

text \<open>C3: what \<open>RecordRating\<close> answers on every path of a database that works: an unknown pizza is
  reported before anything is written, an unknown user by the foreign key, and else the rating
  comes back with the next identifier, whatever identifier the caller supplied.\<close>

theorem RecordRating_result:
  assumes "fault_free pf" and "db_inv db" and "seq (db_ratings db) < max_int64"
  shows "fst (RecordRating pf cfg r db) =
    (if rating_pizza_id r \<notin> pizza_ids db then Inl (ErrPizzaNotFound (rating_pizza_id r))
     else if pf_foreign_keys pf \<and> rating_user_id r \<notin> user_ids db then Inl (ErrConstraint ''ratings'')
     else Inr (r\<lparr>rating_id := seq (db_ratings db) + 1\<rparr>))"
  by (rule RecordRating_ok [OF assms])

theorem RecordRating_result_witness:
  "fst (RecordRating demo_platform demo_config
      \<lparr>rating_id = 77, rating_stars = 4, rating_user_id = 3, rating_pizza_id = 2\<rparr> demo_db) =
    Inr \<lparr>rating_id = 4, rating_stars = 4, rating_user_id = 3, rating_pizza_id = 2\<rparr>"
  using RecordRating_result [of demo_platform demo_db demo_config
      "\<lparr>rating_id = 77, rating_stars = 4, rating_user_id = 3, rating_pizza_id = 2\<rparr>"]
  by (simp add: max_int64_def seed_users_def seed_pizzas_def)

text \<open>A rating that was recorded is there: its owner reads it back under the new identifier, it
  refers to an existing pizza, and the table holds exactly the old ratings and the new one, less
  those that are neither fixed nor among the newest \<open>maxRatings\<close>; with a maximum that is zero or
  negative it loses none.\<close>

theorem recorded_rating_stored:
  assumes "fault_free pf" and "pf_foreign_keys pf" and "db_inv db"
    and "RecordRating pf cfg r db = (Inr r', db')" and "user_id u = rating_user_id r"
  shows "fst (GetRating pf u (rating_id r') db') = Inr (Some r') \<and> rating_stars r' = rating_stars r \<and>
    rating_pizza_id r' \<in> pizza_ids db \<and>
    rows (db_ratings db') = (if maxRatings cfg \<le> 0 then rows (db_ratings db) @ [r']
       else filter (row_kept rating_id (fixedRatings cfg) (maxRatings cfg) (rows (db_ratings db) @ [r']))
              (rows (db_ratings db) @ [r']))"
proof -
  note r = RecordRating_rows [OF assms(4,3)]
  have "db_inv db'"
    using evolvesD [OF evolves_RecordRating [OF assms(2)] assms(3), of cfg r] assms(4) by simp
  then have k: "rating_keys_ok db'" by (rule db_inv_rating_keys)
  have "rating_map db' (rating_id r') = Some r'"
    unfolding rating_map_def by_key_Some_iff [OF k] using r by blast
  then have "owned db' u (rating_id r') = Some r'"
    using r assms(5) by (simp add: owned_def)
  then show ?thesis using r GetRating_ok [OF assms(1) k] by auto
qed

lemma demo_RecordRating:
  "\<exists>r' db'. RecordRating demo_platform demo_config
     \<lparr>rating_id = 0, rating_stars = 4, rating_user_id = 3, rating_pizza_id = 2\<rparr> demo_db = (Inr r', db')"
proof -
  have "\<exists>r'. fst (RecordRating demo_platform demo_config
      \<lparr>rating_id = 0, rating_stars = 4, rating_user_id = 3, rating_pizza_id = 2\<rparr> demo_db) = Inr r'"
    using RecordRating_ok [of demo_platform demo_db demo_config
      "\<lparr>rating_id = 0, rating_stars = 4, rating_user_id = 3, rating_pizza_id = 2\<rparr>"]
    by (simp add: max_int64_def seed_users_def seed_pizzas_def)
  then show ?thesis by (metis prod.collapse)
qed

theorem recorded_rating_stored_witness:
  "\<exists>r' db'. fst (GetRating demo_platform studio_user (rating_id r') db') = Inr (Some r') \<and>
     rating_stars r' = 4 \<and> rating_pizza_id r' \<in> pizza_ids demo_db"
proof -
  obtain r' db' where r: "RecordRating demo_platform demo_config
     \<lparr>rating_id = 0, rating_stars = 4, rating_user_id = 3, rating_pizza_id = 2\<rparr> demo_db = (Inr r', db')"
    using demo_RecordRating by blast
  from recorded_rating_stored [OF _ _ _ r, of studio_user] show ?thesis by auto
qed





text \<open>C11: the writing operations are atomic: one that returns an error, at whatever statement the
  database failed, has changed no table.\<close>

theorem failed_writes_change_nothing:
  "(case RecordRating pf cfg r db of (Inl _, d) \<Rightarrow> tables d = tables db | _ \<Rightarrow> True) \<and>
   (case RecordUser pf cfg u db of (Inl _, d) \<Rightarrow> tables d = tables db | _ \<Rightarrow> True) \<and>
   (case RecordRecommendation pf cfg ctx p db of (Inl _, d) \<Rightarrow> tables d = tables db | _ \<Rightarrow> True) \<and>
   (case UpdateRating pf u r db of (Inl _, d) \<Rightarrow> tables d = tables db | _ \<Rightarrow> True) \<and>
   (case DeleteRating pf u i db of (Inl _, d) \<Rightarrow> tables d = tables db | _ \<Rightarrow> True) \<and>
   (case DeleteRatings pf u db of (Inl _, d) \<Rightarrow> tables d = tables db | _ \<Rightarrow> True)"
  by (auto split: prod.splits sum.splits
      dest: RecordRating_Inl RecordUser_Inl RecordRecommendation_Inl UpdateRating_Inl DeleteRating_Inl DeleteRatings_Inl)

end
