(* ===== verification/Recommendations.thy ===== *)
theory Recommendations
  imports Ratings
begin

section \<open>Recommendations and history\<close>

text \<open>
  What \<open>RecordRecommendation\<close> adds to the tables, what \<open>GetRecommendation\<close> and
  \<open>GetHistory\<close> read from them, and the lists of ratings and ingredients.
\<close>

subsection \<open>Recording a recommendation\<close>

lemma insert_ingredients_Inr:
  "insert_ingredients pf pid is db = (Inr (), d) \<Longrightarrow>
     db_pizza_to_ingredients d = db_pizza_to_ingredients db @ map (\<lambda>i. (pid, ing_id i)) is \<and>
     db_pizzas d = db_pizzas db \<and> db_doughs d = db_doughs db \<and> db_ingredients d = db_ingredients db \<and>
     (pf_foreign_keys pf \<longrightarrow> (\<forall>i \<in> set is. ing_id i \<in> ingredient_ids db))"
proof (induction "is" arbitrary: db)
  case (Cons i "is")
  from Cons.prems obtain d1 where s: "stmt pf (insert_pizza_to_ingredient pf pid (ing_id i)) db = (Inr (), d1)"
    and r: "insert_ingredients pf pid is d1 = (Inr (), d)"
    by (auto split: prod.splits sum.splits)
  have d1: "d1 = (tick db)\<lparr>db_pizza_to_ingredients := db_pizza_to_ingredients db @ [(pid, ing_id i)]\<rparr> \<and>
      (pf_foreign_keys pf \<longrightarrow> ing_id i \<in> ingredient_ids db)"
    using stmt_Inr [OF s] by (auto simp: insert_pizza_to_ingredient_def split: if_splits)
  from Cons.IH [OF r] d1 show ?case by auto
qed auto

text \<open>The new pizza has the largest identifier: then it outlives the limit of its own transaction.\<close>

lemma record_pizza_tx_rows:
  assumes "record_pizza_tx pf cfg p db = (Inr p', d)" "distinct (map pr_id (rows (db_pizzas db)))"
    and "\<forall>i \<in> pizza_ids db. i < pizza_id p'"
  obtains r where "r \<in> set (rows (db_pizzas d))" "pr_id r = pizza_id p'" "pr_name r = pizza_name p"
    "pr_dough_id r = pizza_dough_id p" "pr_tool r = pizza_tool p" "distinct (map pr_id (rows (db_pizzas d)))"
    "db_doughs d = db_doughs db" "db_ingredients d = db_ingredients db"
    "filter (\<lambda>(q, i). q = pizza_id p') (db_pizza_to_ingredients d) =
       filter (\<lambda>(q, i). q = pizza_id p') (db_pizza_to_ingredients db) @
       map (\<lambda>i. (pizza_id p', ing_id i)) (pizza_ingredients p)"
    "pf_foreign_keys pf \<longrightarrow> (\<forall>i \<in> set (pizza_ingredients p). ing_id i \<in> ingredient_ids db) \<and>
       pizza_dough_id p \<in> dough_id ` set (db_doughs db)"
proof -
  obtain d1 d2 where i: "insert_pizza pf p (db_clock db) (tick db) = (Inr p', d1)"
    and m: "insert_ingredients pf (pizza_id p') (pizza_ingredients p') d1 = (Inr (), d2)"
    and e: "enforceTableSizeLimits pf PizzaTable (fixedPizzas cfg) (maxPizzas cfg) d2 = (Inr (), d)"
    using assms(1) by (auto simp: record_pizza_tx_def dest!: stmt_Inr split: prod.splits sum.splits)
  note p = insert_pizza_Inr [OF i] and m2m = insert_ingredients_Inr [OF m]
  let ?r = "(pizza_to_row pf (db_clock db) p)\<lparr>pr_id := pizza_id p'\<rparr>"
  have rows2: "rows (db_pizzas d2) = rows (db_pizzas db) @ [?r]" using p m2m by simp
  have "p' = p\<lparr>pizza_id := pizza_id p', pizza_created_at := pr_created_at (pizza_to_row pf (db_clock db) p)\<rparr>"
    using p by blast
  from arg_cong [OF this, of pizza_ingredients] have ings: "pizza_ingredients p' = pizza_ingredients p" by simp
  have d1: "d1 = (tick db)\<lparr>db_pizzas := db_pizzas d1\<rparr>" using p by blast
  have same: "db_pizza_to_ingredients d1 = db_pizza_to_ingredients db" "db_doughs d1 = db_doughs db"
      "db_ingredients d1 = db_ingredients db"
    using arg_cong [OF d1, of db_pizza_to_ingredients] arg_cong [OF d1, of db_doughs]
      arg_cong [OF d1, of db_ingredients] by simp_all
  have below: "\<forall>s \<in> set (rows (db_pizzas db)). pr_id s < pr_id ?r" using assms(3) by simp
  then have keys: "distinct (map pr_id (rows (db_pizzas d2)))" using assms(2) rows2 by auto
  have links: "db_pizza_to_ingredients d2 = db_pizza_to_ingredients db @
      map (\<lambda>i. (pizza_id p', ing_id i)) (pizza_ingredients p)"
    using m2m same ings by simp
  have row: "pr_name ?r = pizza_name p" "pr_dough_id ?r = pizza_dough_id p" "pr_tool ?r = pizza_tool p"
    "pr_id ?r = pizza_id p'"
    by (simp_all add: pizza_to_row_def)
  have fk: "pf_foreign_keys pf \<longrightarrow> (\<forall>i \<in> set (pizza_ingredients p). ing_id i \<in> ingredient_ids db) \<and>
       pizza_dough_id p \<in> dough_id ` set (db_doughs db)"
    using p m2m same ings by simp
  show thesis
  proof (cases "0 < maxPizzas cfg")
    case False
    with e have "d = d2" by (simp add: enforce_off)
    with that [of ?r] rows2 row keys fk m2m same links show thesis by simp
  next
    case True
    let ?ev = "\<lambda>p. evicted (map pr_id (rows (db_pizzas d2))) (fixedPizzas cfg) (maxPizzas cfg) (pr_id p)"
    have d: "d = delete_pizzas pf ?ev (tick d2)" using enforce_pizzas_Inr [OF e True] .
    have stays: "\<not> ?ev ?r"
      using pizzas.not_evicted_iff [OF keys _ True, of ?r] pizzas.last_row_kept [OF True below] rows2 by simp
    then have "pizza_id p' \<notin> pr_id ` set (filter ?ev (rows (db_pizzas d2)))" by auto
    then have "filter (\<lambda>(q, i). q = pizza_id p') (db_pizza_to_ingredients d) =
        filter (\<lambda>(q, i). q = pizza_id p') (db_pizza_to_ingredients d2)"
      by (auto simp: d delete_pizzas_def delete_ratings_def Let_def intro!: filter_cong)
    moreover have "db_doughs d = db_doughs d2" "db_ingredients d = db_ingredients d2"
      by (simp_all add: d delete_pizzas_def delete_ratings_def Let_def)
    moreover have "?r \<in> set (rows (db_pizzas d))" using stays rows2 by (simp add: d)
    moreover have "distinct (map pr_id (rows (db_pizzas d)))" using keys by (auto simp: d)
    ultimately show thesis
      using that [of ?r] row fk m2m same links by simp
  qed
qed


lemma ing_by_id:
  assumes "distinct (map ing_id is)" "i \<in> ing_id ` set is"
  obtains g where "ing_id g = i" "filter (\<lambda>g. ing_id g = i) is = [g]"
proof -
  from assms(2) obtain g where "g \<in> set is" "ing_id g = i" by blast
  with filter_key_singleton [OF assms(1), of g] that show thesis by simp
qed

lemma concat_select: "concat (map (\<lambda>x. if P x then [f x] else []) xs) = map f (filter P xs)"
  by (induction xs) auto

text \<open>The ingredients a pizza is loaded with are the ones it is linked to.\<close>

lemma m2m_links:
  assumes "distinct (map ing_id ings)"
    and "\<forall>l \<in> set ls. fst l \<in> ps \<longrightarrow> snd l \<in> ing_id ` set ings"
  shows "map (\<lambda>(p, g). (p, ing_id g)) (concat (map (\<lambda>(p, i). if p \<in> ps
      then concat (map (\<lambda>ing. if ing_id ing = i then [(p, ing)] else []) ings) else []) ls))
    = filter (\<lambda>(p, i). p \<in> ps) ls"
  using assms(2)
proof (induction ls)
  case (Cons l ls)
  obtain p i where l: "l = (p, i)" by fastforce
  show ?case
  proof (cases "p \<in> ps")
    case True
    with Cons.prems have "i \<in> ing_id ` set ings" by (simp add: l)
    with assms(1) obtain g where g: "ing_id g = i" "filter (\<lambda>g. ing_id g = i) ings = [g]"
      by (rule ing_by_id)
    then show ?thesis using Cons True by (simp add: l concat_select)
  qed (use Cons in \<open>simp add: l\<close>)
qed simp

lemma m2m_rows_links:
  assumes "distinct (map ing_id (db_ingredients db))"
    and "filter (\<lambda>(q, i). q = pid) (db_pizza_to_ingredients db) = map (\<lambda>i. (pid, i)) is"
    and "set is \<subseteq> ingredient_ids db"
  shows "map (\<lambda>(p, g). (p, ing_id g)) (m2m_rows [pid] db) = map (\<lambda>i. (pid, i)) is"
proof -
  have "snd l \<in> ingredient_ids db" if "l \<in> set (db_pizza_to_ingredients db)" "fst l = pid" for l
  proof -
    from that have "l \<in> set (filter (\<lambda>(q, i). q = pid) (db_pizza_to_ingredients db))" by auto
    with assms(2,3) show ?thesis by auto
  qed
  with m2m_links [OF assms(1), of "db_pizza_to_ingredients db" "{pid}"] assms(2)
  show ?thesis by (simp add: m2m_rows_def)
qed

lemma load_pizza_ingredients:
  assumes "map (\<lambda>(p, g). (p, ing_id g)) m = map (\<lambda>i. (pr_id r, i)) is"
  shows "mset (map ing_id (pizza_ingredients (load_pizza db (scan pf k m) r))) = mset is"
proof -
  have "\<forall>x \<in> set m. fst x = pr_id r"
  proof
    fix x assume "x \<in> set m"
    then have "(fst x, ing_id (snd x)) \<in> set (map (\<lambda>i. (pr_id r, i)) is)"
      unfolding assms [symmetric] by (force simp: case_prod_beta)
    then show "fst x = pr_id r" by auto
  qed
  then have "filter (\<lambda>(p, _). p = pr_id r) (scan pf k m) = scan pf k m"
    by (auto simp: filter_id_conv)
  moreover have "mset (map (\<lambda>x. ing_id (snd x)) m) = mset is"
  proof -
    have "map (\<lambda>x. ing_id (snd x)) m = map snd (map (\<lambda>(p, g). (p, ing_id g)) m)"
      by (simp add: case_prod_beta comp_def)
    then show ?thesis by (simp add: assms comp_def)
  qed
  ultimately show ?thesis
    by (simp add: load_pizza_def comp_def)
qed

lemma GetRecommendation_row:
  assumes "fault_free pf" "distinct (map pr_id (rows (db_pizzas db)))" "r \<in> set (rows (db_pizzas db))"
    and "distinct (map ing_id (db_ingredients db))" "distinct (map dough_id (db_doughs db))"
    and "dough \<in> set (db_doughs db)" "dough_id dough = pr_dough_id r"
    and "filter (\<lambda>(q, i). q = pr_id r) (db_pizza_to_ingredients db) = map (\<lambda>i. (pr_id r, i)) is"
    and "set is \<subseteq> ingredient_ids db"
  obtains q where "fst (GetRecommendation pf (pr_id r) db) = Inr (Some q)" "pizza_id q = pr_id r"
    "pizza_name q = pr_name r" "pizza_tool q = pr_tool r" "pizza_dough q = dough"
    "mset (map ing_id (pizza_ingredients q)) = mset is"
proof -
  let ?q = "load_pizza (tick (tick db)) (scan pf (Suc (db_clock db)) (m2m_rows [pr_id r] (tick (tick db)))) r"
  have "first_row (scan pf k (filter (\<lambda>x. pr_id x = pr_id r) (rows (db_pizzas db)))) = Inr r" for k
    using first_row_unique [OF assms(2,3)] .
  then have "fst (GetRecommendation pf (pr_id r) db) = Inr (Some ?q)"
    by (simp add: GetRecommendation_def query_ok [OF assms(1)])
  moreover have "mset (map ing_id (pizza_ingredients ?q)) = mset is"
    using assms by (intro load_pizza_ingredients m2m_rows_links) simp_all
  moreover have "pizza_dough ?q = dough"
    using filter_key_singleton [OF assms(5,6)] assms(7) by (simp add: load_pizza_def joined_dough_def)
  ultimately show thesis using that [of ?q] by (simp add: load_pizza_def)
qed

lemma recommendation_found:
  assumes "fault_free pf" and "pf_foreign_keys pf" and "db_inv db"
    and "distinct (map ing_id (db_ingredients db))" and "distinct (map dough_id (db_doughs db))"
    and "RecordRecommendation pf cfg ctx p db = (Inr p', db')"
    and "\<forall>i \<in> pizza_ids db. i < pizza_id p'"
  shows "\<exists>q. fst (GetRecommendation pf (pizza_id p') db') = Inr (Some q) \<and> pizza_id q = pizza_id p' \<and> pizza_name q = pizza_name p \<and>
    pizza_tool q = pizza_tool p \<and> pizza_dough q \<in> set (db_doughs db) \<and>
    dough_id (pizza_dough q) = dough_id (pizza_dough p) \<and>
    mset (map ing_id (pizza_ingredients q)) = mset (map ing_id (pizza_ingredients p))"
  using assms(6)
proof (cases rule: RecordRecommendation_Inr)
  case (1 d0 d1)
  let ?p = "p\<lparr>pizza_dough_id := dough_id (pizza_dough p)\<rparr>"
  note t = tables_eqD [OF InjectErrors_tablesD [OF 1(1)]]
  have keys: "distinct (map pr_id (rows (db_pizzas (tick d0))))"
    using assms(3) t by (simp add: db_inv_defs)
  have new: "\<forall>i \<in> pizza_ids (tick d0). i < pizza_id p'" using assms(7) t by simp
  have "filter (\<lambda>(q, i). q = pizza_id p') (db_pizza_to_ingredients (tick d0)) = []"
    using assms(3,7) t by (fastforce simp: db_inv_defs filter_empty_conv)
  note unlinked = this
  obtain r where r: "r \<in> set (rows (db_pizzas d1))" "pr_id r = pizza_id p'" "pr_name r = pizza_name ?p"
    "pr_dough_id r = pizza_dough_id ?p" "pr_tool r = pizza_tool ?p" "distinct (map pr_id (rows (db_pizzas d1)))"
    "db_doughs d1 = db_doughs (tick d0)" "db_ingredients d1 = db_ingredients (tick d0)"
    "filter (\<lambda>(q, i). q = pizza_id p') (db_pizza_to_ingredients d1) =
       filter (\<lambda>(q, i). q = pizza_id p') (db_pizza_to_ingredients (tick d0)) @
       map (\<lambda>i. (pizza_id p', ing_id i)) (pizza_ingredients ?p)"
    "pf_foreign_keys pf \<longrightarrow> (\<forall>i \<in> set (pizza_ingredients ?p). ing_id i \<in> ingredient_ids (tick d0)) \<and>
       pizza_dough_id ?p \<in> dough_id ` set (db_doughs (tick d0))"
    by (rule record_pizza_tx_rows [OF 1(2) keys new])
  from r(10) assms(2) t obtain dough where d: "dough \<in> set (db_doughs db)" "dough_id dough = dough_id (pizza_dough p)"
    by auto
  obtain q where q: "fst (GetRecommendation pf (pr_id r) db') = Inr (Some q)" "pizza_id q = pr_id r"
    "pizza_name q = pr_name r" "pizza_tool q = pr_tool r" "pizza_dough q = dough"
    "mset (map ing_id (pizza_ingredients q)) = mset (map ing_id (pizza_ingredients p))"
  proof (rule GetRecommendation_row [OF assms(1), of db' r dough "map ing_id (pizza_ingredients p)"])
    show "filter (\<lambda>(q, i). q = pr_id r) (db_pizza_to_ingredients db') =
        map (\<lambda>i. (pr_id r, i)) (map ing_id (pizza_ingredients p))"
      using r(2,9) unlinked 1(3) by (simp add: comp_def)
  qed (use r d t 1(3) assms(2,4,5) in auto)
  show ?thesis using q r d t by (intro exI [of _ q]) simp
qed

subsection \<open>Properties\<close>

text \<open>A recommendation that was recorded as the newest pizza can be fetched again: under its
  identifier \<open>GetRecommendation\<close> finds a pizza with its name and tool, the dough of the database
  with its dough's identifier, and exactly its ingredients (in some order), each taken from
  the database.\<close>

theorem recorded_recommendation_found:
  assumes "fault_free pf" and "pf_foreign_keys pf" and "db_inv db"
    and "distinct (map ing_id (db_ingredients db))" and "distinct (map dough_id (db_doughs db))"
    and "RecordRecommendation pf cfg ctx p db = (Inr p', db')"
    and "\<forall>i \<in> pizza_ids db. i < pizza_id p'"
  shows "\<exists>q. fst (GetRecommendation pf (pizza_id p') db') = Inr (Some q) \<and> pizza_name q = pizza_name p \<and>
    pizza_tool q = pizza_tool p \<and> pizza_dough q \<in> set (db_doughs db) \<and>
    dough_id (pizza_dough q) = dough_id (pizza_dough p) \<and>
    mset (map ing_id (pizza_ingredients q)) = mset (map ing_id (pizza_ingredients p))"
  using recommendation_found [OF assms] by blast

definition demo_pizza :: pizza where
  "demo_pizza = zero_pizza\<lparr>pizza_name := ''Plain'', pizza_dough := seed_doughs ! 0,
     pizza_ingredients := [seed_ingredients ! 0], pizza_tool := ''Knife''\<rparr>"

lemma demo_RecordRecommendation:
  "\<exists>p' db'. RecordRecommendation demo_platform (demo_config\<lparr>maxPizzas := 0\<rparr>) Map.empty demo_pizza demo_db = (Inr p', db') \<and>
     pizza_id p' = 4"
  by (simp add: RecordRecommendation_def InjectErrors_quiet ctx_text_def run_in_tx_ok stmt_ok record_pizza_tx_def
      insert_pizza_def insert_row_def Let_def pizza_to_row_def demo_pizza_def zero_pizza_def seed_doughs_def
      seed_tools_def seed_ingredients_def seed_pizzas_def max_int64_def insert_pizza_to_ingredient_def
      seed_pizza_to_ingredients_def enforceTableSizeLimits_def)

theorem recorded_recommendation_found_witness:
  "\<exists>p' db' q. RecordRecommendation demo_platform (demo_config\<lparr>maxPizzas := 0\<rparr>) Map.empty demo_pizza demo_db = (Inr p', db') \<and>
     fst (GetRecommendation demo_platform (pizza_id p') db') = Inr (Some q) \<and> pizza_name q = ''Plain''"
proof -
  obtain p' db' where r: "RecordRecommendation demo_platform (demo_config\<lparr>maxPizzas := 0\<rparr>) Map.empty demo_pizza demo_db = (Inr p', db')"
    and p': "pizza_id p' = 4" using demo_RecordRecommendation by blast
  have "distinct (map ing_id (db_ingredients demo_db))" "distinct (map dough_id (db_doughs demo_db))"
    "\<forall>i \<in> pizza_ids demo_db. i < pizza_id p'"
    by (simp_all add: seed_ingredients_def seed_doughs_def seed_pizzas_def p')
  from recorded_recommendation_found [OF _ _ _ this(1,2) r this(3)] r show ?thesis
    by (auto simp: demo_pizza_def)
qed

text \<open>\<open>GetHistory\<close> over a database that works returns as many pizzas as there are, up to the
  limit, newest first; each one is stored, and none that it leaves out is newer than one it
  returns.\<close>

theorem history_newest_first:
  assumes "fault_free pf" and "distinct (map pr_id (rows (db_pizzas db)))"
    and "GetHistory pf n db = (Inr ps, db')"
  shows "length ps = min n (length (rows (db_pizzas db))) \<and>
    sorted_wrt (\<lambda>a b. pizza_created_at b \<le> pizza_created_at a) ps \<and>
    distinct (map pizza_id ps) \<and> set (map pizza_id ps) \<subseteq> pizza_ids db \<and>
    (\<forall>r \<in> set (rows (db_pizzas db)). \<forall>p \<in> set ps. pr_id r \<notin> pizza_id ` set ps \<longrightarrow> pr_created_at r \<le> pizza_created_at p)"
proof -
  let ?all = "sort_key (\<lambda>r. - pr_created_at r) (scan pf (db_clock db) (rows (db_pizzas db)))"
  let ?rs = "take n ?all"
  have sorted: "sorted_wrt (\<lambda>a b. pr_created_at b \<le> pr_created_at a) ?all"
    using sorted_sort_key [of "\<lambda>r. - pr_created_at r" "scan pf (db_clock db) (rows (db_pizzas db))"]
    by (simp add: sorted_wrt_map)
  have "distinct (map pr_id ?all)"
  proof -
    have "mset (map pr_id ?all) = mset (map pr_id (rows (db_pizzas db)))" by simp
    then show ?thesis using assms(2) mset_eq_imp_distinct_iff by blast
  qed
  then have dist: "distinct (map pr_id ?rs)" by (simp add: take_map [symmetric])
  obtain d m where ps: "ps = map (load_pizza d m) ?rs"
  proof (cases ?rs)
    case Nil
    with assms(3) that [of db "[]"] show thesis by (simp add: GetHistory_def query_ok [OF assms(1)])
  next
    case (Cons r rs)
    with assms(3) that show thesis by (auto simp: GetHistory_def query_ok [OF assms(1)])
  qed
  have load: "map pizza_id ps = map pr_id ?rs" "map pizza_created_at ps = map pr_created_at ?rs"
    by (simp_all add: ps load_pizza_def comp_def)
  have "sorted_wrt (\<lambda>a b. b \<le> a) (map pr_created_at ?rs)"
    using sorted_wrt_take [OF sorted, of n] by (simp add: sorted_wrt_map)
  then have "sorted_wrt (\<lambda>a b. pizza_created_at b \<le> pizza_created_at a) ps"
    by (simp add: load(2) [symmetric] sorted_wrt_map)
  moreover have "pr_created_at r \<le> pr_created_at p"
    if "r \<in> set (rows (db_pizzas db))" "p \<in> set ?rs" "pr_id r \<notin> pr_id ` set ?rs" for r p
  proof -
    have "set ?all = set ?rs \<union> set (drop n ?all)" by (metis append_take_drop_id set_append)
    moreover have "r \<in> set ?all" using that(1) by simp
    ultimately have "r \<in> set (drop n ?all)" using that(3) by blast
    moreover have "sorted_wrt (\<lambda>a b. pr_created_at b \<le> pr_created_at a) (?rs @ drop n ?all)"
      using sorted by simp
    ultimately show ?thesis using that(2) unfolding sorted_wrt_append by blast
  qed
  moreover have "pizza_id ` set ps = pr_id ` set ?rs" using load(1) by (metis set_map)
  moreover have "set ?rs \<subseteq> set (rows (db_pizzas db))" by (auto dest: in_set_takeD)
  moreover have "length ps = min n (length (rows (db_pizzas db)))" by (simp add: ps)
  ultimately show ?thesis using dist load(1)
    by (auto simp: ps load_pizza_def comp_def)
qed

theorem history_newest_first_witness:
  "\<exists>ps db'. GetHistory demo_platform 2 demo_db = (Inr ps, db') \<and> length ps = 2"
proof -
  obtain ps db' where h: "GetHistory demo_platform 2 demo_db = (Inr ps, db')"
    by (cases "take 2 (sort_key (\<lambda>r. - pr_created_at r) (seed_pizzas 0))") (auto simp: GetHistory_def query_ok)
  from history_newest_first [OF _ _ h] h show ?thesis by (auto simp: seed_pizzas_def)
qed

text \<open>\<open>GetRatings\<close> never returns a rating of another user nor more than 50; with no more than 50
  ratings of the user in a database that works, it returns all of them.\<close>

theorem GetRatings_own:
  "case GetRatings pf u db of
     (Inl e, _) \<Rightarrow> (\<exists>t. e = ErrDriver t) \<and> \<not> fault_free pf
   | (Inr rs, _) \<Rightarrow> length rs \<le> 50 \<and> set rs \<subseteq> {r \<in> set (rows (db_ratings db)). rating_user_id r = user_id u} \<and>
       (length (filter (\<lambda>r. rating_user_id r = user_id u) (rows (db_ratings db))) > 50 \<or>
        mset rs = mset (filter (\<lambda>r. rating_user_id r = user_id u) (rows (db_ratings db))))"
proof -
  let ?own = "filter (\<lambda>r. rating_user_id r = user_id u) (rows (db_ratings db))"
  obtain x d where q: "GetRatings pf u db = (x, d)" by fastforce
  show ?thesis
  proof (cases x)
    case (Inl e)
    with q have "(\<exists>t. e = ErrDriver t)" by (auto simp: GetRatings_def dest!: query_Inr_driver)
    moreover have "\<not> fault_free pf" using q Inl by (auto simp: GetRatings_def query_ok)
    ultimately show ?thesis using q Inl by simp
  next
    case (Inr rs)
    with q have rs: "rs = take 50 (scan pf (db_clock db) ?own)"
      by (auto simp: GetRatings_def getRatingsMax_def dest!: query_Inr)
    have "set rs \<subseteq> set ?own" unfolding rs by (metis set_scan set_take_subset)
    moreover have "length ?own > 50 \<or> mset rs = mset ?own" using rs by (cases "length ?own > 50") simp_all
    ultimately show ?thesis using q Inr rs by auto
  qed
qed

text \<open>A login that succeeds is justified, whatever statement fails: the user returned is a
  stored user of that name, and the password is the stored plain text one if there is one, else it
  matches the hash or the user is the default one. \<open>LoginUser\<close> itself never returns an error: a
  database that fails answers like a wrong password.\<close>

theorem LoginUser_sound:
  assumes "\<forall>p. \<not> pf_bcrypt_compare pf [] p"
  shows "case fst (LoginUser pf name pw db) of
     Inl _ \<Rightarrow> False
   | Inr None \<Rightarrow> True
   | Inr (Some u) \<Rightarrow> u \<in> set (rows (db_users db)) \<and> user_username u = name \<and> pf_fault pf (db_clock db) = None \<and>
       (if user_password_plaintext u = [] then IsGlobal u \<or> pf_bcrypt_compare pf (user_password_hash u) pw
        else pw = user_password_plaintext u)"
proof -
  have "\<not> IsGlobal zero_user" by (simp add: IsGlobal_def zero_user_def GlobalUsername_def)
  moreover obtain r d where q: "query pf (\<lambda>k d. first_row (scan pf k
            (filter (\<lambda>u. user_username u = name) (rows (db_users d))))) db = (r, d)" by fastforce
  moreover have "pf_fault pf (db_clock db) = None" if "r = Inr u" for u
    using q that by (auto simp: query_def stmt_def Let_def split: option.splits)
  moreover have "u \<in> set (rows (db_users db)) \<and> user_username u = name" if "r = Inr u" for u
    using q that by (auto dest!: query_Inr first_row_Inr)
  ultimately show ?thesis using assms
    by (cases r) (simp_all add: LoginUser_def Let_def CheckPassword_def zero_user_def)
qed

theorem LoginUser_sound_witness:
  "fst (LoginUser demo_platform ''studio-user'' ''k6studiorocks'' demo_db) = Inr (Some studio_user) \<and>
   fst (LoginUser demo_platform ''studio-user'' ''wrong'' demo_db) = Inr None"
  using LoginUser_sound [of demo_platform demo_db "''studio-user''" "''k6studiorocks''"]
  by (simp add: LoginUser_def query_ok seed_users_def studio_user_def)

text \<open>C9: \<open>enforceTableSizeLimits\<close> on pizzas keeps exactly those with an identifier up to
  \<open>fixed\<close> and the \<open>maximum\<close> newest ones, and with each pizza it deletes go its ratings and
  its ingredient entries, while every other row stays. A maximum of zero or less switches it off.\<close>

theorem enforce_pizza_limit:
  assumes "fault_free pf" and "pf_foreign_keys pf" and "db_inv db"
    and "enforceTableSizeLimits pf PizzaTable fixed maximum db = (x, db')"
  shows "x = Inr () \<and> (maximum \<le> 0 \<longrightarrow> db' = db) \<and>
    (0 < maximum \<longrightarrow>
      rows (db_pizzas db') = filter (row_kept pr_id fixed maximum (rows (db_pizzas db))) (rows (db_pizzas db)) \<and>
      rows (db_ratings db') = filter (\<lambda>r. rating_pizza_id r \<in> pizza_ids db') (rows (db_ratings db)) \<and>
      db_pizza_to_ingredients db' = filter (\<lambda>(p, i). p \<in> pizza_ids db') (db_pizza_to_ingredients db) \<and>
      rows (db_users db') = rows (db_users db))"
proof (cases "0 < maximum")
  case False
  with assms(4) show ?thesis by (auto simp: enforceTableSizeLimits_def)
next
  case True
  let ?rs = "rows (db_pizzas db)"
  let ?ev = "\<lambda>p. evicted (map pr_id ?rs) fixed maximum (pr_id p)"
  have x: "x = Inr ()" using assms(4) enforce_ok [OF assms(1)] by (metis fst_conv)
  have d: "db' = delete_pizzas pf ?ev (tick db)"
    using enforce_pizzas_Inr [OF assms(4) [unfolded x] True] .
  have keys: "distinct (map pr_id ?rs)" using assms(3) by (simp add: db_inv_defs)
  have pizzas: "rows (db_pizzas db') = filter (\<lambda>p. \<not> ?ev p) ?rs" by (simp add: d)
  have kept: "i \<notin> pr_id ` set (filter ?ev ?rs) \<longleftrightarrow> i \<in> pizza_ids db'" if "i \<in> pizza_ids db" for i
    using that keys unfolding pizzas by (auto dest: inj_onD simp: distinct_map)
  have refs: "\<forall>r \<in> set (rows (db_ratings db)). rating_pizza_id r \<in> pizza_ids db"
    "\<forall>(p, i) \<in> set (db_pizza_to_ingredients db). p \<in> pizza_ids db"
    using assms(3) by (auto simp: db_inv_defs)
  have "rows (db_ratings db') = filter (\<lambda>r. rating_pizza_id r \<in> pizza_ids db') (rows (db_ratings db))"
    using refs(1) kept assms(2) by (auto simp: d delete_pizzas_def delete_ratings_def Let_def intro!: filter_cong)
  moreover have "db_pizza_to_ingredients db' = filter (\<lambda>(p, i). p \<in> pizza_ids db') (db_pizza_to_ingredients db)"
    using refs(2) kept assms(2) by (auto simp: d delete_pizzas_def delete_ratings_def Let_def intro!: filter_cong)
  moreover have "rows (db_users db') = rows (db_users db)" by (simp add: d)
  ultimately show ?thesis
    using x True pizzas pizzas.filter_not_evicted [OF keys True, of fixed] by simp
qed

theorem enforce_pizza_limit_witness:
  "\<exists>db'. enforceTableSizeLimits demo_platform PizzaTable 0 1 demo_db = (Inr (), db') \<and>
     map pr_id (rows (db_pizzas db')) = [3] \<and> map rating_id (rows (db_ratings db')) = [3]"
proof -
  obtain x db' where e: "enforceTableSizeLimits demo_platform PizzaTable 0 1 demo_db = (x, db')" by fastforce
  from enforce_pizza_limit [OF _ _ _ e] e show ?thesis
    by (auto simp: seed_pizzas_def seed_ratings_def row_kept_def)
qed

text \<open>Being fixed does not protect a rating from the cascade: with ten fixed ratings, recording one
  pizza evicts the pizza that rating 1 is about, and rating 1 goes with it.\<close>

theorem fixed_rating_lost_by_cascade:
  "\<exists>cfg c db. db_inv db \<and> fixedRatings cfg = 10 \<and> 1 \<in> rating_ids db \<and>
     1 \<notin> rating_ids (call_step demo_platform cfg c db)"
proof (intro exI conjI)
  let ?cfg = "demo_config\<lparr>fixedPizzas := 0, maxPizzas := 1\<rparr>"
  show "db_inv demo_db" "fixedRatings ?cfg = 10" "1 \<in> rating_ids demo_db"
    by (simp_all add: seed_ratings_def)
  have newest: "newest (Suc 0) [1, 2, 3, 4] = [4]" by (simp add: newest_def)
  show "1 \<notin> rating_ids (call_step demo_platform ?cfg (CallRecordRecommendation Map.empty demo_pizza) demo_db)"
    by (simp add: RecordRecommendation_def InjectErrors_quiet ctx_text_def run_in_tx_ok stmt_ok record_pizza_tx_def
      insert_pizza_def insert_row_def Let_def pizza_to_row_def demo_pizza_def zero_pizza_def seed_doughs_def
      seed_tools_def seed_ingredients_def seed_pizzas_def max_int64_def insert_pizza_to_ingredient_def
      seed_pizza_to_ingredients_def enforceTableSizeLimits_def delete_pizzas_def delete_ratings_def
      evicted_def newest seed_ratings_def image_iff conj_disj_distribR ex_disj_distrib)
qed

end
