(* ===== verification/Handlers.thy ===== *)
theory Handlers
  imports Recommendations
begin

section \<open>The handlers of the catalog service (\<open>AddCatalogHandler\<close>)\<close>

text \<open>
  The three groups of routes of \<open>AddCatalogHandler\<close> in \<^verbatim>\<open>pkg/http/http.go\<close>: the catalog group
  behind \<open>AuthMiddleware\<close>, the users group and the admin group. A handler takes the request,
  the response writer and the database and returns the written response and the new database.
  A route with an identifier gets the text of its URL parameter.
\<close>

record http_context =
  hc_user :: "user option"
  hc_values :: ctx_values

definition background :: http_context where
  "background = \<lparr>hc_user = None, hc_values = Map.empty\<rparr>"

type_synonym handler = "http_context \<Rightarrow> request \<Rightarrow> rw \<Rightarrow> db \<Rightarrow> rw \<times> db"

definition contextUser :: "http_context \<Rightarrow> user option" where
  "contextUser ctx = hc_user ctx"

subsection \<open>Middleware\<close>

definition AuthMiddleware :: "platform \<Rightarrow> handler \<Rightarrow> handler" where
  "AuthMiddleware pf next ctx r w db =
     (let token = getRequestToken r in
      if token = [] then (writeJSONErrorResponse ErrAuth 401 w, db)
      else case Authenticate pf token db of
        (Inl e, d) \<Rightarrow> (writeJSONErrorResponse ErrAuth 401 w, d)
      | (Inr user, d) \<Rightarrow> next (ctx\<lparr>hc_user := Some user\<rparr>) r w d)"

definition InjectErrorHeadersMiddleware :: "handler \<Rightarrow> handler" where
  "InjectErrorHeadersMiddleware next ctx r w db =
     next (ctx\<lparr>hc_values := InjectErrorHeaders r (hc_values ctx)\<rparr>) r w db"

subsection \<open>Ingredients, doughs, tools\<close>

definition getIngredients :: "platform \<Rightarrow> string \<Rightarrow> handler" where
  "getIngredients pf ingredientType ctx r w db =
     (case GetIngredients pf (hc_values ctx) ingredientType db of
        (Inl e, d) \<Rightarrow> (write_header 500 w, d)
      | (Inr ingredients, d) \<Rightarrow>
          if length ingredients = 0
          then (write_body (UnknownIngredient ingredientType) (write_header 400 w), d)
          else (writeJSONResponse (JObj [(''ingredients'', JArr (map enc_ingredient ingredients))]) 200 w, d))"

definition getDoughs :: "platform \<Rightarrow> handler" where
  "getDoughs pf ctx r w db =
     (case GetDoughs pf db of
        (Inl e, d) \<Rightarrow> (write_header 500 w, d)
      | (Inr doughs, d) \<Rightarrow> (writeJSONResponse (JObj [(''doughs'', JArr (map enc_dough doughs))]) 200 w, d))"

definition getTools :: "platform \<Rightarrow> handler" where
  "getTools pf ctx r w db =
     (case GetTools pf db of
        (Inl e, d) \<Rightarrow> (write_header 500 w, d)
      | (Inr tools, d) \<Rightarrow> (writeJSONResponse (JObj [(''tools'', JArr (map JStr tools))]) 200 w, d))"

subsection \<open>Ratings\<close>

definition postRating :: "platform \<Rightarrow> config \<Rightarrow> handler" where
  "postRating pf cfg ctx r w db =
     (case contextUser ctx of
        None \<Rightarrow> (writeJSONErrorResponse ErrAuth 401 w, db)
      | Some user \<Rightarrow>
          (case decodeJSONBody dec_rating zero_rating r w of
             Inl w' \<Rightarrow> (w', db)
           | Inr rating \<Rightarrow>
               (case rating_Validate rating of
                  Some e \<Rightarrow> (writeJSONErrorResponse e 400 w, db)
                | None \<Rightarrow>
                    (case RecordRating pf cfg (rating\<lparr>rating_user_id := user_id user\<rparr>) db of
                       (Inl e, d) \<Rightarrow> (writeJSONErrorResponse e 400 w, d)
                     | (Inr rating', d) \<Rightarrow> (writeJSONResponse (enc_rating rating') 201 w, d)))))"

definition getRating :: "platform \<Rightarrow> string \<Rightarrow> handler" where
  "getRating pf param ctx r w db =
     (case Atoi param of
        (_, Some _) \<Rightarrow> (write_header 400 w, db)
      | (idParam, None) \<Rightarrow>
          (case contextUser ctx of
             None \<Rightarrow> (writeJSONErrorResponse ErrAuth 401 w, db)
           | Some user \<Rightarrow>
               (case GetRating pf user idParam db of
                  (Inl e, d) \<Rightarrow> (writeJSONErrorResponse e 400 w, d)
                | (Inr None, d) \<Rightarrow> (writeJSONErrorResponse ErrNotFound 404 w, d)
                | (Inr (Some rating), d) \<Rightarrow> (writeJSONResponse (enc_rating rating) 200 w, d))))"

definition getRatings :: "platform \<Rightarrow> handler" where
  "getRatings pf ctx r w db =
     (case contextUser ctx of
        None \<Rightarrow> (writeJSONErrorResponse ErrAuth 401 w, db)
      | Some user \<Rightarrow>
          (case GetRatings pf user db of
             (Inl e, d) \<Rightarrow> (writeJSONErrorResponse e 400 w, d)
           | (Inr ratings, d) \<Rightarrow>
               (writeJSONResponse (JObj [(''ratings'', JArr (map enc_rating ratings))]) 200 w, d)))"

text \<open>The status of a failed change: 403 for the default user, else 400.\<close>

definition change_error :: "err \<Rightarrow> rw \<Rightarrow> rw" where
  "change_error e w =
     (if e = ErrGlobalOperationNotPermitted then writeJSONErrorResponse e 403 w
      else writeJSONErrorResponse e 400 w)"

definition updateRating :: "platform \<Rightarrow> string \<Rightarrow> handler" where
  "updateRating pf param ctx r w db =
     (case Atoi param of
        (_, Some _) \<Rightarrow> (write_header 400 w, db)
      | (idParam, None) \<Rightarrow>
          (case contextUser ctx of
             None \<Rightarrow> (writeJSONErrorResponse ErrAuth 401 w, db)
           | Some user \<Rightarrow>
               (case decodeJSONBody dec_rating zero_rating r w of
                  Inl w' \<Rightarrow> (w', db)
                | Inr rating \<Rightarrow>
                    (case rating_Validate rating of
                       Some e \<Rightarrow> (writeJSONErrorResponse e 400 w, db)
                     | None \<Rightarrow>
                         (case UpdateRating pf user (rating\<lparr>rating_id := idParam\<rparr>) db of
                            (Inl e, d) \<Rightarrow> (change_error e w, d)
                          | (Inr updated, d) \<Rightarrow> (writeJSONResponse (enc_rating updated) 200 w, d))))))"

definition deleteRatings :: "platform \<Rightarrow> handler" where
  "deleteRatings pf ctx r w db =
     (case contextUser ctx of
        None \<Rightarrow> (writeJSONErrorResponse ErrAuth 401 w, db)
      | Some user \<Rightarrow>
          (case DeleteRatings pf user db of
             (Inl e, d) \<Rightarrow> (change_error e w, d)
           | (Inr _, d) \<Rightarrow> (write_header 204 w, d)))"

definition deleteRating :: "platform \<Rightarrow> string \<Rightarrow> handler" where
  "deleteRating pf param ctx r w db =
     (case Atoi param of
        (_, Some _) \<Rightarrow> (write_header 400 w, db)
      | (idParam, None) \<Rightarrow>
          (case contextUser ctx of
             None \<Rightarrow> (writeJSONErrorResponse ErrAuth 401 w, db)
           | Some user \<Rightarrow>
               (case DeleteRating pf user idParam db of
                  (Inl e, d) \<Rightarrow> (change_error e w, d)
                | (Inr _, d) \<Rightarrow> (write_header 204 w, d))))"

definition expired_cookie :: "string \<Rightarrow> cookie" where
  "expired_cookie name =
     \<lparr>cookie_name = name, cookie_value = [], cookie_strict = True, cookie_path = ''/'',
      cookie_expires = Some 0\<rparr>"

definition session_cookie :: "string \<Rightarrow> string \<Rightarrow> cookie" where
  "session_cookie name v =
     \<lparr>cookie_name = name, cookie_value = v, cookie_strict = True, cookie_path = ''/'',
      cookie_expires = None\<rparr>"

definition logout :: handler where
  "logout ctx r w db = (write_header 200 (set_cookie (expired_cookie qpUserTokenCookie) w), db)"

subsection \<open>Users\<close>

definition csrfToken :: handler where
  "csrfToken ctx r w db =
     (let (t, d) = GenerateAlphaNumToken csrfTokenLength db in
      (set_cookie (session_cookie csrfTokenCookie t) w, d))"

definition postUser :: "platform \<Rightarrow> config \<Rightarrow> handler" where
  "postUser pf cfg ctx r w db =
     (case decodeJSONBody dec_user zero_user r w of
        Inl w' \<Rightarrow> (w', db)
      | Inr user \<Rightarrow>
          (case user_Validate user of
             Some e \<Rightarrow> (writeJSONErrorResponse e 400 w, db)
           | None \<Rightarrow>
               (case RecordUser pf cfg user db of
                  (Inl e, d) \<Rightarrow>
                    (if e = ErrUsernameTaken then writeJSONErrorResponse e 400 w
                     else write_header 500 w, d)
                | (Inr user', d) \<Rightarrow>
                    (writeJSONResponse (enc_user (user'\<lparr>user_password := [], user_token := []\<rparr>)) 201 w, d))))"

record login_data =
  login_username :: string
  login_password :: string
  login_csrf :: string

definition zero_login :: login_data where
  "zero_login = \<lparr>login_username = [], login_password = [], login_csrf = []\<rparr>"

definition set_login_field :: "string \<Rightarrow> json \<Rightarrow> login_data \<Rightarrow> json_err + login_data" where
  "set_login_field k j l =
     (if k = ''username'' then on_field (\<lambda>v. l\<lparr>login_username := v\<rparr>) (dec_string k j (login_username l))
      else if k = ''password'' then on_field (\<lambda>v. l\<lparr>login_password := v\<rparr>) (dec_string k j (login_password l))
      else if k = ''csrf'' then on_field (\<lambda>v. l\<lparr>login_csrf := v\<rparr>) (dec_string k j (login_csrf l))
      else Inl (JsonUnknownField k))"

definition dec_login :: "login_data decoder" where
  "dec_login = dec_struct ''loginData'' set_login_field"

definition login :: "platform \<Rightarrow> handler" where
  "login pf ctx r w db =
     (case decodeJSONBody dec_login zero_login r w of
        Inl w' \<Rightarrow> (w', db)
      | Inr data \<Rightarrow>
          (let setCookie = (query_get r ''set_cookie'' \<noteq> []);
               csrf = (case request_cookie r csrfTokenCookie of None \<Rightarrow> [] | Some v \<Rightarrow> v) in
           if setCookie \<and> csrf \<noteq> login_csrf data then (writeJSONErrorResponse ErrInvalidCsrf 401 w, db)
           else case LoginUser pf (login_username data) (login_password data) db of
             (Inl e, d) \<Rightarrow> (write_header 500 w, d)
           | (Inr None, d) \<Rightarrow> (writeJSONErrorResponse ErrAuth 401 w, d)
           | (Inr (Some user), d) \<Rightarrow>
               (let w' = (if setCookie
                          then set_cookie (expired_cookie csrfTokenCookie)
                                 (set_cookie (session_cookie qpUserTokenCookie (user_token user)) w)
                          else w)
                in (writeJSONResponse (JObj [(''token'', JStr (user_token user))]) 200 w', d))))"

definition authenticate :: "platform \<Rightarrow> handler" where
  "authenticate pf ctx r w db =
     (let token = getRequestToken r in
      if token = [] then (writeJSONErrorResponse ErrAuth 401 w, db)
      else case Authenticate pf token db of
        (Inl e, d) \<Rightarrow> (write_header 500 w, d)
      | (Inr user, d) \<Rightarrow> (writeJSONResponse (enc_user user) 200 w, d))"

subsection \<open>Administration\<close>

definition postRecommendation :: "platform \<Rightarrow> config \<Rightarrow> handler" where
  "postRecommendation pf cfg ctx r w db =
     (if header_get (rq_headers r) ''X-Is-Internal'' = [] then (writeJSONErrorResponse ErrAuth 401 w, db)
      else case decodeJSONBody dec_pizza zero_pizza r w of
        Inl w' \<Rightarrow> (w', db)
      | Inr latestRecommendation \<Rightarrow>
          (case RecordRecommendation pf cfg (hc_values ctx) latestRecommendation db of
             (Inl e, d) \<Rightarrow> (write_header 500 w, d)
           | (Inr pizza, d) \<Rightarrow> (writeJSONResponse (enc_pizza pizza) 201 w, d)))"

definition getRecommendation :: "platform \<Rightarrow> string \<Rightarrow> handler" where
  "getRecommendation pf param ctx r w db =
     (case Atoi param of
        (_, Some _) \<Rightarrow> (write_header 400 w, db)
      | (idParam, None) \<Rightarrow>
          (case GetRecommendation pf idParam db of
             (Inl e, d) \<Rightarrow> (write_header 500 w, d)
           | (Inr None, d) \<Rightarrow> (write_header 404 w, d)
           | (Inr (Some recommendation), d) \<Rightarrow> (writeJSONResponse (enc_pizza recommendation) 200 w, d)))"

definition getRecommendations :: "platform \<Rightarrow> handler" where
  "getRecommendations pf ctx r w db =
     (let token = (case request_cookie r ''admin_token'' of None \<Rightarrow> [] | Some v \<Rightarrow> v) in
      if token = [] then (writeJSONErrorResponse ErrAuth 401 w, db)
      else case GetHistory pf 15 db of
        (Inl e, d) \<Rightarrow> (write_header 500 w, d)
      | (Inr history, d) \<Rightarrow> (writeJSONResponse (JObj [(''pizzas'', JArr (map enc_pizza history))]) 200 w, d))"

text \<open>\<open>guid\<close> is the text of the identifier that \<^verbatim>\<open>xid.New\<close> returns.\<close>

definition adminLogin :: "string \<Rightarrow> handler" where
  "adminLogin guid ctx r w db =
     (if rq_method r \<noteq> ''GET'' \<and> rq_method r \<noteq> ''POST'' then (write_header 405 w, db)
      else
        let user = query_get r ''user''; password = query_get r ''password'' in
        if user = [] \<or> password = [] then (write_header 400 w, db)
        else if user \<noteq> ''admin'' \<or> password \<noteq> ''admin'' then (writeJSONErrorResponse ErrAuth 401 w, db)
        else (writeJSONResponse (JObj [(''token'', JStr guid)]) 200
                (set_cookie (session_cookie ''admin_token'' guid) w), db))"

subsection \<open>The routes\<close>

datatype route =
    IngredientsRoute string | DoughsRoute | ToolsRoute
  | PostRatingRoute | RatingRoute string | RatingsRoute | UpdateRatingRoute string
  | DeleteRatingsRoute | DeleteRatingRoute string | LogoutRoute
  | CsrfRoute | PostUserRoute | LoginRoute | AuthenticateRoute
  | PostRecommendationRoute | RecommendationRoute string | RecommendationsRoute | AdminLoginRoute string

text \<open>The routes of the catalog group, which run behind its three middlewares.\<close>

fun catalog_route :: "platform \<Rightarrow> config \<Rightarrow> route \<Rightarrow> handler option" where
  "catalog_route pf cfg (IngredientsRoute t) = Some (getIngredients pf t)"
| "catalog_route pf cfg DoughsRoute = Some (getDoughs pf)"
| "catalog_route pf cfg ToolsRoute = Some (getTools pf)"
| "catalog_route pf cfg PostRatingRoute = Some (postRating pf cfg)"
| "catalog_route pf cfg (RatingRoute i) = Some (getRating pf i)"
| "catalog_route pf cfg RatingsRoute = Some (getRatings pf)"
| "catalog_route pf cfg (UpdateRatingRoute i) = Some (updateRating pf i)"
| "catalog_route pf cfg DeleteRatingsRoute = Some (deleteRatings pf)"
| "catalog_route pf cfg (DeleteRatingRoute i) = Some (deleteRating pf i)"
| "catalog_route pf cfg LogoutRoute = Some logout"
| "catalog_route pf cfg _ = None"

fun open_route :: "platform \<Rightarrow> config \<Rightarrow> route \<Rightarrow> handler" where
  "open_route pf cfg CsrfRoute = csrfToken"
| "open_route pf cfg PostUserRoute = postUser pf cfg"
| "open_route pf cfg LoginRoute = login pf"
| "open_route pf cfg AuthenticateRoute = authenticate pf"
| "open_route pf cfg PostRecommendationRoute = postRecommendation pf cfg"
| "open_route pf cfg (RecommendationRoute i) = getRecommendation pf i"
| "open_route pf cfg RecommendationsRoute = getRecommendations pf"
| "open_route pf cfg (AdminLoginRoute guid) = adminLogin guid"
| "open_route pf cfg _ = (\<lambda>ctx r w db. (write_header 404 w, db))"

definition serve :: "platform \<Rightarrow> config \<Rightarrow> route \<Rightarrow> request \<Rightarrow> db \<Rightarrow> rw \<times> db" where
  "serve pf cfg rt r db =
     (case catalog_route pf cfg rt of
        Some h \<Rightarrow> AuthMiddleware pf (InjectErrorHeadersMiddleware h) background r new_rw db
      | None \<Rightarrow> open_route pf cfg rt background r new_rw db)"

subsection \<open>Every request is a step of the database\<close>

lemma decode_case:
  assumes "\<And>v. evolves db (snd (f v))"
  shows "evolves db (snd (case decodeJSONBody d zero r w of Inl w' \<Rightarrow> (w', db) | Inr v \<Rightarrow> f v))"
  using assms by (auto split: sum.splits)

lemma param_case:
  assumes "\<And>i. evolves db (snd (f i))"
  shows "evolves db (snd (case Atoi p of (_, Some _) \<Rightarrow> (w, db) | (i, None) \<Rightarrow> f i))"
  using assms by (auto split: prod.split option.split)

lemma evolves_getIngredients: "evolves db (snd (getIngredients pf t ctx r w db))"
  unfolding getIngredients_def by (rule evolves_case) (auto intro!: evolve_intros split: sum.splits)

lemma evolves_getDoughs: "evolves db (snd (getDoughs pf ctx r w db))"
  unfolding getDoughs_def by (rule evolves_case) (auto intro!: evolve_intros split: sum.splits)

lemma evolves_getTools: "evolves db (snd (getTools pf ctx r w db))"
  unfolding getTools_def by (rule evolves_case) (auto intro!: evolve_intros split: sum.splits)

lemma evolves_postRating: "pf_foreign_keys pf \<Longrightarrow> evolves db (snd (postRating pf cfg ctx r w db))"
  unfolding postRating_def
  by (auto intro!: decode_case evolves_case evolve_intros split: option.splits sum.splits)

lemma evolves_getRating: "evolves db (snd (getRating pf i ctx r w db))"
  unfolding getRating_def
  by (auto intro!: param_case evolves_case evolve_intros split: option.splits sum.splits)

lemma evolves_getRatings: "evolves db (snd (getRatings pf ctx r w db))"
  unfolding getRatings_def
  by (auto intro!: evolves_case evolve_intros split: option.splits sum.splits)

lemma evolves_updateRating: "evolves db (snd (updateRating pf i ctx r w db))"
  unfolding updateRating_def
  by (auto intro!: decode_case param_case evolves_case evolve_intros
      split: option.splits sum.splits)

lemma evolves_deleteRatings: "evolves db (snd (deleteRatings pf ctx r w db))"
  unfolding deleteRatings_def
  by (auto intro!: evolves_case evolve_intros split: option.splits sum.splits)

lemma evolves_deleteRating: "evolves db (snd (deleteRating pf i ctx r w db))"
  unfolding deleteRating_def
  by (auto intro!: param_case evolves_case evolve_intros split: option.splits sum.splits)

lemma evolves_csrfToken: "evolves db (snd (csrfToken ctx r w db))"
  by (simp add: csrfToken_def GenerateAlphaNumToken_def case_prod_beta)

lemma evolves_postUser: "pf_foreign_keys pf \<Longrightarrow> evolves db (snd (postUser pf cfg ctx r w db))"
  unfolding postUser_def
  by (auto intro!: decode_case evolves_case evolve_intros split: option.splits sum.splits)

lemma evolves_login: "evolves db (snd (login pf ctx r w db))"
  unfolding login_def Let_def
  by (intro decode_case) (auto intro!: evolves_case [of _ "LoginUser _ _ _ _"] evolve_intros split: option.splits sum.splits)

lemma evolves_authenticate: "evolves db (snd (authenticate pf ctx r w db))"
  by (auto simp: authenticate_def Let_def intro!: evolves_case evolve_intros split: sum.splits)

lemma evolves_postRecommendation: "pf_foreign_keys pf \<Longrightarrow> evolves db (snd (postRecommendation pf cfg ctx r w db))"
  unfolding postRecommendation_def
  by (auto intro!: decode_case evolves_case evolve_intros split: sum.splits)

lemma evolves_getRecommendation: "evolves db (snd (getRecommendation pf i ctx r w db))"
  unfolding getRecommendation_def
  by (auto intro!: param_case evolves_case evolve_intros split: option.splits sum.splits)

lemma evolves_getRecommendations: "evolves db (snd (getRecommendations pf ctx r w db))"
  unfolding getRecommendations_def Let_def
  by (auto intro!: evolves_case [of _ "GetHistory _ _ _"] evolve_intros split: sum.splits)

lemmas evolves_handlers = evolves_getIngredients evolves_getDoughs evolves_getTools evolves_postRating
  evolves_getRating evolves_getRatings evolves_updateRating evolves_deleteRatings evolves_deleteRating
  evolves_csrfToken evolves_postUser evolves_login evolves_authenticate evolves_postRecommendation
  evolves_getRecommendation evolves_getRecommendations

lemma evolves_AuthMiddleware:
  assumes "\<And>ctx r w d. evolves d (snd (h ctx r w d))"
  shows "evolves db (snd (AuthMiddleware pf h ctx r w db))"
  using assms by (auto simp: AuthMiddleware_def Let_def intro!: evolves_case evolve_intros split: sum.splits)

lemma evolves_catalog_route:
  "pf_foreign_keys pf \<Longrightarrow> catalog_route pf cfg rt = Some h \<Longrightarrow> evolves db (snd (h ctx r w db))"
  by (cases rt) (auto simp: evolves_handlers logout_def)

lemma evolves_open_route:
  "pf_foreign_keys pf \<Longrightarrow> evolves db (snd (open_route pf cfg rt ctx r w db))"
  by (cases rt) (auto simp: evolves_handlers adminLogin_def Let_def)

lemma evolves_serve: "pf_foreign_keys pf \<Longrightarrow> evolves db (snd (serve pf cfg rt r db))"
  by (auto simp: serve_def InjectErrorHeadersMiddleware_def
      intro!: evolves_AuthMiddleware evolves_open_route split: option.splits
      intro: evolves_catalog_route)

fun serve_all :: "platform \<Rightarrow> config \<Rightarrow> (route \<times> request) list \<Rightarrow> db \<Rightarrow> db" where
  "serve_all pf cfg [] db = db"
| "serve_all pf cfg (q # qs) db = serve_all pf cfg qs (snd (serve pf cfg (fst q) (snd q) db))"

interpretation server: invariant_machine "\<lambda>q db. snd (serve pf cfg (fst q) (snd q) db)" "serve_all pf cfg"
    "\<lambda>db. pf_foreign_keys pf \<and> evolves db0 db" for pf cfg db0
  by unfold_locales (auto intro: evolves_trans evolves_serve)

subsection \<open>Answers\<close>

definition fresh :: "rw \<Rightarrow> bool" where
  "fresh w \<longleftrightarrow> rw_status w = None \<and> rw_body w = []"

definition known_statuses :: "nat list" where
  "known_statuses = [200, 201, 204, 400, 401, 403, 404, 405, 500]"

text \<open>A complete answer: one of the known statuses, and one body at most.\<close>

definition answered :: "rw \<Rightarrow> bool" where
  "answered w \<longleftrightarrow> status w \<in> set known_statuses \<and> length (rw_body w) \<le> 1"

lemma fresh_new_rw [simp]: "fresh new_rw"
  by (simp add: fresh_def)

lemma fresh_set [simp]: "fresh (set_cookie c w) = fresh w" "fresh (set_header n v w) = fresh w"
  by (simp_all add: fresh_def)

lemma answered_write_json [simp]:
  "fresh w \<Longrightarrow> st \<in> set known_statuses \<Longrightarrow> answered (write_json b st w)"
  by (auto simp: fresh_def answered_def known_statuses_def)

lemma answered_write_header [simp]:
  "fresh w \<Longrightarrow> st \<in> set known_statuses \<Longrightarrow> answered (write_header st w)"
  by (auto simp: fresh_def answered_def known_statuses_def)

lemma answered_text [simp]:
  "fresh w \<Longrightarrow> st \<in> set known_statuses \<Longrightarrow> answered (write_body b (write_header st w))"
  by (auto simp: fresh_def answered_def known_statuses_def write_body_def write_header_def Let_def)

lemma answered_responses [simp]:
  "fresh w \<Longrightarrow> st \<in> set known_statuses \<Longrightarrow> answered (writeJSONResponse j st w)"
  "fresh w \<Longrightarrow> st \<in> set known_statuses \<Longrightarrow> answered (writeJSONErrorResponse e st w)"
  by (simp_all add: writeJSONResponse_def writeJSONErrorResponse_def)

lemma answered_change_error [simp]: "fresh w \<Longrightarrow> answered (change_error e w)"
  by (simp add: change_error_def known_statuses_def)

lemma answered_fresh: "fresh w \<Longrightarrow> answered w"
  by (simp add: fresh_def answered_def status_def known_statuses_def)

lemma statuses_known [simp]:
  "200 \<in> set known_statuses" "201 \<in> set known_statuses" "204 \<in> set known_statuses"
  "400 \<in> set known_statuses" "401 \<in> set known_statuses" "404 \<in> set known_statuses"
  "405 \<in> set known_statuses" "500 \<in> set known_statuses"
  by (simp_all add: known_statuses_def)

lemma answered_decode: "decodeJSONBody d z r w = Inl w' \<Longrightarrow> fresh w \<Longrightarrow> answered w'"
  by (auto simp: decodeJSONBody_def split: sum.splits)

lemma answered_catalog_route:
  "catalog_route pf cfg rt = Some h \<Longrightarrow> fresh w \<Longrightarrow> answered (fst (h ctx r w db))"
  by (cases rt)
    (auto simp: getIngredients_def getDoughs_def getTools_def postRating_def getRating_def getRatings_def
      updateRating_def deleteRatings_def deleteRating_def logout_def
      split: prod.splits sum.splits option.splits intro: answered_decode)

lemma answered_open_route: "fresh w \<Longrightarrow> answered (fst (open_route pf cfg rt ctx r w db))"
  by (cases rt)
    (auto simp: csrfToken_def postUser_def login_def authenticate_def postRecommendation_def
      getRecommendation_def getRecommendations_def adminLogin_def Let_def answered_fresh
      split: prod.splits sum.splits option.splits intro: answered_decode)

lemma answered_serve: "answered (fst (serve pf cfg rt r db))"
  by (auto simp: serve_def AuthMiddleware_def InjectErrorHeadersMiddleware_def Let_def answered_open_route
      split: option.splits prod.splits sum.splits intro: answered_catalog_route)

end
