(* ===== verification/Api.thy ===== *)
theory Api
  imports Handlers
begin

section \<open>Properties of the catalog service's API\<close>

text \<open>
  What a client of the routes of \<open>AddCatalogHandler\<close> can rely on: integrity over any sequence
  of requests, complete answers, authentication, isolation of users, and what the ratings, users,
  login and administration routes answer.
\<close>

definition api_request :: "string \<Rightarrow> json \<Rightarrow> request" where
  "api_request token body =
     \<lparr>rq_method = ''POST'', rq_path = [], rq_headers = [(''Authorization'', ''Token '' @ token)],
      rq_cookies = [], rq_query = [], rq_json = Inr body\<rparr>"

lemma api_request_token: "length t = 16 \<Longrightarrow> getRequestToken (api_request t body) = t"
proof -
  assume "length t = 16"
  moreover have "to_lower ''Token'' = ''token''" "to_lower ''Authorization'' = to_lower authHeader"
    by (code_simp, simp add: authHeader_def)
  ultimately show ?thesis
    by (intro getRequestToken_header [where scheme = "''Token''"])
      (simp_all add: api_request_def requestTokenFromCookie_def request_cookie_def)
qed

lemma demo_Authenticate:
  "Authenticate demo_platform ''oBGOPc5tVtk9WAgf'' demo_db = (Inr studio_user, tick demo_db)"
  by (simp add: Authenticate_def query_ok seed_users_def studio_user_def)

text \<open>What happens to a request of the catalog group once its token is resolved.\<close>

lemma serve_catalog:
  assumes "catalog_route pf cfg rt = Some h" "getRequestToken r = t" "t \<noteq> []"
    and "Authenticate pf t db = (Inr u, d)"
  shows "serve pf cfg rt r db =
    h \<lparr>hc_user = Some u, hc_values = InjectErrorHeaders r Map.empty\<rparr> r new_rw d"
  using assms by (simp add: serve_def AuthMiddleware_def InjectErrorHeadersMiddleware_def background_def)

subsection \<open>Properties\<close>

text \<open>C5: any sequence of requests to the catalog service, whatever the requests contain and whichever
  statements fail, keeps the integrity of its database.\<close>

theorem requests_keep_integrity:
  assumes "pf_foreign_keys pf" and "db_inv db"
  shows "db_inv (serve_all pf cfg qs db)"
  using server.run_inv [of pf db db cfg qs] assms by (auto intro: evolvesD)

theorem requests_keep_integrity_witness:
  "db_inv (serve_all demo_platform demo_config
     [(PostRatingRoute, api_request ''oBGOPc5tVtk9WAgf'' (enc_rating (seed_ratings ! 0))),
      (DeleteRatingsRoute, api_request ''oBGOPc5tVtk9WAgf'' JNull)] demo_db)"
  by (rule requests_keep_integrity) simp_all

text \<open>C16: every request to the catalog service is answered completely: the status is one of 200, 201,
  204, 400, 401, 403, 404, 405 and 500, and at most one body is written.\<close>

theorem requests_answered:
  "status (fst (serve pf cfg rt r db)) \<in> {200, 201, 204, 400, 401, 403, 404, 405, 500} \<and>
   length (rw_body (fst (serve pf cfg rt r db))) \<le> 1"
  using answered_serve [of pf cfg rt r db] by (auto simp: answered_def known_statuses_def)





subsection \<open>Ratings over HTTP\<close>

lemma api_request_json [simp]: "rq_json (api_request t b) = Inr b"
  by (simp add: api_request_def)

lemma record_rating_tx_users:
  assumes "record_rating_tx pf cfg r db = (Inr r', d)"
  shows "db_users d = db_users db"
  using assms
proof (cases rule: record_rating_tx_Inr)
  case (1 d1)
  have "d1 = (tick db)\<lparr>db_ratings := db_ratings d1\<rparr>" using insert_rating_Inr [OF 1(1)] by blast
  from arg_cong [OF this, of db_users] have d1: "db_users d1 = db_users db" by simp
  have "d = d1 \<or> (\<exists>P. d = delete_ratings P (tick d1))"
    using 1(2) stmt_Inr [of pf _ d1 "()" d]
    by (auto simp: enforceTableSizeLimits_def split: if_splits)
  with d1 show ?thesis by auto
qed

lemma RecordRating_users:
  assumes "RecordRating pf cfg r db = (Inr r', d)" shows "rows (db_users d) = rows (db_users db)"
  using assms
proof (cases rule: RecordRating_Inr)
  case (1 p d0 d1)
  have "rows (db_users d0) = rows (db_users db)"
    using tables_eqD [OF GetRecommendation_tables [OF 1(1)]] by simp
  with record_rating_tx_users [OF 1(2)] 1(3) show ?thesis by simp
qed

lemma RecordRating_seq:
  assumes "fault_free pf" "RecordRating pf cfg r db = (Inr r', d)" "db_inv db" "seq (db_ratings db) < max_int64"
  shows "in_int64 (rating_id r')"
proof -
  have "rating_id r' = seq (db_ratings db) + 1"
    using RecordRating_rows [OF assms(2,3)] by simp
  moreover have "0 \<le> seq (db_ratings db)" using assms(3) by (simp add: db_inv_defs)
  ultimately show ?thesis using assms(4) by (simp add: in_int64_def min_int64_def)
qed

lemma scan_short: "length rs \<le> 1 \<Longrightarrow> scan pf k rs = rs"
  by (cases rs) auto

lemma filter_key_short: "distinct (map f rs) \<Longrightarrow> length (filter (\<lambda>x. f x = y) rs) \<le> 1"
  using filter_key_singleton [of f rs] by (cases "y \<in> f ` set rs") (auto simp: filter_key_none)

text \<open>With unique identifiers and tokens the order in which rows are returned does not matter.\<close>

lemma Authenticate_fst:
  assumes "fault_free pf" "keys_ok db"
  shows "fst (Authenticate pf t db) =
    (case filter (\<lambda>u. user_token u = t) (rows (db_users db)) of
       [] \<Rightarrow> first_row (filter (\<lambda>u. user_id u = 1) (rows (db_users db)))
     | u # _ \<Rightarrow> Inr u)"
proof -
  have ids: "distinct (map user_id (rows (db_users db)))"
    and tokens: "distinct (map user_token (rows (db_users db)))" using assms(2) by (simp_all add: keys_ok_def)
  show ?thesis
  proof (cases "filter (\<lambda>u. user_token u = t) (rows (db_users db))")
    case Nil
    then show ?thesis
      by (simp add: Authenticate_def query_ok [OF assms(1)] scan_short [OF filter_key_short [OF ids]])
  next
    case (Cons u us)
    moreover from this have "us = []" using filter_key_short [OF tokens, of t] by simp
    ultimately show ?thesis by (simp add: Authenticate_def query_ok [OF assms(1)])
  qed
qed

lemma Authenticate_same_users:
  assumes "fault_free pf" "keys_ok db" "keys_ok db'" "rows (db_users db') = rows (db_users db)"
    and "fst (Authenticate pf t db) = Inr u"
  shows "Authenticate pf t db' = (Inr u, snd (Authenticate pf t db'))"
proof -
  have "fst (Authenticate pf t db') = Inr u"
    using assms(5) unfolding Authenticate_fst [OF assms(1,2)] Authenticate_fst [OF assms(1,3)] assms(4) .
  then show ?thesis by (metis prod.collapse)
qed

text \<open>C6: posting a rating through the API and reading it back. With a user's token, a body that
  decodes to a rating of 1 to 5 stars for a pizza that exists is answered with 201 and the rating
  under a new identifier; getting that identifier with the same token is answered with 200 and the
  same rating. It belongs to the user of the token, whatever the body says.\<close>

theorem rating_http_round_trip:
  assumes "fault_free pf" and "pf_foreign_keys pf" and "db_inv db" and "seq (db_ratings db) < max_int64"
    and "getRequestToken r = t" and "getRequestToken r2 = t" and "t \<noteq> []"
    and "fst (Authenticate pf t db) = Inr u" and "u \<in> set (rows (db_users db))"
    and "rq_json r = Inr j" and "dec_rating j zero_rating = Inr v"
    and "1 \<le> rating_stars v" and "rating_stars v \<le> 5" and "rating_pizza_id v \<in> pizza_ids db"
  shows "let (w, db') = serve pf cfg PostRatingRoute r db;
       v' = v\<lparr>rating_id := seq (db_ratings db) + 1, rating_user_id := user_id u\<rparr>;
       w2 = fst (serve pf cfg (RatingRoute (Itoa (rating_id v'))) r2 db')
     in status w = 201 \<and> rw_body w = [JsonBody (enc_rating v')] \<and> v' \<in> set (rows (db_ratings db')) \<and>
        status w2 = 200 \<and> rw_body w2 = [JsonBody (enc_rating v')]"
proof -
  let ?v = "v\<lparr>rating_user_id := user_id u\<rparr>"
  let ?v' = "v\<lparr>rating_id := seq (db_ratings db) + 1, rating_user_id := user_id u\<rparr>"
  obtain d where a: "Authenticate pf t db = (Inr u, d)" using assms(8) by (metis prod.collapse)
  have t: "tables d = tables db" using tables_reading(9) [of pf t db] a by simp
  have inv: "db_inv d" using evolvesD [OF evolves_Authenticate assms(3), of pf t] a by simp
  have "\<exists>k. d = db\<lparr>db_clock := k\<rparr>"
    using a by (auto simp: Authenticate_def query_ok [OF assms(1)] tick_def split: sum.splits if_splits)
  then have seq: "seq (db_ratings d) = seq (db_ratings db)" by auto
  note same = tables_eqD [OF t]
  have r: "fst (RecordRating pf cfg ?v d) = Inr ?v'"
    using RecordRating_ok [OF assms(1) inv, of cfg ?v] assms(4,9,14) same seq by simp
  then obtain db' where rr: "RecordRating pf cfg ?v d = (Inr ?v', db')" by (metis prod.collapse)
  have inv': "db_inv db'" using evolvesD [OF evolves_RecordRating [OF assms(2)] inv, of cfg ?v] rr by simp
  have stored: "?v' \<in> set (rows (db_ratings db'))" using RecordRating_rows [OF rr inv] by blast
  have valid: "rating_Validate v = None" using assms(12,13) by (simp add: rating_Validate_None_iff)
  have post: "serve pf cfg PostRatingRoute r db = (writeJSONResponse (enc_rating ?v') 201 new_rw, db')"
    using rr valid assms(10,11)
    by (simp add: serve_catalog [OF _ assms(5,7) a] postRating_def contextUser_def decodeJSONBody_def)
  have "rows (db_users db') = rows (db_users db)" using RecordRating_users [OF rr] same by simp
  then have "Authenticate pf t db' = (Inr u, snd (Authenticate pf t db'))"
    using Authenticate_same_users [OF assms(1) _ _ _ assms(8), of db'] assms(3) inv' by (simp add: db_inv_def)
  then obtain d2 where a2: "Authenticate pf t db' = (Inr u, d2)" by blast
  have inv2: "db_inv d2" using evolvesD [OF evolves_Authenticate inv', of pf t] a2 by simp
  have t2: "tables d2 = tables db'" using tables_reading(9) [of pf t db'] a2 by simp
  have k2: "rating_keys_ok d2" using inv2 by (rule db_inv_rating_keys)
  have "?v' \<in> set (rows (db_ratings d2))" using stored tables_eqD [OF t2] by metis
  then have "owned d2 u (rating_id ?v') = Some ?v'"
    using by_key_Some_iff [OF k2, of "rating_id ?v'" ?v'] by (simp add: owned_def rating_map_def)
  then have get: "GetRating pf u (rating_id ?v') d2 = (Inr (Some ?v'), tick d2)"
    using GetRating_ok [OF assms(1) k2] by simp
  have "in_int64 (rating_id ?v')"
    using RecordRating_seq [OF assms(1) rr inv] seq assms(4) by simp
  then have "serve pf cfg (RatingRoute (Itoa (rating_id ?v'))) r2 db' =
      (writeJSONResponse (enc_rating ?v') 200 new_rw, tick d2)"
    using get by (simp add: serve_catalog [OF _ assms(6,7) a2] getRating_def contextUser_def Atoi_Itoa)
  then show ?thesis using post stored by (simp add: writeJSONResponse_def)
qed

theorem rating_http_round_trip_witness:
  "let (w, db') = serve demo_platform demo_config PostRatingRoute (api_request ''oBGOPc5tVtk9WAgf''
       (JObj [(''stars'', JInt 4), (''pizza_id'', JInt 2)])) demo_db;
     v' = \<lparr>rating_id = 4, rating_stars = 4, rating_user_id = 3, rating_pizza_id = 2\<rparr>;
     w2 = fst (serve demo_platform demo_config (RatingRoute (Itoa (rating_id v')))
       (api_request ''oBGOPc5tVtk9WAgf'' JNull) db')
   in status w = 201 \<and> rw_body w = [JsonBody (enc_rating v')] \<and> v' \<in> set (rows (db_ratings db')) \<and>
      status w2 = 200 \<and> rw_body w2 = [JsonBody (enc_rating v')]"
proof -
  have dec: "dec_rating (JObj [(''stars'', JInt 4), (''pizza_id'', JInt 2)]) zero_rating =
      Inr \<lparr>rating_id = 0, rating_stars = 4, rating_user_id = 0, rating_pizza_id = 2\<rparr>"
    by (simp add: dec_rating_def set_rating_field_def on_field_def zero_rating_def go_simps in_int64_def
        min_int64_def max_int64_def)
  show ?thesis
    using rating_http_round_trip [of demo_platform demo_db "api_request ''oBGOPc5tVtk9WAgf''
       (JObj [(''stars'', JInt 4), (''pizza_id'', JInt 2)])" "''oBGOPc5tVtk9WAgf''"
       "api_request ''oBGOPc5tVtk9WAgf'' JNull" studio_user
       "JObj [(''stars'', JInt 4), (''pizza_id'', JInt 2)]" _ demo_config, OF _ _ _ _ _ _ _ _ _ _ dec]
    by (simp add: api_request_token demo_Authenticate max_int64_def seed_pizzas_def seed_users_def
        studio_user_def [THEN eq_reflection])
qed

text \<open>A client whose token is not stored acts as the default user, who may read but not change:
  the update and delete routes answer 403 (or 400 or 404 before they reach the database) and
  leave every table as it is.\<close>

theorem unknown_token_changes_nothing:
  assumes "fault_free pf" and "db_inv db" and "u1 \<in> set (rows (db_users db))" and "user_id u1 = 1"
    and "IsGlobal u1" and "getRequestToken r \<notin> user_token ` set (rows (db_users db))"
    and "rt \<in> {UpdateRatingRoute p, DeleteRatingRoute p, DeleteRatingsRoute}"
  shows "status (fst (serve pf cfg rt r db)) \<in> {400, 401, 403} \<and> tables (snd (serve pf cfg rt r db)) = tables db"
proof (cases "getRequestToken r = []")
  case True
  then show ?thesis using assms(7)
    by (auto simp: serve_def AuthMiddleware_def writeJSONErrorResponse_def)
next
  case False
  have keys: "keys_ok db" using assms(2) by (simp add: db_inv_def)
  then have ids: "distinct (map user_id (rows (db_users db)))" by (simp add: keys_ok_def)
  have "filter (\<lambda>u. user_token u = getRequestToken r) (rows (db_users db)) = []"
    using assms(6) by (force simp: filter_empty_conv)
  moreover have "filter (\<lambda>u. user_id u = 1) (rows (db_users db)) = [u1]"
    using filter_key_singleton [OF ids assms(3)] assms(4) by simp
  ultimately have "fst (Authenticate pf (getRequestToken r) db) = Inr u1"
    by (simp add: Authenticate_fst [OF assms(1) keys])
  then obtain d where a: "Authenticate pf (getRequestToken r) db = (Inr u1, d)" by (metis prod.collapse)
  have t: "tables d = tables db" using tables_reading(9) [of pf "getRequestToken r" db] a by simp
  have ops: "UpdateRating pf u1 v d = (Inl ErrGlobalOperationNotPermitted, d)"
    "DeleteRating pf u1 i d = (Inl ErrGlobalOperationNotPermitted, d)"
    "DeleteRatings pf u1 d = (Inl ErrGlobalOperationNotPermitted, d)" for v i
    using assms(5) by (simp_all add: UpdateRating_def DeleteRating_def DeleteRatings_def IsGlobal_def)
  show ?thesis
    using assms(7) t
    by (auto simp: serve_catalog [OF _ refl False a] updateRating_def deleteRating_def deleteRatings_def
        contextUser_def ops change_error_def writeJSONErrorResponse_def decodeJSONBody_def
        split: prod.splits sum.splits option.splits)
qed

theorem unknown_token_changes_nothing_witness:
  "status (fst (serve demo_platform demo_config DeleteRatingsRoute
     (api_request ''zzzzzzzzzzzzzzzz'' JNull) demo_db)) \<in> {400, 401, 403} \<and>
   tables (snd (serve demo_platform demo_config DeleteRatingsRoute
     (api_request ''zzzzzzzzzzzzzzzz'' JNull) demo_db)) = tables demo_db"
proof (rule unknown_token_changes_nothing)
  show "seed_users ! 0 \<in> set (rows (db_users demo_db))" "user_id (seed_users ! 0) = 1"
    "IsGlobal (seed_users ! 0)"
    by (simp_all add: seed_users_def IsGlobal_def GlobalUsername_def)
  show "getRequestToken (api_request ''zzzzzzzzzzzzzzzz'' JNull) \<notin> user_token ` set (rows (db_users demo_db))"
    by (simp add: api_request_token seed_users_def)
qed simp_all

subsection \<open>Users over HTTP\<close>

text \<open>C15: creating a user never reveals a credential and never stores one in the clear: whatever the
  request and the database do, a 201 answer consists of the identifier and the name only; the
  plain text column stays empty; and the token of 16 characters that was stored is not the one
  a client might have sent.\<close>

theorem user_creation_reveals_nothing:
  assumes "db_inv db" and "serve pf cfg PostUserRoute r db = (w, db')"
  shows "status w = 201 \<longrightarrow> (\<exists>u \<in> set (rows (db_users db')). user_password u = [] \<and>
      user_password_plaintext u = [] \<and> length (user_token u) = 16 \<and> user_username u \<noteq> GlobalUsername \<and>
      rw_body w = [JsonBody (JObj [(''id'', JInt (user_id u)), (''username'', JStr (user_username u))])])"
proof
  assume st: "status w = 201"
  have p: "postUser pf cfg background r new_rw db = (w, db')" using assms(2) by (simp add: serve_def)
  obtain v where v: "decodeJSONBody dec_user zero_user r new_rw = Inr v" "user_Validate v = None"
  proof (cases "decodeJSONBody dec_user zero_user r new_rw")
    case (Inl w')
    with p have "w = w'" by (simp add: postUser_def)
    with Inl st decodeJSONBody_Inl [OF Inl] show thesis by simp
  next
    case (Inr v)
    with p st that show thesis
      by (cases "user_Validate v") (auto simp: postUser_def writeJSONErrorResponse_def)
  qed
  obtain u where u: "RecordUser pf cfg v db = (Inr u, db')"
    and w: "w = writeJSONResponse (enc_user (u\<lparr>user_password := [], user_token := []\<rparr>)) 201 new_rw"
    using p v st
    by (auto simp: postUser_def writeJSONErrorResponse_def split: prod.splits sum.splits if_splits)
  have "user_password_plaintext v = []"
    using v(1) by (auto simp: decodeJSONBody_Inr zero_user_def dest: dec_user_keeps_credentials)
  moreover have "user_username v \<noteq> GlobalUsername" using v(2) by (simp add: user_Validate_None_iff)
  moreover note RecordUser_stored [OF u assms(1)]
  ultimately show "\<exists>u \<in> set (rows (db_users db')). user_password u = [] \<and>
      user_password_plaintext u = [] \<and> length (user_token u) = 16 \<and> user_username u \<noteq> GlobalUsername \<and>
      rw_body w = [JsonBody (JObj [(''id'', JInt (user_id u)), (''username'', JStr (user_username u))])]"
    by (intro bexI [of _ "u\<lparr>user_password := []\<rparr>"]) (auto simp: w writeJSONResponse_def enc_user_def)
qed

lemma demo_dec_ada: "dec_user (enc_user ada) zero_user = Inr ada"
  by (simp add: dec_user_def enc_user_def ada_def zero_user_def set_user_field_def on_field_def
      in_int64_def min_int64_def max_int64_def go_simps)

theorem user_creation_reveals_nothing_witness:
  "\<exists>db' w u. serve demo_platform demo_config PostUserRoute (api_request [] (enc_user ada)) demo_db = (w, db') \<and>
     u \<in> set (rows (db_users db')) \<and> user_password_plaintext u = [] \<and>
     rw_body w = [JsonBody (JObj [(''id'', JInt (user_id u)), (''username'', JStr (user_username u))])]"
proof -
  obtain w db' where s: "serve demo_platform demo_config PostUserRoute (api_request [] (enc_user ada)) demo_db = (w, db')"
    by fastforce
  obtain u' d where r: "RecordUser demo_platform demo_config ada demo_db = (Inr u', d)"
    using demo_RecordUser by blast
  have "user_Validate ada = None" by (simp add: user_Validate_None_iff GlobalUsername_def)
  then have "status w = 201"
    using s r by (auto simp: serve_def postUser_def decodeJSONBody_def demo_dec_ada writeJSONResponse_def)
  with user_creation_reveals_nothing [OF _ s] s show ?thesis by fastforce
qed

subsection \<open>Login, administration and recommendations over HTTP\<close>

lemma login_valid:
  assumes "rq_json r = Inr j" "dec_login j zero_login = Inr l"
  shows "login pf ctx r w db =
    (let setCookie = (query_get r ''set_cookie'' \<noteq> []);
         csrf = (case request_cookie r csrfTokenCookie of None \<Rightarrow> [] | Some v \<Rightarrow> v) in
     if setCookie \<and> csrf \<noteq> login_csrf l then (writeJSONErrorResponse ErrInvalidCsrf 401 w, db)
     else case LoginUser pf (login_username l) (login_password l) db of
       (Inl e, d) \<Rightarrow> (write_header 500 w, d)
     | (Inr None, d) \<Rightarrow> (writeJSONErrorResponse ErrAuth 401 w, d)
     | (Inr (Some user), d) \<Rightarrow>
         (let w' = (if setCookie
                    then set_cookie (expired_cookie csrfTokenCookie)
                           (set_cookie (session_cookie qpUserTokenCookie (user_token user)) w)
                    else w)
          in (writeJSONResponse (JObj [(''token'', JStr (user_token user))]) 200 w', d)))"
  using assms by (simp add: login_def decodeJSONBody_def)

lemma sent_write_json:
  "rw_status w = None \<Longrightarrow> \<not> (100 \<le> st \<and> st \<le> 199) \<Longrightarrow>
   rw_sent (write_json b st w) = filter (\<lambda>h. \<forall>x. h \<noteq> Header ''Content-Type'' x) (rw_header w) @
     [Header ''Content-Type'' ''application/json'']"
  by (auto simp: write_json_def write_body_def write_header_def Let_def set_header_def)


definition login_request :: "string \<Rightarrow> string \<Rightarrow> request" where
  "login_request name pw = (api_request [] (JObj [(''username'', JStr name), (''password'', JStr pw)]))
     \<lparr>rq_query := [(''set_cookie'', ''1'')]\<rparr>"

lemma to_lower_login [go_simps]: "to_lower ''csrf'' = ''csrf''"
  by code_simp

lemma login_request_simps [simp]:
  "rq_json (login_request name pw) = Inr (JObj [(''username'', JStr name), (''password'', JStr pw)])"
  "query_get (login_request name pw) ''set_cookie'' = ''1''"
  "request_cookie (login_request name pw) c = None"
  by (simp_all add: login_request_def query_get_def request_cookie_def api_request_def)

lemma dec_login_request:
  "dec_login (JObj [(''username'', JStr name), (''password'', JStr pw)]) zero_login =
     Inr \<lparr>login_username = name, login_password = pw, login_csrf = []\<rparr>"
  by (simp add: dec_login_def set_login_field_def on_field_def zero_login_def go_simps)


text \<open>The CSRF check does not ask that a CSRF cookie exists: a request without that cookie and
  without a token in the body passes it, and gets the session cookie with the right password.\<close>

theorem login_csrf_absent:
  "request_cookie (login_request ''studio-user'' ''k6studiorocks'') csrfTokenCookie = None \<and>
   SetCookie (session_cookie qpUserTokenCookie ''oBGOPc5tVtk9WAgf'') \<in>
     set (rw_sent (fst (serve demo_platform demo_config LoginRoute
       (login_request ''studio-user'' ''k6studiorocks'') demo_db)))"
proof -
  have hd: "rw_header new_rw = []" by (simp add: new_rw_def)
  have "LoginUser demo_platform ''studio-user'' ''k6studiorocks'' demo_db = (Inr (Some studio_user), tick demo_db)"
    by (simp add: LoginUser_def query_ok seed_users_def studio_user_def)
  then show ?thesis
    by (simp add: serve_def login_valid [OF _ dec_login_request] Let_def writeJSONResponse_def sent_write_json hd
      set_cookie_def)
qed

text \<open>The admin routes. The login answers 405 to any method but GET and POST, 400 when a parameter
  is missing, 401 unless both are "admin", and else 200 with the fresh identifier as token and
  cookie; the list of recommendations is refused with 401 without an admin cookie, but any
  non-empty value of it is accepted.\<close>

theorem admin_routes:
  "status (fst (serve pf cfg (AdminLoginRoute guid) r db)) =
     (if rq_method r \<noteq> ''GET'' \<and> rq_method r \<noteq> ''POST'' then 405
      else if query_get r ''user'' = [] \<or> query_get r ''password'' = [] then 400
      else if query_get r ''user'' = ''admin'' \<and> query_get r ''password'' = ''admin'' then 200 else 401) \<and>
   (case request_cookie r ''admin_token'' of
      None \<Rightarrow> serve pf cfg RecommendationsRoute r db = (writeJSONErrorResponse ErrAuth 401 new_rw, db)
    | Some t \<Rightarrow>
        if t = [] then serve pf cfg RecommendationsRoute r db = (writeJSONErrorResponse ErrAuth 401 new_rw, db)
        else case GetHistory pf 15 db of
          (Inl _, d) \<Rightarrow> status (fst (serve pf cfg RecommendationsRoute r db)) = 500
        | (Inr ps, d) \<Rightarrow> rw_body (fst (serve pf cfg RecommendationsRoute r db)) =
            [JsonBody (JObj [(''pizzas'', JArr (map enc_pizza ps))])])"
  by (auto simp: serve_def adminLogin_def getRecommendations_def Let_def writeJSONErrorResponse_def writeJSONResponse_def
      split: option.splits prod.splits sum.splits)

text \<open>Recording a recommendation needs the internal mark: without a value of \<^verbatim>\<open>X-Is-Internal\<close> the
  answer is 401 and nothing is asked of the database. With it, error headers of the request have
  no effect, since this group has no error injection: the answer is the one of the same request
  without them.\<close>

theorem internal_recommendation:
  "(header_get (rq_headers r) ''X-Is-Internal'' = [] \<longrightarrow>
      serve pf cfg PostRecommendationRoute r db = (writeJSONErrorResponse ErrAuth 401 new_rw, db)) \<and>
   serve pf cfg PostRecommendationRoute (r\<lparr>rq_headers := rq_headers r @ map (\<lambda>h. (h, ''boom'')) headerList\<rparr>) db =
     serve pf cfg PostRecommendationRoute r db"
proof -
  have "to_lower ''X-Is-Internal'' \<notin> set headerList" by (simp add: headerList_def) code_simp
  then have skip: "header_get (map (\<lambda>h. (h, ''boom'')) hs) ''X-Is-Internal'' = []"
    if "set hs \<subseteq> set headerList" for hs
    using that headerList_lower by (induction hs) auto
  have "header_get (rq_headers r @ map (\<lambda>h. (h, ''boom'')) headerList) ''X-Is-Internal'' =
      header_get (rq_headers r) ''X-Is-Internal''"
  proof (cases "to_lower ''X-Is-Internal'' \<in> (\<lambda>h. to_lower (fst h)) ` set (rq_headers r)")
    case False
    have "header_get hs ''X-Is-Internal'' = []" if "to_lower ''X-Is-Internal'' \<notin> (\<lambda>h. to_lower (fst h)) ` set hs" for hs
      using that by (induction hs) auto
    with False skip [of headerList] show ?thesis by (simp add: header_get_append)
  qed (simp add: header_get_append)
  then show ?thesis by (simp add: serve_def postRecommendation_def decodeJSONBody_def)
qed

theorem internal_recommendation_witness:
  "serve demo_platform demo_config PostRecommendationRoute (api_request [] JNull) demo_db =
     (writeJSONErrorResponse ErrAuth 401 new_rw, demo_db)"
proof -
  have "to_lower ''Authorization'' \<noteq> to_lower ''X-Is-Internal''" by code_simp
  then have "header_get (rq_headers (api_request [] JNull)) ''X-Is-Internal'' = []"
    by (simp add: api_request_def)
  then show ?thesis using internal_recommendation by blast
qed

end
