(* ===== verification/Deployment.thy ===== *)
theory Deployment
  imports RecoService RecommendProps Api
begin

section \<open>The recommendations service and the catalog service together\<close>

text \<open>
  What \<^verbatim>\<open>POST /api/pizza\<close> answers whatever the other services do, and what the clients of
  \<^verbatim>\<open>pkg/http/client.go\<close> get when their requests reach the handlers of the catalog service: the
  contract between the two services, from the database of one to the answer of the other.
\<close>

subsection \<open>The answer of \<open>POST /api/pizza\<close>\<close>

lemma dec_fields_range:
  assumes "\<And>k j x y. set_field k j x = Inr y \<Longrightarrow> ok x \<Longrightarrow> ok y"
  shows "dec_fields set_field kjs x = Inr y \<Longrightarrow> ok x \<Longrightarrow> ok y"
proof (induction kjs arbitrary: x)
  case (Cons kj kjs)
  obtain k j where kj: "kj = (k, j)" by (cases kj)
  with Cons.prems obtain z where "set_field (to_lower k) j x = Inr z" "dec_fields set_field kjs z = Inr y"
    by (auto split: sum.splits)
  with Cons.IH assms Cons.prems(2) show ?case by blast
qed simp

lemma dec_int64_range: "dec_int64 f j x = Inr v \<Longrightarrow> in_int64 x \<Longrightarrow> in_int64 v"
  by (cases j) (auto split: if_splits)

lemma dec_restrictions_range:
  assumes "dec_restrictions j zero_restrictions = Inr b"
  shows "in_int64 (res_max_toppings b) \<and> in_int64 (res_min_toppings b)"
proof (cases j)
  case (JObj kjs)
  then have "dec_fields set_restrictions_field kjs zero_restrictions = Inr b"
    using assms by (simp add: dec_restrictions_def)
  then show ?thesis
    by (rule dec_fields_range [where ok = "\<lambda>b. in_int64 (res_max_toppings b) \<and> in_int64 (res_min_toppings b)",
          rotated])
      (auto simp: set_restrictions_field_def on_field_def zero_restrictions_def in_int64_def min_int64_def
        max_int64_def dest: dec_int64_range split: if_splits sum.splits)
qed (use assms in \<open>auto simp: dec_restrictions_def zero_restrictions_def\<close>)

subsection \<open>The clients on top of the catalog service\<close>

text \<open>
  The transport of a \<open>CatalogClient\<close> whose requests reach the catalog service: the router \<open>chi\<close>
  is a parameter that finds the route of a method and a URL, \<open>serve\<close> answers, and the client
  reads the status and the body. \<open>text\<close> is what an error says.
\<close>

definition wire_body :: "(err \<Rightarrow> string) \<Rightarrow> rw \<Rightarrow> string + json" where
  "wire_body text w =
     (case rw_body w of
        [JsonBody j] \<Rightarrow> Inr j
      | [ErrorBody e] \<Rightarrow> Inr (JObj [(''error'', JStr (text e))])
      | _ \<Rightarrow> Inl ''EOF'')"

definition catalog_transport ::
  "(string \<Rightarrow> string \<Rightarrow> route option) \<Rightarrow> (err \<Rightarrow> string) \<Rightarrow> platform \<Rightarrow> config \<Rightarrow> db transport" where
  "catalog_transport router text pf cfg r db =
     (case router (rq_method r) (rq_path r) of
        None \<Rightarrow> (Inr \<lparr>resp_status = 404, resp_json = Inl ''EOF''\<rparr>, db)
      | Some rt \<Rightarrow>
          (let (w, db') = serve pf cfg rt r db in
           (Inr \<lparr>resp_status = status w, resp_json = wire_body text w\<rparr>, db')))"

text \<open>The routes the clients use, as \<open>AddCatalogHandler\<close> registers them.\<close>

definition routes_catalog :: "string \<Rightarrow> (string \<Rightarrow> string \<Rightarrow> route option) \<Rightarrow> bool" where
  "routes_catalog url router \<longleftrightarrow>
     (\<forall>t \<in> {''olive_oil'', ''tomato'', ''mozzarella'', ''topping''}.
        router ''GET'' (url @ ''/api/ingredients/'' @ t) = Some (IngredientsRoute t)) \<and>
     router ''GET'' (url @ ''/api/tools'') = Some ToolsRoute \<and>
     router ''GET'' (url @ ''/api/doughs'') = Some DoughsRoute \<and>
     router ''POST'' (url @ ''/api/users/token/authenticate'') = Some AuthenticateRoute \<and>
     router ''POST'' (url @ ''/api/internal/recommendations'') = Some PostRecommendationRoute \<and>
     (\<forall>i. 0 \<le> i \<longrightarrow> router ''GET'' (url @ ''/api/internal/recommendations/'' @ Itoa i) = Some (RecommendationRoute (Itoa i)))"

text \<open>The request a client sends, with the marks of \<open>do\<close>.\<close>

definition marked :: "client_ctx \<Rightarrow> request \<Rightarrow> request" where
  "marked ctx request =
     (let r1 = header_add ''X-Is-Internal'' ''1'' request in
      case cc_auth ctx of Some auth \<Rightarrow> header_add authHeader auth r1 | None \<Rightarrow> r1)"

definition get_request :: "client_ctx \<Rightarrow> string \<Rightarrow> request" where
  "get_request ctx url = marked ctx (AddErrorHeaders (cc_values ctx)
     (header_add ''Content-Type'' ''application/json'' (http_new_request ''GET'' url (Inl ''EOF''))))"

definition post_request :: "client_ctx \<Rightarrow> string \<Rightarrow> json option \<Rightarrow> request" where
  "post_request ctx url src = marked ctx (AddErrorHeaders (cc_values ctx)
     (http_new_request ''POST'' url (case src of None \<Rightarrow> Inl ''EOF'' | Some j \<Rightarrow> Inr j)))"

lemma client_do_marked: "client_do t ctx request s = t (marked ctx request) s"
  by (simp add: client_do_def marked_def Let_def)

lemma marked_simps [simp]:
  "rq_method (marked ctx r) = rq_method r" "rq_path (marked ctx r) = rq_path r"
  "rq_json (marked ctx r) = rq_json r" "rq_cookies (marked ctx r) = rq_cookies r"
  "rq_query (marked ctx r) = rq_query r"
  by (simp_all add: marked_def header_add_def Let_def split: option.splits)

lemma request_simps [simp]:
  "rq_method (get_request ctx url) = ''GET''" "rq_path (get_request ctx url) = url"
  "rq_cookies (get_request ctx url) = []" "rq_method (post_request ctx url src) = ''POST''"
  "rq_path (post_request ctx url src) = url" "rq_cookies (post_request ctx url src) = []"
  "rq_json (post_request ctx url (Some j)) = Inr j"
  by (simp_all add: get_request_def post_request_def header_add_def http_new_request_def)

lemma error_headers_only:
  "to_lower n \<notin> set headerList \<Longrightarrow>
   header_get (concat (map (\<lambda>h. case ctx h of None \<Rightarrow> [] | Some v \<Rightarrow> [(h, v)]) headerList)) n = []"
  by (rule header_get_none) (auto simp: headerList_lower split: option.splits)

lemma header_get_append_none:
  "to_lower n \<notin> (\<lambda>h. to_lower (fst h)) ` set hs \<Longrightarrow> header_get (hs @ hs') n = header_get hs' n"
  by (simp add: header_get_append)

lemma lower_marks:
  "to_lower ''X-Is-Internal'' \<notin> set headerList" "to_lower authHeader \<notin> set headerList"
  "to_lower authHeader \<noteq> to_lower ''X-Is-Internal''" "to_lower authHeader \<noteq> to_lower ''Content-Type''"
  "to_lower ''X-Is-Internal'' \<noteq> to_lower ''Content-Type''"
  unfolding headerList_def authHeader_def by code_simp+

lemma error_header_names:
  "(\<lambda>h. to_lower (fst h)) ` set (concat (map (\<lambda>h. case ctx h of None \<Rightarrow> [] | Some v \<Rightarrow> [(h, v)]) headerList))
     \<subseteq> set headerList"
  by (auto simp: headerList_lower split: option.splits)

lemma marked_auth:
  assumes "to_lower authHeader \<notin> (\<lambda>h. to_lower (fst h)) ` set (rq_headers r)"
  shows "header_get (rq_headers (marked ctx r)) authHeader = (case cc_auth ctx of Some a \<Rightarrow> a | None \<Rightarrow> [])"
  using assms lower_marks
  by (auto simp: marked_def header_add_def header_get_append header_get_none split: option.splits)

lemma request_auth:
  "header_get (rq_headers (get_request ctx url)) authHeader = (case cc_auth ctx of Some a \<Rightarrow> a | None \<Rightarrow> [])"
  "header_get (rq_headers (post_request ctx url src)) authHeader = (case cc_auth ctx of Some a \<Rightarrow> a | None \<Rightarrow> [])"
proof -
  have n: "to_lower authHeader \<notin> (\<lambda>h. to_lower (fst h)) `
      set (concat (map (\<lambda>h. case cc_values ctx h of None \<Rightarrow> [] | Some v \<Rightarrow> [(h, v)]) headerList))"
    using error_header_names [of "cc_values ctx"] lower_marks(2) by blast
  show "header_get (rq_headers (get_request ctx url)) authHeader = (case cc_auth ctx of Some a \<Rightarrow> a | None \<Rightarrow> [])"
    unfolding get_request_def
    by (rule marked_auth)
      (use n lower_marks in \<open>simp add: AddErrorHeaders_headers header_add_def http_new_request_def\<close>)
  show "header_get (rq_headers (post_request ctx url src)) authHeader = (case cc_auth ctx of Some a \<Rightarrow> a | None \<Rightarrow> [])"
    unfolding post_request_def
    by (rule marked_auth)
      (use n lower_marks in \<open>simp add: AddErrorHeaders_headers header_add_def http_new_request_def\<close>)
qed

lemma post_request_internal: "header_get (rq_headers (post_request ctx url src)) ''X-Is-Internal'' = ''1''"
proof -
  have n: "to_lower ''X-Is-Internal'' \<notin> (\<lambda>h. to_lower (fst h)) `
      set (concat (map (\<lambda>h. case cc_values ctx h of None \<Rightarrow> [] | Some v \<Rightarrow> [(h, v)]) headerList))"
    using error_header_names [of "cc_values ctx"] lower_marks(1) by blast
  show ?thesis
    unfolding post_request_def marked_def Let_def
    using n by (cases "cc_auth ctx") (simp_all add: header_add_def AddErrorHeaders_headers http_new_request_def header_get_append
        del: to_lower_simps)
qed

text \<open>The token of a client's request is the one of the \<open>Authorization\<close> value it forwards.\<close>

definition auth_token :: "string \<Rightarrow> string" where
  "auth_token auth = getRequestToken (http_new_request [] [] (Inl []) \<lparr>rq_headers := [(authHeader, auth)]\<rparr>)"

lemma request_token:
  "getRequestToken (get_request ctx url) = auth_token (case cc_auth ctx of Some a \<Rightarrow> a | None \<Rightarrow> [])"
  "getRequestToken (post_request ctx url src) = auth_token (case cc_auth ctx of Some a \<Rightarrow> a | None \<Rightarrow> [])"
  by (simp_all add: auth_token_def getRequestToken_def requestTokenFromCookie_def request_cookie_def request_auth
      http_new_request_def)

lemma auth_token_of_header:
  assumes "requestTokenFromCookie r = []"
  shows "auth_token (header_get (rq_headers r) authHeader) = getRequestToken r"
  using assms by (simp add: auth_token_def getRequestToken_def requestTokenFromCookie_def request_cookie_def
      http_new_request_def UserTokenLength_def)

lemma auth_token_Token: "length t = 16 \<Longrightarrow> auth_token (''Token '' @ t) = t"
proof -
  assume "length t = 16"
  moreover have "to_lower ''Token'' = ''token''" by code_simp
  ultimately show ?thesis unfolding auth_token_def
    by (intro getRequestToken_header [where scheme = "''Token''"])
      (simp_all add: http_new_request_def requestTokenFromCookie_def request_cookie_def)
qed

lemma auth_token_Nil [simp]: "auth_token [] = []"
  by (simp add: auth_token_def getRequestToken_def http_new_request_def requestTokenFromCookie_def request_cookie_def
      cut_def UserTokenLength_def)

subsection \<open>What a client gets\<close>

lemma getJSON_request:
  "getJSON t ctx url dec dest s =
     (case t (get_request ctx url) s of
        (Inl e, s') \<Rightarrow> (Inl (ErrTransport e), s')
      | (Inr resp, s') \<Rightarrow>
          (if resp_status resp = 404 then Inl ErrEntityNotFound
           else if resp_status resp \<noteq> 200 then Inl (ErrUnexpectedStatus (resp_status resp))
           else case resp_json resp of
             Inl e \<Rightarrow> Inl (ErrResponse (JsonSyntax e))
           | Inr j \<Rightarrow> (case dec j dest of Inl e \<Rightarrow> Inl (ErrResponse e) | Inr v \<Rightarrow> Inr v), s'))"
  by (simp add: getJSON_def client_do_marked get_request_def Let_def)

lemma postJSON_request:
  "postJSON t ctx url src dec dest s =
     (case t (post_request ctx url src) s of
        (Inl e, s') \<Rightarrow> (Inl (ErrTransport e), s')
      | (Inr resp, s') \<Rightarrow>
          (if resp_status resp \<noteq> 201 \<and> resp_status resp \<noteq> 200
           then Inl (ErrUnexpectedStatus (resp_status resp))
           else case resp_json resp of
             Inl e \<Rightarrow> Inl (ErrResponse (JsonSyntax e))
           | Inr j \<Rightarrow> (case dec j dest of Inl e \<Rightarrow> Inl (ErrResponse e) | Inr v \<Rightarrow> Inr v), s'))"
  by (simp add: postJSON_def client_do_marked post_request_def Let_def)

lemma getJSON_state: "snd (getJSON t ctx url dec dest s) = snd (t (get_request ctx url) s)"
  by (simp add: getJSON_request split: prod.splits sum.splits)

lemma getJSON_Inr:
  assumes "getJSON t ctx url dec dest s = (Inr v, s')"
  obtains j where "dec j dest = Inr v" "s' = snd (t (get_request ctx url) s)"
  using assms getJSON_state [of t ctx url dec dest s]
  by (auto simp: getJSON_request split: prod.splits sum.splits if_splits)

text \<open>What is decoded is in the range of the machine's integers.\<close>

lemma dec_struct_range:
  assumes "\<And>k j x y. set_field k j x = Inr y \<Longrightarrow> ok x \<Longrightarrow> ok y"
    and "dec_struct f set_field j x = Inr y" "ok x"
  shows "ok y"
  using assms(2,3) dec_fields_range [where set_field = set_field and ok = ok, OF assms(1)]
  by (cases j) auto

lemma dec_elems_range:
  assumes "\<And>j x. d j zero = Inr x \<Longrightarrow> ok x"
  shows "dec_elems d zero js = Inr xs \<Longrightarrow> \<forall>x \<in> set xs. ok x"
  using assms by (induction js arbitrary: xs) (auto split: sum.splits)

lemma dec_list_range:
  assumes "\<And>j x. d j zero = Inr x \<Longrightarrow> ok x" and "dec_list f d zero j [] = Inr xs"
  shows "\<forall>x \<in> set xs. ok x"
proof (rule dec_struct_range [OF _ assms(2) [unfolded dec_list_def]])
  fix k j' x y
  assume "(if k = f then dec_slice k d zero j' x else Inl (JsonUnknownField k)) = Inr y" "\<forall>x \<in> set x. ok x"
  then show "\<forall>x \<in> set y. ok x"
    using dec_elems_range [where d = d and zero = zero and ok = ok, OF assms(1)]
    by (cases j') (auto split: if_splits)
qed simp

lemma dec_ingredient_range: "dec_ingredient j zero_ingredient = Inr i \<Longrightarrow> ingredient_in_range i"
  unfolding dec_ingredient_def
  by (erule dec_struct_range [rotated])
    (auto simp: zero_ingredient_def ingredient_in_range_def set_ingredient_field_def on_field_def in_int64_def
      min_int64_def max_int64_def dest: dec_int64_range split: sum.splits if_splits)

lemma dec_dough_range: "dec_dough j zero_dough = Inr d \<Longrightarrow> dough_in_range d"
  unfolding dec_dough_def
  by (erule dec_struct_range [rotated])
    (auto simp: zero_dough_def dough_in_range_def set_dough_field_def on_field_def in_int64_def
      min_int64_def max_int64_def dest: dec_int64_range split: sum.splits if_splits)

definition pantry_in_range :: "pantry \<Rightarrow> bool" where
  "pantry_in_range p \<longleftrightarrow> (\<forall>d \<in> set (doughs p). dough_in_range d) \<and>
     (\<forall>i \<in> set (olive_oils p) \<union> set (tomatoes p) \<union> set (mozzarellas p) \<union> set (toppings p). ingredient_in_range i)"

lemma client_Ingredients_Inr:
  assumes "client_Ingredients t cu ctx ty s = (Inr is, s')"
  shows "(\<forall>i \<in> set is. ingredient_in_range i) \<and> s' = snd (t (get_request ctx (cu @ ''/api/ingredients/'' @ ty)) s)"
  using assms dec_list_range [where d = dec_ingredient and zero = zero_ingredient and ok = ingredient_in_range]
    dec_ingredient_range unfolding client_Ingredients_def by (elim getJSON_Inr) blast

lemma client_Doughs_Inr:
  assumes "client_Doughs t cu ctx s = (Inr ds, s')"
  shows "(\<forall>d \<in> set ds. dough_in_range d) \<and> s' = snd (t (get_request ctx (cu @ ''/api/doughs'')) s)"
  using assms dec_list_range [where d = dec_dough and zero = zero_dough and ok = dough_in_range]
    dec_dough_range unfolding client_Doughs_def by (elim getJSON_Inr) blast

lemma client_state:
  "client_Tools t cu ctx s = (x1, s1) \<Longrightarrow> s1 = snd (t (get_request ctx (cu @ ''/api/tools'')) s)"
  "client_Adjectives t cu ctx s = (x2, s2) \<Longrightarrow> s2 = snd (t (get_request ctx (cu @ ''/api/adjectives'')) s)"
  "client_Names t cu ctx s = (x3, s3) \<Longrightarrow> s3 = snd (t (get_request ctx (cu @ ''/api/names'')) s)"
  using getJSON_state [of t ctx] unfolding client_Tools_def client_Adjectives_def client_Names_def
  by (metis snd_conv)+

lemma or_500_ok:
  assumes "or_500 w call next = Some (Returned (w', s'))" "w' \<noteq> write_header 500 w"
  obtains x s where "call = (Inr x, s)" "next x s = Some (Returned (w', s'))"
  using or_500_returned [OF assms(1)] assms(2) by blast

text \<open>
  A fetched pantry is in range, and any relation that the eight requests keep relates the
  states before and after them.
\<close>

definition reads_by :: "'s transport \<Rightarrow> string \<Rightarrow> 's transport \<Rightarrow> string \<Rightarrow> client_ctx \<Rightarrow> ('s \<Rightarrow> 's \<Rightarrow> bool) \<Rightarrow> bool" where
  "reads_by t cu u pu ctx R \<longleftrightarrow> (\<forall>a b c. R a b \<longrightarrow> R b c \<longrightarrow> R a c) \<and>
     (\<forall>s. \<forall>p \<in> {''/api/ingredients/olive_oil'', ''/api/ingredients/tomato'', ''/api/ingredients/mozzarella'',
                 ''/api/ingredients/topping'', ''/api/tools'', ''/api/doughs''}. R s (snd (t (get_request ctx (cu @ p)) s))) \<and>
     (\<forall>s. \<forall>p \<in> {''/api/adjectives'', ''/api/names''}. R s (snd (u (get_request ctx (pu @ p)) s)))"

lemma fetch_pantry_reads:
  assumes "fetch_pantry t cu u pu ctx r new_rw s next = Some (Returned (w', s'))" and "status w' \<noteq> 500"
    and "reads_by t cu u pu ctx R"
  obtains p s2 where "next (restrict_pantry r p) s2 = Some (Returned (w', s'))" "pantry_in_range p" "R s s2"
proof -
  have e: "w' \<noteq> write_header 500 new_rw" using assms(2) by (auto simp: status_write_header)
  obtain oils s1 toms s2 mozs s3 tops s4 tls s5 dgs s6 adjs s7 nms s8 where
    1: "client_Ingredients t cu ctx ''olive_oil'' s = (Inr oils, s1)"
    and 2: "client_Ingredients t cu ctx ''tomato'' s1 = (Inr toms, s2)"
    and 3: "client_Ingredients t cu ctx ''mozzarella'' s2 = (Inr mozs, s3)"
    and 4: "client_Ingredients t cu ctx ''topping'' s3 = (Inr tops, s4)"
    and 5: "client_Tools t cu ctx s4 = (Inr tls, s5)"
    and 6: "client_Doughs t cu ctx s5 = (Inr dgs, s6)"
    and 7: "client_Adjectives u pu ctx s6 = (Inr adjs, s7)"
    and 8: "client_Names u pu ctx s7 = (Inr nms, s8)"
    and n: "next (restrict_pantry r \<lparr>olive_oils = oils, tomatoes = toms, mozzarellas = mozs, toppings = tops,
          tools = tls, doughs = dgs, adjectives = adjs, names = nms\<rparr>) s8 = Some (Returned (w', s'))"
    using assms(1) unfolding fetch_pantry_def by (elim or_500_ok [OF _ e]) (rule that; assumption)
  have t: "R a c" if "R a b" "R b c" for a b c using assms(3) that unfolding reads_by_def by blast
  have "R s s1" "R s1 s2" "R s2 s3" "R s3 s4" "R s4 s5" "R s5 s6" "R s6 s7" "R s7 s8"
    using assms(3) client_Ingredients_Inr [OF 1] client_Ingredients_Inr [OF 2] client_Ingredients_Inr [OF 3]
      client_Ingredients_Inr [OF 4] client_state(1) [OF 5] client_Doughs_Inr [OF 6] client_state(2) [OF 7]
      client_state(3) [OF 8]
    by (simp_all add: reads_by_def)
  then have "R s s8" by (blast intro: t)
  with that [OF n] show thesis
    using client_Ingredients_Inr [OF 1] client_Ingredients_Inr [OF 2] client_Ingredients_Inr [OF 3]
      client_Ingredients_Inr [OF 4] client_Doughs_Inr [OF 6]
    by (auto simp: pantry_in_range_def)
qed

subsection \<open>The generation only draws and sleeps\<close>

abbreviation kept :: "'a proc_scheme \<Rightarrow> 'a proc_scheme \<Rightarrow> bool" where
  "kept s s' \<equiv> proc.more s' = proc.more s \<and> proc_pizzas s' = proc_pizzas s"

lemma more_sleep [simp]: "proc.more (sleep d s) = proc.more s" "proc_pizzas (sleep d s) = proc_pizzas s"
  by (simp_all add: sleep_def)

lemma more_rand: "rand n s = Returned (k, s') \<Longrightarrow> kept s s'"
  by (auto simp: rand_Returned)

lemma more_pick: "pick xs s = Returned (x, s') \<Longrightarrow> kept s s'"
  by (auto dest: pick_Returned)

lemma more_add_toppings: "add_toppings n xs is s = Returned (is', s') \<Longrightarrow> kept s s'"
  by (induction n arbitrary: "is" s) (auto simp: and_then_Returned_iff dest!: more_pick)

lemma more_extra: "extra_toppings r s = Returned (e, s') \<Longrightarrow> kept s s'"
  by (auto simp: extra_toppings_def Let_def dest: more_rand split: if_splits)

lemma more_compose: "compose_pizza order r p name s = Returned (q, s') \<Longrightarrow> kept s s'"
  by (auto simp: compose_pizza_def and_then_Returned_iff dest!: more_pick more_extra more_add_toppings)

lemma more_name_round: "name_round as ns s = Returned (x, s') \<Longrightarrow> kept s s'"
  by (auto simp: name_round_def and_then_Returned_iff Let_def dest!: more_pick more_rand split: if_splits)

lemma more_name_loop:
  fixes s :: "'a proc_scheme"
  assumes "name_loop as ns s = Some (Returned (name, s'))"
  shows "kept s s'"
proof -
  have "\<forall>name s'. y = Returned (name, s') \<longrightarrow> kept s s'" if "name_loop as ns s = Some y" for y
    using that
  proof (rule name_loop.raw_induct [rotated])
    fix f :: "string list \<Rightarrow> string list \<Rightarrow> 'a proc_scheme \<Rightarrow> (string \<times> 'a proc_scheme) outcome option"
    fix as ns and s :: "'a proc_scheme" and y
    assume IH: "\<And>as ns s y. f as ns s = Some y \<Longrightarrow> \<forall>name s'. y = Returned (name, s') \<longrightarrow> kept s s'"
      and step: "(case name_round as ns s of
          Panicked m \<Rightarrow> Some (Panicked m)
        | Returned r \<Rightarrow>
            if snd (fst r) then Some (Returned (fst (fst r), snd r)) else f as ns (snd r)) = Some y"
    then show "\<forall>name s'. y = Returned (name, s') \<longrightarrow> kept s s'"
      by (cases "name_round as ns s") (auto split: if_splits dest: more_name_round)
  qed
  with assms show ?thesis by blast
qed

lemma more_attempts: "attempts n order r p q s = Some (Returned (q', s')) \<Longrightarrow> kept s s'"
proof (induction n arbitrary: q s)
  case (Suc n)
  from Suc.prems obtain name s1 q1 s2 where
    "(if res_custom_name r = [] then name_loop (adjectives p) (names p) s
            else Some (Returned (res_custom_name r, s))) = Some (Returned (name, s1))"
    and c: "compose_pizza order r p name s1 = Returned (q1, s2)"
    and rest: "attempts n order r p q1 s2 = Some (Returned (q', s')) \<or> s' = s2"
    by (auto split: option.splits outcome.splits if_splits)
  then have "kept s s1" by (auto split: if_splits dest: more_name_loop)
  with more_compose [OF c] rest Suc.IH show ?case by auto
qed simp

lemma more_generate: "generate_pizza order r p s = Some (Returned (q, s')) \<Longrightarrow> kept s s'"
  unfolding generate_pizza_def by (rule more_attempts)

lemma more_fail: "FailRandomlyIfEnvSet env n s = (b, s') \<Longrightarrow> kept s s'"
  by (auto simp: FailRandomlyIfEnvSet_def draw_def Let_def split: option.splits prod.splits if_splits)

lemma more_delay [simp]: "proc.more (DelayIfEnvSet env n s) = proc.more s" "proc_pizzas (DelayIfEnvSet env n s) = proc_pizzas s"
  by (simp_all add: DelayIfEnvSet_def split: option.splits)

subsection \<open>The whole of \<open>POST /api/pizza\<close>, with what its requests keep\<close>

text \<open>Two databases with the same store: only the random source, the sleeps and the clock differ.\<close>

definition same_store :: "db \<Rightarrow> db \<Rightarrow> bool" where
  "same_store a b \<longleftrightarrow> db_ingredients b = db_ingredients a \<and> db_doughs b = db_doughs a \<and> db_tools b = db_tools a \<and>
     db_users b = db_users a \<and> db_pizzas b = db_pizzas a \<and>
     db_pizza_to_ingredients b = db_pizza_to_ingredients a \<and> db_ratings b = db_ratings a"

lemma same_store_refl [simp, intro]: "same_store a a"
  by (simp add: same_store_def)

lemma same_store_trans: "same_store a b \<Longrightarrow> same_store b c \<Longrightarrow> same_store a c"
  by (simp add: same_store_def)

lemma same_store_tick [simp]: "same_store a (tick b) = same_store a b" "same_store (tick a) b = same_store a b"
  by (simp_all add: same_store_def)

lemma same_store_more: "proc.more b = proc.more a \<Longrightarrow> same_store a b"
  by (cases a; cases b) (simp add: same_store_def)

lemma same_storeD: "same_store a b \<Longrightarrow> tables b = tables a \<and> (db_inv b \<longleftrightarrow> db_inv a)"
  by (simp add: same_store_def tables_def db_inv_defs)

lemma same_store_InjectErrors: "same_store a (snd (InjectErrors pf ctx action a))"
  by (simp add: same_store_more)

lemma same_store_Authenticate: "same_store a (snd (Authenticate pf t a))"
  by (auto simp: Authenticate_def query_tick dest!: query_tickD split: prod.splits sum.splits)

lemma same_store_query: "query pf f a = (x, b) \<Longrightarrow> same_store a b"
  by (auto dest: query_tickD)

lemma same_store_serve:
  assumes "rt \<in> {IngredientsRoute t, DoughsRoute, ToolsRoute, AuthenticateRoute, RecommendationRoute i}"
  shows "same_store db (snd (serve pf cfg rt r db))"
proof -
  have auth: "same_store db (snd (AuthMiddleware pf h ctx r w db))"
    if "\<And>ctx r w d. same_store d (snd (h ctx r w d))" for h ctx w
    using that same_store_Authenticate [of db pf] same_store_trans
    by (auto simp: AuthMiddleware_def Let_def split: prod.splits sum.splits) (metis snd_conv)+
  have g: "same_store d (snd (GetIngredients pf c t d))" for c d
    using same_store_InjectErrors [of d pf c "''get-ingredients''"]
    by (auto simp: GetIngredients_def query_tick split: prod.splits option.splits)
  have "same_store d (snd (getIngredients pf t ctx r w d))" for ctx r w d
    using g [of d "hc_values ctx"] by (auto simp: getIngredients_def split: prod.splits sum.splits)
  moreover have "same_store d (snd (getDoughs pf ctx r w d))" for ctx r w d
    by (auto simp: getDoughs_def GetDoughs_def dest!: query_tickD split: prod.splits sum.splits)
  moreover have "same_store d (snd (getTools pf ctx r w d))" for ctx r w d
    by (auto simp: getTools_def GetTools_def dest!: query_tickD split: prod.splits sum.splits)
  moreover have "same_store d (snd (authenticate pf ctx r w d))" for ctx r w d
    using same_store_Authenticate [of d pf] by (auto simp: authenticate_def Let_def split: prod.splits sum.splits)
      (metis snd_conv)+
  moreover have "same_store d (snd (GetRecommendation pf n d))" for n d
    by (auto simp: GetRecommendation_def dest!: query_tickD split: prod.splits sum.splits)
  then have "same_store d (snd (getRecommendation pf i ctx r w d))" for ctx r w d
    by (auto simp: getRecommendation_def split: prod.splits sum.splits option.splits) (metis snd_conv)+
  ultimately show ?thesis
    using assms by (auto simp: serve_def InjectErrorHeadersMiddleware_def intro!: auth)
qed

lemma catalog_transport_route:
  assumes "router (rq_method r) (rq_path r) = Some rt"
  shows "catalog_transport router text pf cfg r db =
    (Inr \<lparr>resp_status = status (fst (serve pf cfg rt r db)), resp_json = wire_body text (fst (serve pf cfg rt r db))\<rparr>,
     snd (serve pf cfg rt r db))"
  using assms by (simp add: catalog_transport_def split: prod.splits)

lemma catalog_reads:
  assumes "routes_catalog cu router" and "\<And>r s. same_store s (snd (u r s))"
  shows "reads_by (catalog_transport router text pf cfg) cu u pu ctx same_store"
  using assms same_store_trans
  by (auto simp: reads_by_def routes_catalog_def catalog_transport_route intro: same_store_serve)

text \<open>Recording through the client is recording in the catalog: what the catalog stored comes back.\<close>

lemma client_RecordRecommendation_served:
  assumes "routes_catalog cu router" and "pizza_in_range p"
  shows "client_RecordRecommendation (catalog_transport router text pf cfg) cu ctx p db =
    (case RecordRecommendation pf cfg Map.empty (wire_pizza p) db of
       (Inl e, d) \<Rightarrow> (Inl (ErrUnexpectedStatus 500), d)
     | (Inr p', d) \<Rightarrow>
         (case dec_pizza_lenient (enc_pizza p') zero_pizza of Inl e \<Rightarrow> Inl (ErrResponse e) | Inr q \<Rightarrow> Inr q, d))"
proof -
  let ?r = "post_request ctx (cu @ ''/api/internal/recommendations'') (Some (enc_pizza p))"
  have rt: "router (rq_method ?r) (rq_path ?r) = Some PostRecommendationRoute"
    using assms(1) by (simp add: routes_catalog_def)
  have h: "header_get (rq_headers ?r) ''X-Is-Internal'' \<noteq> []" by (simp add: post_request_internal)
  have s: "serve pf cfg PostRecommendationRoute ?r db =
      (case RecordRecommendation pf cfg Map.empty (wire_pizza p) db of
         (Inl e, d) \<Rightarrow> (write_header 500 new_rw, d)
       | (Inr pizza, d) \<Rightarrow> (writeJSONResponse (enc_pizza pizza) 201 new_rw, d))"
    using h dec_enc_pizza [OF assms(2)]
    by (simp add: serve_def postRecommendation_def decodeJSONBody_def background_def)
  show ?thesis
    unfolding client_RecordRecommendation_def postJSON_request catalog_transport_route [where router = router, OF rt] s
    by (simp add: writeJSONResponse_def wire_body_def split: prod.split sum.split)
qed

lemma client_RecordRecommendation_Inr:
  assumes "routes_catalog cu router" and "pizza_in_range p"
    and "client_RecordRecommendation (catalog_transport router text pf cfg) cu ctx p db = (Inr q, db')"
  obtains p' where "RecordRecommendation pf cfg Map.empty (wire_pizza p) db = (Inr p', db')"
    "dec_pizza_lenient (enc_pizza p') zero_pizza = Inr q"
  using assms(3) unfolding client_RecordRecommendation_served [OF assms(1,2)]
  by (auto split: prod.splits sum.splits)

lemma wire_pizza_simps [simp]:
  "pizza_id (wire_pizza p) = pizza_id p" "pizza_name (wire_pizza p) = pizza_name p"
  "pizza_tool (wire_pizza p) = pizza_tool p" "pizza_dough (wire_pizza p) = pizza_dough p"
  "pizza_ingredients (wire_pizza p) = map wire_ingredient (pizza_ingredients p)"
  "ing_id (wire_ingredient i) = ing_id i" "ing_calories (wire_ingredient i) = ing_calories i"
  "ing_vegetarian (wire_ingredient i) = ing_vegetarian i" "ing_name (wire_ingredient i) = ing_name i"
  "enc_ingredient (wire_ingredient i) = enc_ingredient i"
  by (simp_all add: wire_pizza_def wire_ingredient_def enc_ingredient_def)

lemma calories_loop_cong:
  "map ing_calories is = map ing_calories js \<Longrightarrow> calories_loop c is = calories_loop c js"
proof (induction "is" arbitrary: c js)
  case (Cons i "is")
  then obtain j js' where js: "js = j # js'" "ing_calories i = ing_calories j" "map ing_calories is = map ing_calories js'"
    by (cases js) auto
  show ?case unfolding js(1) calories_loop.simps js(2) by (rule Cons.IH [OF js(3)])
qed simp

lemma same_pizza:
  assumes "pizza_dough p = pizza_dough q" "pizza_ingredients p = map wire_ingredient (pizza_ingredients q)"
  shows "CalculateCalories p = CalculateCalories q" "IsVegetarian p = IsVegetarian q"
proof -
  have "map ing_calories (pizza_ingredients p) = map ing_calories (pizza_ingredients q)"
    using assms(2) by (simp add: comp_def)
  then show "CalculateCalories p = CalculateCalories q"
    using assms(1) calories_loop_cong [of "pizza_ingredients p" "pizza_ingredients q"]
    by (simp add: CalculateCalories_def)
  show "IsVegetarian p = IsVegetarian q" using assms(2) by (auto simp: IsVegetarian_iff)
qed

lemma enc_pizza_wire [simp]: "enc_pizza (wire_pizza p) = enc_pizza p"
  by (simp add: enc_pizza_def comp_def)

lemma query_InrD: "query pf f db = (Inr x, d) \<Longrightarrow> d = tick db \<and> f (db_clock db) (tick db) = Inr x"
  using query_tickD query_Inr [of pf f db x d] by (simp add: tick_def)

lemma GetRecommendation_ingredients:
  assumes "GetRecommendation pf i db = (Inr (Some q), d)"
  shows "set (pizza_ingredients q) \<subseteq> set (db_ingredients db)"
  using assms by (auto simp: GetRecommendation_def m2m_rows_def load_pizza_def dest!: query_InrD
      split: prod.splits sum.splits if_splits)

text \<open>Fetching through the client is fetching from the catalog.\<close>

lemma getPizza_served:
  assumes "routes_catalog cu router" "0 \<le> i" "in_int64 i"
    and "GetRecommendation pf i (DelayIfEnvSet env ''QUICKPIZZA_DELAY_RECOMMENDATIONS_API_PIZZA_GET'' db) = (Inr (Some q), d)"
    and "pizza_in_range q"
  shows "getPizza (catalog_transport router text pf cfg) cu env (Itoa i) usr ctx r new_rw db =
    Some (Returned (writeJSONResponse (enc_pizza q) 200 new_rw, d))"
proof -
  let ?db = "DelayIfEnvSet env ''QUICKPIZZA_DELAY_RECOMMENDATIONS_API_PIZZA_GET'' db"
  let ?r = "get_request client_background (cu @ ''/api/internal/recommendations/'' @ Itoa i)"
  have rt: "router (rq_method ?r) (rq_path ?r) = Some (RecommendationRoute (Itoa i))"
    using assms(1,2) by (simp add: routes_catalog_def)
  have s: "serve pf cfg (RecommendationRoute (Itoa i)) ?r ?db = (writeJSONResponse (enc_pizza q) 200 new_rw, d)"
    using assms(3,4) by (simp add: serve_def getRecommendation_def Atoi_Itoa)
  have c: "client_GetRecommendation (catalog_transport router text pf cfg) cu client_background i ?db =
      (Inr (Some (wire_pizza q)), d)"
    unfolding client_GetRecommendation_def getJSON_request catalog_transport_route [where router = router, OF rt] s
    using assms(5) by (simp add: writeJSONResponse_def wire_body_def dec_enc_pizza)
  then show ?thesis
    using assms(3) by (simp add: getPizza_def Let_def Atoi_Itoa reply_def)
qed

lemma postPizza_run:
  fixes s :: "'a proc_scheme"
  assumes "postPizza t cu u pu env order usr ctx r new_rw s = Some (Returned (w, s'))" and "status w = 200"
    and "reads_by t cu u pu ctx R"
  obtains j body p q res and s1 s2 s3 s4 :: "'a proc_scheme" where "rq_json r = Inr j"
    "dec_restrictions j zero_restrictions = Inr body"
    "generate_pizza order (clip_name (WithDefaults body)) (restrict_pantry (clip_name (WithDefaults body)) p) s2 =
       Some (Returned (q, s3))"
    "client_RecordRecommendation t cu ctx q s3 = (Inr res, s4)"
    "s' = s4\<lparr>proc_pizzas := count_pizza (IsVegetarian q) (pizza_tool res) (length (pizza_ingredients q))
       (CalculateCalories q) (proc_pizzas s4)\<rparr>"
    "rw_body w = [JsonBody (enc_recommendation res (CalculateCalories q) (IsVegetarian q))]"
    "pantry_in_range p" "kept s s1" "R s1 s2"
proof -
  obtain failed s1 where f: "FailRandomlyIfEnvSet env ''QUICKPIZZA_FAIL_RATE_RECOMMENDATIONS_API_PIZZA_POST''
      (DelayIfEnvSet env ''QUICKPIZZA_DELAY_RECOMMENDATIONS_API_PIZZA_POST'' s) = (failed, s1)" by fastforce
  have nf: "\<not> failed" using assms f by (auto simp: postPizza_def Let_def reply_def writeJSONErrorResponse_def)
  obtain body where b: "decodeJSONBody dec_restrictions zero_restrictions r new_rw = Inr body"
  proof (cases "decodeJSONBody dec_restrictions zero_restrictions r new_rw")
    case (Inl w')
    then have "status w' = 400" by (auto dest: decodeJSONBody_Inl)
    with Inl assms f nf show thesis by (auto simp: postPizza_def Let_def reply_def)
  qed
  then obtain j where j: "rq_json r = Inr j" "dec_restrictions j zero_restrictions = Inr body"
    by (auto simp: decodeJSONBody_Inr)
  let ?res = "clip_name (WithDefaults body)"
  let ?next = "\<lambda>p s2. case generate_pizza order ?res p s2 of
             None \<Rightarrow> None
           | Some (Panicked m) \<Rightarrow> Some (Panicked m)
           | Some (Returned (pizza, s3)) \<Rightarrow> answer_pizza t cu ctx pizza new_rw s3"
  have "fetch_pantry t cu u pu ctx ?res new_rw s1 ?next = Some (Returned (w, s'))"
    using assms(1) f nf b by (simp add: postPizza_def Let_def)
  then obtain p s2 where n: "?next (restrict_pantry ?res p) s2 = Some (Returned (w, s'))"
    and p: "pantry_in_range p" "R s1 s2"
    by (rule fetch_pantry_reads [OF _ _ assms(3)]) (use assms(2) in auto)
  then obtain q s3 where g: "generate_pizza order ?res (restrict_pantry ?res p) s2 = Some (Returned (q, s3))"
    by (auto split: option.splits outcome.splits)
  with n have "or_500 new_rw (client_RecordRecommendation t cu ctx q s3) (\<lambda>result s4.
                 reply (writeJSONResponse
                   (enc_recommendation result (CalculateCalories q) (IsVegetarian q)) 200 new_rw)
                   (s4\<lparr>proc_pizzas := count_pizza (IsVegetarian q) (pizza_tool result) (length (pizza_ingredients q))
                      (CalculateCalories q) (proc_pizzas s4)\<rparr>)) =
      Some (Returned (w, s'))" by (simp add: answer_pizza_def)
  then obtain res s4 where "client_RecordRecommendation t cu ctx q s3 = (Inr res, s4)"
    "reply (writeJSONResponse (enc_recommendation res (CalculateCalories q) (IsVegetarian q)) 200 new_rw)
       (s4\<lparr>proc_pizzas := count_pizza (IsVegetarian q) (pizza_tool res) (length (pizza_ingredients q))
          (CalculateCalories q) (proc_pizzas s4)\<rparr>) = Some (Returned (w, s'))"
    by (rule or_500_ok) (use assms(2) in \<open>auto simp: status_write_header\<close>)
  with that [OF j g] p more_fail [OF f] show thesis by (auto simp: reply_def writeJSONResponse_def)
qed

lemma composed_in_range:
  assumes "composed r (restrict_pantry r p) q" "pantry_in_range p" "pizza_id q = 0"
  shows "pizza_in_range q"
  using assms by (auto simp: composed_def pantry_in_range_def pizza_in_range_def valid_ingredients_filter
      in_int64_def min_int64_def max_int64_def)

lemma attempts_id: "attempts n order r p q s = Some (Returned (q', s')) \<Longrightarrow> pizza_id q = 0 \<Longrightarrow> pizza_id q' = 0"
proof (induction n arbitrary: q s)
  case (Suc n)
  have "pizza_id q1 = 0" if "compose_pizza order r p name s1 = Returned (q1, s2)" for name and s1 s2 :: "'a proc_scheme" and q1
    using that by (auto simp: compose_pizza_def and_then_Returned_iff zero_pizza_def)
  with Suc show ?case by (auto split: option.splits outcome.splits if_splits)
qed simp

lemma decoded_pizza:
  assumes "dec_pizza_lenient (enc_pizza p) zero_pizza = Inr q" "dough_in_range (pizza_dough p)"
    "\<forall>i \<in> set (pizza_ingredients p). ingredient_in_range i"
  shows "in_int64 (pizza_id p) \<and> q = wire_pizza p"
proof -
  have "in_int64 (pizza_id p)"
    using assms(1) by (cases p) (auto simp: dec_pizza_lenient_def enc_pizza_def set_pizza_field_lenient_def lenient_def
      set_pizza_field_def on_field_def zero_pizza_def go_simps split: if_splits)
  with assms have "pizza_in_range p" by (simp add: pizza_in_range_def)
  with dec_enc_pizza_lenient assms(1) \<open>in_int64 (pizza_id p)\<close> show ?thesis by simp
qed

lemma RecordRecommendation_new:
  assumes "RecordRecommendation pf cfg ctx p db = (Inr p', db')" "pizza_id p = 0"
  shows "pizza_id p' = seq (db_pizzas db) + 1 \<and> pizza_name p' = pizza_name p \<and> pizza_tool p' = pizza_tool p \<and>
    pizza_dough p' = pizza_dough p \<and> pizza_ingredients p' = pizza_ingredients p"
  using assms(1)
proof (cases rule: RecordRecommendation_Inr)
  case (1 d0 d1)
  have "db_pizzas d0 = db_pizzas db"
    using same_store_InjectErrors [of db pf ctx "''record-recommendation''"] 1(1) by (simp add: same_store_def)
  moreover obtain d2 where i: "insert_pizza pf (p\<lparr>pizza_dough_id := dough_id (pizza_dough p)\<rparr>) (db_clock (tick d0)) (tick (tick d0)) = (Inr p', d2)"
    using 1(2) by (auto simp: record_pizza_tx_def dest!: stmt_Inr split: prod.splits sum.splits)
  moreover note ii = insert_pizza_Inr [OF i]
  then have "p' = (p\<lparr>pizza_dough_id := dough_id (pizza_dough p)\<rparr>)\<lparr>pizza_id := pizza_id p', pizza_created_at :=
      pr_created_at (pizza_to_row pf (db_clock (tick d0)) (p\<lparr>pizza_dough_id := dough_id (pizza_dough p)\<rparr>))\<rparr>" by blast
  from arg_cong [OF this, of pizza_name] arg_cong [OF this, of pizza_tool] arg_cong [OF this, of pizza_dough]
    arg_cong [OF this, of pizza_ingredients]
  have "pizza_name p' = pizza_name p" "pizza_tool p' = pizza_tool p" "pizza_dough p' = pizza_dough p"
    "pizza_ingredients p' = pizza_ingredients p" by simp_all
  ultimately show ?thesis using ii assms(2) by simp
qed

lemma order_composed:
  fixes s :: "'a proc_scheme"
  assumes "generate_pizza order r (restrict_pantry r p) s = Some (Returned (q, s'))" "\<And>xs. mset (order xs) = mset xs"
  shows "composed r (restrict_pantry r p) q"
proof -
  obtain name and s1 s2 :: "'a proc_scheme" where "compose_pizza order r (restrict_pantry r p) name s1 = Returned (q, s2)"
    using attempts_composed [OF assms(1) [unfolded generate_pizza_def]] by auto
  then show ?thesis by (rule compose_pizza_Returned [OF _ assms(2)])
qed

text \<open>
  The state the services are in: a database with integrity whose identifiers were given out by its
  sequence, with values in the range of its columns.
\<close>

definition serving :: "db \<Rightarrow> bool" where
  "serving db \<longleftrightarrow> db_inv db \<and> distinct (map ing_id (db_ingredients db)) \<and> distinct (map dough_id (db_doughs db)) \<and>
     (\<forall>i \<in> set (db_ingredients db). ingredient_in_range i) \<and> (\<forall>d \<in> set (db_doughs db). dough_in_range d) \<and>
     0 \<le> seq (db_pizzas db) \<and> (\<forall>i \<in> pizza_ids db. i \<le> seq (db_pizzas db))"

lemma same_store_serving: "same_store a b \<Longrightarrow> serving b = serving a"
  using same_storeD [of a b] by (simp add: serving_def same_store_def)

lemma GetRecommendation_delayed:
  "fault_free pf \<Longrightarrow> fst (GetRecommendation pf i (DelayIfEnvSet env n db)) = fst (GetRecommendation pf i db)"
  by (simp add: DelayIfEnvSet_def sleep_def GetRecommendation_def query_ok tick_def m2m_rows_def load_pizza_def
      joined_dough_def cong del: if_weak_cong split: option.splits sum.splits)

text \<open>The metrics are no part of the store.\<close>

lemma GetRecommendation_counted: "fault_free pf \<Longrightarrow>
   fst (GetRecommendation pf i (db\<lparr>proc_pizzas := m\<rparr>)) = fst (GetRecommendation pf i db)"
  by (simp add: GetRecommendation_def query_ok tick_def m2m_rows_def load_pizza_def
      joined_dough_def cong del: if_weak_cong split: option.splits sum.splits)

lemma same_store_counted [simp]: "same_store a (b\<lparr>proc_pizzas := m\<rparr>) = same_store a b"
  by (simp add: same_store_def)

subsection \<open>Reads of the catalog by a client\<close>

lemma injection_forwarded:
  assumes "k \<in> set headerList"
  shows "ctx_text (InjectErrorHeaders (get_request ctx url) c) k = ctx_text (cc_values ctx) k"
proof -
  let ?E = "concat (map (\<lambda>h. case cc_values ctx h of None \<Rightarrow> [] | Some v \<Rightarrow> [(h, v)]) headerList)"
  let ?m = "(''X-Is-Internal'', ''1'') # (case cc_auth ctx of Some a \<Rightarrow> [(authHeader, a)] | None \<Rightarrow> [])"
  have rq: "rq_headers (get_request ctx url) = (''Content-Type'', ''application/json'') # ?E @ ?m"
    by (simp add: get_request_def marked_def header_add_def AddErrorHeaders_headers http_new_request_def split: option.split)
  have m: "(\<lambda>h. to_lower (fst h)) ` set ?m \<subseteq> {to_lower ''X-Is-Internal'', to_lower authHeader}"
    by (cases "cc_auth ctx") simp_all
  have other: "to_lower ''Content-Type'' \<notin> set headerList" unfolding headerList_def by code_simp
  have k: "to_lower k = k" using assms by (rule headerList_lower)
  have "k \<notin> (\<lambda>h. to_lower (fst h)) ` set ?m"
  proof
    assume "k \<in> (\<lambda>h. to_lower (fst h)) ` set ?m"
    from subsetD [OF m this] show False using assms lower_marks(1,2) by (metis insertE singletonD)
  qed
  then have "header_get ?m k = []" using k by (intro header_get_none) simp
  moreover have "header_get ?E k = (case cc_values ctx k of None \<Rightarrow> [] | Some v \<Rightarrow> v)"
    by (rule header_get_added [OF headerList_distinct headerList_lower assms])
  moreover have "header_get ?E k = []" if "k \<notin> (\<lambda>h. to_lower (fst h)) ` set ?E"
    using that k by (intro header_get_none) simp
  ultimately have "header_get (rq_headers (get_request ctx url)) k = (case cc_values ctx k of None \<Rightarrow> [] | Some v \<Rightarrow> v)"
    using other assms k unfolding rq by (auto simp: header_get_append)
  then show ?thesis
    using assms by (auto simp: InjectErrorHeaders_get ctx_text_def split: option.splits)
qed

lemma get_served:
  assumes "router ''GET'' url = Some rt" and "catalog_route pf cfg rt = Some h"
    and "auth_token (case cc_auth ctx of Some a \<Rightarrow> a | None \<Rightarrow> []) = tok" and "tok \<noteq> []"
    and "Authenticate pf tok db = (Inr user, d)"
    and "h \<lparr>hc_user = Some user, hc_values = InjectErrorHeaders (get_request ctx url) Map.empty\<rparr>
           (get_request ctx url) new_rw d = (w, d')"
  shows "catalog_transport router text pf cfg (get_request ctx url) db =
    (Inr \<lparr>resp_status = status w, resp_json = wire_body text w\<rparr>, d')"
  using serve_catalog [OF assms(2) _ assms(4,5), of "get_request ctx url"] assms(1,3,6)
  by (simp add: catalog_transport_def request_token)

lemma dec_ingredients_served:
  assumes "\<forall>i \<in> set is. ingredient_in_range i"
  shows "dec_list ''ingredients'' dec_ingredient zero_ingredient (JObj [(''ingredients'', JArr (map enc_ingredient is))]) [] =
    Inr (map wire_ingredient is)"
  using assms by (intro dec_list_enc) (simp_all add: go_simps dec_enc_ingredient)

text \<open>The ingredients of a type, as the catalog stores them: the type itself is not sent.\<close>

lemma client_Ingredients_served:
  assumes "routes_catalog cu router" and "ty \<in> {''olive_oil'', ''tomato'', ''mozzarella'', ''topping''}"
    and "auth_token (case cc_auth ctx of Some a \<Rightarrow> a | None \<Rightarrow> []) = tok" and "tok \<noteq> []"
    and "fault_free pf" and "Authenticate pf tok db = (Inr user, d)"
    and "ctx_text (cc_values ctx) ''x-error-get-ingredients'' = None" "ctx_text (cc_values ctx) ''x-delay-get-ingredients'' = None"
    and "filter (\<lambda>i. ing_type i = ty) (db_ingredients d) \<noteq> []" "\<forall>i \<in> set (db_ingredients d). ingredient_in_range i"
  shows "client_Ingredients (catalog_transport router text pf cfg) cu ctx ty db =
    (Inr (map wire_ingredient (scan pf (db_clock d) (filter (\<lambda>i. ing_type i = ty) (db_ingredients d)))), tick d)"
proof -
  let ?url = "cu @ ''/api/ingredients/'' @ ty"
  let ?is = "scan pf (db_clock d) (filter (\<lambda>i. ing_type i = ty) (db_ingredients d))"
  let ?c = "InjectErrorHeaders (get_request ctx ?url) Map.empty"
  have rt: "router ''GET'' ?url = Some (IngredientsRoute ty)" using assms(1,2) by (auto simp: routes_catalog_def)
  have "ctx_text ?c k = ctx_text (cc_values ctx) k" if "k \<in> set headerList" for k
    using injection_forwarded [OF that] .
  then have "GetIngredients pf ?c ty d = (Inr ?is, tick d)"
    using assms(5,7,8) by (simp add: GetIngredients_def InjectErrors_quiet query_ok headerList_def)
  then have h: "getIngredients pf ty \<lparr>hc_user = Some user, hc_values = ?c\<rparr> (get_request ctx ?url) new_rw d =
      (writeJSONResponse (JObj [(''ingredients'', JArr (map enc_ingredient ?is))]) 200 new_rw, tick d)"
    using assms(9) by (simp add: getIngredients_def)
  have dec: "dec_list ''ingredients'' dec_ingredient zero_ingredient (JObj [(''ingredients'', JArr (map enc_ingredient ?is))]) [] =
      Inr (map wire_ingredient ?is)"
    by (rule dec_ingredients_served) (use assms(10) in simp)
  show ?thesis
    unfolding client_Ingredients_def getJSON_request get_served [where h = "getIngredients pf ty" and pf = pf and ctx = ctx and url = ?url and router = router and cfg = cfg and d = d,
      OF rt catalog_route.simps(1) assms(3,4,6) h]
    using dec by (simp add: writeJSONResponse_def wire_body_def)
qed

text \<open>An injected error reaches the catalog and comes back as an unexpected status.\<close>

lemma client_Ingredients_injected:
  assumes "routes_catalog cu router" and "ty \<in> {''olive_oil'', ''tomato'', ''mozzarella'', ''topping''}"
    and "auth_token (case cc_auth ctx of Some a \<Rightarrow> a | None \<Rightarrow> []) = tok" and "tok \<noteq> []"
    and "Authenticate pf tok db = (Inr user, d)"
    and "ctx_text (cc_values ctx) ''x-error-get-ingredients'' = Some e"
    and "ctx_text (cc_values ctx) ''x-error-get-ingredients-percentage'' = None"
  shows "client_Ingredients (catalog_transport router text pf cfg) cu ctx ty db = (Inl (ErrUnexpectedStatus 500), d)"
proof -
  let ?url = "cu @ ''/api/ingredients/'' @ ty"
  let ?c = "InjectErrorHeaders (get_request ctx ?url) Map.empty"
  have rt: "router ''GET'' ?url = Some (IngredientsRoute ty)" using assms(1,2) by (auto simp: routes_catalog_def)
  have "ctx_text ?c k = ctx_text (cc_values ctx) k" if "k \<in> set headerList" for k
    using injection_forwarded [OF that] .
  then have "GetIngredients pf ?c ty d = (Inl (ErrInjected e), d)"
    using assms(6,7) by (simp add: GetIngredients_def InjectErrors_def headerList_def)
  then have h: "getIngredients pf ty \<lparr>hc_user = Some user, hc_values = ?c\<rparr> (get_request ctx ?url) new_rw d =
      (write_header 500 new_rw, d)"
    by (simp add: getIngredients_def)
  show ?thesis
    unfolding client_Ingredients_def getJSON_request get_served [where h = "getIngredients pf ty" and pf = pf and ctx = ctx and url = ?url and router = router and cfg = cfg and d = d,
      OF rt catalog_route.simps(1) assms(3-5) h]
    by simp
qed

lemma client_Tools_served:
  assumes "routes_catalog cu router"
    and "auth_token (case cc_auth ctx of Some a \<Rightarrow> a | None \<Rightarrow> []) = tok" and "tok \<noteq> []"
    and "fault_free pf" and "Authenticate pf tok db = (Inr user, d)"
  shows "client_Tools (catalog_transport router text pf cfg) cu ctx db = (Inr (scan pf (db_clock d) (db_tools d)), tick d)"
proof -
  let ?url = "cu @ ''/api/tools''"
  let ?ts = "scan pf (db_clock d) (db_tools d)"
  have rt: "router ''GET'' ?url = Some ToolsRoute" using assms(1) by (simp add: routes_catalog_def)
  have h: "getTools pf \<lparr>hc_user = Some user, hc_values = InjectErrorHeaders (get_request ctx ?url) Map.empty\<rparr>
      (get_request ctx ?url) new_rw d = (writeJSONResponse (JObj [(''tools'', JArr (map JStr ?ts))]) 200 new_rw, tick d)"
    by (simp add: getTools_def GetTools_def query_ok [OF assms(4)])
  have dec: "dec_list ''tools'' (dec_string ''tools'') [] (JObj [(''tools'', JArr (map JStr ?ts))]) [] = Inr (map (\<lambda>x. x) ?ts)"
    by (rule dec_list_enc) (code_simp, simp)
  show ?thesis
    unfolding client_Tools_def getJSON_request get_served [where h = "getTools pf" and pf = pf and ctx = ctx and url = ?url and router = router and cfg = cfg and d = d,
      OF rt catalog_route.simps(3) assms(2,3,5) h]
    using dec by (simp add: writeJSONResponse_def wire_body_def)
qed

lemma client_Doughs_served:
  assumes "routes_catalog cu router"
    and "auth_token (case cc_auth ctx of Some a \<Rightarrow> a | None \<Rightarrow> []) = tok" and "tok \<noteq> []"
    and "fault_free pf" and "Authenticate pf tok db = (Inr user, d)" and "\<forall>x \<in> set (db_doughs d). dough_in_range x"
  shows "client_Doughs (catalog_transport router text pf cfg) cu ctx db = (Inr (scan pf (db_clock d) (db_doughs d)), tick d)"
proof -
  let ?url = "cu @ ''/api/doughs''"
  let ?ds = "scan pf (db_clock d) (db_doughs d)"
  have rt: "router ''GET'' ?url = Some DoughsRoute" using assms(1) by (simp add: routes_catalog_def)
  have h: "getDoughs pf \<lparr>hc_user = Some user, hc_values = InjectErrorHeaders (get_request ctx ?url) Map.empty\<rparr>
      (get_request ctx ?url) new_rw d = (writeJSONResponse (JObj [(''doughs'', JArr (map enc_dough ?ds))]) 200 new_rw, tick d)"
    by (simp add: getDoughs_def GetDoughs_def query_ok [OF assms(4)])
  have dec: "dec_list ''doughs'' dec_dough zero_dough (JObj [(''doughs'', JArr (map enc_dough ?ds))]) [] = Inr (map (\<lambda>x. x) ?ds)"
    by (rule dec_list_enc) (code_simp, use assms(6) in \<open>simp add: dec_enc_dough\<close>)
  show ?thesis
    unfolding client_Doughs_def getJSON_request get_served [where h = "getDoughs pf" and pf = pf and ctx = ctx and url = ?url and router = router and cfg = cfg and d = d,
      OF rt catalog_route.simps(2) assms(2,3,5) h]
    using dec by (simp add: writeJSONResponse_def wire_body_def)
qed

subsection \<open>Authentication by the catalog\<close>

lemma auth_token_with_cookie:
  assumes "requestTokenFromCookie r = [] \<or> length (requestTokenFromCookie r) = 16"
  shows "auth_token (header_get (rq_headers (with_cookie_auth r)) authHeader) = getRequestToken r"
proof (cases "requestTokenFromCookie r = []")
  case True
  then show ?thesis by (simp add: with_cookie_auth_def auth_token_of_header)
next
  case False
  with assms have l: "length (requestTokenFromCookie r) = 16" by simp
  then have "getRequestToken r = requestTokenFromCookie r" by (simp add: getRequestToken_def UserTokenLength_def)
  with False auth_token_Token [OF l] show ?thesis by (simp add: with_cookie_auth_def Let_def)
qed

lemma client_Authenticate_served:
  assumes "routes_catalog cu router" and "\<And>u d. Authenticate pf tok db = (Inr u, d) \<Longrightarrow> in_int64 (user_id u)"
    and "auth_token (case cc_auth ctx of Some a \<Rightarrow> a | None \<Rightarrow> []) = tok"
  shows "client_Authenticate (catalog_transport router text pf cfg) cu ctx db =
    (if tok = [] then (Inl (ErrUnexpectedStatus 401), db)
     else case Authenticate pf tok db of
       (Inl e, d) \<Rightarrow> (Inl (ErrUnexpectedStatus 500), d)
     | (Inr u, d) \<Rightarrow> (Inr (u\<lparr>user_password_hash := [], user_password_plaintext := []\<rparr>), d))"
proof -
  let ?r = "post_request ctx (cu @ ''/api/users/token/authenticate'') None"
  have rt: "router (rq_method ?r) (rq_path ?r) = Some AuthenticateRoute"
    using assms(1) by (simp add: routes_catalog_def)
  have tok: "getRequestToken ?r = tok" using assms(3) by (simp add: request_token)
  obtain x d where x: "Authenticate pf tok db = (x, d)" by fastforce
  have s: "serve pf cfg AuthenticateRoute ?r db =
      (if tok = [] then (writeJSONErrorResponse ErrAuth 401 new_rw, db)
       else case x of Inl e \<Rightarrow> (write_header 500 new_rw, d) | Inr u \<Rightarrow> (writeJSONResponse (enc_user u) 200 new_rw, d))"
    using x tok by (simp add: serve_def authenticate_def Let_def split: sum.split)
  show ?thesis
  proof (cases "tok = []")
    case True
    then show ?thesis
      unfolding client_Authenticate_def postJSON_request catalog_transport_route [where router = router, OF rt] s
      by (simp add: writeJSONErrorResponse_def)
  next
    case False
    show ?thesis
      unfolding client_Authenticate_def postJSON_request catalog_transport_route [where router = router, OF rt] s
      using False x assms(2) by (cases x) (simp_all add: writeJSONResponse_def wire_body_def dec_enc_user_lenient)
  qed
qed

end
