(* ===== verification/Services.thy ===== *)
theory Services
  imports Deployment
begin

section \<open>Properties of the deployed services\<close>

text \<open>
  A concrete deployment to evaluate (the seeded catalog behind a router for its routes, a copy
  service with one adjective and one name, and the token of a seeded user), and the properties of
  the two services together: what an answer of \<^verbatim>\<open>POST /api/pizza\<close> shows, that the pizza it shows is
  served from then on, who is let in, and that injected errors travel.
\<close>

subsection \<open>A concrete deployment\<close>

definition demo_router :: "string \<Rightarrow> string \<Rightarrow> route option" where
  "demo_router m p =
     (if m = ''GET'' then
        if has_prefix p ''c/api/ingredients/'' then Some (IngredientsRoute (trim_prefix p ''c/api/ingredients/''))
        else if has_prefix p ''c/api/internal/recommendations/''
        then Some (RecommendationRoute (trim_prefix p ''c/api/internal/recommendations/''))
        else if p = ''c/api/tools'' then Some ToolsRoute
        else if p = ''c/api/doughs'' then Some DoughsRoute else None
      else if p = ''c/api/users/token/authenticate'' then Some AuthenticateRoute
      else if p = ''c/api/internal/recommendations'' then Some PostRecommendationRoute else None)"

lemma demo_routes: "routes_catalog ''c'' demo_router"
  by (simp add: routes_catalog_def demo_router_def has_prefix_def trim_prefix_def)

definition demo_copy :: "db transport" where
  "demo_copy r s =
     (Inr \<lparr>resp_status = 200, resp_json = Inr (JObj
        [if rq_path r = ''p/api/names'' then (''names'', JArr [JStr ''Margherita''])
         else (''adjectives'', JArr [JStr ''Tasty''])])\<rparr>, s)"

definition demo_ctx :: client_ctx where
  "demo_ctx = \<lparr>cc_auth = Some (''Token '' @ ''oBGOPc5tVtk9WAgf''), cc_values = Map.empty\<rparr>"

abbreviation demo_services :: "db transport" where
  "demo_services \<equiv> catalog_transport demo_router (\<lambda>_. []) demo_platform (demo_config\<lparr>maxPizzas := 0\<rparr>)"

lemma demo_auth:
  "rows (db_users d) = seed_users \<Longrightarrow>
   Authenticate demo_platform ''oBGOPc5tVtk9WAgf'' d = (Inr studio_user, tick d)"
  by (simp add: Authenticate_def query_ok seed_users_def studio_user_def)

lemma demo_auth_token: "auth_token (case cc_auth demo_ctx of Some a \<Rightarrow> a | None \<Rightarrow> []) = ''oBGOPc5tVtk9WAgf''"
  unfolding demo_ctx_def by (simp only: client_ctx.select_convs option.case, rule auth_token_Token, simp)

lemma seed_in_range: "\<forall>i \<in> set seed_ingredients. ingredient_in_range i" "\<forall>d \<in> set seed_doughs. dough_in_range d"
  by (simp_all add: seed_ingredients_def seed_doughs_def ingredient_in_range_def dough_in_range_def in_int64_def
      min_int64_def max_int64_def)

lemma demo_client_Ingredients:
  assumes "same_store demo_db d" "ty \<in> {''olive_oil'', ''tomato'', ''mozzarella'', ''topping''}"
  shows "client_Ingredients demo_services ''c'' demo_ctx ty d =
    (Inr (map wire_ingredient (filter (\<lambda>i. ing_type i = ty) seed_ingredients)), tick (tick d))"
proof -
  have u: "rows (db_users d) = seed_users" "db_ingredients (tick d) = seed_ingredients"
    using assms(1) by (simp_all add: same_store_def)
  have ne: "filter (\<lambda>i. ing_type i = ty) seed_ingredients \<noteq> []"
    using assms(2) by (auto simp: seed_ingredients_def)
  show ?thesis
    using client_Ingredients_served [OF demo_routes assms(2) demo_auth_token _ _ demo_auth [OF u(1)]] ne seed_in_range u
    by (simp add: demo_ctx_def ctx_text_def)
qed

lemma demo_client_Tools:
  "same_store demo_db d \<Longrightarrow> client_Tools demo_services ''c'' demo_ctx d = (Inr seed_tools, tick (tick d))"
  using client_Tools_served [OF demo_routes demo_auth_token _ _ demo_auth] by (simp add: same_store_def)

lemma demo_client_Doughs:
  "same_store demo_db d \<Longrightarrow> client_Doughs demo_services ''c'' demo_ctx d = (Inr seed_doughs, tick (tick d))"
  using client_Doughs_served [OF demo_routes demo_auth_token _ _ demo_auth] seed_in_range by (simp add: same_store_def)

lemma demo_client_copy:
  "client_Adjectives demo_copy ''p'' ctx s = (Inr [''Tasty''], s)"
  "client_Names demo_copy ''p'' ctx s = (Inr [''Margherita''], s)"
proof -
  have "to_lower ''adjectives'' = ''adjectives''" "to_lower ''names'' = ''names''" by code_simp+
  then show "client_Adjectives demo_copy ''p'' ctx s = (Inr [''Tasty''], s)"
    "client_Names demo_copy ''p'' ctx s = (Inr [''Margherita''], s)"
    by (simp_all add: client_Adjectives_def client_Names_def getJSON_request demo_copy_def dec_list_def)
qed

definition demo_stock :: pantry where
  "demo_stock =
     \<lparr>olive_oils = map wire_ingredient (filter (\<lambda>i. ing_type i = ''olive_oil'') seed_ingredients),
      tomatoes = map wire_ingredient (filter (\<lambda>i. ing_type i = ''tomato'') seed_ingredients),
      mozzarellas = map wire_ingredient (filter (\<lambda>i. ing_type i = ''mozzarella'') seed_ingredients),
      toppings = map wire_ingredient (filter (\<lambda>i. ing_type i = ''topping'') seed_ingredients),
      tools = seed_tools, doughs = seed_doughs, adjectives = [''Tasty''], names = [''Margherita'']\<rparr>"

lemma same_store_demo: "same_store demo_db ((tick ^^ k) demo_db) \<and> proc_rng ((tick ^^ k) demo_db) = sconst 0"
  by (induction k) (simp_all add: id_def)

lemma demo_fetch:
  "fetch_pantry demo_services ''c'' demo_copy ''p'' demo_ctx r new_rw demo_db next =
     next (restrict_pantry r demo_stock) ((tick ^^ 12) demo_db)"
proof -
  have s: "same_store demo_db (tick (tick d)) \<longleftrightarrow> same_store demo_db d" for d by simp
  have "(tick ^^ 12) demo_db = tick (tick (tick (tick (tick (tick (tick (tick (tick (tick (tick (tick demo_db)))))))))))"
    by (simp add: numeral_eq_Suc)
  then show ?thesis
    by (simp add: fetch_pantry_def or_500_def demo_client_Ingredients demo_client_Tools demo_client_Doughs demo_client_copy
        demo_stock_def)
qed

lemma compose_first:
  assumes "proc_rng s = sconst 0" "doughs p = d # ds" "olive_oils p = o' # os" "tomatoes p = tm # tms"
    "mozzarellas p = mz # mzs" "tools p = kn # kns" "toppings p = t # ts" "res_max_toppings r = 5" "res_min_toppings r = 3"
  shows "compose_pizza (\<lambda>xs. xs) r p name s = Returned (zero_pizza\<lparr>pizza_name := name, pizza_dough := d,
    pizza_ingredients := last_by_name [o', tm, mz, t, t, t], pizza_tool := kn\<rparr>, s)"
proof -
  have n: "wrap64 2 = 2" "wrap64 3 = 3" "(3::nat) = Suc (Suc (Suc 0))" by (simp_all add: wrap64_def)
  show ?thesis
    by (simp add: compose_pizza_def constant_source [OF assms(1)] extra_toppings_def assms(2-) n Let_def)
qed

definition demo_mine :: pizza where
  "demo_mine = zero_pizza\<lparr>pizza_name := ''Mine'', pizza_dough := seed_doughs ! 0, pizza_tool := ''Knife'',
     pizza_ingredients := map wire_ingredient [seed_ingredients ! 0, seed_ingredients ! 2, seed_ingredients ! 5, seed_ingredients ! 8]\<rparr>"

lemma demo_generate_services:
  assumes "proc_rng s = sconst 0"
  shows "generate_pizza (\<lambda>xs. xs) (clip_name (WithDefaults (zero_restrictions\<lparr>res_custom_name := ''Mine''\<rparr>)))
    (restrict_pantry (clip_name (WithDefaults (zero_restrictions\<lparr>res_custom_name := ''Mine''\<rparr>))) demo_stock) s =
    Some (Returned (demo_mine, s))"
proof -
  let ?r = "clip_name (WithDefaults (zero_restrictions\<lparr>res_custom_name := ''Mine''\<rparr>))"
  have r: "res_max_toppings ?r = 5" "res_min_toppings ?r = 3" "res_custom_name ?r = ''Mine''" "res_max_calories ?r = 1000"
    by (simp_all add: zero_restrictions_def)
  have all: "valid_ingredients ?r xs = xs" "valid_tools ?r ts = ts" for xs ts
    by (simp_all add: valid_ingredients_filter valid_tools_filter zero_restrictions_def)
  obtain os ms zs ts where heads: "olive_oils demo_stock = wire_ingredient (seed_ingredients ! 0) # os"
    "tomatoes demo_stock = wire_ingredient (seed_ingredients ! 2) # ms"
    "mozzarellas demo_stock = wire_ingredient (seed_ingredients ! 5) # zs"
    "toppings demo_stock = wire_ingredient (seed_ingredients ! 8) # ts"
    by (simp add: demo_stock_def seed_ingredients_def)
  have c: "compose_pizza (\<lambda>xs. xs) ?r (restrict_pantry ?r demo_stock) ''Mine'' s = Returned (demo_mine, s)"
  proof (subst compose_first [OF assms])
    show "res_max_toppings ?r = 5" "res_min_toppings ?r = 3" by fact+
    show "olive_oils (restrict_pantry ?r demo_stock) = wire_ingredient (seed_ingredients ! 0) # os"
      "tomatoes (restrict_pantry ?r demo_stock) = wire_ingredient (seed_ingredients ! 2) # ms"
      "mozzarellas (restrict_pantry ?r demo_stock) = wire_ingredient (seed_ingredients ! 5) # zs"
      "toppings (restrict_pantry ?r demo_stock) = wire_ingredient (seed_ingredients ! 8) # ts"
      by (simp_all only: restrict_pantry_simps all heads)
    show "tools (restrict_pantry ?r demo_stock) = ''Knife'' # [''Pizza cutter'', ''Scissors'']"
      by (simp only: restrict_pantry_simps all) (simp add: demo_stock_def seed_tools_def)
    show "doughs (restrict_pantry ?r demo_stock) = seed_doughs ! 0 # [seed_doughs ! 1, seed_doughs ! 2]"
      by (simp add: demo_stock_def seed_doughs_def)
    have "last_by_name [wire_ingredient (seed_ingredients ! 0), wire_ingredient (seed_ingredients ! 2),
        wire_ingredient (seed_ingredients ! 5), wire_ingredient (seed_ingredients ! 8),
        wire_ingredient (seed_ingredients ! 8), wire_ingredient (seed_ingredients ! 8)] =
      map wire_ingredient [seed_ingredients ! 0, seed_ingredients ! 2, seed_ingredients ! 5, seed_ingredients ! 8]"
      by (simp add: wire_ingredient_def cong del: if_weak_cong)
    then show "Returned (zero_pizza\<lparr>pizza_name := ''Mine'', pizza_dough := seed_doughs ! 0,
        pizza_ingredients := last_by_name [wire_ingredient (seed_ingredients ! 0), wire_ingredient (seed_ingredients ! 2),
        wire_ingredient (seed_ingredients ! 5), wire_ingredient (seed_ingredients ! 8),
        wire_ingredient (seed_ingredients ! 8), wire_ingredient (seed_ingredients ! 8)], pizza_tool := ''Knife''\<rparr>, s) =
      Returned (demo_mine, s)"
      by (simp only:) (simp add: demo_mine_def)
  qed
  have "CalculateCalories demo_mine \<le> 1000"
    by (simp add: CalculateCalories_def demo_mine_def wrap64_def)
  then have "attempts (Suc n) (\<lambda>xs. xs) ?r (restrict_pantry ?r demo_stock) q s = Some (Returned (demo_mine, s))" for n q
    using c r by simp
  from this [of 9] show ?thesis by (simp add: generate_pizza_def)
qed

lemma demo_mine_in_range: "pizza_in_range demo_mine"
  by (simp add: demo_mine_def pizza_in_range_def zero_pizza_def wire_ingredient_def ingredient_in_range_def
      dough_in_range_def seed_doughs_def in_int64_def min_int64_def max_int64_def)

lemma demo_record:
  assumes "same_store demo_db d"
  shows "\<exists>p' d'. RecordRecommendation demo_platform (demo_config\<lparr>maxPizzas := 0\<rparr>) Map.empty (wire_pizza demo_mine) d = (Inr p', d') \<and>
    pizza_in_range p'"
proof -
  have t: "db_ingredients d = seed_ingredients" "db_doughs d = seed_doughs" "db_tools d = seed_tools"
    "db_pizza_to_ingredients d = seed_pizza_to_ingredients" "db_pizzas d = \<lparr>rows = seed_pizzas 0, seq = 3\<rparr>"
    using assms by (simp_all add: same_store_def)
  show ?thesis
    by (simp add: RecordRecommendation_def InjectErrors_quiet ctx_text_def run_in_tx_ok stmt_ok record_pizza_tx_def
      insert_pizza_def insert_row_def Let_def pizza_to_row_def demo_mine_def zero_pizza_def seed_doughs_def
      seed_tools_def seed_ingredients_def seed_pizzas_def max_int64_def insert_pizza_to_ingredient_def t
      seed_pizza_to_ingredients_def enforceTableSizeLimits_def pizza_in_range_def wire_ingredient_def
      ingredient_in_range_def dough_in_range_def in_int64_def min_int64_def)
qed

definition demo_order :: request where
  "demo_order = api_request ''oBGOPc5tVtk9WAgf'' (JObj [(''customName'', JStr ''Mine'')])"

lemma demo_order_body:
  "dec_restrictions (JObj [(''customName'', JStr ''Mine'')]) zero_restrictions =
     Inr (zero_restrictions\<lparr>res_custom_name := ''Mine''\<rparr>)"
proof -
  have "to_lower ''customName'' = ''customname''" by code_simp
  then show ?thesis by (simp add: dec_restrictions_def set_restrictions_field_def on_field_def)
qed

lemma demo_post:
  "\<exists>w db'. postPizza demo_services ''c'' demo_copy ''p'' (\<lambda>_. None) (\<lambda>xs. xs) None demo_ctx demo_order new_rw demo_db =
     Some (Returned (w, db')) \<and> status w = 200"
proof -
  let ?d = "(tick ^^ 12) demo_db"
  obtain p' d' where r: "RecordRecommendation demo_platform (demo_config\<lparr>maxPizzas := 0\<rparr>) Map.empty (wire_pizza demo_mine) ?d = (Inr p', d')"
    and p': "pizza_in_range p'"
    using demo_record same_store_demo by blast
  have "client_RecordRecommendation demo_services ''c'' demo_ctx demo_mine ?d = (Inr (wire_pizza p'), d')"
    using client_RecordRecommendation_served [OF demo_routes demo_mine_in_range] r dec_enc_pizza_lenient [OF p'] by simp
  moreover have "decodeJSONBody dec_restrictions zero_restrictions demo_order new_rw =
      Inr (zero_restrictions\<lparr>res_custom_name := ''Mine''\<rparr>)"
    using demo_order_body by (simp add: decodeJSONBody_def demo_order_def)
  ultimately show ?thesis
    using demo_generate_services [of ?d] same_store_demo [of 12]
    by (simp add: postPizza_def DelayIfEnvSet_def FailRandomlyIfEnvSet_def Let_def demo_fetch answer_pizza_def or_500_def
        reply_def writeJSONResponse_def)
qed

subsection \<open>Properties\<close>



text \<open>C24: a pizza that \<^verbatim>\<open>POST /api/pizza\<close> answered with is served from then on: with the catalog service
  behind the clients and a database that works, \<^verbatim>\<open>GET /api/pizza\<close> with the identifier of the answer is
  answered 200 with the same name, tool and dough and the same ingredients, and the calories and the
  vegetarian flag of the answer are those of the pizza it shows.\<close>

theorem posted_pizza_is_served:
  assumes "routes_catalog cu router" and "fault_free pf" and "pf_foreign_keys pf" and "serving db"
    and "\<And>xs. mset (order xs) = mset xs" and "\<And>r s. same_store s (snd (u r s))"
    and "postPizza (catalog_transport router text pf cfg) cu u pu env order usr ctx r new_rw db = Some (Returned (w, db'))"
    and "status w = 200"
  shows "\<exists>q q2 w2 db2. rw_body w = [JsonBody (enc_recommendation q (CalculateCalories q) (IsVegetarian q))] \<and>
    getPizza (catalog_transport router text pf cfg) cu env (Itoa (pizza_id q)) usr2 ctx2 r2 new_rw db' =
      Some (Returned (w2, db2)) \<and> status w2 = 200 \<and> rw_body w2 = [JsonBody (enc_pizza q2)] \<and>
    pizza_id q2 = pizza_id q \<and> pizza_name q2 = pizza_name q \<and> pizza_tool q2 = pizza_tool q \<and>
    dough_id (pizza_dough q2) = dough_id (pizza_dough q) \<and>
    mset (map ing_id (pizza_ingredients q2)) = mset (map ing_id (pizza_ingredients q))"
proof -
  let ?t = "catalog_transport router text pf cfg"
  obtain body p q0 res s1 s2 s3 s4 where
    g: "generate_pizza order (clip_name (WithDefaults body)) (restrict_pantry (clip_name (WithDefaults body)) p) s2 =
       Some (Returned (q0, s3))"
    and rec: "client_RecordRecommendation ?t cu ctx q0 s3 = (Inr res, s4)"
    and db': "db' = s4\<lparr>proc_pizzas := count_pizza (IsVegetarian q0) (pizza_tool res) (length (pizza_ingredients q0))
       (CalculateCalories q0) (proc_pizzas s4)\<rparr>"
    and w: "rw_body w = [JsonBody (enc_recommendation res (CalculateCalories q0) (IsVegetarian q0))]"
    and p: "pantry_in_range p" "kept db s1" "same_store s1 s2"
    by (rule postPizza_run [OF assms(7,8) catalog_reads [OF assms(1,6)]])
  have "same_store db s3"
    using same_store_more [OF conjunct1 [OF p(2)]] p(3) same_store_more [OF conjunct1 [OF more_generate [OF g]]] by (blast intro: same_store_trans)
  then have s3: "serving s3" using assms(4) same_store_serving by blast
  have q0: "pizza_in_range q0" "pizza_id q0 = 0"
    using composed_in_range [OF order_composed [OF g assms(5)] p(1)] attempts_id [OF g [unfolded generate_pizza_def]]
    by (simp_all add: zero_pizza_def)
  obtain p' where r: "RecordRecommendation pf cfg Map.empty (wire_pizza q0) s3 = (Inr p', s4)"
    and dec: "dec_pizza_lenient (enc_pizza p') zero_pizza = Inr res"
    by (rule client_RecordRecommendation_Inr [OF assms(1) q0(1) rec])
  have new: "pizza_id p' = seq (db_pizzas s3) + 1" "pizza_name p' = pizza_name q0" "pizza_tool p' = pizza_tool q0"
    "pizza_dough p' = pizza_dough q0" "pizza_ingredients p' = map wire_ingredient (pizza_ingredients q0)"
    using RecordRecommendation_new [OF r] q0(2) by simp_all
  have range: "in_int64 (pizza_id p')" "res = wire_pizza p'"
    using decoded_pizza [OF dec] q0(1) new by (auto simp: pizza_in_range_def ingredient_in_range_def)
  have "\<forall>i \<in> pizza_ids s3. i < pizza_id p'" using s3 new by (auto simp: serving_def)
  with recommendation_found [OF assms(2,3) _ _ _ r] s3 obtain q2 where
    q2: "fst (GetRecommendation pf (pizza_id p') s4) = Inr (Some q2)" "pizza_id q2 = pizza_id p'"
    "pizza_name q2 = pizza_name q0" "pizza_tool q2 = pizza_tool q0" "pizza_dough q2 \<in> set (db_doughs s3)"
    "dough_id (pizza_dough q2) = dough_id (pizza_dough q0)"
    "mset (map ing_id (pizza_ingredients q2)) = mset (map ing_id (pizza_ingredients q0))"
    by (auto simp: serving_def comp_def)
  let ?db = "DelayIfEnvSet env ''QUICKPIZZA_DELAY_RECOMMENDATIONS_API_PIZZA_GET'' db'"
  obtain d2 where get: "GetRecommendation pf (pizza_id p') ?db = (Inr (Some q2), d2)"
    using GetRecommendation_delayed [OF assms(2)] GetRecommendation_counted [OF assms(2)] q2(1)
    unfolding db' by (metis prod.collapse)
  have ev: "evolves s3 s4" using evolves_RecordRecommendation [OF assms(3), of s3 cfg Map.empty "wire_pizza q0"] r by simp
  have "same_store s4 db'" by (simp add: db')
  moreover have "same_store db' ?db" by (simp add: same_store_more)
  ultimately have "same_store s4 ?db" by (rule same_store_trans)
  then have "db_ingredients ?db = db_ingredients s3" using ev by (simp add: evolves_def same_store_def)
  then have "pizza_in_range q2"
    using GetRecommendation_ingredients [OF get] s3 q2(2,5) range(1) by (auto simp: serving_def pizza_in_range_def)
  moreover have "0 \<le> pizza_id p'" using s3 new by (simp add: serving_def)
  ultimately have "getPizza ?t cu env (Itoa (pizza_id p')) usr2 ctx2 r2 new_rw db' =
      Some (Returned (writeJSONResponse (enc_pizza q2) 200 new_rw, d2))"
    using getPizza_served [OF assms(1) _ range(1) get] by blast
  moreover have "wire_ingredient (wire_ingredient i) = wire_ingredient i" for i by (simp add: wire_ingredient_def)
  ultimately show ?thesis
    using w q2 range(2) new same_pizza [of res q0]
    by (intro exI [of _ res] exI [of _ q2]) (simp add: writeJSONResponse_def comp_def)
qed

theorem posted_pizza_is_served_witness:
  "\<exists>w db' q q2 w2 db2.
     postPizza demo_services ''c'' demo_copy ''p'' (\<lambda>_. None) (\<lambda>xs. xs) None demo_ctx demo_order new_rw demo_db = Some (Returned (w, db')) \<and>
     rw_body w = [JsonBody (enc_recommendation q (CalculateCalories q) (IsVegetarian q))] \<and>
     getPizza demo_services ''c'' (\<lambda>_. None) (Itoa (pizza_id q)) None demo_ctx demo_order new_rw db' = Some (Returned (w2, db2)) \<and>
     rw_body w2 = [JsonBody (enc_pizza q2)] \<and> pizza_name q2 = pizza_name q"
proof -
  obtain w db' where p: "postPizza demo_services ''c'' demo_copy ''p'' (\<lambda>_. None) (\<lambda>xs. xs) None demo_ctx demo_order new_rw demo_db =
     Some (Returned (w, db'))" "status w = 200"
    using demo_post by blast
  have "distinct (map ing_id (db_ingredients demo_db))" "distinct (map dough_id (db_doughs demo_db))"
    by (simp_all add: seed_ingredients_def seed_doughs_def)
  then have "serving demo_db" using seed_in_range by (simp add: serving_def seed_pizzas_def)
  from posted_pizza_is_served [OF demo_routes _ _ this _ _ p] p(1) show ?thesis by (simp add: demo_copy_def) blast
qed



lemma Authenticate_stored:
  assumes "fault_free pf" "u \<in> set (rows (db_users db))" "user_token u = tok"
  obtains u' where "Authenticate pf tok db = (Inr u', tick db)"
proof -
  obtain u' where "first_row (scan pf (db_clock db) (filter (\<lambda>u. user_token u = tok) (rows (db_users db)))) = Inr u'"
    using assms(2,3) first_row_Inr_iff [of "scan pf (db_clock db) (filter (\<lambda>u. user_token u = tok) (rows (db_users db)))"]
    by (auto simp: filter_empty_conv)
  with that show thesis by (simp add: Authenticate_def query_ok [OF assms(1)])
qed

text \<open>C26: injected errors travel from service to service: with \<^verbatim>\<open>x-error-get-ingredients\<close> on the request,
  and no percentage, \<^verbatim>\<open>POST /api/pizza\<close> asks the catalog with the same header, the catalog fails, the
  answer is 500, and nothing is stored.\<close>

theorem injected_error_reaches_catalog:
  assumes "routes_catalog cu router" and "auth_token auth = tok" and "tok \<noteq> []" and "fault_free pf"
    and "u \<in> set (rows (db_users db))" and "user_token u = tok"
    and "header_get (rq_headers r) ''x-error-get-ingredients'' \<noteq> []"
    and "header_get (rq_headers r) ''x-error-get-ingredients-percentage'' = []"
    and "env ''QUICKPIZZA_FAIL_RATE_RECOMMENDATIONS_API_PIZZA_POST'' = None"
    and "rq_json r = Inr j" and "dec_restrictions j zero_restrictions = Inr body"
  shows "\<exists>db'. reco_middleware env (postPizza (catalog_transport router text pf cfg) cu t pu env order) usr
      \<lparr>cc_auth = Some auth, cc_values = Map.empty\<rparr> r new_rw db = Some (Returned (write_header 500 new_rw, db')) \<and>
    same_store db db'"
proof -
  let ?ctx = "\<lparr>cc_auth = Some auth, cc_values = InjectErrorHeaders r Map.empty\<rparr>"
  let ?d = "DelayIfEnvSet env ''QUICKPIZZA_DELAY_RECOMMENDATIONS_API_PIZZA_POST''
      (DelayIfEnvSet env ''QUICKPIZZA_DELAY_RECOMMENDATIONS'' db)"
  have d: "same_store db ?d" by (simp add: same_store_more)
  then have "u \<in> set (rows (db_users ?d))" using assms(5) by (simp add: same_store_def)
  then obtain u' where a: "Authenticate pf tok ?d = (Inr u', tick ?d)"
    by (rule Authenticate_stored [OF assms(4) _ assms(6)])
  have e: "ctx_text (cc_values ?ctx) ''x-error-get-ingredients'' = Some (header_get (rq_headers r) ''x-error-get-ingredients'')"
    "ctx_text (cc_values ?ctx) ''x-error-get-ingredients-percentage'' = None"
    using assms(7,8) by (simp_all add: InjectErrorHeaders_get ctx_text_def headerList_def)
  have "client_Ingredients (catalog_transport router text pf cfg) cu ?ctx ''olive_oil'' ?d = (Inl (ErrUnexpectedStatus 500), tick ?d)"
    by (rule client_Ingredients_injected [OF assms(1) _ _ assms(3) a e]) (simp_all add: assms(2))
  then have "reco_middleware env (postPizza (catalog_transport router text pf cfg) cu t pu env order) usr
      \<lparr>cc_auth = Some auth, cc_values = Map.empty\<rparr> r new_rw db = Some (Returned (write_header 500 new_rw, tick ?d))"
    using assms(9-11)
    by (simp add: reco_middleware_def postPizza_def FailRandomlyIfEnvSet_def decodeJSONBody_def fetch_pantry_def
        or_500_def reply_def)
  with d show ?thesis by (intro exI [of _ "tick ?d"]) simp
qed

theorem injected_error_reaches_catalog_witness:
  "\<exists>db'. reco_middleware (\<lambda>_. None) (postPizza demo_services ''c'' demo_copy ''p'' (\<lambda>_. None) (\<lambda>xs. xs)) None
     \<lparr>cc_auth = Some (''Token '' @ ''oBGOPc5tVtk9WAgf''), cc_values = Map.empty\<rparr>
     (header_add ''x-error-get-ingredients'' ''boom'' demo_order) new_rw demo_db =
     Some (Returned (write_header 500 new_rw, db')) \<and> same_store demo_db db'"
proof -
  let ?r = "header_add ''x-error-get-ingredients'' ''boom'' demo_order"
  have n: "to_lower ''Authorization'' \<noteq> to_lower ''x-error-get-ingredients''"
    "to_lower ''Authorization'' \<noteq> to_lower ''x-error-get-ingredients-percentage''"
    "to_lower ''x-error-get-ingredients'' \<noteq> to_lower ''x-error-get-ingredients-percentage''" by code_simp+
  then have h: "header_get (rq_headers ?r) ''x-error-get-ingredients'' \<noteq> []"
    "header_get (rq_headers ?r) ''x-error-get-ingredients-percentage'' = []"
    by (simp_all add: header_add_def demo_order_def api_request_def)
  have j: "rq_json ?r = Inr (JObj [(''customName'', JStr ''Mine'')])" by (simp add: header_add_def demo_order_def)
  have t: "auth_token (''Token '' @ ''oBGOPc5tVtk9WAgf'') = ''oBGOPc5tVtk9WAgf''" by (rule auth_token_Token) simp
  have s: "studio_user \<in> set (rows (db_users demo_db))" by (simp add: studio_user_def seed_users_def)
  show ?thesis
    by (rule injected_error_reaches_catalog [OF demo_routes t _ _ s _ h _ j demo_order_body]) simp_all
qed

end
