(* ===== verification/Copy.thy ===== *)
theory Copy
  imports Client CatalogSpec
begin

section \<open>The copy service (\<^verbatim>\<open>pkg/database/copy.go\<close>, \<open>AddCopyHandler\<close>)\<close>

text \<open>
  The database of quotes, names and adjectives, the three queries of \<open>Copy\<close>, the three routes
  with their middleware, and what the client of the service gets from them.
\<close>

record copy_db = proc +
  cp_quotes :: "string list"
  cp_adjectives :: "string list"
  cp_names :: "string list"
  cp_clock :: nat         \<comment> \<open>the number of statements sent so far\<close>

definition copy_query :: "platform \<Rightarrow> (nat \<Rightarrow> copy_db \<Rightarrow> 'a) \<Rightarrow> copy_db \<Rightarrow> 'a result \<times> copy_db" where
  "copy_query pf f db =
     (let k = cp_clock db; db' = db\<lparr>cp_clock := Suc k\<rparr> in
      case pf_fault pf k of
        Some e \<Rightarrow> (Inl (ErrDriver e), db')
      | None \<Rightarrow> (Inr (f k db'), db'))"

definition GetQuotes :: "platform \<Rightarrow> copy_db \<Rightarrow> string list result \<times> copy_db" where
  "GetQuotes pf db = copy_query pf (\<lambda>k d. scan pf k (cp_quotes d)) db"

definition GetAdjectives :: "platform \<Rightarrow> copy_db \<Rightarrow> string list result \<times> copy_db" where
  "GetAdjectives pf db = copy_query pf (\<lambda>k d. scan pf k (cp_adjectives d)) db"

definition GetClassicalNames :: "platform \<Rightarrow> copy_db \<Rightarrow> string list result \<times> copy_db" where
  "GetClassicalNames pf db = copy_query pf (\<lambda>k d. scan pf k (cp_names d)) db"

subsection \<open>The routes\<close>

text \<open>
  The end of every handler: after an error the status is written, but the handler does not
  return; the nil slice is encoded as \<open>null\<close>.
\<close>

definition answer_texts :: "string \<Rightarrow> string list result \<times> copy_db \<Rightarrow> rw \<Rightarrow> rw \<times> copy_db" where
  "answer_texts field res w =
     (case res of
        (Inl e, d) \<Rightarrow> (writeJSONResponse (JObj [(field, JNull)]) 200 (write_header 500 w), d)
      | (Inr xs, d) \<Rightarrow> (writeJSONResponse (JObj [(field, JArr (map JStr xs))]) 200 w, d))"

definition getQuotes :: "platform \<Rightarrow> environ \<Rightarrow> rw \<Rightarrow> copy_db \<Rightarrow> rw \<times> copy_db" where
  "getQuotes pf env w db =
     answer_texts ''quotes'' (GetQuotes pf (DelayIfEnvSet env ''QUICKPIZZA_DELAY_COPY_API_QUOTES'' db)) w"

definition getNames :: "platform \<Rightarrow> environ \<Rightarrow> rw \<Rightarrow> copy_db \<Rightarrow> rw \<times> copy_db" where
  "getNames pf env w db =
     answer_texts ''names'' (GetClassicalNames pf (DelayIfEnvSet env ''QUICKPIZZA_DELAY_COPY_API_NAMES'' db)) w"

definition getAdjectives :: "platform \<Rightarrow> environ \<Rightarrow> rw \<Rightarrow> copy_db \<Rightarrow> rw \<times> copy_db" where
  "getAdjectives pf env w db =
     answer_texts ''adjectives'' (GetAdjectives pf (DelayIfEnvSet env ''QUICKPIZZA_DELAY_COPY_API_ADJECTIVES'' db)) w"

datatype copy_route = QuotesRoute | NamesRoute | AdjectivesRoute

definition serve_copy :: "platform \<Rightarrow> environ \<Rightarrow> copy_route \<Rightarrow> copy_db \<Rightarrow> rw \<times> copy_db" where
  "serve_copy pf env rt db =
     (let d = DelayIfEnvSet env ''QUICKPIZZA_DELAY_COPY'' db in
      case rt of
        QuotesRoute \<Rightarrow> getQuotes pf env new_rw d
      | NamesRoute \<Rightarrow> getNames pf env new_rw d
      | AdjectivesRoute \<Rightarrow> getAdjectives pf env new_rw d)"

subsection \<open>The client on top of the service\<close>

definition copy_transport :: "(string \<Rightarrow> string \<Rightarrow> copy_route option) \<Rightarrow> platform \<Rightarrow> environ \<Rightarrow> copy_db transport" where
  "copy_transport router pf env r db =
     (case router (rq_method r) (rq_path r) of
        None \<Rightarrow> (Inr \<lparr>resp_status = 404, resp_json = Inl ''EOF''\<rparr>, db)
      | Some rt \<Rightarrow>
          (let (w, db') = serve_copy pf env rt db in
           (Inr \<lparr>resp_status = status w,
                 resp_json = (case rw_body w of [JsonBody j] \<Rightarrow> Inr j | _ \<Rightarrow> Inl ''EOF'')\<rparr>, db')))"

text \<open>The routes the client uses, as \<open>AddCopyHandler\<close> registers them.\<close>

definition routes_copy :: "string \<Rightarrow> (string \<Rightarrow> string \<Rightarrow> copy_route option) \<Rightarrow> bool" where
  "routes_copy url router \<longleftrightarrow>
     router ''GET'' (url @ ''/api/adjectives'') = Some AdjectivesRoute \<and>
     router ''GET'' (url @ ''/api/names'') = Some NamesRoute"

text \<open>What a handler's answer is for its client.\<close>

definition texts_result :: "string list result \<Rightarrow> client_err + string list" where
  "texts_result r = (case r of Inl e \<Rightarrow> Inl (ErrUnexpectedStatus 500) | Inr xs \<Rightarrow> Inr xs)"

lemma to_lower_copy [go_simps]: "to_lower ''adjectives'' = ''adjectives''" "to_lower ''names'' = ''names''"
  by code_simp+

lemma answer_texts_status:
  "status (fst (answer_texts f res new_rw)) = (case fst res of Inl _ \<Rightarrow> 500 | Inr _ \<Rightarrow> 200)"
  "rw_body (fst (answer_texts f res new_rw)) =
     [JsonBody (JObj [(f, case fst res of Inl _ \<Rightarrow> JNull | Inr xs \<Rightarrow> JArr (map JStr xs))])]"
  "snd (answer_texts f res new_rw) = snd res"
  by (auto simp: answer_texts_def writeJSONResponse_def status_write_header write_json_def write_body_def Let_def
      write_header_def new_rw_def set_header_def status_def split: prod.splits sum.splits)

lemma texts_decoded:
  assumes "to_lower f = f"
  shows "dec_list f (dec_string f) [] (JObj [(f, JArr (map JStr xs))]) [] = Inr xs"
  using dec_list_enc [of f xs "dec_string f" JStr "[]" "\<lambda>x. x"] assms by simp

lemma getJSON_texts:
  assumes "\<And>r. rq_method r = ''GET'' \<Longrightarrow> rq_path r = url \<Longrightarrow> t r s = (Inr \<lparr>resp_status = (case x of Inl _ \<Rightarrow> 500 | Inr _ \<Rightarrow> 200),
      resp_json = Inr (JObj [(f, case x of Inl _ \<Rightarrow> JNull | Inr xs \<Rightarrow> JArr (map JStr xs))])\<rparr>, s')"
    and "to_lower f = f"
  shows "getJSON t ctx url (dec_list f (dec_string f) []) [] s = (texts_result x, s')"
proof -
  let ?q = "AddErrorHeaders (cc_values ctx) (header_add ''Content-Type'' ''application/json'' (http_new_request ''GET'' url (Inl ''EOF'')))"
  have q: "rq_method ?q = ''GET''" "rq_path ?q = url" by (simp_all add: header_add_def http_new_request_def)
  have "client_do t ctx ?q s = (Inr \<lparr>resp_status = (case x of Inl _ \<Rightarrow> 500 | Inr _ \<Rightarrow> 200),
      resp_json = Inr (JObj [(f, case x of Inl _ \<Rightarrow> JNull | Inr xs \<Rightarrow> JArr (map JStr xs))])\<rparr>, s')"
    unfolding client_do_def Let_def by (rule assms(1)) (simp_all add: header_add_def http_new_request_def split: option.split)
  then show ?thesis
    using texts_decoded [OF assms(2)] by (cases x) (simp_all add: getJSON_def Let_def texts_result_def)
qed

subsection \<open>Properties\<close>

text \<open>The table a route reads, and the field it answers under.\<close>

fun copy_rows :: "copy_route \<Rightarrow> copy_db \<Rightarrow> string list" where
  "copy_rows QuotesRoute db = cp_quotes db"
| "copy_rows NamesRoute db = cp_names db"
| "copy_rows AdjectivesRoute db = cp_adjectives db"

fun copy_field :: "copy_route \<Rightarrow> string" where
  "copy_field QuotesRoute = ''quotes''"
| "copy_field NamesRoute = ''names''"
| "copy_field AdjectivesRoute = ''adjectives''"

definition copy_read :: "platform \<Rightarrow> copy_route \<Rightarrow> copy_db \<Rightarrow> string list result" where
  "copy_read pf rt db =
     (case pf_fault pf (cp_clock db) of
        Some e \<Rightarrow> Inl (ErrDriver e)
      | None \<Rightarrow> Inr (scan pf (cp_clock db) (copy_rows rt db)))"

lemma copy_delayed [simp]:
  "cp_clock (DelayIfEnvSet env n db) = cp_clock db" "cp_quotes (DelayIfEnvSet env n db) = cp_quotes db"
  "cp_names (DelayIfEnvSet env n db) = cp_names db" "cp_adjectives (DelayIfEnvSet env n db) = cp_adjectives db"
  by (simp_all add: DelayIfEnvSet_def sleep_def split: option.splits)

lemma serve_copy_read:
  "serve_copy pf env rt db = answer_texts (copy_field rt) (copy_read pf rt db, snd (serve_copy pf env rt db)) new_rw"
  by (cases rt)
    (auto simp: serve_copy_def getQuotes_def getNames_def getAdjectives_def GetQuotes_def GetAdjectives_def
      GetClassicalNames_def copy_query_def copy_read_def answer_texts_def Let_def split: option.splits)

lemma copy_transport_read:
  assumes "router (rq_method r) (rq_path r) = Some rt"
  shows "copy_transport router pf env r db =
    (Inr \<lparr>resp_status = (case copy_read pf rt db of Inl _ \<Rightarrow> 500 | Inr _ \<Rightarrow> 200),
          resp_json = Inr (JObj [(copy_field rt, case copy_read pf rt db of Inl _ \<Rightarrow> JNull | Inr xs \<Rightarrow> JArr (map JStr xs))])\<rparr>,
     snd (serve_copy pf env rt db))"
proof -
  let ?a = "answer_texts (copy_field rt) (copy_read pf rt db, snd (serve_copy pf env rt db)) new_rw"
  have "copy_transport router pf env r db =
      (Inr \<lparr>resp_status = status (fst ?a), resp_json = (case rw_body (fst ?a) of [JsonBody j] \<Rightarrow> Inr j | _ \<Rightarrow> Inl ''EOF'')\<rparr>,
       snd (serve_copy pf env rt db))"
    using assms serve_copy_read [of pf env rt db]
    by (simp add: copy_transport_def case_prod_beta)
  then show ?thesis by (simp only: answer_texts_status fst_conv) simp
qed

text \<open>C27: the contract of the copy service: a route whose query works answers 200 with all the texts of its
  table, each once, and its client gets them; a route whose query fails answers 500, and although
  the handler goes on and writes the JSON of the missing list, its client gets an error.\<close>

theorem copy_service_contract:
  assumes "routes_copy pu router"
  shows "(case copy_read pf rt db of
      Inl e \<Rightarrow> status (fst (serve_copy pf env rt db)) = 500 \<and>
        rw_body (fst (serve_copy pf env rt db)) = [JsonBody (JObj [(copy_field rt, JNull)])]
    | Inr xs \<Rightarrow> mset xs = mset (copy_rows rt db) \<and> status (fst (serve_copy pf env rt db)) = 200 \<and>
        rw_body (fst (serve_copy pf env rt db)) = [JsonBody (JObj [(copy_field rt, JArr (map JStr xs))])]) \<and>
    fst (client_Adjectives (copy_transport router pf env) pu ctx db) = texts_result (copy_read pf AdjectivesRoute db) \<and>
    fst (client_Names (copy_transport router pf env) pu ctx db) = texts_result (copy_read pf NamesRoute db)"
proof -
  have "router ''GET'' (pu @ ''/api/adjectives'') = Some AdjectivesRoute" "router ''GET'' (pu @ ''/api/names'') = Some NamesRoute"
    using assms by (simp_all add: routes_copy_def)
  then have "client_Adjectives (copy_transport router pf env) pu ctx db =
      (texts_result (copy_read pf AdjectivesRoute db), snd (serve_copy pf env AdjectivesRoute db))"
    "client_Names (copy_transport router pf env) pu ctx db =
      (texts_result (copy_read pf NamesRoute db), snd (serve_copy pf env NamesRoute db))"
    unfolding client_Adjectives_def client_Names_def
    by (rule_tac getJSON_texts; simp add: go_simps copy_transport_read)+
  moreover have "case copy_read pf rt db of Inl e \<Rightarrow> True | Inr xs \<Rightarrow> mset xs = mset (copy_rows rt db)"
    by (simp add: copy_read_def split: option.split)
  ultimately show ?thesis
    by (subst (1 2 3 4) serve_copy_read) (simp add: answer_texts_status split: sum.splits)
qed

definition demo_copy_db :: copy_db where
  "demo_copy_db = \<lparr>proc_rng = sconst 0, proc_slept = [], proc_pizzas = no_pizzas, cp_quotes = [], cp_adjectives = [''Tasty'', ''Crispy''],
     cp_names = [''Margherita''], cp_clock = 0\<rparr>"

definition demo_copy_router :: "string \<Rightarrow> string \<Rightarrow> copy_route option" where
  "demo_copy_router m p =
     (if m = ''GET'' \<and> p = ''p/api/adjectives'' then Some AdjectivesRoute
      else if m = ''GET'' \<and> p = ''p/api/names'' then Some NamesRoute else None)"

theorem copy_service_contract_witness:
  "fst (client_Adjectives (copy_transport demo_copy_router demo_platform (\<lambda>_. None)) ''p'' client_background demo_copy_db) =
     Inr [''Tasty'', ''Crispy''] \<and>
   fst (client_Names (copy_transport demo_copy_router (demo_platform\<lparr>pf_fault := \<lambda>_. Some ''down''\<rparr>) (\<lambda>_. None)) ''p''
     client_background demo_copy_db) = Inl (ErrUnexpectedStatus 500)"
proof -
  have r: "routes_copy ''p'' demo_copy_router" by (simp add: routes_copy_def demo_copy_router_def)
  show ?thesis
    by (simp add: copy_service_contract [OF r] copy_read_def texts_result_def demo_copy_db_def)
qed

end
