(* ===== verification/Duration.thy ===== *)
theory Duration
  imports GoStd
begin

section \<open>Durations (\<^verbatim>\<open>time.ParseDuration\<close>)\<close>

text \<open>
  The reading of a duration in nanoseconds, as the configuration, the HTTP client and the test
  services use it: a sign, and a sequence of decimal numbers with a fraction and a unit each.
  \<open>frac f unit scale\<close> stands for the floating point product that adds the fraction \<open>f / scale\<close>
  of a unit; everything else is the loop of the library.
\<close>

definition duration_units :: "(string \<times> nat) list" where
  "duration_units =
     [(''ns'', 1), (''us'', 1000), ([CHR 0xC2, CHR 0xB5, CHR ''s''], 1000), ([CHR 0xCE, CHR 0xBC, CHR ''s''], 1000),
      (''ms'', 1000000), (''s'', 1000000000), (''m'', 60000000000), (''h'', 3600000000000)]"

text \<open>\<open>leadingInt\<close>: the digits in front, unless they overflow \<open>2 ^ 63\<close>.\<close>

fun leading_int :: "nat \<Rightarrow> string \<Rightarrow> (nat \<times> string) option" where
  "leading_int x [] = Some (x, [])"
| "leading_int x (c # cs) =
     (if \<not> is_digit c then Some (x, c # cs)
      else if x > 2 ^ 63 div 10 then None
      else if x * 10 + digit_val c > 2 ^ 63 then None
      else leading_int (x * 10 + digit_val c) cs)"

text \<open>\<open>leadingFraction\<close>: the digits that fit, the scale they have, and the rest of the text.\<close>

fun leading_fraction :: "nat \<Rightarrow> nat \<Rightarrow> bool \<Rightarrow> string \<Rightarrow> nat \<times> nat \<times> string" where
  "leading_fraction x scale overflow [] = (x, scale, [])"
| "leading_fraction x scale overflow (c # cs) =
     (if \<not> is_digit c then (x, scale, c # cs)
      else if overflow \<or> x > (2 ^ 63 - 1) div 10 \<or> x * 10 + digit_val c > 2 ^ 63
      then leading_fraction x scale True cs
      else leading_fraction (x * 10 + digit_val c) (scale * 10) False cs)"

definition unit_char :: "char \<Rightarrow> bool" where
  "unit_char c \<longleftrightarrow> c \<noteq> CHR ''.'' \<and> \<not> is_digit c"

text \<open>One number with its unit: its nanoseconds and the rest of the text.\<close>

definition duration_part :: "(nat \<Rightarrow> nat \<Rightarrow> nat \<Rightarrow> nat) \<Rightarrow> string \<Rightarrow> (nat \<times> string) option" where
  "duration_part frac s =
     (case s of [] \<Rightarrow> None
      | c # _ \<Rightarrow>
        if \<not> (c = CHR ''.'' \<or> is_digit c) then None
        else case leading_int 0 s of
          None \<Rightarrow> None
        | Some (v, s1) \<Rightarrow>
          (let pre = (length s1 \<noteq> length s);
               (f, scale, s2) = (case s1 of
                   d # ds \<Rightarrow> if d = CHR ''.'' then leading_fraction 0 1 False ds else (0, 1, s1)
                 | [] \<Rightarrow> (0, 1, s1));
               post = (case s1 of d # ds \<Rightarrow> d = CHR ''.'' \<and> length s2 \<noteq> length ds | [] \<Rightarrow> False);
               u = takeWhile unit_char s2 in
           if \<not> pre \<and> \<not> post then None
           else if u = [] then None
           else case map_of duration_units u of
             None \<Rightarrow> None
           | Some unit \<Rightarrow>
             if v > 2 ^ 63 div unit then None
             else
               let v' = v * unit + (if f > 0 then frac f unit scale else 0) in
               if f > 0 \<and> v' > 2 ^ 63 then None
               else Some (v', drop (length u) s2)))"

lemma leading_int_length: "leading_int x s = Some (v, s') \<Longrightarrow> length s' \<le> length s"
  by (induction x s rule: leading_int.induct) (auto split: if_splits)

lemma leading_fraction_length: "length (snd (snd (leading_fraction x sc ov s))) \<le> length s"
  by (induction x sc ov s rule: leading_fraction.induct) auto

lemma duration_part_shorter:
  assumes "duration_part frac s = Some (v, s')"
  shows "length s' < length s"
proof -
  obtain c cs where s: "s = c # cs" using assms by (cases s) (auto simp: duration_part_def)
  with assms obtain v1 s1 where i: "leading_int 0 s = Some (v1, s1)"
    by (auto simp: duration_part_def split: if_splits option.splits)
  obtain f sc s2 where d: "(case s1 of
                   d # ds \<Rightarrow> if d = CHR ''.'' then leading_fraction 0 1 False ds else (0, 1, s1)
                 | [] \<Rightarrow> (0, 1, s1)) = (f, sc, s2)"
    by (metis prod_cases3)
  have "length s2 \<le> length s1"
    using d leading_fraction_length [of 0 1 False "tl s1"]
    by (auto split: list.splits if_splits)
  moreover have "length s1 \<le> length s" using i by (rule leading_int_length)
  moreover have "s' = drop (length (takeWhile unit_char s2)) s2 \<and> takeWhile unit_char s2 \<noteq> []"
    using assms d unfolding duration_part_def s
    by (simp only: list.case i [unfolded s] option.case prod.case Let_def) (auto split: if_splits option.splits)
  moreover have "length (takeWhile unit_char s2) \<le> length s2" by (rule length_takeWhile_le)
  ultimately show ?thesis by (simp add: s) (cases "takeWhile unit_char s2", auto)
qed

function duration_loop :: "(nat \<Rightarrow> nat \<Rightarrow> nat \<Rightarrow> nat) \<Rightarrow> nat \<Rightarrow> string \<Rightarrow> nat option" where
  "duration_loop frac d s =
     (if s = [] then Some d
      else case duration_part frac s of
        None \<Rightarrow> None
      | Some (v, s') \<Rightarrow>
          (let d' = (d + v) mod 2 ^ 64 in if d' > 2 ^ 63 then None else duration_loop frac d' s'))"
  by pat_completeness auto
termination
  by (relation "measure (\<lambda>(_, _, s). length s)") (auto dest: duration_part_shorter)

declare duration_loop.simps [simp del]

definition parse_duration :: "(nat \<Rightarrow> nat \<Rightarrow> nat \<Rightarrow> nat) \<Rightarrow> string \<Rightarrow> go_int option" where
  "parse_duration frac orig =
     (let (neg, s) = split_sign orig in
      if s = ''0'' then Some 0
      else if s = [] then None
      else case duration_loop frac 0 s of
        None \<Rightarrow> None
      | Some d \<Rightarrow>
          if neg then Some (- int d)
          else if d > 2 ^ 63 - 1 then None
          else Some (int d))"

subsection \<open>Lemmas\<close>

lemma duration_loop_le: "duration_loop frac d s = Some n \<Longrightarrow> d \<le> 2 ^ 63 \<Longrightarrow> n \<le> 2 ^ 63"
proof (induction frac d s rule: duration_loop.induct)
  case (1 frac d s)
  show ?case
  proof (cases "s = []")
    case False
    with "1.prems"(1) obtain v s' where p: "duration_part frac s = Some (v, s')" "(d + v) mod 2 ^ 64 \<le> 2 ^ 63"
      "duration_loop frac ((d + v) mod 2 ^ 64) s' = Some n"
      by (subst (asm) duration_loop.simps) (auto simp: Let_def split: if_splits option.splits)
    then show ?thesis using "1.IH" [OF False p(1) refl refl] by simp
  qed (use "1.prems" in \<open>simp add: duration_loop.simps\<close>)
qed

lemma parse_duration_range: "parse_duration frac s = Some n \<Longrightarrow> in_int64 n"
  by (auto simp: parse_duration_def in_int64_def min_int64_def max_int64_def Let_def
      split: prod.splits if_splits option.splits dest: duration_loop_le)

lemma leading_int_digits:
  "parse_uint_loop (2 ^ 63) x ds = (n, None) \<Longrightarrow> cs = [] \<or> \<not> is_digit (hd cs) \<Longrightarrow>
   leading_int x (ds @ cs) = Some (n, cs)"
proof (induction "2 ^ 63 :: nat" x ds rule: parse_uint_loop.induct)
  case (1 x)
  then show ?case by (cases cs) auto
next
  case (2 x c ds)
  then show ?case by (auto split: if_splits)
qed

lemma leading_int_overflow:
  "parse_uint_loop (2 ^ 63) x ds = (m, Some ErrRange) \<Longrightarrow> leading_int x (ds @ cs) = None"
proof (induction "2 ^ 63 :: nat" x ds rule: parse_uint_loop.induct)
  case (2 x c ds)
  then show ?case by (auto split: if_splits)
qed simp

lemma parse_uint_loop_failed:
  "parse_uint_loop maxv n xs = (m, Some e) \<Longrightarrow> parse_uint_loop maxv n (xs @ ys) = (m, Some e)"
  by (induction maxv n xs rule: parse_uint_loop.induct) (auto split: if_splits)

lemma parse_uint_loop_overflow:
  "n > maxv \<Longrightarrow> parse_uint_loop maxv 0 (show_nat n) = (maxv, Some ErrRange)"
proof (induction n rule: show_nat.induct)
  case (1 n)
  show ?case
  proof (cases "n < 10")
    case True
    with "1.prems" show ?thesis by (subst show_nat.simps) (simp add: digit_char)
  next
    case False
    show ?thesis
    proof (cases "n div 10 \<le> maxv")
      case True
      with False "1.prems" show ?thesis
        by (subst show_nat.simps) (simp add: parse_uint_loop_append [OF parse_uint_loop_show_nat] digit_char)
    next
      case big: False
      with "1.IH" [OF False] have "parse_uint_loop maxv 0 (show_nat (n div 10)) = (maxv, Some ErrRange)" by simp
      with False show ?thesis
        by (subst show_nat.simps) (simp add: parse_uint_loop_failed)
    qed
  qed
qed

text \<open>A whole number, with the text of a unit after it.\<close>

lemma duration_part_whole:
  assumes "is_digit c" "leading_int 0 (c # cs) = Some (v, u)" "length u < length (c # cs)" "list_all unit_char u"
  shows "duration_part frac (c # cs) =
    (case map_of duration_units u of None \<Rightarrow> None | Some k \<Rightarrow> if 2 ^ 63 div k < v then None else Some (v * k, []))"
proof -
  have t: "takeWhile unit_char u = u" using assms(4) by (simp add: takeWhile_eq_all_conv list_all_iff)
  have f: "(case u of d # ds \<Rightarrow> if d = CHR ''.'' then leading_fraction 0 1 False ds else (0, 1, u) | [] \<Rightarrow> (0, 1, u)) = (0, 1, u)"
    "(case u of d # ds \<Rightarrow> d = CHR ''.'' \<and> length u \<noteq> length ds | [] \<Rightarrow> False) = False"
    using assms(4) by (cases u; simp add: unit_char_def)+
  have nil: "map_of duration_units [] = None" by (simp add: duration_units_def)
  show ?thesis
    using assms nil unfolding duration_part_def
    by (simp only: list.case assms(2) option.case prod.case Let_def f t) (auto split: option.split)
qed

lemma duration_units_pos: "map_of duration_units u = Some k \<Longrightarrow> 0 < k"
  by (auto simp: duration_units_def split: if_splits)

lemma show_nat_zero: "show_nat n = ''0'' \<Longrightarrow> n = 0"
  using parse_uint_loop_show_nat [of n n] by (auto simp: is_digit_def digit_val_def split: if_splits)

lemma parse_duration_number:
  assumes "list_all unit_char u" and "u \<noteq> [] \<or> 0 < n"
  shows "parse_duration frac (show_nat n @ u) =
    (case map_of duration_units u of None \<Rightarrow> None
     | Some k \<Rightarrow> if n * k \<le> 2 ^ 63 - 1 then Some (int (n * k)) else None)"
proof -
  obtain c cs where c: "show_nat n = c # cs" by (cases "show_nat n") auto
  then have dig: "is_digit c" using show_nat_digits [of n] by simp
  have "duration_part frac (c # cs @ u) =
      (case map_of duration_units u of None \<Rightarrow> None | Some k \<Rightarrow> if 2 ^ 63 div k < n then None else Some (n * k, []))"
  proof (cases "n \<le> 2 ^ 63")
    case True
    then have "leading_int 0 (c # cs @ u) = Some (n, u)"
      using leading_int_digits [OF parse_uint_loop_show_nat [OF True], of u] assms(1)
      by (cases u) (simp_all add: c unit_char_def)
    then show ?thesis by (rule duration_part_whole [OF dig _ _ assms(1)]) simp
  next
    case False
    then have "leading_int 0 (c # cs @ u) = None"
      using leading_int_overflow [OF parse_uint_loop_overflow, of n u] by (simp add: c)
    moreover have "2 ^ 63 div k < n" for k
      using False div_le_dividend [of "2 ^ 63" k] by linarith
    ultimately show ?thesis using dig by (simp add: duration_part_def split: option.split)
  qed
  then have "duration_loop frac 0 (show_nat n @ u) =
      (case map_of duration_units u of None \<Rightarrow> None | Some k \<Rightarrow> if 2 ^ 63 < n * k then None else Some (n * k))"
    by (subst duration_loop.simps)
      (auto simp: c duration_loop.simps div_less_iff_less_mult duration_units_pos split: option.split)
  moreover have "split_sign (show_nat n @ u) = (False, show_nat n @ u)"
    using dig by (auto simp: c split_sign_def is_digit_def)
  moreover have "show_nat n @ u \<noteq> ''0''"
    using assms(2) show_nat_zero [of n] by (cases u) (auto simp: c)
  ultimately show ?thesis by (auto simp: parse_duration_def c split: option.split)
qed

end
