(* ===== verification/Startup.thy ===== *)
theory Startup
  imports Duration Util
begin

section \<open>Startup and configuration (\<^verbatim>\<open>cmd/main.go\<close>)\<close>

text \<open>
  The functions that read the environment, the configuration of the HTTP client and of the
  profiler, and which groups of routes \<open>main\<close> adds to the server, in its order. The environment is
  a function from names to values; \<open>vars\<close> is the list that \<^verbatim>\<open>os.Environ\<close> returns.
\<close>

subsection \<open>Reading the environment\<close>

definition envServeAll :: "environ \<Rightarrow> bool" where
  "envServeAll env =
     (case env ''QUICKPIZZA_ENABLE_ALL_SERVICES'' of
        None \<Rightarrow> True
      | Some v \<Rightarrow> fst (parse_bool v))"

definition envBool :: "environ \<Rightarrow> string \<Rightarrow> bool" where
  "envBool env name =
     (case env name of
        None \<Rightarrow> False
      | Some v \<Rightarrow> (case parse_bool v of (b, parsed) \<Rightarrow> if \<not> parsed then False else b))"

definition envServe :: "environ \<Rightarrow> string \<Rightarrow> bool" where
  "envServe env name \<longleftrightarrow> envServeAll env \<or> envBool env name"

definition envEndpoint :: "environ \<Rightarrow> string \<Rightarrow> string \<Rightarrow> string" where
  "envEndpoint env svcEnv endpointEnv =
     (if envServe env svcEnv then ''http://localhost:3333''
      else case env endpointEnv of None \<Rightarrow> [] | Some v \<Rightarrow> v)"

definition envInt :: "environ \<Rightarrow> string \<Rightarrow> go_int" where
  "envInt env name =
     (case env name of
        None \<Rightarrow> 0
      | Some v \<Rightarrow> (case parse_int 32 v of (_, Some _) \<Rightarrow> 0 | (b, None) \<Rightarrow> b))"

definition envDuration :: "(nat \<Rightarrow> nat \<Rightarrow> nat \<Rightarrow> nat) \<Rightarrow> environ \<Rightarrow> string \<Rightarrow> go_int" where
  "envDuration frac env name =
     (case env name of
        None \<Rightarrow> 0
      | Some v \<Rightarrow> (case parse_duration frac v of None \<Rightarrow> 0 | Some d \<Rightarrow> d))"

definition envDBConnString :: "environ \<Rightarrow> string" where
  "envDBConnString env =
     (case env ''QUICKPIZZA_DB'' of
        None \<Rightarrow> ''file::memory:?cache=shared''
      | Some v \<Rightarrow> if v = [] then ''file::memory:?cache=shared'' else v)"

text \<open>One turn of the loop of \<open>envConfig\<close>, and the loop.\<close>

definition config_entry :: "string \<Rightarrow> string \<Rightarrow> (string \<rightharpoonup> string) \<Rightarrow> (string \<rightharpoonup> string)" where
  "config_entry prefix envVar config =
     (case split_on envVar CHR ''='' of
        name # val # _ \<Rightarrow>
          if \<not> has_prefix name prefix then config
          else config(to_lower (to_lower (trim_prefix name prefix)) \<mapsto> val)
      | _ \<Rightarrow> config)"

definition envConfig :: "string list \<Rightarrow> string \<Rightarrow> (string \<rightharpoonup> string)" where
  "envConfig vars prefix = fold (config_entry prefix) vars Map.empty"

subsection \<open>The HTTP client\<close>

record http_client =
  hc_timeout :: go_int
  hc_retry_max :: go_int
  hc_wait_min :: go_int
  hc_wait_max :: go_int

text \<open>\<open>wmin\<close> and \<open>wmax\<close> are the waits that \<^verbatim>\<open>retryablehttp.NewClient\<close> starts with.\<close>

definition clientFromEnv :: "(nat \<Rightarrow> nat \<Rightarrow> nat \<Rightarrow> nat) \<Rightarrow> go_int \<Rightarrow> go_int \<Rightarrow> environ \<Rightarrow> http_client" where
  "clientFromEnv frac wmin wmax env =
     (let timeout = envDuration frac env ''QUICKPIZZA_TIMEOUT'';
          retryMin = envDuration frac env ''QUICKPIZZA_BACKOFF_MIN'';
          retryMax = envDuration frac env ''QUICKPIZZA_BACKOFF_MAX'' in
      \<lparr>hc_timeout = (if timeout = 0 then 1000000000 else timeout),
       hc_retry_max = envInt env ''QUICKPIZZA_RETRIES'',
       hc_wait_min = (if retryMin \<noteq> 0 then retryMin else wmin),
       hc_wait_max = (if retryMax \<noteq> 0 then retryMax else wmax)\<rparr>)"

subsection \<open>The profiler\<close>

record pyroscope_config =
  py_name :: string
  py_address :: string
  py_user :: string
  py_password :: string
  py_tags :: "string \<rightharpoonup> string"

definition env_or :: "environ \<Rightarrow> string \<Rightarrow> string \<Rightarrow> string" where
  "env_or env name dflt = (case env name of None \<Rightarrow> dflt | Some v \<Rightarrow> v)"

definition envPyroscopeConfig :: "environ \<Rightarrow> pyroscope_config option" where
  "envPyroscopeConfig env =
     (case env ''QUICKPIZZA_PYROSCOPE_ENDPOINT'' of
        None \<Rightarrow> None
      | Some pyroscopeAddr \<Rightarrow>
          Some \<lparr>
            py_name = (case env ''QUICKPIZZA_PYROSCOPE_NAME'' of
                Some n \<Rightarrow> n
              | None \<Rightarrow> env_or env ''QUICKPIZZA_OTEL_SERVICE_NAME'' ''quickpizza''),
            py_address = pyroscopeAddr,
            py_user = env_or env ''QUICKPIZZA_GRAFANA_CLOUD_USER'' [],
            py_password = env_or env ''QUICKPIZZA_GRAFANA_CLOUD_PASSWORD'' [],
            py_tags = [env_or env ''QUICKPIZZA_PYROSCOPE_NAMESPACE_LABEL_NAME'' ''namespace'' \<mapsto>
                         env_or env ''QUICKPIZZA_PYROSCOPE_NAMESPACE'' ''quickpizza'',
                       ''service_git_ref'' \<mapsto> env_or env ''QUICKPIZZA_PYROSCOPE_SERVICE_GIT_REF'' ''refs/heads/main'',
                       ''service_repository'' \<mapsto> ''https://github.com/grafana/quickpizza'']\<rparr>)"

subsection \<open>The services of an instance\<close>

datatype service =
    LivenessProbes | PrometheusHandler | HTTPTesting | TestK6IO
  | ConfigHandler "string \<rightharpoonup> string"
  | Frontend bool
  | Gateway string string string string string  \<comment> \<open>catalog, copy, WebSocket, recommendations, config\<close>
  | WebSocketService
  | CatalogService string                        \<comment> \<open>the connection of the database\<close>
  | CopyService string
  | RecommendationsService string string         \<comment> \<open>the URLs of the catalog and of the copy service\<close>
  | GRPCServer string string

definition only_if :: "bool \<Rightarrow> 'a list \<Rightarrow> 'a list" where
  "only_if b xs = (if b then xs else [])"

text \<open>
  The part of \<open>main\<close> that adds services. A database that cannot be set up ends the process; \<open>up\<close>
  says which connection works.
\<close>

definition add_catalog :: "(string \<Rightarrow> bool) \<Rightarrow> environ \<Rightarrow> service list \<Rightarrow> unit + service list" where
  "add_catalog up env ss =
     (if \<not> envServe env ''QUICKPIZZA_ENABLE_CATALOG_SERVICE'' then Inr ss
      else if \<not> up (envDBConnString env) then Inl ()
      else Inr (ss @ [CatalogService (envDBConnString env)]))"

definition add_copy :: "(string \<Rightarrow> bool) \<Rightarrow> environ \<Rightarrow> service list \<Rightarrow> unit + service list" where
  "add_copy up env ss =
     (if \<not> envServe env ''QUICKPIZZA_ENABLE_COPY_SERVICE'' then Inr ss
      else if \<not> up (envDBConnString env) then Inl ()
      else Inr (ss @ [CopyService (envDBConnString env)]))"

definition gateway_of :: "environ \<Rightarrow> service" where
  "gateway_of env = Gateway
     (envEndpoint env ''QUICKPIZZA_ENABLE_CATALOG_SERVICE'' ''QUICKPIZZA_CATALOG_ENDPOINT'')
     (envEndpoint env ''QUICKPIZZA_ENABLE_COPY_SERVICE'' ''QUICKPIZZA_COPY_ENDPOINT'')
     (envEndpoint env ''QUICKPIZZA_ENABLE_WS_SERVICE'' ''QUICKPIZZA_WS_ENDPOINT'')
     (envEndpoint env ''QUICKPIZZA_ENABLE_RECOMMENDATIONS_SERVICE'' ''QUICKPIZZA_RECOMMENDATIONS_ENDPOINT'')
     (envEndpoint env ''QUICKPIZZA_ENABLE_CONFIG_SERVICE'' ''QUICKPIZZA_CONFIG_ENDPOINT'')"

definition recommendations_of :: "environ \<Rightarrow> service" where
  "recommendations_of env = RecommendationsService
     (envEndpoint env ''QUICKPIZZA_ENABLE_CATALOG_SERVICE'' ''QUICKPIZZA_CATALOG_ENDPOINT'')
     (envEndpoint env ''QUICKPIZZA_ENABLE_COPY_SERVICE'' ''QUICKPIZZA_COPY_ENDPOINT'')"

definition main_services :: "(string \<Rightarrow> bool) \<Rightarrow> environ \<Rightarrow> string list \<Rightarrow> bool \<Rightarrow> unit + service list" where
  "main_services up env vars devMode =
     (let ss = [LivenessProbes, PrometheusHandler]
        @ only_if (envServe env ''QUICKPIZZA_ENABLE_HTTP_TESTING_SERVICE'') [HTTPTesting]
        @ only_if (envServe env ''QUICKPIZZA_ENABLE_TEST_K6_IO_SERVICE'') [TestK6IO]
        @ only_if (envServe env ''QUICKPIZZA_ENABLE_CONFIG_SERVICE'') [ConfigHandler (envConfig vars ''QUICKPIZZA_CONF_'')]
        @ only_if (envServe env ''QUICKPIZZA_ENABLE_PUBLIC_API_SERVICE'')
            (Frontend devMode # only_if (\<not> envServeAll env) [gateway_of env])
        @ only_if (envServe env ''QUICKPIZZA_ENABLE_WS_SERVICE'') [WebSocketService] in
      case add_catalog up env ss of
        Inl e \<Rightarrow> Inl e
      | Inr ss1 \<Rightarrow>
          (case add_copy up env ss1 of
             Inl e \<Rightarrow> Inl e
           | Inr ss2 \<Rightarrow> Inr (ss2
               @ only_if (envServe env ''QUICKPIZZA_ENABLE_RECOMMENDATIONS_SERVICE'') [recommendations_of env]
               @ only_if (envServe env ''QUICKPIZZA_ENABLE_GRPC_SERVICE'') [GRPCServer '':3334'' '':3335''])))"

subsection \<open>Lemmas\<close>

lemma parse_int_range:
  assumes "parse_int bits s = (n, None)" "0 < bits"
  shows "- (2 ^ (bits - 1)) \<le> n \<and> n < 2 ^ (bits - 1)"
proof -
  have "(0 :: int) < 2 ^ (bits - 1)" by simp
  then have "- int x < 2 ^ (bits - 1)" "- (2 ^ (bits - 1)) \<le> int x" for x
    by linarith+
  then show ?thesis
    using assms by (auto simp: parse_int_def Let_def split: prod.splits option.splits num_error.splits if_splits)
qed

lemma envInt_range: "- 2147483648 \<le> envInt env name \<and> envInt env name \<le> 2147483647"
proof -
  have "- 2147483648 \<le> n \<and> n < 2147483648" if "parse_int 32 v = (n, None)" for v n
    using parse_int_range [OF that] by simp
  then show ?thesis
    by (fastforce simp: envInt_def split: option.splits prod.splits)
qed

lemma split_on_plain: "sep \<notin> set s \<Longrightarrow> split_on s sep = [s]"
  by (induction s) auto

lemma split_on_append: "sep \<notin> set a \<Longrightarrow> split_on (a @ sep # b) sep = a # split_on b sep"
  by (induction a) auto

lemma split_on_first: "hd (split_on b sep) = takeWhile (\<lambda>c. c \<noteq> sep) b \<and> split_on b sep \<noteq> []"
  by (induction b) (auto split: list.splits)

text \<open>An entry \<^verbatim>\<open>name=value\<close> of the list: only the value up to a second equals sign is kept.\<close>

lemma config_entry_pair:
  assumes "CHR ''='' \<notin> set name"
  shows "config_entry prefix (name @ CHR ''='' # val) config =
    (if has_prefix name prefix
     then config(to_lower (to_lower (trim_prefix name prefix)) \<mapsto> takeWhile (\<lambda>c. c \<noteq> CHR ''='') val) else config)"
  using split_on_first [of val "CHR ''=''"]
  by (cases "split_on val (CHR ''='')") (simp_all add: config_entry_def split_on_append [OF assms])

text \<open>All services are asked for when the variable is not set or truthy.\<close>

lemma envServeAll_iff:
  "envServeAll env \<longleftrightarrow>
     env ''QUICKPIZZA_ENABLE_ALL_SERVICES'' = None \<or> envBool env ''QUICKPIZZA_ENABLE_ALL_SERVICES''"
  by (auto simp: envServeAll_def envBool_def parse_bool_def split: option.splits)

lemma add_catalog_Inr:
  "add_catalog up env ss = Inr ss' \<Longrightarrow>
     ss' = ss @ only_if (envServe env ''QUICKPIZZA_ENABLE_CATALOG_SERVICE'') [CatalogService (envDBConnString env)]"
  by (auto simp: add_catalog_def only_if_def split: if_splits)

lemma add_copy_Inr:
  "add_copy up env ss = Inr ss' \<Longrightarrow>
     ss' = ss @ only_if (envServe env ''QUICKPIZZA_ENABLE_COPY_SERVICE'') [CopyService (envDBConnString env)]"
  by (auto simp: add_copy_def only_if_def split: if_splits)

lemma in_only_if [simp]: "x \<in> set (only_if b xs) \<longleftrightarrow> b \<and> x \<in> set xs"
  by (simp add: only_if_def)

text \<open>The services of an instance, once it is up.\<close>

lemma main_services_list:
  assumes "main_services up env vars dev = Inr ss"
  shows "ss = [LivenessProbes, PrometheusHandler]
    @ only_if (envServe env ''QUICKPIZZA_ENABLE_HTTP_TESTING_SERVICE'') [HTTPTesting]
    @ only_if (envServe env ''QUICKPIZZA_ENABLE_TEST_K6_IO_SERVICE'') [TestK6IO]
    @ only_if (envServe env ''QUICKPIZZA_ENABLE_CONFIG_SERVICE'') [ConfigHandler (envConfig vars ''QUICKPIZZA_CONF_'')]
    @ only_if (envServe env ''QUICKPIZZA_ENABLE_PUBLIC_API_SERVICE'')
        (Frontend dev # only_if (\<not> envServeAll env) [gateway_of env])
    @ only_if (envServe env ''QUICKPIZZA_ENABLE_WS_SERVICE'') [WebSocketService]
    @ only_if (envServe env ''QUICKPIZZA_ENABLE_CATALOG_SERVICE'') [CatalogService (envDBConnString env)]
    @ only_if (envServe env ''QUICKPIZZA_ENABLE_COPY_SERVICE'') [CopyService (envDBConnString env)]
    @ only_if (envServe env ''QUICKPIZZA_ENABLE_RECOMMENDATIONS_SERVICE'') [recommendations_of env]
    @ only_if (envServe env ''QUICKPIZZA_ENABLE_GRPC_SERVICE'') [GRPCServer '':3334'' '':3335'']"
proof -
  have step: "\<And>a b f g. (case a of Inl e \<Rightarrow> Inl e | Inr s1 \<Rightarrow> (case f s1 of Inl e \<Rightarrow> Inl e | Inr s2 \<Rightarrow> Inr (g s2))) = Inr b
      \<Longrightarrow> \<exists>s1 s2. a = Inr s1 \<and> f s1 = Inr s2 \<and> b = g s2"
    for a :: "unit + service list" and b :: "service list"
    by (auto split: sum.splits)
  show ?thesis
    using step [OF assms [unfolded main_services_def Let_def]]
    by (elim exE conjE) (drule add_catalog_Inr add_copy_Inr, drule add_catalog_Inr add_copy_Inr, simp only: append_assoc)
qed

text \<open>The services that an instance can have, without the gateway, and the variable of each.\<close>

definition service_variables :: "(string \<times> (service \<Rightarrow> bool)) list" where
  "service_variables =
     [(''QUICKPIZZA_ENABLE_HTTP_TESTING_SERVICE'', \<lambda>s. s = HTTPTesting),
      (''QUICKPIZZA_ENABLE_TEST_K6_IO_SERVICE'', \<lambda>s. s = TestK6IO),
      (''QUICKPIZZA_ENABLE_CONFIG_SERVICE'', \<lambda>s. case s of ConfigHandler _ \<Rightarrow> True | _ \<Rightarrow> False),
      (''QUICKPIZZA_ENABLE_PUBLIC_API_SERVICE'', \<lambda>s. case s of Frontend _ \<Rightarrow> True | _ \<Rightarrow> False),
      (''QUICKPIZZA_ENABLE_WS_SERVICE'', \<lambda>s. s = WebSocketService),
      (''QUICKPIZZA_ENABLE_CATALOG_SERVICE'', \<lambda>s. case s of CatalogService _ \<Rightarrow> True | _ \<Rightarrow> False),
      (''QUICKPIZZA_ENABLE_COPY_SERVICE'', \<lambda>s. case s of CopyService _ \<Rightarrow> True | _ \<Rightarrow> False),
      (''QUICKPIZZA_ENABLE_RECOMMENDATIONS_SERVICE'', \<lambda>s. case s of RecommendationsService _ _ \<Rightarrow> True | _ \<Rightarrow> False),
      (''QUICKPIZZA_ENABLE_GRPC_SERVICE'', \<lambda>s. case s of GRPCServer _ _ \<Rightarrow> True | _ \<Rightarrow> False)]"

definition is_gateway :: "service \<Rightarrow> bool" where
  "is_gateway s = (case s of Gateway _ _ _ _ _ \<Rightarrow> True | _ \<Rightarrow> False)"

lemma list_ex_only_if [simp]: "list_ex P (only_if b xs) \<longleftrightarrow> b \<and> list_ex P xs"
  by (simp add: only_if_def)

text \<open>C28: which services run. In an instance that is up, each service runs iff all services are asked for
  (the variable for all is not set or truthy) or its own variable is truthy; the gateway runs
  iff the public API does and not all services are asked for, so that a monolith has none; and
  where both the recommendations and the catalog run, the recommendations call the local one.\<close>

theorem deployment_modes:
  assumes "main_services up env vars dev = Inr ss"
  shows "(\<forall>(name, here) \<in> set service_variables. list_ex here ss \<longleftrightarrow>
        env ''QUICKPIZZA_ENABLE_ALL_SERVICES'' = None \<or> envBool env ''QUICKPIZZA_ENABLE_ALL_SERVICES'' \<or> envBool env name) \<and>
    (list_ex is_gateway ss \<longleftrightarrow> env ''QUICKPIZZA_ENABLE_ALL_SERVICES'' \<noteq> None \<and>
        \<not> envBool env ''QUICKPIZZA_ENABLE_ALL_SERVICES'' \<and> envBool env ''QUICKPIZZA_ENABLE_PUBLIC_API_SERVICE'') \<and>
    (\<forall>c p. RecommendationsService c p \<in> set ss \<longrightarrow>
       c = (if list_ex (\<lambda>s. \<exists>d. s = CatalogService d) ss then ''http://localhost:3333''
            else case env ''QUICKPIZZA_CATALOG_ENDPOINT'' of None \<Rightarrow> [] | Some v \<Rightarrow> v) \<and>
       p = (if list_ex (\<lambda>s. \<exists>d. s = CopyService d) ss then ''http://localhost:3333''
            else case env ''QUICKPIZZA_COPY_ENDPOINT'' of None \<Rightarrow> [] | Some v \<Rightarrow> v))"
proof (intro conjI)
  note ss = main_services_list [OF assms]
  have all: "envServe env name \<longleftrightarrow> env ''QUICKPIZZA_ENABLE_ALL_SERVICES'' = None \<or> envBool env ''QUICKPIZZA_ENABLE_ALL_SERVICES'' \<or> envBool env name" for name
    unfolding envServe_def envServeAll_iff by blast
  show "\<forall>(name, here) \<in> set service_variables. list_ex here ss \<longleftrightarrow>
        env ''QUICKPIZZA_ENABLE_ALL_SERVICES'' = None \<or> envBool env ''QUICKPIZZA_ENABLE_ALL_SERVICES'' \<or> envBool env name"
    unfolding ss service_variables_def
    by (simp add: gateway_of_def recommendations_of_def all)
  show "list_ex is_gateway ss \<longleftrightarrow> env ''QUICKPIZZA_ENABLE_ALL_SERVICES'' \<noteq> None \<and>
        \<not> envBool env ''QUICKPIZZA_ENABLE_ALL_SERVICES'' \<and> envBool env ''QUICKPIZZA_ENABLE_PUBLIC_API_SERVICE''"
    unfolding ss by (simp add: is_gateway_def gateway_of_def recommendations_of_def all envServeAll_iff) auto
  show "\<forall>c p. RecommendationsService c p \<in> set ss \<longrightarrow>
       c = (if list_ex (\<lambda>s. \<exists>d. s = CatalogService d) ss then ''http://localhost:3333''
            else case env ''QUICKPIZZA_CATALOG_ENDPOINT'' of None \<Rightarrow> [] | Some v \<Rightarrow> v) \<and>
       p = (if list_ex (\<lambda>s. \<exists>d. s = CopyService d) ss then ''http://localhost:3333''
            else case env ''QUICKPIZZA_COPY_ENDPOINT'' of None \<Rightarrow> [] | Some v \<Rightarrow> v)"
    unfolding ss by (simp add: gateway_of_def recommendations_of_def envEndpoint_def)
qed

definition demo_environ :: environ where
  "demo_environ = [''QUICKPIZZA_ENABLE_ALL_SERVICES'' \<mapsto> ''false'', ''QUICKPIZZA_ENABLE_RECOMMENDATIONS_SERVICE'' \<mapsto> ''1'',
     ''QUICKPIZZA_ENABLE_COPY_SERVICE'' \<mapsto> ''true'', ''QUICKPIZZA_CATALOG_ENDPOINT'' \<mapsto> ''http://catalog'']"

lemma demo_services:
  "main_services (\<lambda>_. True) demo_environ [] False = Inr [LivenessProbes, PrometheusHandler,
     CopyService ''file::memory:?cache=shared'', RecommendationsService ''http://catalog'' ''http://localhost:3333'']"
  by (simp add: main_services_def add_catalog_def add_copy_def only_if_def recommendations_of_def envEndpoint_def
      envDBConnString_def envServe_def envServeAll_def envBool_def parse_bool_def demo_environ_def)

theorem deployment_modes_witness:
  "\<not> list_ex is_gateway [LivenessProbes, PrometheusHandler,
     CopyService ''file::memory:?cache=shared'', RecommendationsService ''http://catalog'' ''http://localhost:3333'']"
  using deployment_modes [OF demo_services] by (simp add: demo_environ_def envServeAll_def envBool_def parse_bool_def)

end
