(* ===== verification/Connection.thy ===== *)
theory Connection
  imports Catalog Startup
begin

section \<open>Opening the databases (\<^verbatim>\<open>pkg/database/database.go\<close>, \<open>NewCatalog\<close>, \<open>NewCopy\<close>)\<close>

text \<open>
  How a connection string chooses the database, what happens to the connection before it is used, and the
  constructors of the two stores, which run the migrations. The drivers and the migrator are
  parameters.
\<close>

record connection =
  cn_dialect :: dialect
  cn_max_open :: "nat option"      \<comment> \<open>the limit of the pool, where one is set\<close>
  cn_name :: string                \<comment> \<open>the name under which queries are traced\<close>

text \<open>What the drivers answer for a connection string: an error, if any.\<close>

record drivers =
  dr_ping :: "string \<Rightarrow> string option"
  dr_open :: "string \<Rightarrow> string option"
  dr_pragma :: "string \<Rightarrow> string option"
  dr_procs :: nat                              \<comment> \<open>\<^verbatim>\<open>GOMAXPROCS\<close>\<close>

definition initializeDB :: "drivers \<Rightarrow> environ \<Rightarrow> string \<Rightarrow> string + connection" where
  "initializeDB dr env connString =
     (let connected =
        (if has_prefix connString ''postgres://'' then
           (case dr_ping dr connString of
              Some e \<Rightarrow> Inl (''connecting to postgresql: '' @ e)
            | None \<Rightarrow> Inr (Postgres, Some (4 * dr_procs dr)))
         else
           (case dr_open dr connString of
              Some e \<Rightarrow> Inl e
            | None \<Rightarrow>
                (case dr_pragma dr connString of
                   Some e \<Rightarrow> Inl e
                 | None \<Rightarrow> Inr (SQLite, None)))) in
      case connected of
        Inl e \<Rightarrow> Inl e
      | Inr (dia, maxOpen) \<Rightarrow>
          Inr \<lparr>cn_dialect = dia, cn_max_open = maxOpen,
               cn_name = env_or env ''QUICKPIZZA_OTEL_DB_NAME'' ''quickpizza-database''\<rparr>)"

text \<open>
  The migrator: the error of \<open>Init\<close>, the group that \<open>Migrate\<close> returns (the number of
  migrations it applied, or nil) and its error. The group is read before the error is looked
  at, so that a nil one panics.
\<close>

record migrator =
  mg_init :: "string option"
  mg_group :: "nat option"
  mg_err :: "string option"

definition run_migrations :: "migrator \<Rightarrow> (string option) outcome" where
  "run_migrations mg =
     (case mg_init mg of
        Some e \<Rightarrow> Returned (Some e)
      | None \<Rightarrow>
          (case mg_group mg of
             None \<Rightarrow> Panicked ''nil pointer dereference''
           | Some _ \<Rightarrow> Returned (mg_err mg)))"

definition NewCatalog :: "drivers \<Rightarrow> migrator \<Rightarrow> environ \<Rightarrow> string \<Rightarrow> (string + connection \<times> config) outcome" where
  "NewCatalog dr mg env connString =
     (case initializeDB dr env connString of
        Inl e \<Rightarrow> Returned (Inl e)
      | Inr db \<Rightarrow>
          and_then (run_migrations mg) (\<lambda>e. Returned (case e of
            Some e \<Rightarrow> Inl e
          | None \<Rightarrow> Inr (db, catalog_config env))))"

definition NewCopy :: "drivers \<Rightarrow> migrator \<Rightarrow> environ \<Rightarrow> string \<Rightarrow> (string + connection) outcome" where
  "NewCopy dr mg env connString =
     (case initializeDB dr env connString of
        Inl e \<Rightarrow> Returned (Inl e)
      | Inr db \<Rightarrow>
          and_then (run_migrations mg) (\<lambda>e. Returned (case e of
            Some e \<Rightarrow> Inl e
          | None \<Rightarrow> Inr db)))"

text \<open>
  The connection string of the environment, when it is not a Postgres one, gives SQLite; in particular
  when the variable is not set or empty.
\<close>

lemma initializeDB_dialect:
  assumes "initializeDB dr env s = Inr db"
  shows "cn_dialect db = (if has_prefix s ''postgres://'' then Postgres else SQLite) \<and>
    (cn_max_open db = None \<longleftrightarrow> cn_dialect db = SQLite)"
  using assms by (auto simp: initializeDB_def split: if_splits option.splits)

lemma default_is_sqlite:
  assumes "env ''QUICKPIZZA_DB'' \<in> {None, Some []}" "initializeDB dr env (envDBConnString env) = Inr db"
  shows "cn_dialect db = SQLite"
proof -
  have "envDBConnString env = ''file::memory:?cache=shared''" using assms(1) by (auto simp: envDBConnString_def)
  then show ?thesis using initializeDB_dialect [OF assms(2)] by (simp add: has_prefix_def)
qed

text \<open>Both stores of an instance that is up are on the same kind of database.\<close>

lemma same_dialect:
  assumes "NewCatalog dr mg env (envDBConnString env) = Returned (Inr (a, cfg))"
    and "NewCopy dr mg' env (envDBConnString env) = Returned (Inr b)"
  shows "a = b \<and> cfg = catalog_config env"
  using assms
  by (auto simp: NewCatalog_def NewCopy_def split: sum.splits option.splits elim!: and_then.elims)

end
