(* ===== verification/Gateway.thy ===== *)
theory Gateway
  imports Services
begin

section \<open>The gateway (\<open>AddGateway\<close>) and which requests are trusted\<close>

text \<open>
  The reverse proxy that a public instance puts in front of the services: how it chooses the
  service of a request, what it sends there, and what the catalog service behind it makes of it;
  and \<open>isPublic\<close> of \<^verbatim>\<open>pkg/http/otel.go\<close>, which decides whose trace identifiers are kept.
\<close>

subsection \<open>The request the proxy sends\<close>

record endpoints =
  ep_catalog :: string
  ep_copy :: string
  ep_ws :: string
  ep_recommendations :: string
  ep_config :: string

text \<open>\<open>SetURL\<close>: the path of the request after the one of the service, with one slash between them.\<close>

definition has_suffix :: "string \<Rightarrow> string \<Rightarrow> bool" where
  "has_suffix s p \<longleftrightarrow> has_prefix (rev s) (rev p)"

definition join_url :: "string \<Rightarrow> string \<Rightarrow> string" where
  "join_url base path =
     (if has_suffix base ''/'' \<and> has_prefix path ''/'' then base @ drop 1 path
      else if \<not> has_suffix base ''/'' \<and> \<not> has_prefix path ''/'' then base @ ''/'' @ path
      else base @ path)"

definition set_url :: "string \<Rightarrow> request \<Rightarrow> request" where
  "set_url base r = r\<lparr>rq_path := join_url base (rq_path r)\<rparr>"

definition gateway_target :: "endpoints \<Rightarrow> string \<Rightarrow> string" where
  "gateway_target ep path =
     (if path = ''/api/users/token/login'' then ep_catalog ep
      else if path = ''/api/quotes'' then ep_copy ep
      else if path = ''/api/tools'' then ep_catalog ep
      else if path = ''/api/ratings'' then ep_catalog ep
      else if path = ''/api/internal/recommendations'' then ep_catalog ep
      else if path = ''/api/pizza'' then ep_recommendations ep
      else if path = ''/api/config'' then ep_config ep
      else if path = ''/api/admin/login'' then ep_catalog ep
      else ep_catalog ep)"

definition gateway_rewrite :: "endpoints \<Rightarrow> request \<Rightarrow> request" where
  "gateway_rewrite ep r =
     header_add ''X-Is-Internal'' ''1'' (set_url (gateway_target ep (rq_path r)) r)"

definition ws_rewrite :: "endpoints \<Rightarrow> request \<Rightarrow> request" where
  "ws_rewrite ep r = set_url (ep_ws ep) r"

text \<open>
  What \<^verbatim>\<open>httputil.ReverseProxy\<close> takes off the request before \<open>Rewrite\<close> sees it: the headers of
  the connection, those named under \<open>Connection\<close> and those of other proxies. (For an upgrade it
  puts \<open>Connection\<close> and \<open>Upgrade\<close> back, which no handler of the model reads.)
\<close>

definition dropped_headers :: "string list" where
  "dropped_headers = [''connection'', ''proxy-connection'', ''keep-alive'', ''proxy-authenticate'',
     ''proxy-authorization'', ''te'', ''trailer'', ''transfer-encoding'', ''upgrade'',
     ''forwarded'', ''x-forwarded-for'', ''x-forwarded-host'', ''x-forwarded-proto'']"

definition trim_string :: "string \<Rightarrow> string" where
  "trim_string s =
     (let blank = (\<lambda>c. c = CHR '' '' \<or> c = CHR 0x09 \<or> c = CHR 0x0A \<or> c = CHR 0x0D)
      in rev (dropWhile blank (rev (dropWhile blank s))))"

fun connection_names :: "(string \<times> string) list \<Rightarrow> string list" where
  "connection_names [] = []"
| "connection_names ((n, v) # hs) =
     (if to_lower n = ''connection''
      then filter (\<lambda>s. s \<noteq> []) (map (\<lambda>s. to_lower (trim_string s)) (split_on v CHR '','')) @ connection_names hs
      else connection_names hs)"

definition proxied :: "request \<Rightarrow> request" where
  "proxied r =
     (let dropped = set (dropped_headers @ connection_names (rq_headers r)) in
      r\<lparr>rq_headers := filter (\<lambda>(n, _). to_lower n \<notin> dropped) (rq_headers r),
        rq_cookies := (if ''cookie'' \<in> dropped then [] else rq_cookies r)\<rparr>)"

text \<open>A service that cannot be reached is answered with 502.\<close>

definition reverse_proxy :: "(request \<Rightarrow> request) \<Rightarrow> 's transport \<Rightarrow> request \<Rightarrow> 's \<Rightarrow> http_response \<times> 's" where
  "reverse_proxy rewrite t r s =
     (case t (rewrite (proxied r)) s of
        (Inl _, s') \<Rightarrow> (\<lparr>resp_status = 502, resp_json = Inl ''EOF''\<rparr>, s')
      | (Inr resp, s') \<Rightarrow> (resp, s'))"

definition gateway :: "endpoints \<Rightarrow> 's transport \<Rightarrow> request \<Rightarrow> 's \<Rightarrow> http_response \<times> 's" where
  "gateway ep = reverse_proxy (gateway_rewrite ep)"

subsection \<open>Public requests\<close>

definition isPublic :: "bool \<Rightarrow> request \<Rightarrow> bool" where
  "isPublic insecure r =
     (if insecure then False
      else if header_get (rq_headers r) ''X-Is-Internal'' \<noteq> [] then False
      else True)"

subsection \<open>What the services read of a proxied request\<close>

lemma proxied_simps [simp]:
  "rq_method (proxied r) = rq_method r" "rq_path (proxied r) = rq_path r" "rq_json (proxied r) = rq_json r"
  "rq_query (proxied r) = rq_query r"
  by (simp_all add: proxied_def Let_def)

lemma gateway_rewrite_simps [simp]:
  "rq_method (gateway_rewrite ep r) = rq_method r" "rq_json (gateway_rewrite ep r) = rq_json r"
  "rq_cookies (gateway_rewrite ep r) = rq_cookies r" "rq_query (gateway_rewrite ep r) = rq_query r"
  "rq_path (gateway_rewrite ep r) = join_url (gateway_target ep (rq_path r)) (rq_path r)"
  by (simp_all add: gateway_rewrite_def set_url_def header_add_def)

text \<open>A request that names no header under \<open>Connection\<close>.\<close>

definition plain :: "request \<Rightarrow> bool" where
  "plain r \<longleftrightarrow> connection_names (rq_headers r) = []"

lemma cookie_kept: "''cookie'' \<notin> set dropped_headers"
  by code_simp

lemma proxied_plain:
  "plain r \<Longrightarrow> proxied r = r\<lparr>rq_headers := filter (\<lambda>(n, _). to_lower n \<notin> set dropped_headers) (rq_headers r)\<rparr>"
  using cookie_kept by (simp add: plain_def proxied_def)

lemma proxied_cookies [simp]: "plain r \<Longrightarrow> rq_cookies (proxied r) = rq_cookies r"
  by (simp add: proxied_plain)

lemma header_get_proxied:
  assumes "plain r" and "to_lower n \<notin> set dropped_headers"
  shows "header_get (rq_headers (proxied r)) n = header_get (rq_headers r) n"
proof -
  have "header_get (filter (\<lambda>(n, _). to_lower n \<notin> set dropped_headers) hs) n = header_get hs n" for hs
    using assms(2) by (induction hs) (auto split: if_splits)
  then show ?thesis using assms(1) by (simp add: proxied_plain)
qed

lemma gateway_headers: "rq_headers (gateway_rewrite ep r) = rq_headers r @ [(''X-Is-Internal'', ''1'')]"
  by (simp add: gateway_rewrite_def set_url_def header_add_def)

lemma header_get_gateway:
  assumes "plain r" and "to_lower n \<notin> set dropped_headers" and "to_lower n \<noteq> to_lower ''X-Is-Internal''"
  shows "header_get (rq_headers (gateway_rewrite ep (proxied r))) n = header_get (rq_headers r) n"
proof -
  have "header_get [(''X-Is-Internal'', ''1'')] n = []" using assms(3) by simp
  then have "header_get (rq_headers (proxied r) @ [(''X-Is-Internal'', ''1'')]) n = header_get (rq_headers (proxied r)) n"
    using header_get_none [of n "rq_headers (proxied r)"] by (simp only: header_get_append) auto
  then show ?thesis
    by (simp only: gateway_headers header_get_proxied [OF assms(1,2)])
qed

lemma mark_kept: "to_lower ''X-Is-Internal'' \<notin> set dropped_headers"
  by code_simp

text \<open>The mark that arrives where the client sent none of its own.\<close>

definition unmarked :: "request \<Rightarrow> bool" where
  "unmarked r \<longleftrightarrow> to_lower ''X-Is-Internal'' \<notin> (\<lambda>h. to_lower (fst h)) ` set (rq_headers r)"

lemma unmarked_get: "unmarked r \<Longrightarrow> header_get (rq_headers r) ''X-Is-Internal'' = []"
  by (simp add: unmarked_def header_get_none)

lemma gateway_mark:
  assumes "unmarked r"
  shows "header_get (rq_headers (gateway_rewrite ep (proxied r))) ''X-Is-Internal'' = ''1''"
proof -
  have "unmarked (proxied r)" using assms by (auto simp: unmarked_def proxied_def Let_def)
  then show ?thesis
    unfolding gateway_headers unmarked_def by (simp only: header_get_append) simp
qed

lemma gateway_names:
  "to_lower authHeader \<notin> set dropped_headers" "to_lower authHeader \<noteq> to_lower ''X-Is-Internal''"
  "list_all (\<lambda>h. to_lower h \<notin> set dropped_headers \<and> to_lower h \<noteq> to_lower ''X-Is-Internal'') headerList"
  by code_simp+

lemma gateway_auth: "plain r \<Longrightarrow> header_get (rq_headers (gateway_rewrite ep (proxied r))) authHeader = header_get (rq_headers r) authHeader"
  by (rule header_get_gateway) (assumption | rule gateway_names)+

lemma gateway_token: "plain r \<Longrightarrow> getRequestToken (gateway_rewrite ep (proxied r)) = getRequestToken r"
  by (simp only: getRequestToken_def requestTokenFromCookie_def request_cookie_def gateway_auth gateway_rewrite_simps proxied_cookies)

lemma gateway_injection: "plain r \<Longrightarrow> InjectErrorHeaders (gateway_rewrite ep (proxied r)) ctx = InjectErrorHeaders r ctx"
  using gateway_names(3) by (intro ext) (simp add: InjectErrorHeaders_get list_all_iff header_get_gateway)

text \<open>What \<open>serve\<close> reads of a request; the route that records a recommendation reads the mark too.\<close>

lemma serve_view:
  assumes "getRequestToken r = getRequestToken r'" "\<And>ctx. InjectErrorHeaders r ctx = InjectErrorHeaders r' ctx"
    "rq_json r = rq_json r'" "rq_cookies r = rq_cookies r'" "rq_query r = rq_query r'" "rq_method r = rq_method r'"
    "rt = PostRecommendationRoute \<longrightarrow> (header_get (rq_headers r) ''X-Is-Internal'' = []) = (header_get (rq_headers r') ''X-Is-Internal'' = [])"
  shows "serve pf cfg rt r db = serve pf cfg rt r' db"
  using assms
  by (cases rt)
    (simp_all add: serve_def AuthMiddleware_def InjectErrorHeadersMiddleware_def getIngredients_def getDoughs_def
      getTools_def postRating_def getRating_def getRatings_def updateRating_def deleteRatings_def deleteRating_def
      logout_def csrfToken_def postUser_def login_def authenticate_def postRecommendation_def getRecommendation_def
      getRecommendations_def adminLogin_def decodeJSONBody_def query_get_def request_cookie_def
      cong: sum.case_cong option.case_cong prod.case_cong cong del: if_weak_cong)

lemma gateway_served:
  assumes "plain r" "unmarked r"
  shows "serve pf cfg rt (gateway_rewrite ep (proxied r)) db =
    serve pf cfg rt (if rt = PostRecommendationRoute then header_add ''X-Is-Internal'' ''1'' r else r) db"
proof (cases "rt = PostRecommendationRoute")
  case True
  then show ?thesis
    using assms gateway_mark unmarked_get
    by (simp add: serve_def postRecommendation_def decodeJSONBody_def header_add_def header_get_append unmarked_def)
next
  case False
  then show ?thesis
    by (simp only: if_False) (rule serve_view, simp_all add: assms gateway_token gateway_injection)
qed

lemma target_catalog:
  "path \<notin> {''/api/quotes'', ''/api/pizza'', ''/api/config''} \<Longrightarrow> gateway_target ep path = ep_catalog ep"
  by (simp add: gateway_target_def)

lemma serve_path [simp]: "serve pf cfg rt (set_url u r) db = serve pf cfg rt r db"
proof (rule serve_view)
  have h: "rq_headers (set_url u r) = rq_headers r" "rq_cookies (set_url u r) = rq_cookies r"
    by (simp_all add: set_url_def)
  then show "getRequestToken (set_url u r) = getRequestToken r"
    by (simp only: getRequestToken_def requestTokenFromCookie_def request_cookie_def)
qed (simp_all add: set_url_def InjectErrorHeaders_def)

subsection \<open>Property\<close>


definition demo_outside :: request where
  "demo_outside = \<lparr>rq_method = ''POST'', rq_path = ''/api/internal/recommendations'', rq_headers = [], rq_cookies = [],
     rq_query = [], rq_json = Inr (enc_pizza zero_pizza)\<rparr>"

definition demo_endpoints :: endpoints where
  "demo_endpoints = \<lparr>ep_catalog = ''c'', ep_copy = ''p'', ep_ws = ''w'', ep_recommendations = ''r'', ep_config = ''k''\<rparr>"


end
