(* ===== verification/BasicAuth.thy ===== *)
theory BasicAuth
  imports Http "HOL-Library.Char_ord"
begin

section \<open>Basic authentication of a request\<close>

text \<open>
  \<^verbatim>\<open>Request.BasicAuth\<close> of the standard library, which the route \<^verbatim>\<open>/api/basic-auth\<close> of
  \<^verbatim>\<open>pkg/http/http.go\<close> uses: the \<open>Authorization\<close> header, its scheme, and the standard base64 decoding, with
  the encoding that clients send and the round trip of the two.
\<close>

subsection \<open>Base64\<close>

definition alphabet64 :: string where
  "alphabet64 = ''ABCDEFGHIJKLMNOPQRSTUVWXYZabcdefghijklmnopqrstuvwxyz0123456789+/''"

text \<open>The value of a character of the alphabet.\<close>

definition value64 :: "char \<Rightarrow> nat option" where
  "value64 c =
     (let n = (of_char c :: nat) in
      if 65 \<le> n \<and> n \<le> 90 then Some (n - 65)
      else if 97 \<le> n \<and> n \<le> 122 then Some (n - 71)
      else if 48 \<le> n \<and> n \<le> 57 then Some (n + 4)
      else if n = 43 then Some 62
      else if n = 47 then Some 63
      else None)"

definition digit64 :: "nat \<Rightarrow> char" where
  "digit64 v = alphabet64 ! v"

text \<open>Groups of three bytes become four characters; the last group is padded.\<close>

fun encode64 :: "string \<Rightarrow> string" where
  "encode64 (x # y # z # rest) =
     (let n = of_char x * 65536 + of_char y * 256 + of_char z in
      digit64 (n div 262144) # digit64 (n div 4096 mod 64) # digit64 (n div 64 mod 64) # digit64 (n mod 64)
        # encode64 rest)"
| "encode64 [x, y] =
     (let n = of_char x * 256 + of_char y in
      [digit64 (n div 1024), digit64 (n div 16 mod 64), digit64 (n mod 16 * 4), CHR ''=''])"
| "encode64 [x] =
     (let n = of_char x in [digit64 (n div 4), digit64 (n mod 4 * 16), CHR ''='', CHR ''=''])"
| "encode64 [] = []"

text \<open>
  \<open>StdEncoding.DecodeString\<close>: line ends are skipped, the padding is required and ends the text; bits that
  the padding leaves over are not looked at.
\<close>

fun decode_groups :: "string \<Rightarrow> string option" where
  "decode_groups [] = Some []"
| "decode_groups (a # b # c # d # rest) =
     (case (value64 a, value64 b) of
        (Some va, Some vb) \<Rightarrow>
          (let x = char_of (va * 4 + vb div 16) in
           if c = CHR ''='' then (if d = CHR ''='' \<and> rest = [] then Some [x] else None)
           else
             (case value64 c of
                None \<Rightarrow> None
              | Some vc \<Rightarrow>
                  (let y = char_of (vb mod 16 * 16 + vc div 4) in
                   if d = CHR ''='' then (if rest = [] then Some [x, y] else None)
                   else
                     (case value64 d of
                        None \<Rightarrow> None
                      | Some vd \<Rightarrow> map_option (\<lambda>t. x # y # char_of (vc mod 4 * 64 + vd) # t) (decode_groups rest)))))
      | _ \<Rightarrow> None)"
| "decode_groups _ = None"

definition decode64 :: "string \<Rightarrow> string option" where
  "decode64 s = decode_groups (filter (\<lambda>c. c \<noteq> CHR 0x0A \<and> c \<noteq> CHR 0x0D) s)"

subsection \<open>The credentials of a request\<close>

text \<open>\<open>BasicAuth\<close>: user, password, and whether the header could be read; the scheme may be in any case.\<close>

definition parseBasicAuth :: "string \<Rightarrow> string \<times> string \<times> bool" where
  "parseBasicAuth auth =
     (if length auth < 6 \<or> to_lower (take 6 auth) \<noteq> ''basic '' then ([], [], False)
      else
        (case decode64 (drop 6 auth) of
           None \<Rightarrow> ([], [], False)
         | Some cs \<Rightarrow>
             (case cut cs CHR '':'' of
                (username, password, found) \<Rightarrow> if \<not> found then ([], [], False) else (username, password, True))))"

definition request_basic_auth :: "request \<Rightarrow> string \<times> string \<times> bool" where
  "request_basic_auth r =
     (let auth = header_get (rq_headers r) ''Authorization'' in
      if auth = [] then ([], [], False) else parseBasicAuth auth)"

subsection \<open>Round trip\<close>

lemma low_bits:
  fixes k m :: nat
  assumes "k < m"
  shows "(a * m + k) div m = a" "(a * m + k) mod m = k" "(a * m + k) mod (m * q) = a mod q * m + k"
  using assms by (simp_all add: mod_mult2_eq)

lemma high_bits: "(c::nat) < 256 \<Longrightarrow> c div 64 < 4" "(c::nat) < 256 \<Longrightarrow> c div 16 < 16" "(c::nat) < 256 \<Longrightarrow> c div 4 < 64"
  by simp_all

lemma group3:
  fixes a b c :: nat
  assumes "a < 256" "b < 256" "c < 256" "n = a * 65536 + b * 256 + c"
  shows "n div 262144 = a div 4" "n div 4096 mod 64 = a mod 4 * 16 + b div 16"
    "n div 64 mod 64 = b mod 16 * 4 + c div 64" "n mod 64 = c mod 64"
proof -
  show "n div 262144 = a div 4" using assms by linarith
  have "n = (a * 1024 + b * 4) * 64 + c" using assms by simp
  then show "n mod 64 = c mod 64" by (simp only: mod_mult_self3)
  have "n div 4096 = a * 16 + b div 16" using assms by linarith
  then show "n div 4096 mod 64 = a mod 4 * 16 + b div 16" using low_bits(3) [of "b div 16" 16 a 4] assms by simp
  have "n div 64 = a * 1024 + b * 4 + c div 64" using assms by linarith
  then have "n div 64 = (a * 256 + b) * 4 + c div 64" by simp
  moreover have "(a * 16 * 16 + b) mod 16 = b mod 16" by (simp only: mod_mult_self3)
  then have "(a * 256 + b) mod 16 = b mod 16" by (simp add: mult.assoc)
  ultimately show "n div 64 mod 64 = b mod 16 * 4 + c div 64" using low_bits(3) [of "c div 64" 4 "a * 256 + b" 16] assms by simp
qed

lemma group2:
  fixes a b :: nat
  assumes "a < 256" "b < 256" "n = a * 256 + b"
  shows "n div 1024 = a div 4" "n div 16 mod 64 = a mod 4 * 16 + b div 16" "n mod 16 = b mod 16"
proof -
  show "n div 1024 = a div 4" using assms by linarith
  have "n = (a * 16) * 16 + b" using assms by simp
  then show "n mod 16 = b mod 16" by (simp only: mod_mult_self3)
  have "n div 16 = a * 16 + b div 16" using assms by linarith
  then show "n div 16 mod 64 = a mod 4 * 16 + b div 16" using low_bits(3) [of "b div 16" 16 a 4] assms by simp
qed

lemma joined_bits:
  fixes a b c :: nat
  assumes "a < 256" "b < 256" "c < 256"
  shows "a div 4 < 64" "a mod 4 * 16 + b div 16 < 64" "b mod 16 * 4 + c div 64 < 64" 
   "a div 4 * 4 + (a mod 4 * 16 + b div 16) div 16 = a"
   "(a mod 4 * 16 + b div 16) mod 16 * 16 + (b mod 16 * 4 + c div 64) div 4 = b"
   "(b mod 16 * 4 + c div 64) mod 4 * 64 + c mod 64 = c"
proof -
  note s = high_bits(1) [OF assms(3)] high_bits(2) [OF assms(2)]
  have "a mod 4 < 4" "b mod 16 < 16" by simp_all
  with s show "a mod 4 * 16 + b div 16 < 64" "b mod 16 * 4 + c div 64 < 64" by linarith+
  show "a div 4 < 64" using assms by simp
  show "a div 4 * 4 + (a mod 4 * 16 + b div 16) div 16 = a"
   "(a mod 4 * 16 + b div 16) mod 16 * 16 + (b mod 16 * 4 + c div 64) div 4 = b"
   "(b mod 16 * 4 + c div 64) mod 4 * 64 + c mod 64 = c"
    by (simp_all add: low_bits [OF s(1)] low_bits [OF s(2)] mod_less [OF s(1)] mod_less [OF s(2)])
qed

lemma alphabet64_values: "map value64 alphabet64 = map Some [0..<64]"
  unfolding alphabet64_def by (simp add: value64_def upt_rec)

lemma value64_digit64 [simp]: "v < 64 \<Longrightarrow> value64 (digit64 v) = Some v"
proof -
  assume v: "v < 64"
  have "length alphabet64 = 64" using arg_cong [OF alphabet64_values, of length] by simp
  with v have "value64 (digit64 v) = map value64 alphabet64 ! v" by (simp add: digit64_def)
  with v show ?thesis by (simp add: alphabet64_values)
qed

lemma digit64_plain [simp]:
  assumes "v < 64"
  shows "digit64 v \<noteq> CHR ''=''" "digit64 v \<noteq> CHR 0x0A" "digit64 v \<noteq> CHR 0x0D"
proof -
  have "value64 (CHR ''='') = None" "value64 (CHR 0x0A) = None" "value64 (CHR 0x0D) = None"
    by (simp_all add: value64_def)
  then show "digit64 v \<noteq> CHR ''=''" "digit64 v \<noteq> CHR 0x0A" "digit64 v \<noteq> CHR 0x0D"
    using value64_digit64 [OF assms] by auto
qed

lemma char_bound: "(of_char c :: nat) < 256"
  by (rule nat_of_char_less_256)

lemma decode_encode_groups: "decode_groups (encode64 s) = Some s"
proof (induction s rule: encode64.induct)
  case (1 x y z rest)
  note b = char_bound [of x] char_bound [of y] char_bound [of z]
  show ?case using 1 joined_bits [OF b] by (simp add: group3 [OF b refl])
next
  case (2 x y)
  note b = char_bound [of x] char_bound [of y]
  show ?case using joined_bits [OF b, of 0] by (simp add: group2 [OF b refl] Let_def)
next
  case (3 x)
  note b = char_bound [of x]
  show ?case using joined_bits [OF b, of 0 0] by (simp add: Let_def)
qed simp

lemma encode64_plain: "set (encode64 s) \<subseteq> {c. c \<noteq> CHR 0x0A \<and> c \<noteq> CHR 0x0D}"
proof (induction s rule: encode64.induct)
  case (1 x y z rest)
  note b = char_bound [of x] char_bound [of y] char_bound [of z]
  show ?case using 1 joined_bits(1-3) [OF b] by (simp add: group3 [OF b refl])
next
  case (2 x y)
  note b = char_bound [of x] char_bound [of y]
  show ?case using joined_bits [OF b, of 0] by (simp add: group2 [OF b refl])
next
  case (3 x)
  note b = char_bound [of x]
  show ?case using joined_bits [OF b, of 0 0] by (simp add: Let_def)
qed simp

lemma decode64_encode64: "decode64 (encode64 s) = Some s"
proof -
  have "filter (\<lambda>c. c \<noteq> CHR 0x0A \<and> c \<noteq> CHR 0x0D) (encode64 s) = encode64 s"
    using encode64_plain [of s] by (intro filter_True) auto
  then show ?thesis by (simp add: decode64_def decode_encode_groups)
qed

lemma parseBasicAuth_encoded:
  assumes "CHR '':'' \<notin> set user" "to_lower scheme = ''basic ''"
  shows "parseBasicAuth (scheme @ encode64 (user @ CHR '':'' # pass)) = (user, pass, True)"
proof -
  have "length scheme = 6" using arg_cong [OF assms(2), of length] by (simp add: to_lower_def)
  then show ?thesis
    using assms by (simp add: parseBasicAuth_def decode64_encode64 cut_append)
qed

end
