(* ===== verification/Testing.thy ===== *)
theory Testing
  imports Duration Util BasicAuth "HOL-Library.AList" "HOL-Library.Char_ord" "HOL-Library.List_Lexorder"
begin

section \<open>The services for load tests (\<open>AddHTTPTesting\<close>, \<open>AddTestK6IO\<close>) and the probes\<close>

text \<open>
  The handlers of \<^verbatim>\<open>pkg/http/http.go\<close> that answer from the request alone: fixed statuses, random
  bytes, delays, echoes of bodies, cookies, headers and queries, the coin and the digits of the
  \<^verbatim>\<open>test.k6.io\<close> pages, the probes and the configuration. A handler takes what it reads of the request and the
  response writer; the ones that draw or sleep take the process too.
\<close>

subsection \<open>Maps as JSON objects\<close>

text \<open>A Go map built by assignments, where the last one of a key wins; encoded with sorted keys.\<close>

definition assign_all :: "(string \<times> string) list \<Rightarrow> (string \<times> string) list" where
  "assign_all kvs = fold (\<lambda>(k, v) m. AList.update k v m) kvs []"

definition map_json :: "(string \<times> string) list \<Rightarrow> json" where
  "map_json m = JObj (map (\<lambda>(k, v). (k, JStr v)) (sort_key fst m))"

text \<open>\<open>value[0]\<close> of every key of \<open>r.URL.Query()\<close>.\<close>

fun first_values :: "(string \<times> string) list \<Rightarrow> (string \<times> string) list" where
  "first_values [] = []"
| "first_values ((k, v) # kvs) = (k, v) # filter (\<lambda>(k', _). k' \<noteq> k) (first_values kvs)"

subsection \<open>\<open>AddHTTPTesting\<close>\<close>

definition testStatus :: "string \<Rightarrow> rw \<Rightarrow> rw" where
  "testStatus param w =
     (case Atoi param of
        (_, Some _) \<Rightarrow> write_header 400 w
      | (st, None) \<Rightarrow>
          if st < 100 \<or> st > 599 then write_header 400 w else write_header (nat st) w)"

text \<open>\<open>crand.Read\<close>, with the draws as bytes.\<close>

fun random_bytes :: "nat \<Rightarrow> rng \<Rightarrow> string \<times> rng" where
  "random_bytes 0 g = ([], g)"
| "random_bytes (Suc n) g = (let (cs, g') = random_bytes n (stl g) in (char_of (shd g mod 256) # cs, g'))"

text \<open>\<open>limit\<close> is the longest slice of bytes the run time can make; a longer one panics.\<close>

definition testBytes :: "nat \<Rightarrow> string \<Rightarrow> rw \<Rightarrow> 'a proc_scheme \<Rightarrow> (rw \<times> 'a proc_scheme) outcome" where
  "testBytes limit param w s =
     (let n = (case Atoi param of (_, Some _) \<Rightarrow> 0 | (k, None) \<Rightarrow> k) in
      if n < 0 \<or> n > int limit then Panicked ''makeslice: len out of range''
      else
        let (dat, g) = random_bytes (nat n) (proc_rng s) in
        Returned (write_body (TextBody dat)
            (write_header 200 (set_header ''Content-Type'' ''application/octet-stream'' w)), s\<lparr>proc_rng := g\<rparr>))"

definition testDelay :: "(nat \<Rightarrow> nat \<Rightarrow> nat \<Rightarrow> nat) \<Rightarrow> string \<Rightarrow> rw \<Rightarrow> 'a proc_scheme \<Rightarrow> rw \<times> 'a proc_scheme" where
  "testDelay frac param w s =
     (case parse_duration frac param of
        Some d \<Rightarrow> (write_header 200 w, sleep d s)
      | None \<Rightarrow>
          (case parse_duration frac (param @ ''s'') of
             None \<Rightarrow> (write_header 400 w, s)
           | Some d \<Rightarrow> (write_header 200 w, sleep d s)))"

definition testGet :: "rw \<Rightarrow> rw" where
  "testGet w = write_header 200 w"

definition testDelete :: "rw \<Rightarrow> rw" where
  "testDelete w = write_header 200 w"

text \<open>\<^verbatim>\<open>POST\<close>, \<^verbatim>\<open>PUT\<close> and \<^verbatim>\<open>PATCH\<close>: the body comes back; an empty one writes nothing.\<close>

definition testEcho :: "request \<Rightarrow> string \<Rightarrow> rw \<Rightarrow> rw" where
  "testEcho r raw w =
     (let w' = write_header 200 (set_header ''Content-Type'' (header_get (rq_headers r) ''Content-Type'') w)
      in if raw = [] then w' else write_body (TextBody raw) w')"

definition testCookies :: "request \<Rightarrow> rw \<Rightarrow> rw" where
  "testCookies r w = writeJSONResponse (JObj [(''cookies'', map_json (assign_all (rq_cookies r)))]) 200 w"

text \<open>
  \<open>http.SetCookie\<close> adds nothing for a name that is not a token. \<open>order\<close> is the order in which
  the run time visits the keys of the map.
\<close>

definition cookie_name_char :: "char \<Rightarrow> bool" where
  "cookie_name_char c \<longleftrightarrow>
     (let n = (of_char c :: nat) in
      48 \<le> n \<and> n \<le> 57 \<or> 65 \<le> n \<and> n \<le> 90 \<or> 97 \<le> n \<and> n \<le> 122 \<or> c \<in> set ''!#$%&*+-.^_`|~'' \<or> n = 39)"

definition SetCookie_named :: "cookie \<Rightarrow> rw \<Rightarrow> rw" where
  "SetCookie_named c w =
     (if cookie_name c \<noteq> [] \<and> list_all cookie_name_char (cookie_name c) then set_cookie c w else w)"

definition testSetCookies :: "((string \<times> string) list \<Rightarrow> (string \<times> string) list) \<Rightarrow> request \<Rightarrow> rw \<Rightarrow> rw" where
  "testSetCookies order r w =
     write_header 200
       (fold (\<lambda>(k, v). SetCookie_named \<lparr>cookie_name = k, cookie_value = v, cookie_strict = False,
                cookie_path = [], cookie_expires = None\<rparr>) (order (first_values (rq_query r))) w)"

text \<open>The values of a header are joined by commas; \<open>key\<close> is the canonical form of its name.\<close>

fun join_values :: "string list \<Rightarrow> string" where
  "join_values [] = []"
| "join_values [v] = v"
| "join_values (v # vs) = v @ '','' @ join_values vs"

definition header_map :: "(string \<Rightarrow> string) \<Rightarrow> (string \<times> string) list \<Rightarrow> (string \<times> string) list" where
  "header_map key hs =
     map (\<lambda>k. (k, join_values (map snd (filter (\<lambda>h. key (fst h) = k) hs)))) (remdups (map (key \<circ> fst) hs))"

definition testHeaders :: "(string \<Rightarrow> string) \<Rightarrow> string \<Rightarrow> request \<Rightarrow> rw \<Rightarrow> rw" where
  "testHeaders key host r w =
     writeJSONResponse (JObj [(''headers'',
       map_json (AList.update ''Host'' host (header_map key (rq_headers r))))]) 200 w"

text \<open>A request without readable credentials has the empty user and the empty password.\<close>

definition testBasicAuth :: "request \<Rightarrow> string \<Rightarrow> string \<Rightarrow> rw \<Rightarrow> rw" where
  "testBasicAuth r username password w =
     (case request_basic_auth r of (user, pass, _) \<Rightarrow>
        writeJSONResponse (JObj [(''authenticated'', JBool (user = username \<and> pass = password)),
          (''password'', JStr password), (''user'', JStr username)]) 200 w)"

definition testJson :: "request \<Rightarrow> rw \<Rightarrow> rw" where
  "testJson r w = writeJSONResponse (map_json (first_values (rq_query r))) 200 w"

text \<open>
  The XML of \<^verbatim>\<open>encoding/xml\<close>: elements and text, with the escapes of the text. Bytes outside ASCII come in
  runs, and \<open>wide\<close> is what is written for one of them (the run itself where it is valid UTF-8).
\<close>

datatype xml = XElement string "xml list" | XText string

definition escape_char :: "char \<Rightarrow> string" where
  "escape_char c =
     (let n = (of_char c :: nat) in
      if n = 34 then ''&#34;'' else if n = 39 then ''&#39;''
      else if n = 38 then ''&amp;'' else if n = 60 then ''&lt;'' else if n = 62 then ''&gt;''
      else if n = 9 then ''&#x9;'' else if n = 10 then ''&#xA;'' else if n = 13 then ''&#xD;''
      else if n < 32 then [char_of (239 :: nat), char_of (191 :: nat), char_of (189 :: nat)]
      else [c])"

definition is_ascii :: "char \<Rightarrow> bool" where
  "is_ascii c \<longleftrightarrow> (of_char c :: nat) < 128"

fun escape_text :: "(string \<Rightarrow> string) \<Rightarrow> string \<Rightarrow> string \<Rightarrow> string" where
  "escape_text wide run [] = (if run = [] then [] else wide run)"
| "escape_text wide run (c # cs) =
     (if is_ascii c then (if run = [] then [] else wide run) @ escape_char c @ escape_text wide [] cs
      else escape_text wide (run @ [c]) cs)"

fun xml_string :: "(string \<Rightarrow> string) \<Rightarrow> xml \<Rightarrow> string" where
  "xml_string wide (XText s) = escape_text wide [] s"
| "xml_string wide (XElement n xs) =
     ''<'' @ n @ ''>'' @ concat (map (xml_string wide) xs) @ ''</'' @ n @ ''>''"

text \<open>Encoding elements and text cannot fail, so that the branch of the error is not taken.\<close>

definition writeXMLResponse :: "(string \<Rightarrow> string) \<Rightarrow> xml \<Rightarrow> nat \<Rightarrow> rw \<Rightarrow> rw" where
  "writeXMLResponse wide x st w =
     write_body (TextBody (xml_string wide x)) (write_header st (set_header ''Content-Type'' ''application/xml'' w))"

definition xml_params :: "(string \<times> string) list \<Rightarrow> xml" where
  "xml_params kvs =
     XElement ''response'' (map (\<lambda>(i, k, v). XElement ''params''
       [XElement ''key'' [XText k], XElement ''value'' [XText v], XElement ''index'' [XText (Itoa (int i))]])
       (enumerate 0 kvs))"

definition testXml ::
  "(string \<Rightarrow> string) \<Rightarrow> ((string \<times> string) list \<Rightarrow> (string \<times> string) list) \<Rightarrow> request \<Rightarrow> rw \<Rightarrow> rw" where
  "testXml wide order r w = writeXMLResponse wide (xml_params (order (first_values (rq_query r)))) 200 w"

text \<open>The routes of the group, each with the parameters of its pattern.\<close>

datatype testing_route =
    StatusRoute string | BytesRoute string | DelayRoute string | GetRoute | DeleteRoute | EchoRoute
  | CookiesRoute | SetCookiesRoute | HeadersRoute | BasicAuthRoute string string | JsonRoute | XmlRoute

text \<open>What the handlers take from the run time and the connection.\<close>

record testing_world =
  tw_limit :: nat                              \<comment> \<open>the longest slice of bytes\<close>
  tw_frac :: "nat \<Rightarrow> nat \<Rightarrow> nat \<Rightarrow> nat"       \<comment> \<open>the fractions of a duration\<close>
  tw_order :: "(string \<times> string) list \<Rightarrow> (string \<times> string) list"
  tw_key :: "string \<Rightarrow> string"                \<comment> \<open>the canonical name of a header\<close>
  tw_host :: string
  tw_wide :: "string \<Rightarrow> string"

definition serve_testing ::
  "testing_world \<Rightarrow> testing_route \<Rightarrow> request \<Rightarrow> string \<Rightarrow> 'a proc_scheme \<Rightarrow> (rw \<times> 'a proc_scheme) outcome" where
  "serve_testing tw rt r raw s =
     (case rt of
        StatusRoute p \<Rightarrow> Returned (testStatus p new_rw, s)
      | BytesRoute p \<Rightarrow> testBytes (tw_limit tw) p new_rw s
      | DelayRoute p \<Rightarrow> Returned (testDelay (tw_frac tw) p new_rw s)
      | GetRoute \<Rightarrow> Returned (testGet new_rw, s)
      | DeleteRoute \<Rightarrow> Returned (testDelete new_rw, s)
      | EchoRoute \<Rightarrow> Returned (testEcho r raw new_rw, s)
      | CookiesRoute \<Rightarrow> Returned (testCookies r new_rw, s)
      | SetCookiesRoute \<Rightarrow> Returned (testSetCookies (tw_order tw) r new_rw, s)
      | HeadersRoute \<Rightarrow> Returned (testHeaders (tw_key tw) (tw_host tw) r new_rw, s)
      | BasicAuthRoute u p \<Rightarrow> Returned (testBasicAuth r u p new_rw, s)
      | JsonRoute \<Rightarrow> Returned (testJson r new_rw, s)
      | XmlRoute \<Rightarrow> Returned (testXml (tw_wide tw) (tw_order tw) r new_rw, s))"

subsection \<open>\<open>AddTestK6IO\<close>\<close>

definition piDecimals :: string where
  "piDecimals = ''1415926535897932384626433832795028841971693993751058209749445923078164''"

definition pi_page :: "request \<Rightarrow> rw \<Rightarrow> rw" where
  "pi_page r w =
     (let decimals = (case Atoi (query_get r ''decimals'') of
          (d, e) \<Rightarrow> if e \<noteq> None \<or> d < 0 then 2
                    else if d > int (length piDecimals) then int (length piDecimals) else d) in
      write_body (TextBody (''3.'' @ take (nat decimals) piDecimals)) w)"

text \<open>
  \<open>render\<close> is the template of the page: what it writes for the bet, the result and whether it was won, and
  whether it fails after that.
\<close>

definition flip_coin :: "(string \<Rightarrow> string \<Rightarrow> bool \<Rightarrow> string \<times> bool) \<Rightarrow> request \<Rightarrow> rw \<Rightarrow> 'a proc_scheme \<Rightarrow> rw \<times> 'a proc_scheme" where
  "flip_coin render r w s =
     (let bet0 = query_get r ''bet'';
          bet = (if bet0 \<noteq> ''heads'' \<and> bet0 \<noteq> ''tails'' then ''heads'' else bet0);
          (n, s') = draw s;
          coin = (if n mod 2 = 0 then ''heads'' else ''tails'');
          (page, failed) = render bet coin (bet = coin);
          w' = (if page = [] then w else write_body (TextBody page) w) in
      (if failed then writeJSONErrorResponse ErrTemplate 500 w' else w', s'))"

text \<open>The pages that are served from memory, by path.\<close>

definition staticMapping :: "(string \<times> string) list" where
  "staticMapping =
     [(''/contacts.php'', ''test.k6.io/contacts.html''),
      (''/news.php'', ''test.k6.io/news.html''),
      (''/browser.php'', ''test.k6.io/browser.html''),
      (''/my_messages.php'', ''test.k6.io/my_messages.html''),
      (''/admin.php'', ''test.k6.io/admin.html'')]"

text \<open>\<open>file\<close> reads an embedded file; the data of one that is missing is empty.\<close>

definition static_page :: "(string \<Rightarrow> string) \<Rightarrow> string \<Rightarrow> rw \<Rightarrow> rw" where
  "static_page file path w =
     (case map_of staticMapping path of
        None \<Rightarrow> write_header 404 w
      | Some f \<Rightarrow> write_body (TextBody (file f)) w)"

datatype k6_route = StaticPageRoute string | FlipCoinRoute | PiRoute | FilesRoute

text \<open>\<open>files\<close> is the file server over the embedded pages.\<close>

definition serve_k6 ::
  "(string \<Rightarrow> string) \<Rightarrow> (request \<Rightarrow> rw \<Rightarrow> rw) \<Rightarrow> (string \<Rightarrow> string \<Rightarrow> bool \<Rightarrow> string \<times> bool) \<Rightarrow> k6_route \<Rightarrow> request
     \<Rightarrow> 'a proc_scheme \<Rightarrow> rw \<times> 'a proc_scheme" where
  "serve_k6 file files render rt r s =
     (case rt of
        StaticPageRoute path \<Rightarrow> (static_page file path new_rw, s)
      | FlipCoinRoute \<Rightarrow> flip_coin render r new_rw s
      | PiRoute \<Rightarrow> (pi_page r new_rw, s)
      | FilesRoute \<Rightarrow> (files r new_rw, s))"

subsection \<open>Probes and configuration\<close>

definition probe :: "rw \<Rightarrow> rw" where
  "probe w = write_header 200 w"

definition getConfig :: "(string \<times> string) list \<Rightarrow> rw \<Rightarrow> rw" where
  "getConfig config w = writeJSONResponse (map_json config) 200 w"

subsection \<open>Numbers as parameters\<close>

lemma Atoi_show_nat:
  "Atoi (show_nat n) = (if n < 2 ^ 63 then (int n, None) else (2 ^ 63 - 1, Some ErrRange))"
proof -
  consider "n < 2 ^ 64" | "2 ^ 64 - 1 < n" by (cases "n < 2 ^ 64") simp_all
  then show ?thesis
  proof cases
    case 1
    then have "parse_uint_loop (2 ^ 64 - 1) 0 (show_nat n) = (n, None)" by (intro parse_uint_loop_show_nat) simp
    then show ?thesis
      by (simp add: Atoi_def parse_int_def parse_uint_def split_sign_show_nat)
  next
    case 2
    then show ?thesis
      by (simp add: Atoi_def parse_int_def parse_uint_def split_sign_show_nat parse_uint_loop_overflow)
  qed
qed

lemma random_bytes_length: "length (fst (random_bytes n g)) = n"
  by (induction n arbitrary: g) (simp_all add: Let_def case_prod_beta)

lemma testDelay_number:
  "testDelay frac (show_nat n) w s =
     (if n \<le> 9223372036 then (write_header 200 w, sleep (int n * 1000000000) s) else (write_header 400 w, s))"
proof (cases "n = 0")
  case True
  have "char_of (48 :: nat) = CHR ''0''" by code_simp
  then have "parse_duration frac (show_nat 0) = Some 0"
    by (subst show_nat.simps) (simp add: parse_duration_def split_sign_def)
  with True show ?thesis by (simp add: testDelay_def)
next
  case False
  then have "parse_duration frac (show_nat n) = None"
    using parse_duration_number [of "[]" n frac] by (simp add: duration_units_def)
  moreover have "parse_duration frac (show_nat n @ ''s'') =
      (if n \<le> 9223372036 then Some (int n * 1000000000) else None)"
    using parse_duration_number [of "''s''" n frac] by (simp add: duration_units_def unit_char_def is_digit_def)
  ultimately show ?thesis by (simp add: testDelay_def)
qed

subsection \<open>Credentials and XML\<close>

definition with_auth :: "string \<Rightarrow> request \<Rightarrow> request" where
  "with_auth auth r = r\<lparr>rq_headers := (''Authorization'', auth) # rq_headers r\<rparr>"

lemma request_basic_auth_encoded:
  assumes "CHR '':'' \<notin> set user" "to_lower scheme = ''basic ''"
  shows "request_basic_auth (with_auth (scheme @ encode64 (user @ CHR '':'' # pass)) r) = (user, pass, True)"
proof -
  have "scheme \<noteq> []" using assms(2) by (auto simp: to_lower_def)
  then show ?thesis
    using parseBasicAuth_encoded [OF assms] by (simp add: request_basic_auth_def with_auth_def Let_def)
qed

text \<open>Escaped text holds no markup: text from a query cannot open or close an element.\<close>

lemma escape_char_plain: "CHR ''<'' \<notin> set (escape_char c) \<and> CHR ''>'' \<notin> set (escape_char c)"
proof -
  have "char_of (239 :: nat) \<notin> {CHR ''<'', CHR ''>''}" "char_of (191 :: nat) \<notin> {CHR ''<'', CHR ''>''}"
    "char_of (189 :: nat) \<notin> {CHR ''<'', CHR ''>''}" by (simp_all add: char_of_def)
  then show ?thesis by (auto simp: escape_char_def Let_def)
qed

lemma escape_text_plain:
  assumes "\<And>s. CHR ''<'' \<notin> set (wide s) \<and> CHR ''>'' \<notin> set (wide s)"
  shows "CHR ''<'' \<notin> set (escape_text wide run s) \<and> CHR ''>'' \<notin> set (escape_text wide run s)"
  using assms escape_char_plain by (induction s arbitrary: run) auto

subsection \<open>Property\<close>


text \<open>C40: the credentials that a client sends come back: with the header of basic authentication (the scheme
  in any case) for a user without a colon and any password, the route for basic authentication
  says that the request is authenticated iff user and password are those of its path, and without
  the header it never does so for a path that names a user or a password.\<close>

theorem basic_auth_round_trip:
  assumes "CHR '':'' \<notin> set user" and "to_lower scheme = ''basic ''"
  shows "testBasicAuth (with_auth (scheme @ encode64 (user @ CHR '':'' # pass)) r) username password w =
      writeJSONResponse (JObj [(''authenticated'', JBool (user = username \<and> pass = password)),
        (''password'', JStr password), (''user'', JStr username)]) 200 w \<and>
    (header_get (rq_headers r) ''Authorization'' = [] \<and> (username \<noteq> [] \<or> password \<noteq> []) \<longrightarrow>
      testBasicAuth r username password w =
        writeJSONResponse (JObj [(''authenticated'', JBool False), (''password'', JStr password), (''user'', JStr username)]) 200 w)"
proof -
  have "header_get (rq_headers r) ''Authorization'' = [] \<Longrightarrow> request_basic_auth r = ([], [], False)"
    by (simp add: request_basic_auth_def)
  then show ?thesis
    by (auto simp: testBasicAuth_def request_basic_auth_encoded [OF assms])
qed

theorem basic_auth_round_trip_witness:
  "testBasicAuth (with_auth (''Basic '' @ encode64 (''ann'' @ CHR '':'' # ''a:b'')) \<lparr>rq_method = ''GET'',
     rq_path = ''/api/basic-auth/ann/a:b'', rq_headers = [], rq_cookies = [], rq_query = [], rq_json = Inl ''EOF''\<rparr>)
     ''ann'' ''a:b'' new_rw =
   writeJSONResponse (JObj [(''authenticated'', JBool True), (''password'', JStr ''a:b''), (''user'', JStr ''ann'')]) 200 new_rw"
proof -
  have "CHR '':'' \<notin> set ''ann''" by simp
  moreover have "to_lower ''Basic '' = ''basic ''" by code_simp
  ultimately show ?thesis using basic_auth_round_trip [of "''ann''" "''Basic ''" "''a:b''"] by simp
qed

text \<open>The digits of pi: the page shows as many decimals as asked for, at most 70.\<close>

lemma pi_page_number:
  assumes "query_get r ''decimals'' = show_nat n" "n < 2 ^ 63"
  shows "rw_body (pi_page r new_rw) = [TextBody (''3.'' @ take n piDecimals)]"
  using assms by (auto simp: pi_page_def Atoi_show_nat write_body_def Let_def new_rw_def write_header_def)

end
