(* ===== verification/Machine.thy ===== *)
theory Machine
  imports Prelude
begin

section \<open>Step relations\<close>

text \<open>
  The states that a step relation reaches from an initial state, and the two rules that the
  concurrent parts of the program use: an invariant holds in every reachable state, and a
  measure of the state that no step lowers is bounded by its later values.
\<close>

inductive reachable :: "('s \<Rightarrow> 's \<Rightarrow> bool) \<Rightarrow> 's \<Rightarrow> 's \<Rightarrow> bool" for step init where
  start: "reachable step init init"
| next_step: "reachable step init s \<Longrightarrow> step s t \<Longrightarrow> reachable step init t"

locale inductive_invariant =
  fixes step :: "'s \<Rightarrow> 's \<Rightarrow> bool" and inv :: "'s \<Rightarrow> bool"
  assumes step_inv: "inv s \<Longrightarrow> step s t \<Longrightarrow> inv t"
begin

lemma reachable_inv: "reachable step init t \<Longrightarrow> inv init \<Longrightarrow> inv t"
  by (induction rule: reachable.induct) (auto intro: step_inv)

end

end
