(* ===== verification/WebSocket.thy ===== *)
theory WebSocket
  imports Machine Http
begin

section \<open>WebSocket sessions (\<open>AddWebSocket\<close>)\<close>

text \<open>
  The three callbacks that \<open>AddWebSocket\<close> of \<^verbatim>\<open>pkg/http/http.go\<close> gives to the library \<^verbatim>\<open>melody\<close>, and the metrics
  they keep. Every session runs in a goroutine of its own, so that the callbacks of different
  sessions interleave; a step of the relation is one access to a metric or to the library. As the library
  documents it, a session is registered, then its connect callback runs, then its messages
  are handled one at a time, then it is taken off, and then its disconnect callback runs.
\<close>

datatype phase =
    Joined                           \<comment> \<open>registered, before the connect callback\<close>
  | Marked                           \<comment> \<open>in the connect callback, after \<open>session.Set\<close>\<close>
  | Waiting                          \<comment> \<open>for the next message\<close>
  | Received go_int string           \<comment> \<open>in the message callback, after the count; with its start\<close>
  | Sent go_int                      \<comment> \<open>in the message callback, after the broadcast\<close>
  | Left                             \<comment> \<open>taken off, before the disconnect callback\<close>
  | Uncounted                        \<comment> \<open>in the disconnect callback, after the gauge\<close>

record ws =
  ws_phase :: "nat \<Rightarrow> phase option"
  ws_connected_at :: "nat \<Rightarrow> go_int option"   \<comment> \<open>the value a session has for this key\<close>
  ws_active :: int                              \<comment> \<open>\<open>wsConnectionsActive\<close>\<close>
  ws_durations :: "go_int list"                 \<comment> \<open>\<open>wsConnectionDuration\<close>\<close>
  ws_received :: nat                            \<comment> \<open>\<open>wsMessagesReceived\<close>\<close>
  ws_processing :: "go_int list"                \<comment> \<open>\<open>wsMessageProcessingDuration\<close>\<close>
  ws_log :: "string list"                       \<comment> \<open>the broadcasts so far\<close>
  ws_inbox :: "nat \<Rightarrow> string list"             \<comment> \<open>what the library was given for a session\<close>
  ws_now :: go_int

definition ws_init :: ws where
  "ws_init = \<lparr>ws_phase = (\<lambda>_. None), ws_connected_at = (\<lambda>_. None), ws_active = 0, ws_durations = [],
     ws_received = 0, ws_processing = [], ws_log = [], ws_inbox = (\<lambda>_. []), ws_now = 0\<rparr>"

definition goto :: "nat \<Rightarrow> phase \<Rightarrow> ws \<Rightarrow> ws" where
  "goto i p s = s\<lparr>ws_phase := (ws_phase s)(i \<mapsto> p)\<rparr>"

definition registered :: "phase option \<Rightarrow> bool" where
  "registered p \<longleftrightarrow> p \<noteq> None \<and> p \<noteq> Some Left \<and> p \<noteq> Some Uncounted"

text \<open>The connect callback.\<close>

definition connect_set :: "nat \<Rightarrow> ws \<Rightarrow> ws" where
  "connect_set i s = goto i Marked (s\<lparr>ws_connected_at := (ws_connected_at s)(i \<mapsto> ws_now s)\<rparr>)"

definition connect_inc :: "nat \<Rightarrow> ws \<Rightarrow> ws" where
  "connect_inc i s = goto i Waiting (s\<lparr>ws_active := ws_active s + 1\<rparr>)"

text \<open>The message callback.\<close>

definition message_inc :: "nat \<Rightarrow> string \<Rightarrow> ws \<Rightarrow> ws" where
  "message_inc i msg s = goto i (Received (ws_now s) msg) (s\<lparr>ws_received := ws_received s + 1\<rparr>)"

definition message_broadcast :: "nat \<Rightarrow> go_int \<Rightarrow> string \<Rightarrow> ws \<Rightarrow> ws" where
  "message_broadcast i t msg s = goto i (Sent t)
     (s\<lparr>ws_log := ws_log s @ [msg],
        ws_inbox := (\<lambda>j. if registered (ws_phase s j) then ws_inbox s j @ [msg] else ws_inbox s j)\<rparr>)"

definition message_observe :: "nat \<Rightarrow> go_int \<Rightarrow> ws \<Rightarrow> ws" where
  "message_observe i t s = goto i Waiting (s\<lparr>ws_processing := ws_processing s @ [ws_now s - t]\<rparr>)"

text \<open>The disconnect callback.\<close>

definition disconnect_dec :: "nat \<Rightarrow> ws \<Rightarrow> ws" where
  "disconnect_dec i s = goto i Uncounted (s\<lparr>ws_active := ws_active s - 1\<rparr>)"

definition disconnect_observe :: "nat \<Rightarrow> ws \<Rightarrow> ws" where
  "disconnect_observe i s =
     s\<lparr>ws_durations := (case ws_connected_at s i of
           Some t \<Rightarrow> ws_durations s @ [ws_now s - t]
         | None \<Rightarrow> ws_durations s),
       ws_phase := (ws_phase s)(i := None), ws_connected_at := (ws_connected_at s)(i := None)\<rparr>"

inductive ws_step :: "ws \<Rightarrow> ws \<Rightarrow> bool" where
  tick: "now \<ge> ws_now s \<Longrightarrow> ws_step s (s\<lparr>ws_now := now\<rparr>)"
| join: "ws_phase s i = None \<Longrightarrow> ws_step s (goto i Joined (s\<lparr>ws_inbox := (ws_inbox s)(i := [])\<rparr>))"
| mark: "ws_phase s i = Some Joined \<Longrightarrow> ws_step s (connect_set i s)"
| connect: "ws_phase s i = Some Marked \<Longrightarrow> ws_step s (connect_inc i s)"
| receive: "ws_phase s i = Some Waiting \<Longrightarrow> ws_step s (message_inc i msg s)"
| broadcast: "ws_phase s i = Some (Received t msg) \<Longrightarrow> ws_step s (message_broadcast i t msg s)"
| observe: "ws_phase s i = Some (Sent t) \<Longrightarrow> ws_step s (message_observe i t s)"
| leave: "ws_phase s i = Some Waiting \<Longrightarrow> ws_step s (goto i Left s)"
| disconnect: "ws_phase s i = Some Left \<Longrightarrow> ws_step s (disconnect_dec i s)"
| finish: "ws_phase s i = Some Uncounted \<Longrightarrow> ws_step s (disconnect_observe i s)"

text \<open>
  The handler of \<^verbatim>\<open>GET /ws\<close>: what it writes is nothing after an upgrade, and the error with status
  500 else. \<open>failure\<close> is the error of \<^verbatim>\<open>melody.HandleRequest\<close>.
\<close>

definition getWebSocket :: "string option \<Rightarrow> rw \<Rightarrow> rw" where
  "getWebSocket failure w =
     (case failure of
        None \<Rightarrow> w
      | Some e \<Rightarrow> write_body (TextBody e) (write_header 500 w))"

subsection \<open>The invariant\<close>

fun counted :: "phase option \<Rightarrow> bool" where
  "counted (Some Waiting) = True"
| "counted (Some (Received _ _)) = True"
| "counted (Some (Sent _)) = True"
| "counted (Some Left) = True"
| "counted _ = False"

fun in_callback :: "phase option \<Rightarrow> bool" where
  "in_callback (Some (Received _ _)) = True"
| "in_callback (Some (Sent _)) = True"
| "in_callback _ = False"

definition sessions :: "(phase option \<Rightarrow> bool) \<Rightarrow> ws \<Rightarrow> nat set" where
  "sessions P s = {i. P (ws_phase s i)}"

definition started :: "ws \<Rightarrow> nat \<Rightarrow> bool" where
  "started s i \<longleftrightarrow> (case ws_phase s i of
      None \<Rightarrow> ws_connected_at s i = None
    | Some Joined \<Rightarrow> ws_connected_at s i = None
    | Some (Received t _) \<Rightarrow> t \<le> ws_now s \<and> (\<exists>c. ws_connected_at s i = Some c \<and> c \<le> ws_now s)
    | Some (Sent t) \<Rightarrow> t \<le> ws_now s \<and> (\<exists>c. ws_connected_at s i = Some c \<and> c \<le> ws_now s)
    | Some _ \<Rightarrow> \<exists>c. ws_connected_at s i = Some c \<and> c \<le> ws_now s)"

definition ws_inv :: "ws \<Rightarrow> bool" where
  "ws_inv s \<longleftrightarrow>
     finite {i. ws_phase s i \<noteq> None} \<and>
     ws_active s = int (card (sessions counted s)) \<and>
     ws_received s = length (ws_processing s) + card (sessions in_callback s) \<and>
     (\<forall>i. started s i) \<and>
     (\<forall>d \<in> set (ws_durations s) \<union> set (ws_processing s). 0 \<le> d) \<and>
     (\<forall>i. registered (ws_phase s i) \<longrightarrow> (\<exists>k \<le> length (ws_log s). ws_inbox s i = drop k (ws_log s)))"

text \<open>How one change of phase changes the number of sessions with a property.\<close>

lemma sessions_goto:
  assumes "finite {i. ws_phase s i \<noteq> None}" and "\<not> P None" and "ws_phase t = (ws_phase s)(i := p)"
  shows "int (card (sessions P t)) =
    int (card (sessions P s)) + (if P p then 1 else 0) - (if P (ws_phase s i) then 1 else 0)"
proof -
  have fin: "finite (sessions P s)"
  proof (rule rev_finite_subset [OF assms(1)], rule subsetI, rule CollectI, rule notI)
    fix x assume "x \<in> sessions P s" "ws_phase s x = None"
    with assms(2) show False by (simp add: sessions_def)
  qed
  have "sessions P t = (if P p then insert i (sessions P s) else sessions P s - {i})"
    using assms(3) by (auto simp: sessions_def)
  moreover have "i \<in> sessions P s \<longleftrightarrow> P (ws_phase s i)" by (simp add: sessions_def)
  moreover have "i \<in> sessions P s \<Longrightarrow> card (sessions P s) > 0" using fin by (auto simp: card_gt_0_iff)
  ultimately show ?thesis using fin by (auto simp: card_insert_if card_Diff_singleton_if)
qed

lemma sessions_same: "ws_phase t = ws_phase s \<Longrightarrow> sessions P t = sessions P s"
  by (simp add: sessions_def)

lemmas ws_ops = goto_def connect_set_def connect_inc_def message_inc_def message_broadcast_def message_observe_def
  disconnect_dec_def disconnect_observe_def

lemma finite_phase:
  "finite {i. ws_phase s i \<noteq> None} \<Longrightarrow> ws_phase t = (ws_phase s)(j := p) \<Longrightarrow> finite {i. ws_phase t i \<noteq> None}"
  by (rule finite_subset [of _ "insert j {i. ws_phase s i \<noteq> None}"]) auto

lemma started_cong:
  "ws_phase t j = ws_phase s j \<Longrightarrow> ws_connected_at t j = ws_connected_at s j \<Longrightarrow> ws_now t = ws_now s \<Longrightarrow>
   started t j = started s j"
  by (simp add: started_def cong: option.case_cong phase.case_cong)

lemma ws_inv_move:
  assumes inv: "ws_inv s"
    and phase: "ws_phase t = (ws_phase s)(i := p)"
    and active: "ws_active t = ws_active s + (if counted p then 1 else 0) - (if counted (ws_phase s i) then 1 else 0)"
    and received: "int (ws_received t) - int (length (ws_processing t)) =
      int (ws_received s) - int (length (ws_processing s)) + (if in_callback p then 1 else 0) - (if in_callback (ws_phase s i) then 1 else 0)"
    and now: "ws_now t = ws_now s" "\<forall>j. j \<noteq> i \<longrightarrow> ws_connected_at t j = ws_connected_at s j"
    and this_one: "started t i"
    and nonneg: "\<forall>d \<in> set (ws_durations t) \<union> set (ws_processing t). d \<in> set (ws_durations s) \<union> set (ws_processing s) \<or> 0 \<le> d"
    and inbox: "\<forall>j. registered (ws_phase t j) \<longrightarrow> (\<exists>k \<le> length (ws_log t). ws_inbox t j = drop k (ws_log t))"
  shows "ws_inv t"
proof -
  from inv have fin: "finite {i. ws_phase s i \<noteq> None}" by (simp add: ws_inv_def)
  have "started t j" for j
    using inv this_one phase now started_cong [of t j s] by (cases "j = i") (auto simp: ws_inv_def)
  moreover have "int (card (sessions counted t)) = ws_active t"
    using sessions_goto [where P = counted, OF fin _ phase] inv active by (simp add: ws_inv_def)
  moreover have "int (ws_received t) = int (length (ws_processing t)) + int (card (sessions in_callback t))"
    using sessions_goto [where P = in_callback, OF fin _ phase] inv received by (simp add: ws_inv_def)
  ultimately show ?thesis
    using finite_phase [OF fin phase] nonneg inbox inv unfolding ws_inv_def by (metis of_nat_add of_nat_eq_iff)
qed

lemma ws_inv_facts:
  assumes "ws_inv s"
  shows "\<And>i. started s i"
    and "\<And>i. registered (ws_phase s i) \<Longrightarrow> \<exists>k \<le> length (ws_log s). ws_inbox s i = drop k (ws_log s)"
  using assms by (simp_all add: ws_inv_def)

lemma ws_step_inv:
  assumes inv: "ws_inv s" and "ws_step s t"
  shows "ws_inv t"
  using assms(2)
proof cases
  case (tick now)
  have "started t i" for i
    using ws_inv_facts(1) [OF inv, of i] tick by (fastforce simp: started_def split: option.splits phase.splits)
  then show ?thesis using inv tick by (simp add: ws_inv_def sessions_def)
next
  case (join i)
  then show ?thesis
    using ws_inv_facts [OF inv] ws_inv_facts(1) [OF inv, of i]
    by (intro ws_inv_move [OF inv, of t i "Some Joined"]) (auto simp: ws_ops started_def registered_def)
next
  case (mark i)
  then show ?thesis
    using ws_inv_facts [OF inv] ws_inv_facts(1) [OF inv, of i]
    by (intro ws_inv_move [OF inv, of t i "Some Marked"]) (auto simp: ws_ops started_def registered_def)
next
  case (connect i)
  then show ?thesis
    using ws_inv_facts [OF inv] ws_inv_facts(1) [OF inv, of i]
    by (intro ws_inv_move [OF inv, of t i "Some Waiting"]) (auto simp: ws_ops started_def registered_def)
next
  case (receive i msg)
  then show ?thesis
    using ws_inv_facts [OF inv] ws_inv_facts(1) [OF inv, of i]
    by (intro ws_inv_move [OF inv, of t i "Some (Received (ws_now s) msg)"]) (auto simp: ws_ops started_def registered_def)
next
  case (broadcast i m msg)
  have "\<exists>k \<le> length (ws_log t). ws_inbox t j = drop k (ws_log t)" if "registered (ws_phase t j)" for j
  proof -
    have "registered (ws_phase s j)" using that broadcast by (auto simp: ws_ops registered_def split: if_splits)
    with ws_inv_facts(2) [OF inv, of j] obtain k where "k \<le> length (ws_log s)" "ws_inbox s j = drop k (ws_log s)" by blast
    then show ?thesis using \<open>registered (ws_phase s j)\<close> broadcast by (intro exI [of _ k]) (simp add: ws_ops)
  qed
  then show ?thesis
    using broadcast ws_inv_facts(1) [OF inv, of i]
    by (intro ws_inv_move [OF inv, of t i "Some (Sent m)"]) (auto simp: ws_ops started_def)
next
  case (observe i m)
  then show ?thesis
    using ws_inv_facts [OF inv] ws_inv_facts(1) [OF inv, of i]
    by (intro ws_inv_move [OF inv, of t i "Some Waiting"]) (auto simp: ws_ops started_def registered_def)
next
  case (leave i)
  then show ?thesis
    using ws_inv_facts [OF inv] ws_inv_facts(1) [OF inv, of i]
    by (intro ws_inv_move [OF inv, of t i "Some Left"]) (auto simp: ws_ops started_def registered_def)
next
  case (disconnect i)
  then show ?thesis
    using ws_inv_facts [OF inv] ws_inv_facts(1) [OF inv, of i]
    by (intro ws_inv_move [OF inv, of t i "Some Uncounted"]) (auto simp: ws_ops started_def registered_def)
next
  case (finish i)
  then show ?thesis
    using ws_inv_facts [OF inv] ws_inv_facts(1) [OF inv, of i]
    by (intro ws_inv_move [OF inv, of t i None]) (auto simp: ws_ops started_def registered_def)
qed

interpretation websocket: inductive_invariant ws_step ws_inv
  by unfold_locales (rule ws_step_inv)

lemma ws_inv_init: "ws_inv ws_init"
  by (simp add: ws_inv_def ws_init_def sessions_def started_def registered_def)

subsection \<open>Property\<close>

text \<open>C31: the metrics of the WebSocket service in every reachable state, for any interleaving of any
  number of sessions: the gauge is the number of sessions that are past their connect callback and not
  through with the disconnect callback; every message counted is one whose processing was
  observed or that is in its callback; no observed duration is negative; and the library was
  given for a session exactly the broadcasts since it joined, in their order. With no session left the
  gauge is zero.\<close>

theorem websocket_metrics:
  assumes "reachable ws_step ws_init s"
  shows "ws_active s = int (card {i. counted (ws_phase s i)}) \<and>
    ws_received s = length (ws_processing s) + card {i. in_callback (ws_phase s i)} \<and>
    (\<forall>d \<in> set (ws_durations s) \<union> set (ws_processing s). 0 \<le> d) \<and>
    (\<forall>i. registered (ws_phase s i) \<longrightarrow> (\<exists>k \<le> length (ws_log s). ws_inbox s i = drop k (ws_log s))) \<and>
    ((\<forall>i. ws_phase s i = None) \<longrightarrow> ws_active s = 0)"
  using websocket.reachable_inv [OF assms ws_inv_init] by (simp add: ws_inv_def sessions_def)

definition demo_ws :: ws where
  "demo_ws = message_inc 7 ''hi'' (connect_inc 7 (connect_set 7 (goto 7 Joined (ws_init\<lparr>ws_inbox := (ws_inbox ws_init)(7 := [])\<rparr>))))"

theorem websocket_metrics_witness:
  "ws_active demo_ws = int (card {i. counted (ws_phase demo_ws i)}) \<and> ws_received demo_ws = 1"
proof -
  have "reachable ws_step ws_init demo_ws"
    unfolding demo_ws_def
    by (rule next_step [where step = ws_step, OF _ receive], rule next_step [where step = ws_step, OF _ connect], rule next_step [where step = ws_step, OF _ mark],
        rule next_step [where step = ws_step, OF _ join], rule start) (simp_all add: ws_ops ws_init_def)
  then show ?thesis using websocket_metrics by (simp add: demo_ws_def ws_ops ws_init_def)
qed

end
