(* ===== verification/Concurrency.thy ===== *)
theory Concurrency
  imports Machine Api
begin

section \<open>Requests that run at the same time\<close>

text \<open>
  The writing operations of the catalog look something up first and write in a statement or a
  transaction of their own. Handlers run concurrently, so that anything can happen between the
  two. Here each operation is cut there, and a step relation interleaves the halves of any
  number of them with other calls. A transaction runs alone, as with SQLite or serializable
  isolation.
\<close>

datatype job =
    Register user | RegisterInsert user | Registered "user result"
  | Rate rating | RateInsert rating | Rated "rating result"
  | Change user rating | ChangeWrite rating | Changed "rating result"
  | Remove user go_int | RemoveWrite go_int | Removed "unit result"

text \<open>\<open>RecordUser\<close> up to its transaction, and so on for the others.\<close>

definition register_check :: "platform \<Rightarrow> user \<Rightarrow> db \<Rightarrow> job \<times> db" where
  "register_check pf user db =
     (case HashPassword pf (db_clock db) (user_password user) of
        Inl e \<Rightarrow> (Registered (Inl e), db)
      | Inr passwordHash \<Rightarrow>
          (let (user', d) = prepare_user passwordHash user db in
           case username_taken pf (user_username user') d of
             (Inr _, d') \<Rightarrow> (Registered (Inl ErrUsernameTaken), d')
           | (Inl e, d') \<Rightarrow> (if e = ErrNoRows then RegisterInsert user' else Registered (Inl e), d')))"

definition rate_check :: "platform \<Rightarrow> rating \<Rightarrow> db \<Rightarrow> job \<times> db" where
  "rate_check pf rating db =
     (case GetRecommendation pf (rating_pizza_id rating) db of
        (Inl e, d) \<Rightarrow> (Rated (Inl e), d)
      | (Inr None, d) \<Rightarrow> (Rated (Inl (ErrPizzaNotFound (rating_pizza_id rating))), d)
      | (Inr (Some _), d) \<Rightarrow> (RateInsert (rating\<lparr>rating_id := 0\<rparr>), d))"

definition change_check :: "platform \<Rightarrow> user \<Rightarrow> rating \<Rightarrow> db \<Rightarrow> job \<times> db" where
  "change_check pf user rating db =
     (if IsGlobal user then (Changed (Inl ErrGlobalOperationNotPermitted), db)
      else case GetRating pf user (rating_id rating) db of
        (Inl e, d) \<Rightarrow> (Changed (Inl e), d)
      | (Inr None, d) \<Rightarrow> (Changed (Inl (ErrRatingNotFound (rating_id rating))), d)
      | (Inr (Some existing), d) \<Rightarrow>
          (if rating_user_id existing \<noteq> user_id user
           then Changed (Inl (ErrRatingNotFound (rating_id rating)))
           else ChangeWrite (existing\<lparr>rating_stars := rating_stars rating\<rparr>), d))"

definition change_write :: "platform \<Rightarrow> rating \<Rightarrow> db \<Rightarrow> rating result \<times> db" where
  "change_write pf existing db =
     run_in_tx pf (stmt pf (\<lambda>k d. (Inr existing, update_stars (rating_id existing) (rating_stars existing) d))) db"

definition remove_check :: "platform \<Rightarrow> user \<Rightarrow> go_int \<Rightarrow> db \<Rightarrow> job \<times> db" where
  "remove_check pf user ratingID db =
     (if user_username user = GlobalUsername then (Removed (Inl ErrGlobalOperationNotPermitted), db)
      else case GetRating pf user ratingID db of
        (Inl e, d) \<Rightarrow> (Removed (Inl e), d)
      | (Inr None, d) \<Rightarrow> (Removed (Inl (ErrRatingNotFound ratingID)), d)
      | (Inr (Some rating), d) \<Rightarrow> (RemoveWrite (rating_id rating), d))"

definition remove_write :: "platform \<Rightarrow> go_int \<Rightarrow> db \<Rightarrow> unit result \<times> db" where
  "remove_write pf i db = stmt pf (\<lambda>k d. (Inr (), delete_ratings (\<lambda>r. rating_id r = i) d)) db"

fun job_step :: "platform \<Rightarrow> config \<Rightarrow> job \<Rightarrow> db \<Rightarrow> (job \<times> db) option" where
  "job_step pf cfg (Register u) db = Some (register_check pf u db)"
| "job_step pf cfg (RegisterInsert u) db = Some (apfst Registered (run_in_tx pf (record_user_tx pf cfg u) db))"
| "job_step pf cfg (Rate r) db = Some (rate_check pf r db)"
| "job_step pf cfg (RateInsert r) db = Some (apfst Rated (run_in_tx pf (record_rating_tx pf cfg r) db))"
| "job_step pf cfg (Change u r) db = Some (change_check pf u r db)"
| "job_step pf cfg (ChangeWrite r) db = Some (apfst Changed (change_write pf r db))"
| "job_step pf cfg (Remove u i) db = Some (remove_check pf u i db)"
| "job_step pf cfg (RemoveWrite i) db = Some (apfst Removed (remove_write pf i db))"
| "job_step pf cfg _ db = None"

fun fresh_job :: "job \<Rightarrow> bool" where
  "fresh_job (Register _) = True"
| "fresh_job (Rate _) = True"
| "fresh_job (Change _ _) = True"
| "fresh_job (Remove _ _) = True"
| "fresh_job _ = False"

text \<open>The halves run one after the other are the operations of the catalog.\<close>

definition alone :: "platform \<Rightarrow> config \<Rightarrow> job \<Rightarrow> db \<Rightarrow> job \<times> db" where
  "alone pf cfg j db =
     (case job_step pf cfg j db of
        None \<Rightarrow> (j, db)
      | Some (j', d) \<Rightarrow> (case job_step pf cfg j' d of None \<Rightarrow> (j', d) | Some r \<Rightarrow> r))"

lemma alone_is_the_operation:
  "alone pf cfg (Register u) db = apfst Registered (RecordUser pf cfg u db)"
  "alone pf cfg (Rate r) db = apfst Rated (RecordRating pf cfg r db)"
  "alone pf cfg (Change u r) db = apfst Changed (UpdateRating pf u r db)"
  "alone pf cfg (Remove u i) db = apfst Removed (DeleteRating pf u i db)"
  by (auto simp: alone_def register_check_def RecordUser_def rate_check_def RecordRating_def change_check_def
      UpdateRating_def change_write_def remove_check_def DeleteRating_def remove_write_def Let_def
      split: prod.splits sum.splits option.splits)

subsection \<open>The interleaving\<close>

type_synonym sys = "(nat \<Rightarrow> job option) \<times> db"

inductive conc_step :: "platform \<Rightarrow> config \<Rightarrow> sys \<Rightarrow> sys \<Rightarrow> bool" for pf cfg where
  arrive: "jobs i = None \<Longrightarrow> fresh_job j \<Longrightarrow> conc_step pf cfg (jobs, db) (jobs(i \<mapsto> j), db)"
| work: "jobs i = Some j \<Longrightarrow> job_step pf cfg j db = Some (j', db') \<Longrightarrow> conc_step pf cfg (jobs, db) (jobs(i \<mapsto> j'), db')"
| call: "conc_step pf cfg (jobs, db) (jobs, call_step pf cfg c db)"

inductive_cases conc_step_from: "conc_step pf cfg (jobs, db) s"

subsection \<open>The invariant\<close>

text \<open>A rating or user that waits to be inserted has no identifier yet.\<close>

fun unnumbered :: "job \<Rightarrow> bool" where
  "unnumbered (RegisterInsert u) = (user_id u = 0)"
| "unnumbered (RateInsert r) = (rating_id r = 0)"
| "unnumbered _ = True"

fun issued :: "job \<Rightarrow> go_int option" where
  "issued (Registered (Inr u)) = Some (user_id u)"
| "issued _ = None"

fun issued_rating :: "job \<Rightarrow> go_int option" where
  "issued_rating (Rated (Inr r)) = Some (rating_id r)"
| "issued_rating _ = None"

definition apart :: "job \<Rightarrow> job \<Rightarrow> bool" where
  "apart a b \<longleftrightarrow> (issued a = None \<or> issued a \<noteq> issued b) \<and> (issued_rating a = None \<or> issued_rating a \<noteq> issued_rating b)"

lemma apart_sym: "apart a b \<Longrightarrow> apart b a"
  by (auto simp: apart_def)

definition conc_inv :: "db \<Rightarrow> sys \<Rightarrow> bool" where
  "conc_inv db0 s \<longleftrightarrow> (case s of (jobs, db) \<Rightarrow>
     evolves db0 db \<and>
     (\<forall>i j. jobs i = Some j \<longrightarrow> unnumbered j \<and>
        (\<forall>n. issued j = Some n \<longrightarrow> n \<le> seq (db_users db)) \<and>
        (\<forall>n. issued_rating j = Some n \<longrightarrow> n \<le> seq (db_ratings db))) \<and>
     (\<forall>i i' j j'. jobs i = Some j \<longrightarrow> jobs i' = Some j' \<longrightarrow> i \<noteq> i' \<longrightarrow> apart j j'))"

lemma evolves_job:
  assumes "job_step pf cfg j db = Some (j', db')" "pf_foreign_keys pf" "unnumbered j"
  shows "evolves db db' \<and> unnumbered j'"
proof (cases j)
  case (Register u)
  then have s: "register_check pf u db = (j', db')" using assms(1) by simp
  show ?thesis
  proof (cases "HashPassword pf (db_clock db) (user_password u)")
    case (Inr h)
    obtain u' d where p: "prepare_user h u db = (u', d)" by fastforce
    obtain r d' where q: "username_taken pf (user_username u') d = (r, d')" by fastforce
    from p have u0: "user_id u' = 0" and "evolves db d" by (auto dest!: prepare_user_spec)
    moreover have "evolves d d'" using q evolves_query [of d pf] by (metis username_taken_def snd_conv)
    ultimately show ?thesis
      using s Inr p q by (auto simp: register_check_def intro: evolves_trans split: sum.splits if_splits)
  qed (use s in \<open>auto simp: register_check_def\<close>)
next
  case (RegisterInsert u)
  then have "db' = snd (run_in_tx pf (record_user_tx pf cfg u) db)" "\<exists>x. j' = Registered x"
    using assms(1) by (auto simp: apfst_def map_prod_def split: prod.splits)
  then show ?thesis using RegisterInsert assms(2,3) by (auto intro!: evolve_intros)
next
  case (Rate r)
  then have "db' = snd (GetRecommendation pf (rating_pizza_id r) db)" "unnumbered j'"
    using assms(1) by (auto simp: rate_check_def split: prod.splits sum.splits option.splits)
  then show ?thesis by (auto intro!: evolve_intros)
next
  case (RateInsert r)
  then have "db' = snd (run_in_tx pf (record_rating_tx pf cfg r) db)" "\<exists>x. j' = Rated x"
    using assms(1) by (auto simp: apfst_def map_prod_def split: prod.splits)
  then show ?thesis using RateInsert assms(2,3) by (auto intro!: evolve_intros)
next
  case (Change u r)
  then have "db' = db \<or> db' = snd (GetRating pf u (rating_id r) db)" "unnumbered j'"
    using assms(1) by (auto simp: change_check_def split: prod.splits sum.splits option.splits if_splits)
  then show ?thesis by (auto intro!: evolve_intros)
next
  case (ChangeWrite r)
  then have "db' = snd (change_write pf r db)" "\<exists>x. j' = Changed x"
    using assms(1) by (auto simp: apfst_def map_prod_def split: prod.splits)
  then show ?thesis by (auto simp: change_write_def intro!: evolve_intros)
next
  case (Remove u i)
  then have "db' = db \<or> db' = snd (GetRating pf u i db)" "unnumbered j'"
    using assms(1) by (auto simp: remove_check_def split: prod.splits sum.splits option.splits if_splits)
  then show ?thesis by (auto intro!: evolve_intros)
next
  case (RemoveWrite i)
  then have "db' = snd (remove_write pf i db)" "\<exists>x. j' = Removed x"
    using assms(1) by (auto simp: apfst_def map_prod_def split: prod.splits)
  then show ?thesis by (auto simp: remove_write_def intro!: evolve_intros)
qed (use assms(1) in auto)

text \<open>An identifier that is issued is larger than every one issued before.\<close>

lemma insert_row_auto_key:
  assumes "insert_row dia key set_key ok r t = (Some r', t')" "key r = 0" "\<And>n x. key (set_key n x) = n"
  shows "key r' = seq t + 1 \<and> seq t' = seq t + 1"
  using assms by (auto simp: insert_row_def Let_def split: if_splits)

lemma evolves_seq: "evolves a b \<Longrightarrow> seq (db_users a) \<le> seq (db_users b) \<and> seq (db_ratings a) \<le> seq (db_ratings b)"
  by (simp add: evolves_def)

lemma seq_tick [simp]: "seq (db_users (tick db)) = seq (db_users db)" "seq (db_ratings (tick db)) = seq (db_ratings db)"
  by simp_all

lemma registered_id:
  assumes "run_in_tx pf (record_user_tx pf cfg u) db = (Inr u', db')" "user_id u = 0" "pf_foreign_keys pf"
  shows "user_id u' = seq (db_users db) + 1 \<and> user_id u' \<le> seq (db_users db')"
proof -
  obtain d where d: "record_user_tx pf cfg u (tick db) = (Inr u', d)" "db' = tick d"
    using run_in_tx_success [OF assms(1)] by blast
  from d(1) obtain d1 where s: "stmt pf (insert_user pf u) (tick db) = (Inr u', d1)"
    and e: "d = snd (enforceTableSizeLimits pf UserTable (fixedUsers cfg) (maxUsers cfg) d1)"
    by (auto simp: record_user_tx_def split: prod.splits sum.splits)
  from s have "user_id u' = seq (db_users db) + 1 \<and> seq (db_users d1) = seq (db_users db) + 1"
    using assms(2)
    by (auto simp: stmt_def Let_def insert_user_def tick_def split: option.splits prod.splits dest!: insert_row_auto_key)
  moreover have "seq (db_users d1) \<le> seq (db_users d)"
    unfolding e by (intro conjunct1 [OF evolves_seq] evolve_intros assms(3))
  ultimately show ?thesis using d(2) by simp
qed

lemma rated_id:
  assumes "run_in_tx pf (record_rating_tx pf cfg r) db = (Inr r', db')" "rating_id r = 0" "pf_foreign_keys pf"
  shows "rating_id r' = seq (db_ratings db) + 1 \<and> rating_id r' \<le> seq (db_ratings db')"
proof -
  obtain d where d: "record_rating_tx pf cfg r (tick db) = (Inr r', d)" "db' = tick d"
    using run_in_tx_success [OF assms(1)] by blast
  from d(1) obtain d1 where s: "stmt pf (insert_rating pf r) (tick db) = (Inr r', d1)"
    and e: "d = snd (enforceTableSizeLimits pf RatingTable (fixedRatings cfg) (maxRatings cfg) d1)"
    by (auto simp: record_rating_tx_def split: prod.splits sum.splits)
  from s have "rating_id r' = seq (db_ratings db) + 1 \<and> seq (db_ratings d1) = seq (db_ratings db) + 1"
    using assms(2)
    by (auto simp: stmt_def Let_def insert_rating_def tick_def split: option.splits prod.splits dest!: insert_row_auto_key)
  moreover have "seq (db_ratings d1) \<le> seq (db_ratings d)"
    unfolding e by (intro conjunct2 [OF evolves_seq] evolve_intros assms(3))
  ultimately show ?thesis using d(2) by simp
qed

lemma issued_new:
  assumes "job_step pf cfg j db = Some (j', db')" "unnumbered j" "pf_foreign_keys pf"
  shows "(\<forall>n. issued j' = Some n \<longrightarrow> n = seq (db_users db) + 1 \<and> n \<le> seq (db_users db')) \<and>
    (\<forall>n. issued_rating j' = Some n \<longrightarrow> n = seq (db_ratings db) + 1 \<and> n \<le> seq (db_ratings db'))"
proof (cases j)
  case (RegisterInsert u)
  obtain x d where x: "run_in_tx pf (record_user_tx pf cfg u) db = (x, d)" by fastforce
  then have j: "j' = Registered x" "db' = d" "user_id u = 0" using assms RegisterInsert by auto
  show ?thesis
  proof (cases x)
    case (Inr u')
    then show ?thesis using j(1,2) registered_id [OF x [unfolded Inr] j(3) assms(3)] by simp
  qed (use j in simp)
next
  case (RateInsert r)
  obtain x d where x: "run_in_tx pf (record_rating_tx pf cfg r) db = (x, d)" by fastforce
  then have j: "j' = Rated x" "db' = d" "rating_id r = 0" using assms RateInsert by auto
  show ?thesis
  proof (cases x)
    case (Inr r')
    then show ?thesis using j(1,2) rated_id [OF x [unfolded Inr] j(3) assms(3)] by simp
  qed (use j in simp)
qed (use assms in \<open>auto simp: register_check_def rate_check_def change_check_def remove_check_def apfst_def map_prod_def Let_def
  split: prod.splits sum.splits option.splits if_splits\<close>)

lemma conc_inv_upd:
  assumes inv: "conc_inv db0 (jobs, db)" and step: "evolves db db'" and "unnumbered j"
    and new: "\<forall>n. issued j = Some n \<longrightarrow> seq (db_users db) < n \<and> n \<le> seq (db_users db')"
      "\<forall>n. issued_rating j = Some n \<longrightarrow> seq (db_ratings db) < n \<and> n \<le> seq (db_ratings db')"
  shows "conc_inv db0 (jobs(i \<mapsto> j), db')"
proof -
  from inv have old: "evolves db0 db"
    "\<And>k l n. jobs k = Some l \<Longrightarrow> issued l = Some n \<Longrightarrow> n \<le> seq (db_users db)"
    "\<And>k l n. jobs k = Some l \<Longrightarrow> issued_rating l = Some n \<Longrightarrow> n \<le> seq (db_ratings db)"
    "\<And>k l. jobs k = Some l \<Longrightarrow> unnumbered l"
    "\<And>k k' l l'. jobs k = Some l \<Longrightarrow> jobs k' = Some l' \<Longrightarrow> k \<noteq> k' \<Longrightarrow> apart l l'"
    by (auto simp: conc_inv_def)
  have "n \<le> seq (db_users db')" if "(jobs(i \<mapsto> j)) k = Some l" "issued l = Some n" for k l n
    using that new old(2) [of k l n] evolves_seq [OF step] by (auto split: if_splits)
  moreover have "n \<le> seq (db_ratings db')" if "(jobs(i \<mapsto> j)) k = Some l" "issued_rating l = Some n" for k l n
    using that new old(3) [of k l n] evolves_seq [OF step] by (auto split: if_splits)
  moreover have "unnumbered l" if "(jobs(i \<mapsto> j)) k = Some l" for k l
    using that assms(3) old(4) by (auto split: if_splits)
  moreover have new_apart: "apart j l" if "jobs k = Some l" for k l
  proof -
    have "n \<le> seq (db_users db)" if "issued l = Some n" for n using old(2) \<open>jobs k = Some l\<close> that by blast
    moreover have "n \<le> seq (db_ratings db)" if "issued_rating l = Some n" for n using old(3) \<open>jobs k = Some l\<close> that by blast
    ultimately show ?thesis using new unfolding apart_def by (metis not_less option.exhaust)
  qed
  moreover have "apart l l'" if at: "(jobs(i \<mapsto> j)) k = Some l" "(jobs(i \<mapsto> j)) k' = Some l'" "k \<noteq> k'" for k k' l l'
  proof -
    consider "k = i" "k' \<noteq> i" | "k \<noteq> i" "k' = i" | "k \<noteq> i" "k' \<noteq> i" using at(3) by blast
    then show ?thesis
      by cases (use at new_apart apart_sym old(5) in \<open>auto\<close>)
  qed
  ultimately show ?thesis
    unfolding conc_inv_def prod.case using evolves_trans [OF old(1) step] by blast
qed

lemma conc_step_inv:
  assumes "pf_foreign_keys pf" "conc_inv db0 s" "conc_step pf cfg s t"
  shows "conc_inv db0 t"
  using assms(3)
proof cases
  case (arrive jobs i j db)
  then have "unnumbered j \<and> issued j = None \<and> issued_rating j = None" by (cases j) auto
  then show ?thesis using assms(2) arrive by (auto intro: conc_inv_upd [of db0 jobs db db])
next
  case (call jobs db c)
  have "evolves db (call_step pf cfg c db)" using assms(1) by (rule evolves_call_step)
  then show ?thesis
    using assms(2) call evolves_seq [of db "call_step pf cfg c db"]
    unfolding conc_inv_def by (auto intro: evolves_trans) (meson order_trans)+
next
  case (work jobs i j db j' db')
  have "unnumbered j" using assms(2) work by (auto simp: conc_inv_def)
  then show ?thesis
    using evolves_job [OF work(4) assms(1)] issued_new [OF work(4) _ assms(1)] assms(2) unfolding work(1,2)
    by (intro conc_inv_upd [of db0 jobs db]) auto
qed

interpretation concurrent: inductive_invariant "conc_step pf cfg" "\<lambda>s. pf_foreign_keys pf \<and> conc_inv db0 s"
  for pf cfg db0
  by unfold_locales (auto intro: conc_step_inv)

lemma conc_inv_init: "conc_inv db (\<lambda>_. None, db)"
  by (simp add: conc_inv_def)

subsection \<open>Properties\<close>

text \<open>C30: any interleaving of any number of registrations, ratings, changes and deletions, cut where they
  look something up, with other calls of the catalog in between and any faults, keeps the integrity of the database: the
  unique keys, in particular the user names that \<open>RecordUser\<close> looks up outside of its
  transaction, and the references. No two registrations and no two ratings that succeed are
  given the same identifier.\<close>

theorem concurrent_requests:
  assumes "pf_foreign_keys pf" and "db_inv db0"
    and "reachable (conc_step pf cfg) (\<lambda>_. None, db0) (jobs, db)"
  shows "db_inv db \<and> distinct (map user_username (rows (db_users db))) \<and>
    (\<forall>i i' u u'. i \<noteq> i' \<and> jobs i = Some (Registered (Inr u)) \<and> jobs i' = Some (Registered (Inr u')) \<longrightarrow> user_id u \<noteq> user_id u') \<and>
    (\<forall>i i' r r'. i \<noteq> i' \<and> jobs i = Some (Rated (Inr r)) \<and> jobs i' = Some (Rated (Inr r')) \<longrightarrow> rating_id r \<noteq> rating_id r')"
proof -
  have inv: "conc_inv db0 (jobs, db)"
    using concurrent.reachable_inv [OF assms(3), of db0] assms(1) conc_inv_init by blast
  then have "db_inv db" using assms(2) evolvesD by (auto simp: conc_inv_def)
  moreover from this have "distinct (map user_username (rows (db_users db)))" by (simp add: db_inv_defs)
  moreover have "(issued a = None \<or> issued a \<noteq> issued b) \<and> (issued_rating a = None \<or> issued_rating a \<noteq> issued_rating b)"
    if "jobs i = Some a" "jobs i' = Some b" "i \<noteq> i'" for i i' a b
    using inv that unfolding conc_inv_def prod.case apart_def by blast
  ultimately show ?thesis by fastforce
qed

text \<open>
  What the integrity costs: the second of two registrations of one name is not told that the name is taken; its insert
  violates the constraint, which the handler answers with 500.
\<close>

lemma username_clash:
  assumes "fault_free pf" "user_username u \<in> user_username ` set (rows (db_users db))" "user_id u = 0"
  shows "fst (run_in_tx pf (record_user_tx pf cfg u) db) = Inl (ErrConstraint ''users'')"
proof -
  have "fst (insert_user pf u (db_clock (tick db)) (tick (tick db))) = Inl (ErrConstraint ''users'')"
    using assms(2,3) by (auto simp: insert_user_def insert_row_def Let_def)
  then have "fst (record_user_tx pf cfg u (tick db)) = Inl (ErrConstraint ''users'')"
    by (auto simp: record_user_tx_def stmt_ok [OF assms(1)] case_prod_beta split: sum.splits)
  then show ?thesis by (simp add: run_in_tx_fst [OF assms(1)])
qed

text \<open>A change of a rating that is deleted in the meantime reports success and changes nothing.\<close>

lemma lost_update:
  assumes "fault_free pf" "rating_id r \<notin> rating_id ` set (rows (db_ratings db))"
  shows "\<exists>d. change_write pf r db = (Inr r, d) \<and> tables d = tables db"
proof -
  have "map (\<lambda>x. if rating_id x = rating_id r then x\<lparr>rating_stars := rating_stars r\<rparr> else x) (rows (db_ratings db)) =
      rows (db_ratings db)"
  proof (rule map_idI)
    fix x assume "x \<in> set (rows (db_ratings db))"
    then have "rating_id x \<noteq> rating_id r" using assms(2) by (metis image_eqI)
    then show "(if rating_id x = rating_id r then x\<lparr>rating_stars := rating_stars r\<rparr> else x) = x" by simp
  qed
  then show ?thesis
    by (simp add: change_write_def run_in_tx_ok [OF assms(1)] stmt_ok [OF assms(1)] update_stars_def tables_def)
qed

lemma register_check_ok:
  assumes "fault_free pf" "HashPassword pf (db_clock db) (user_password u) = Inr h"
    "user_username u \<notin> user_username ` set (rows (db_users db))"
  obtains u' d where "register_check pf u db = (RegisterInsert u', d)" "user_id u' = 0" "user_username u' = user_username u"
    "user_token u' = fst (GenerateAlphaNumToken UserTokenLength db)" "db_users d = db_users db" "db_inv db \<Longrightarrow> db_inv d"
proof -
  obtain u' d where p: "prepare_user h u db = (u', d)" by fastforce
  note s = prepare_user_spec [OF p]
  then obtain g where d: "d = db\<lparr>proc_rng := g\<rparr>" by blast
  have "username_taken pf (user_username u') d = (Inl ErrNoRows, tick d)"
    using assms(3) s d by (simp add: username_taken_def query_ok [OF assms(1)] first_row_none)
  then have "register_check pf u db = (RegisterInsert u', tick d)"
    using assms(2) p by (simp add: register_check_def)
  moreover have "user_token u' = fst (GenerateAlphaNumToken UserTokenLength db)"
    using p by (auto simp: prepare_user_def split: prod.splits)
  ultimately show ?thesis using that s d by simp
qed

lemma registration_race:
  "\<exists>jobs db u. reachable (conc_step demo_platform demo_config) (\<lambda>_. None, demo_db) (jobs, db) \<and>
     jobs 3 = Some (Registered (Inr u)) \<and> jobs 4 = Some (Registered (Inl (ErrConstraint ''users'')))"
proof -
  let ?step = "conc_step demo_platform demo_config"
  note go = next_step [where step = ?step, OF _ work]
  have hash: "HashPassword demo_platform k (user_password ada) = Inr ''hash:pw''" for k
    by (simp add: HashPassword_def)
  have free: "user_username ada \<notin> user_username ` set (rows (db_users demo_db))" by (simp add: seed_users_def)
  obtain u1 d1 where 1: "register_check demo_platform ada demo_db = (RegisterInsert u1, d1)" "user_id u1 = 0" "user_username u1 = ''ada''"
    "user_token u1 = ''aaaaaaaaaaaaaaaa''" "db_users d1 = db_users demo_db" "db_inv d1"
    by (rule register_check_ok [OF _ hash free]) (simp_all add: demo_token)
  obtain u2 d2 where 2: "register_check demo_platform ada d1 = (RegisterInsert u2, d2)" "user_id u2 = 0" "user_username u2 = ''ada''"
    "db_users d2 = db_users d1" "db_inv d2"
    by (rule register_check_ok [OF _ hash, of d1]) (use 1 free in simp_all)
  have "fst (record_user_tx demo_platform demo_config u1 (tick d2)) = Inr (u1\<lparr>user_id := seq (db_users d2) + 1\<rparr>)"
    using record_user_tx_ok [of demo_platform u1 "tick d2" demo_config] 1 2
    by (simp add: seed_users_def max_int64_def)
  then obtain u' d3 where 3: "run_in_tx demo_platform (record_user_tx demo_platform demo_config u1) d2 = (Inr u', tick d3)"
    "record_user_tx demo_platform demo_config u1 (tick d2) = (Inr u', d3)" "user_username u' = ''ada''"
    using 1(3) by (cases "record_user_tx demo_platform demo_config u1 (tick d2)") (simp add: run_in_tx_ok)
  have "u'\<lparr>user_password := []\<rparr> \<in> set (rows (db_users d3))"
    by (rule conjunct1 [OF record_user_tx_stored [OF 3(2) 1(2)]]) (simp add: 2(5))
  then have "''ada'' \<in> user_username ` set (rows (db_users (tick d3)))" using 3(3) by force
  then obtain d4 where 4: "run_in_tx demo_platform (record_user_tx demo_platform demo_config u2) (tick d3) = (Inl (ErrConstraint ''users''), d4)"
    using username_clash [of demo_platform u2 "tick d3" demo_config] 2(2,3) by (metis demo_platform_simps(6) prod.collapse)
  let ?j1 = "(\<lambda>_. None)(3 \<mapsto> Register ada, 4 \<mapsto> Register ada)"
  have "reachable ?step (\<lambda>_. None, demo_db) (?j1, demo_db)"
    by (intro next_step [where step = ?step, OF _ arrive] start) simp_all
  then have "reachable ?step (\<lambda>_. None, demo_db) (?j1(3 \<mapsto> RegisterInsert u1), d1)" by (rule go, simp, simp add: 1(1))
  then have "reachable ?step (\<lambda>_. None, demo_db) (?j1(3 \<mapsto> RegisterInsert u1, 4 \<mapsto> RegisterInsert u2), d2)" by (rule go, simp, simp add: 2(1))
  then have "reachable ?step (\<lambda>_. None, demo_db)
      (?j1(3 \<mapsto> RegisterInsert u1, 4 \<mapsto> RegisterInsert u2, 3 \<mapsto> Registered (Inr u')), tick d3)" by (rule go, simp, simp add: 3(1))
  then have "reachable ?step (\<lambda>_. None, demo_db) (?j1(3 \<mapsto> RegisterInsert u1, 4 \<mapsto> RegisterInsert u2,
      3 \<mapsto> Registered (Inr u'), 4 \<mapsto> Registered (Inl (ErrConstraint ''users''))), d4)" by (rule go, simp, simp add: 4)
  then show ?thesis by (intro exI conjI) (assumption, simp, simp)
qed

theorem concurrent_requests_witness:
  "\<exists>jobs db u. jobs 3 = Some (Registered (Inr u)) \<and> jobs 4 = Some (Registered (Inl (ErrConstraint ''users''))) \<and>
     reachable (conc_step demo_platform demo_config) (\<lambda>_. None, demo_db) (jobs, db) \<and> db_inv db"
  using registration_race concurrent_requests [of demo_platform demo_db demo_config] by fastforce

end
