(* ===== verification/Metrics.thy ===== *)
theory Metrics
  imports Api
begin

section \<open>Metrics of the requests (\<open>HTTPMetricsMiddleware\<close>)\<close>

text \<open>
  The outermost middleware of \<^verbatim>\<open>pkg/http/http.go\<close>: it runs the request and then counts it and
  observes its duration under the method, the pattern of the route and the status, unless the route is
  internal. \<open>OTelRouteLabeler\<close> of \<^verbatim>\<open>otel.go\<close> leaves it the trace identifier.
\<close>

record label =
  lb_method :: string
  lb_pattern :: string
  lb_status :: nat

record observation =
  ob_value :: go_int
  ob_exemplar :: "string option"

record metrics =
  m_requests :: "label \<Rightarrow> nat"                  \<comment> \<open>\<open>httpRequests\<close>\<close>
  m_duration :: "label \<Rightarrow> observation list"     \<comment> \<open>\<open>httpRequestDuration\<close>\<close>
  m_native :: "label \<Rightarrow> observation list"       \<comment> \<open>\<open>httpRequestDurationNativeHistogram\<close>\<close>
  m_gauge :: "label \<Rightarrow> go_int option"           \<comment> \<open>\<open>httpRequestDurationGauge\<close>\<close>

definition no_metrics :: metrics where
  "no_metrics = \<lparr>m_requests = (\<lambda>_. 0), m_duration = (\<lambda>_. []), m_native = (\<lambda>_. []), m_gauge = (\<lambda>_. None)\<rparr>"

text \<open>The status of the wrapped response writer: 0 as long as nothing was written.\<close>

definition ww_status :: "rw \<Rightarrow> nat" where
  "ww_status w = (case rw_status w of None \<Rightarrow> 0 | Some s \<Rightarrow> s)"

text \<open>
  What \<open>OTelRouteLabeler\<close> does for a route group: the attributes it adds to the labeler, if there is one, and
  the trace identifier it leaves in the \<open>exemplarData\<close>, if the span has one.
\<close>

definition OTelRouteLabeler ::
  "bool \<Rightarrow> string \<Rightarrow> string option \<Rightarrow> (string \<times> string) list \<times> string \<Rightarrow> (string \<times> string) list \<times> string" where
  "OTelRouteLabeler labeler routePattern span st =
     (case st of (attrs, traceID) \<Rightarrow>
        (if labeler \<and> routePattern \<noteq> [] then attrs @ [(''http.route'', routePattern)] else attrs,
         case span of Some t \<Rightarrow> t | None \<Rightarrow> traceID))"

text \<open>A request that has been served.\<close>

record served =
  sv_method :: string
  sv_pattern :: string
  sv_trace :: string         \<comment> \<open>\<open>ed.TraceID\<close>, empty without one\<close>
  sv_writer :: rw
  sv_duration :: go_int

definition sv_label :: "served \<Rightarrow> label" where
  "sv_label sv = \<lparr>lb_method = sv_method sv, lb_pattern = sv_pattern sv, lb_status = ww_status (sv_writer sv)\<rparr>"

text \<open>\<open>ok\<close>: whether the histogram can take exemplars.\<close>

definition observe :: "bool \<Rightarrow> string \<Rightarrow> go_int \<Rightarrow> observation" where
  "observe ok traceID d =
     (if traceID \<noteq> []
      then (if ok then \<lparr>ob_value = d, ob_exemplar = Some traceID\<rparr> else \<lparr>ob_value = d, ob_exemplar = None\<rparr>)
      else \<lparr>ob_value = d, ob_exemplar = None\<rparr>)"

definition HTTPMetricsMiddleware :: "bool \<Rightarrow> served \<Rightarrow> metrics \<Rightarrow> metrics" where
  "HTTPMetricsMiddleware ok sv m =
     (if isInternalRoute (sv_pattern sv) then m
      else
        let l = sv_label sv; o' = observe ok (sv_trace sv) (sv_duration sv) in
        m\<lparr>m_requests := (m_requests m)(l := m_requests m l + 1),
          m_duration := (m_duration m)(l := m_duration m l @ [o']),
          m_native := (m_native m)(l := m_native m l @ [o']),
          m_gauge := (m_gauge m)(l \<mapsto> sv_duration sv)\<rparr>)"

definition served_all :: "bool \<Rightarrow> served list \<Rightarrow> metrics \<Rightarrow> metrics" where
  "served_all ok svs m = fold (HTTPMetricsMiddleware ok) svs m"

subsection \<open>The metrics as a log\<close>

text \<open>The requests that the metrics of a label are about, in their order.\<close>

definition of_label :: "label \<Rightarrow> served list \<Rightarrow> served list" where
  "of_label l svs = filter (\<lambda>sv. \<not> isInternalRoute (sv_pattern sv) \<and> sv_label sv = l) svs"

lemma of_label_append [simp]: "of_label l (svs @ svs') = of_label l svs @ of_label l svs'"
  by (simp add: of_label_def)

lemma of_label_one [simp]:
  "of_label l [sv] = (if \<not> isInternalRoute (sv_pattern sv) \<and> sv_label sv = l then [sv] else [])"
  by (simp add: of_label_def)

lemma served_all_snoc: "served_all ok (svs @ [sv]) m = HTTPMetricsMiddleware ok sv (served_all ok svs m)"
  by (simp add: served_all_def)

subsection \<open>Properties\<close>

text \<open>C32: after any sequence of requests the four metrics agree with the log of the requests: the counter
  of a label is the number of its requests, both histograms hold their durations in order, with the trace
  as exemplar where there is one, and the gauge the last one; nothing is kept of an internal
  route. Both histograms have as many observations as the counter says.\<close>

theorem metrics_agree:
  "m_requests (served_all ok svs no_metrics) l = length (of_label l svs) \<and>
   m_duration (served_all ok svs no_metrics) l = map (\<lambda>sv. observe ok (sv_trace sv) (sv_duration sv)) (of_label l svs) \<and>
   m_native (served_all ok svs no_metrics) l = map (\<lambda>sv. observe ok (sv_trace sv) (sv_duration sv)) (of_label l svs) \<and>
   m_gauge (served_all ok svs no_metrics) l =
     (if of_label l svs = [] then None else Some (sv_duration (last (of_label l svs)))) \<and>
   (isInternalRoute (lb_pattern l) \<longrightarrow> of_label l svs = [])"
proof (induction svs rule: rev_induct)
  case Nil
  then show ?case by (simp add: served_all_def no_metrics_def of_label_def)
next
  case (snoc sv svs)
  then show ?case
    by (auto simp: served_all_snoc HTTPMetricsMiddleware_def Let_def sv_label_def)
qed

theorem metrics_agree_witness:
  "m_requests (served_all True [\<lparr>sv_method = ''GET'', sv_pattern = ''/ready'', sv_trace = [], sv_writer = new_rw, sv_duration = 5\<rparr>]
     no_metrics) \<lparr>lb_method = ''GET'', lb_pattern = ''/ready'', lb_status = 0\<rparr> = 0"
  using metrics_agree [of True "[\<lparr>sv_method = ''GET'', sv_pattern = ''/ready'', sv_trace = [], sv_writer = new_rw, sv_duration = 5\<rparr>]"
      "\<lparr>lb_method = ''GET'', lb_pattern = ''/ready'', lb_status = 0\<rparr>"]
  by (simp add: isInternalRoute_def)

text \<open>
  The route of the CSRF token writes no status, so that its requests are counted under the
  status 0, although the client sees 200.
\<close>

lemma csrf_counted_as_zero:
  "ww_status (fst (serve pf cfg CsrfRoute r db)) = 0 \<and> status (fst (serve pf cfg CsrfRoute r db)) = 200"
  by (simp add: serve_def csrfToken_def case_prod_beta ww_status_def status_def new_rw_def set_cookie_def)

end
