(* ===== verification/Tracing.thy ===== *)
theory Tracing
  imports Util Machine
begin

section \<open>Installing OpenTelemetry (\<^verbatim>\<open>pkg/http/otel.go\<close>)\<close>

text \<open>
  \<open>OTelInstaller\<close>: the choice of the exporters by scheme and protocol, the global providers that the first
  group of routes sets, and the middleware that a group gets. The exporters and the runtime
  instrumentation of the library are parameters that may fail.
\<close>

datatype otel_err =
    UnsupportedScheme string
  | UnsupportedProtocol string
  | ExporterFailed string
  | RuntimeFailed string

text \<open>The client of an exporter: its protocol, the host, and whether it goes without TLS.\<close>

datatype exporter = OtlpGrpc string bool | OtlpHttp string bool

record otel_url =
  url_scheme :: string
  url_host :: string

text \<open>\<open>new\<close> is the creation of the exporter, with the error it may return.\<close>

definition createTraceProvider :: "(exporter \<Rightarrow> string option) \<Rightarrow> otel_url \<Rightarrow> string \<Rightarrow> otel_err + exporter" where
  "createTraceProvider new endpoint otlpProtocol =
     (if url_scheme endpoint \<noteq> ''http'' \<and> url_scheme endpoint \<noteq> ''https''
      then Inl (UnsupportedScheme (url_scheme endpoint))
      else
        let insecure = (url_scheme endpoint = ''http'') in
        if otlpProtocol = ''grpc'' then
          (case new (OtlpGrpc (url_host endpoint) insecure) of
             Some e \<Rightarrow> Inl (ExporterFailed e)
           | None \<Rightarrow> Inr (OtlpGrpc (url_host endpoint) insecure))
        else if otlpProtocol = ''http/protobuf'' then
          (case new (OtlpHttp (url_host endpoint) insecure) of
             Some e \<Rightarrow> Inl (ExporterFailed e)
           | None \<Rightarrow> Inr (OtlpHttp (url_host endpoint) insecure))
        else Inl (UnsupportedProtocol otlpProtocol))"

definition createMetricProvider :: "(exporter \<Rightarrow> string option) \<Rightarrow> otel_url \<Rightarrow> string \<Rightarrow> otel_err + exporter" where
  "createMetricProvider new endpoint otlpProtocol =
     (if url_scheme endpoint \<noteq> ''http'' \<and> url_scheme endpoint \<noteq> ''https''
      then Inl (UnsupportedScheme (url_scheme endpoint))
      else
        let insecure = (url_scheme endpoint = ''http'') in
        if otlpProtocol = ''grpc'' then
          (case new (OtlpGrpc (url_host endpoint) insecure) of
             Some e \<Rightarrow> Inl (ExporterFailed e)
           | None \<Rightarrow> Inr (OtlpGrpc (url_host endpoint) insecure))
        else if otlpProtocol = ''http/protobuf'' then
          (case new (OtlpHttp (url_host endpoint) insecure) of
             Some e \<Rightarrow> Inl (ExporterFailed e)
           | None \<Rightarrow> Inr (OtlpHttp (url_host endpoint) insecure))
        else Inl (UnsupportedProtocol otlpProtocol))"

text \<open>The state of the installer, and what the process shares.\<close>

record installer =
  oi_insecure :: bool
  oi_installed :: bool
  oi_endpoint :: "otel_url option"

record otel_globals =
  og_tracer :: "(string \<times> exporter option) option"   \<comment> \<open>component and exporter of the global tracer provider\<close>
  og_meter :: "(string \<times> exporter option) option"
  og_runtime :: nat                                   \<comment> \<open>how often the runtime instrumentation was started\<close>

datatype middleware =
    OtelHandler string string string string "exporter option" "exporter option"
      \<comment> \<open>component, service name, namespace, instance, exporters of traces and of metrics\<close>
  | RouteLabeler
  | TraceIDLogger

record exporters =
  ex_trace :: "exporter \<Rightarrow> string option"
  ex_metric :: "exporter \<Rightarrow> string option"
  ex_runtime :: "nat \<Rightarrow> string option"    \<comment> \<open>whether start number \<open>k\<close> of the instrumentation fails\<close>

definition env_default :: "environ \<Rightarrow> string \<Rightarrow> string \<Rightarrow> string" where
  "env_default env name dflt = (case env name of None \<Rightarrow> dflt | Some v \<Rightarrow> v)"

text \<open>The providers of one call: none of them exports without an endpoint.\<close>

definition providers ::
  "exporters \<Rightarrow> environ \<Rightarrow> installer \<Rightarrow> otel_err + (exporter option \<times> exporter option)" where
  "providers ex env t =
     (case oi_endpoint t of
        None \<Rightarrow> Inr (None, None)
      | Some u \<Rightarrow>
          (let protocol = env_default env ''OTEL_EXPORTER_OTLP_PROTOCOL'' ''http/protobuf'' in
           case createTraceProvider (ex_trace ex) u protocol of
             Inl e \<Rightarrow> Inl e
           | Inr tp \<Rightarrow>
               (case createMetricProvider (ex_metric ex) u protocol of
                  Inl e \<Rightarrow> Inl e
                | Inr mp \<Rightarrow> Inr (Some tp, Some mp))))"

definition Install ::
  "exporters \<Rightarrow> environ \<Rightarrow> string \<Rightarrow> installer \<times> otel_globals \<times> middleware list \<Rightarrow>
     otel_err option \<times> (installer \<times> otel_globals \<times> middleware list)" where
  "Install ex env component st =
     (case st of (t, g, router) \<Rightarrow>
        case providers ex env t of
          Inl e \<Rightarrow> (Some e, st)
        | Inr (tp, mp) \<Rightarrow>
            (let router' = router @
                   [OtelHandler component (env_default env ''QUICKPIZZA_OTEL_SERVICE_NAME'' ''quickpizza'')
                      (env_default env ''QUICKPIZZA_OTEL_SERVICE_NAMESPACE'' ''quickpizza'')
                      (env_default env ''QUICKPIZZA_OTEL_SERVICE_INSTANCE_ID'' ''local'') tp mp,
                    RouteLabeler, TraceIDLogger];
                 t' = t\<lparr>oi_installed := True\<rparr> in
             if oi_installed t then (None, (t', g, router'))
             else
               let g1 = g\<lparr>og_tracer := Some (component, tp), og_meter := Some (component, mp)\<rparr> in
               case ex_runtime ex (og_runtime g) of
                 Some e \<Rightarrow> (Some (RuntimeFailed e), (t, g1, router))
               | None \<Rightarrow> (None, (t', g1\<lparr>og_runtime := og_runtime g + 1\<rparr>, router'))))"

text \<open>\<open>parse\<close> is the parser of URLs.\<close>

definition NewOTelInstaller :: "(string \<Rightarrow> string + otel_url) \<Rightarrow> string \<Rightarrow> string + installer" where
  "NewOTelInstaller parse endpointUrl =
     (case parse endpointUrl of
        Inl e \<Rightarrow> Inl (''parsing endpoint url: '' @ e)
      | Inr u \<Rightarrow> Inr \<lparr>oi_insecure = False, oi_installed = False, oi_endpoint = Some u\<rparr>)"

text \<open>The field that \<open>LogTraceID\<close> adds to the entry of a request, for the trace of its span.\<close>

definition LogTraceID :: "string option \<Rightarrow> (string \<times> string) list \<Rightarrow> (string \<times> string) list" where
  "LogTraceID span entry =
     (case span of Some t \<Rightarrow> entry @ [(''traceID'', t)] | None \<Rightarrow> entry)"

definition Insecure :: "installer \<Rightarrow> installer" where
  "Insecure t = t\<lparr>oi_insecure := True\<rparr>"

text \<open>
  The groups of routes of an instance are installed one after the other, each with a router of its own; \<open>main\<close> does not look at
  the errors.
\<close>

fun install_groups ::
  "exporters \<Rightarrow> environ \<Rightarrow> string list \<Rightarrow> installer \<times> otel_globals \<Rightarrow> (string \<times> middleware list) list \<times> installer \<times> otel_globals" where
  "install_groups ex env [] (t, g) = ([], t, g)"
| "install_groups ex env (c # cs) (t, g) =
     (case Install ex env c (t, g, []) of
        (_, (t1, g1, router)) \<Rightarrow>
          (case install_groups ex env cs (t1, g1) of (rs, t2, g2) \<Rightarrow> ((c, router) # rs, t2, g2)))"

subsection \<open>Lemmas\<close>

lemma providers_same: "providers ex env (t\<lparr>oi_installed := b\<rparr>) = providers ex env t"
  by (simp add: providers_def)

text \<open>Which configurations are supported.\<close>

definition supported :: "environ \<Rightarrow> installer \<Rightarrow> bool" where
  "supported env t \<longleftrightarrow>
     (case oi_endpoint t of
        None \<Rightarrow> True
      | Some u \<Rightarrow> url_scheme u \<in> {''http'', ''https''} \<and>
          env_default env ''OTEL_EXPORTER_OTLP_PROTOCOL'' ''http/protobuf'' \<in> {''grpc'', ''http/protobuf''})"

lemma providers_supported:
  assumes "ex_trace ex = (\<lambda>_. None)" "ex_metric ex = (\<lambda>_. None)"
  shows "(\<exists>p. providers ex env t = Inr p) \<longleftrightarrow> supported env t"
  using assms
  by (auto simp: providers_def supported_def createTraceProvider_def createMetricProvider_def Let_def split: option.splits)

definition started_once :: "string \<Rightarrow> exporter option \<times> exporter option \<Rightarrow> otel_globals \<Rightarrow> otel_globals" where
  "started_once c p g =
     g\<lparr>og_tracer := Some (c, fst p), og_meter := Some (c, snd p), og_runtime := og_runtime g + 1\<rparr>"

definition middlewares :: "environ \<Rightarrow> exporter option \<times> exporter option \<Rightarrow> string \<Rightarrow> middleware list" where
  "middlewares env p c =
     [OtelHandler c (env_default env ''QUICKPIZZA_OTEL_SERVICE_NAME'' ''quickpizza'')
        (env_default env ''QUICKPIZZA_OTEL_SERVICE_NAMESPACE'' ''quickpizza'')
        (env_default env ''QUICKPIZZA_OTEL_SERVICE_INSTANCE_ID'' ''local'') (fst p) (snd p),
      RouteLabeler, TraceIDLogger]"

lemma install_later:
  assumes "providers ex env t = Inr p" "oi_installed t"
  shows "install_groups ex env cs (t, g) = (map (\<lambda>c. (c, middlewares env p c)) cs, t, g)"
proof -
  have same: "t\<lparr>oi_installed := True\<rparr> = t" using assms(2) by simp
  have "Install ex env c (t, g, []) = (None, (t, g, middlewares env p c))" for c
    using assms same by (simp add: Install_def middlewares_def case_prod_beta Let_def)
  then show ?thesis by (induction cs) simp_all
qed

lemma install_fails:
  assumes "providers ex env t = Inl e"
  shows "install_groups ex env cs (t, g) = (map (\<lambda>c. (c, [])) cs, t, g)"
  using assms by (induction cs) (simp_all add: Install_def)

subsection \<open>Property\<close>


definition demo_exporters :: exporters where
  "demo_exporters = \<lparr>ex_trace = (\<lambda>_. None), ex_metric = (\<lambda>_. None), ex_runtime = (\<lambda>_. None)\<rparr>"


end
