(* ===== verification/Grpc.thy ===== *)
theory Grpc
  imports Http
begin

section \<open>The gRPC service (\<^verbatim>\<open>pkg/grpc/grpc.go\<close>)\<close>

text \<open>
  The two methods of the service, with the 32-bit rating of the answer, and the health check,
  which answers every request as not implemented.
\<close>

definition Status :: "bool" where
  "Status = True"          \<comment> \<open>\<open>Ready\<close>\<close>

text \<open>\<^verbatim>\<open>rand.Int31n(n)\<close> for a positive \<open>n\<close>.\<close>

definition int31n :: "nat \<Rightarrow> rng \<Rightarrow> 32 word \<times> rng" where
  "int31n n g = (word_of_nat (shd g mod n), stl g)"

record pizza_rating_request =
  pq_ingredients :: "string list"
  pq_dough :: string

definition RatePizza :: "pizza_rating_request \<Rightarrow> rng \<Rightarrow> 32 word \<times> rng" where
  "RatePizza q g =
     (let (rating, g1) = (if pq_ingredients q \<noteq> [] then int31n 6 g else (0, g)) in
      if pq_dough q \<noteq> [] \<and> rating <s 5
      then (let (b, g2) = int31n 2 g1 in (rating + b, g2))
      else (rating, g1))"

definition grpchealthz :: "rw \<Rightarrow> rw" where
  "grpchealthz w = write_header 204 (set_header ''grpc-message'' ''unimplemented'' (set_header ''grpc-status'' ''12'' w))"

subsection \<open>The servers\<close>

text \<open>
  The server with its two addresses. \<open>busy\<close> says with what error an address cannot be listened on. A health
  server that cannot listen is only logged, and the gRPC server runs all the same.
\<close>

record grpc_server =
  gs_listen :: string
  gs_healthz :: string

definition NewGrpcServer :: "string \<Rightarrow> string \<Rightarrow> grpc_server" where
  "NewGrpcServer listen healthzListen = \<lparr>gs_listen = listen, gs_healthz = healthzListen\<rparr>"

datatype grpc_service = GrpcMethods string | GrpcHealth string | GrpcLogged string

definition listenHealthz :: "(string \<Rightarrow> string option) \<Rightarrow> grpc_server \<Rightarrow> grpc_service" where
  "listenHealthz busy s =
     (case busy (gs_healthz s) of None \<Rightarrow> GrpcHealth (gs_healthz s) | Some e \<Rightarrow> GrpcLogged e)"

definition GrpcListenAndServe :: "(string \<Rightarrow> string option) \<Rightarrow> grpc_server \<Rightarrow> string + grpc_service list" where
  "GrpcListenAndServe busy s =
     (case busy (gs_listen s) of
        Some e \<Rightarrow> Inl (''failed to listen on port: '' @ e)
      | None \<Rightarrow> Inr [listenHealthz busy s, GrpcMethods (gs_listen s)])"

text \<open>The paths of the health server, with the \<^verbatim>\<open>404\<close> of the multiplexer for the others.\<close>

definition serve_healthz :: "string \<Rightarrow> rw \<Rightarrow> rw" where
  "serve_healthz path w =
     (if path = ''/grpchealthz'' then grpchealthz w else write_body (TextBody (''404 page not found'' @ [CHR 0x0A])) (write_header 404 w))"

subsection \<open>Lemmas\<close>

lemma grpc_serves:
  assumes "busy (gs_listen s) = None"
  shows "\<exists>rest. GrpcListenAndServe busy s = Inr rest \<and> GrpcMethods (gs_listen s) \<in> set rest"
  using assms by (simp add: GrpcListenAndServe_def)

lemma healthz_status: "status (serve_healthz path new_rw) = (if path = ''/grpchealthz'' then 204 else 404)"
  by (simp add: serve_healthz_def grpchealthz_def status_def write_body_def write_header_def set_header_def new_rw_def Let_def)

lemma int31n_small:
  assumes "0 < n" "n \<le> 6"
  shows "\<exists>k < n. fst (int31n n g) = word_of_nat k"
  using assms by (intro exI [of _ "shd g mod n"]) (simp add: int31n_def)

text \<open>The rating is between 0 and 5 whatever is drawn, and 0 for a pizza without ingredients and dough.\<close>

lemma RatePizza_range: "0 \<le> sint (fst (RatePizza q g)) \<and> sint (fst (RatePizza q g)) \<le> 5"
proof -
  obtain k where k: "k < 6" "fst (int31n 6 g) = word_of_nat k" using int31n_small [of 6 g] by auto
  have small: "sint (word_of_nat j :: 32 word) = int j" if "j \<le> 6" for j
  proof -
    have "j \<in> {0, 1, 2, 3, 4, 5, 6}" using that by auto
    then show ?thesis by auto
  qed
  obtain b where b: "b < 2" "fst (int31n 2 (stl g)) = word_of_nat b" using int31n_small [of 2 "stl g"] by auto
  obtain c where c: "c < 2" "fst (int31n 2 g) = word_of_nat c" using int31n_small [of 2 g] by auto
  show ?thesis
    using k b c by (auto simp: RatePizza_def int31n_def Let_def word_sless_alt small simp flip: of_nat_add)
qed

lemma RatePizza_nothing: "RatePizza \<lparr>pq_ingredients = [], pq_dough = []\<rparr> g = (0, g)"
  by (simp add: RatePizza_def)

end
