(* ===== verification/Logging.thy ===== *)
theory Logging
  imports Util
begin

section \<open>Logging (\<^verbatim>\<open>pkg/logging\<close>)\<close>

text \<open>
  The level of the log from the environment, with the order of the levels, the level at which a database query is
  logged, and the handler that adds the attributes of the context to a record.
\<close>

datatype level = LevelDebug | LevelInfo | LevelWarn | LevelError

fun level_value :: "level \<Rightarrow> int" where
  "level_value LevelDebug = -4"
| "level_value LevelInfo = 0"
| "level_value LevelWarn = 4"
| "level_value LevelError = 8"

lemma level_value_inj: "level_value a = level_value b \<Longrightarrow> a = b"
  by (cases a; cases b) simp_all

instantiation level :: linorder
begin

definition less_eq_level :: "level \<Rightarrow> level \<Rightarrow> bool" where
  "less_eq_level a b \<longleftrightarrow> level_value a \<le> level_value b"

definition less_level :: "level \<Rightarrow> level \<Rightarrow> bool" where
  "less_level a b \<longleftrightarrow> level_value a < level_value b"

instance
  by standard (auto simp: less_eq_level_def less_level_def intro: level_value_inj)

end

definition GetLogLevel :: "environ \<Rightarrow> level" where
  "GetLogLevel env =
     (let v = to_lower (case env ''QUICKPIZZA_LOG_LEVEL'' of None \<Rightarrow> [] | Some v \<Rightarrow> v) in
      if v = ''debug'' then LevelDebug
      else if v = ''warn'' then LevelWarn
      else if v = ''error'' then LevelError
      else LevelInfo)"

text \<open>A record, with its attributes; a handler writes the records that are enabled.\<close>

record log_record =
  lr_level :: level
  lr_message :: string
  lr_attrs :: "(string \<times> string) list"

definition enabled :: "level \<Rightarrow> log_record \<Rightarrow> bool" where
  "enabled minimum r \<longleftrightarrow> minimum \<le> lr_level r"

text \<open>\<open>AfterQuery\<close> of the hook of the database.\<close>

record query_event =
  qe_operation :: string
  qe_query :: string
  qe_duration :: string
  qe_err :: "err option"

definition AfterQuery :: "(err \<Rightarrow> string) \<Rightarrow> query_event \<Rightarrow> log_record" where
  "AfterQuery text event =
     (case qe_err event of
        Some e \<Rightarrow>
          if e \<noteq> ErrNoRows
          then \<lparr>lr_level = LevelWarn, lr_message = ''failed to perform db query'',
                lr_attrs = [(''operation'', qe_operation event), (''duration'', qe_duration event),
                  (''query'', qe_query event), (''err'', text e)]\<rparr>
          else \<lparr>lr_level = LevelDebug, lr_message = ''performed db query'',
                lr_attrs = [(''operation'', qe_operation event), (''duration'', qe_duration event),
                  (''query'', qe_query event)]\<rparr>
      | None \<Rightarrow>
          \<lparr>lr_level = LevelDebug, lr_message = ''performed db query'',
           lr_attrs = [(''operation'', qe_operation event), (''duration'', qe_duration event),
             (''query'', qe_query event)]\<rparr>)"

text \<open>\<open>ContextLogger.Handle\<close>: the user under the key \<open>user\<close>, and the trace of the span.\<close>

definition Handle :: "string option \<Rightarrow> string option \<Rightarrow> log_record \<Rightarrow> log_record" where
  "Handle user traceID r =
     (let r1 = (case user of Some u \<Rightarrow> r\<lparr>lr_attrs := lr_attrs r @ [(''user'', u)]\<rparr> | None \<Rightarrow> r)
      in case traceID of Some t \<Rightarrow> r1\<lparr>lr_attrs := lr_attrs r1 @ [(''traceID'', t)]\<rparr> | None \<Rightarrow> r1)"

subsection \<open>The handlers behind a logger\<close>

text \<open>
  A handler of \<^verbatim>\<open>log/slog\<close>: the level from which on it writes, the attributes it was given, each below
  the groups that were open then, and the groups that are open. It writes a record with its attributes below
  the open groups.
\<close>

record log_handler =
  lh_minimum :: level
  lh_attrs :: "(string list \<times> string \<times> string) list"
  lh_groups :: "string list"

definition handler_enabled :: "log_handler \<Rightarrow> level \<Rightarrow> bool" where
  "handler_enabled h l \<longleftrightarrow> lh_minimum h \<le> l"

definition handler_with_attrs :: "(string \<times> string) list \<Rightarrow> log_handler \<Rightarrow> log_handler" where
  "handler_with_attrs attrs h = h\<lparr>lh_attrs := lh_attrs h @ map (\<lambda>(k, v). (lh_groups h, k, v)) attrs\<rparr>"

definition handler_with_group :: "string \<Rightarrow> log_handler \<Rightarrow> log_handler" where
  "handler_with_group name h = (if name = [] then h else h\<lparr>lh_groups := lh_groups h @ [name]\<rparr>)"

definition handler_write :: "log_handler \<Rightarrow> log_record \<Rightarrow> (string list \<times> string \<times> string) list" where
  "handler_write h r = lh_attrs h @ map (\<lambda>(k, v). (lh_groups h, k, v)) (lr_attrs r)"

text \<open>\<open>ContextLogger\<close> and its methods; the user and the trace are those of the context.\<close>

record context_logger =
  cl_parent :: log_handler

definition NewContextLogger :: "log_handler \<Rightarrow> context_logger" where
  "NewContextLogger parent = \<lparr>cl_parent = parent\<rparr>"

definition ContextLogger_Enabled :: "context_logger \<Rightarrow> level \<Rightarrow> bool" where
  "ContextLogger_Enabled c l = handler_enabled (cl_parent c) l"

definition ContextLogger_Handle ::
  "context_logger \<Rightarrow> string option \<Rightarrow> string option \<Rightarrow> log_record \<Rightarrow> (string list \<times> string \<times> string) list" where
  "ContextLogger_Handle c user traceID r = handler_write (cl_parent c) (Handle user traceID r)"

definition ContextLogger_WithAttrs :: "(string \<times> string) list \<Rightarrow> context_logger \<Rightarrow> context_logger" where
  "ContextLogger_WithAttrs attrs c = NewContextLogger (handler_with_attrs attrs (cl_parent c))"

definition ContextLogger_WithGroup :: "string \<Rightarrow> context_logger \<Rightarrow> context_logger" where
  "ContextLogger_WithGroup name c = NewContextLogger (handler_with_group name (cl_parent c))"

text \<open>The hook of the database; before a query it leaves the context as it is.\<close>

record bun_hook =
  bh_logger :: context_logger

definition NewBunSlogHook :: "context_logger \<Rightarrow> bun_hook" where
  "NewBunSlogHook logger = \<lparr>bh_logger = logger\<rparr>"

definition BeforeQuery :: "bun_hook \<Rightarrow> 'ctx \<Rightarrow> query_event \<Rightarrow> 'ctx" where
  "BeforeQuery h ctx event = ctx"

definition hook_query ::
  "(err \<Rightarrow> string) \<Rightarrow> bun_hook \<Rightarrow> string option \<Rightarrow> query_event \<Rightarrow> (string list \<times> string \<times> string) list option" where
  "hook_query text h traceID event =
     (let r = AfterQuery text event in
      if ContextLogger_Enabled (bh_logger h) (lr_level r)
      then Some (ContextLogger_Handle (bh_logger h) None traceID r) else None)"

subsection \<open>Lemmas\<close>

text \<open>A logger made from a \<open>ContextLogger\<close> still adds the trace, below the groups that are open.\<close>

lemma trace_kept:
  "(lh_groups (cl_parent c), ''traceID'', t) \<in> set (ContextLogger_Handle (ContextLogger_WithAttrs attrs c) user (Some t) r)"
  "name \<noteq> [] \<Longrightarrow> (lh_groups (cl_parent c) @ [name], ''traceID'', t)
     \<in> set (ContextLogger_Handle (ContextLogger_WithGroup name c) user (Some t) r)"
  by (auto simp: ContextLogger_Handle_def ContextLogger_WithAttrs_def ContextLogger_WithGroup_def NewContextLogger_def
      handler_write_def handler_with_attrs_def handler_with_group_def Handle_def Let_def split: option.split)

text \<open>At the default level the hook logs the failed queries alone, with the error.\<close>

lemma hook_query_info:
  assumes "lh_minimum (cl_parent (bh_logger h)) = LevelInfo"
  shows "hook_query text h t event \<noteq> None \<longleftrightarrow> (\<exists>e. qe_err event = Some e \<and> e \<noteq> ErrNoRows)"
  using assms by (auto simp: hook_query_def Let_def ContextLogger_Enabled_def handler_enabled_def AfterQuery_def
      less_eq_level_def split: option.split)

text \<open>A missing row is no failure: only other errors are logged at the levels up to \<open>info\<close>.\<close>

lemma AfterQuery_enabled:
  assumes "GetLogLevel env \<noteq> LevelDebug" "GetLogLevel env \<noteq> LevelError"
  shows "enabled (GetLogLevel env) (AfterQuery text event) \<longleftrightarrow> (\<exists>e. qe_err event = Some e \<and> e \<noteq> ErrNoRows)"
  using assms by (cases "GetLogLevel env") (auto simp: enabled_def AfterQuery_def less_eq_level_def split: option.split)

lemma Handle_keeps: "lr_level (Handle u t r) = lr_level r \<and> set (lr_attrs r) \<subseteq> set (lr_attrs (Handle u t r))"
  by (auto simp: Handle_def Let_def split: option.split)

lemma GetLogLevel_case: "env ''QUICKPIZZA_LOG_LEVEL'' = Some v \<Longrightarrow> to_lower v = to_lower v' \<Longrightarrow>
    GetLogLevel env = GetLogLevel (env(''QUICKPIZZA_LOG_LEVEL'' \<mapsto> v'))"
  by (simp add: GetLogLevel_def)

end
