(* ===== verification/Frontend.thy ===== *)
theory Frontend
  imports Gateway
begin

section \<open>The frontend (\<open>SvelteKitHandler\<close>, \<open>FaviconHandler\<close>, \<open>ViteProxyHandler\<close>)\<close>

text \<open>
  Which file the handlers of the static frontend serve, the delays of style sheets and images, and the
  proxy to the development server. The embedded files are parameters: \<open>exists\<close> says which paths
  can be opened, \<open>file\<close> is what the file server answers for a path.
\<close>

definition svelte_delays :: "environ \<Rightarrow> string \<Rightarrow> 'a proc_scheme \<Rightarrow> 'a proc_scheme" where
  "svelte_delays env path s =
     (let s1 = (if has_suffix (to_lower path) ''.css'' then DelayIfEnvSet env ''QUICKPIZZA_DELAY_FRONTEND_CSS_ASSETS'' s else s)
      in if has_suffix (to_lower path) ''.png'' then DelayIfEnvSet env ''QUICKPIZZA_DELAY_FRONTEND_PNG_ASSETS'' s1 else s1)"

text \<open>\<open>open_file\<close> is the outcome of opening a path: whether it fails because nothing is there.\<close>

definition svelte_path :: "(string \<Rightarrow> bool) \<Rightarrow> string \<Rightarrow> string" where
  "svelte_path missing path = (if missing path then path @ ''.html'' else path)"

definition SvelteKitHandler ::
  "environ \<Rightarrow> (string \<Rightarrow> bool) \<Rightarrow> (request \<Rightarrow> rw \<Rightarrow> rw) \<Rightarrow> request \<Rightarrow> rw \<Rightarrow> 'a proc_scheme \<Rightarrow> rw \<times> 'a proc_scheme" where
  "SvelteKitHandler env missing fileServer r w s =
     (let path = rq_path r; s' = svelte_delays env path s in
      (fileServer (r\<lparr>rq_path := svelte_path missing path\<rparr>) w, s'))"

definition FaviconHandler :: "string \<Rightarrow> rw \<Rightarrow> rw" where
  "FaviconHandler icon w = write_body (TextBody icon) (write_header 200 w)"

text \<open>The proxy of the development mode; \<open>scheme\<close> and host of the target replace those of the request.\<close>

definition vite_target :: string where
  "vite_target = ''http://localhost:5173''"

definition ViteProxyHandler :: "'s transport \<Rightarrow> request \<Rightarrow> 's \<Rightarrow> http_response \<times> 's" where
  "ViteProxyHandler t r s =
     (case t ((proxied r)\<lparr>rq_path := vite_target @ rq_path r\<rparr>) s of
        (Inl _, s') \<Rightarrow> (\<lparr>resp_status = 502, resp_json = Inl ''EOF''\<rparr>, s')
      | (Inr resp, s') \<Rightarrow> (resp, s'))"

text \<open>
  A page whose path has no extension is found with \<^verbatim>\<open>.html\<close>, as the static adapter of SvelteKit names
  it, and a file that is there is served as it is.
\<close>

lemma svelte_path_found:
  assumes "\<not> missing path \<or> \<not> missing (path @ ''.html'')"
  shows "\<not> missing (svelte_path missing path)"
  using assms by (simp add: svelte_path_def)

lemma svelte_no_delay:
  assumes "env ''QUICKPIZZA_DELAY_FRONTEND_CSS_ASSETS'' = None" "env ''QUICKPIZZA_DELAY_FRONTEND_PNG_ASSETS'' = None"
  shows "snd (SvelteKitHandler env missing fs r w s) = s"
  using assms by (simp add: SvelteKitHandler_def svelte_delays_def DelayIfEnvSet_def Let_def)

text \<open>An asset is delayed by one of the two variables at most.\<close>

lemma has_suffix_append: "has_suffix s p \<longleftrightarrow> (\<exists>q. s = q @ p)"
  unfolding has_suffix_def has_prefix_def
  by (metis append_take_drop_id rev_append rev_rev_ident take_append length_rev diff_self_eq_0 take_0 append_Nil2 order_refl take_all)

lemma svelte_one_delay: "\<exists>n. svelte_delays env path s = s \<or> svelte_delays env path s = DelayIfEnvSet env n s"
proof -
  have "\<not> (has_suffix p ''.css'' \<and> has_suffix p ''.png'')" for p
    by (auto simp: has_suffix_append)
  then show ?thesis by (auto simp: svelte_delays_def Let_def)
qed

end
