(* ===== verification/RecoMetrics.thy ===== *)
theory RecoMetrics
  imports Services
begin

section \<open>The metrics of the recommendations\<close>

text \<open>
  The counter and the histograms that \<^verbatim>\<open>POST /api/pizza\<close> feeds, over any sequence of requests: what they
  hold against what the clients were answered.
\<close>

text \<open>What an answer shows of the labels and of the calories: vegetarian, tool, calories.\<close>

definition shown :: "rw \<Rightarrow> (bool \<times> string \<times> go_int) option" where
  "shown w =
     (case rw_body w of
        [JsonBody (JObj [(_, JObj p), (_, JInt c), (_, JBool v)])] \<Rightarrow>
          (case map_of p ''tool'' of Some (JStr t) \<Rightarrow> Some (v, t, c) | _ \<Rightarrow> None)
      | _ \<Rightarrow> None)"

text \<open>The answers 200 among the responses, with what they show.\<close>

definition served_pizzas :: "rw list \<Rightarrow> (bool \<times> string \<times> go_int) list" where
  "served_pizzas ws = map (\<lambda>w. the (shown w)) (filter (\<lambda>w. status w = 200) ws)"

text \<open>Any sequence of requests that were answered, with any user, context and order of the maps.\<close>

inductive ordered ::
  "('a proc_scheme) transport \<Rightarrow> string \<Rightarrow> ('a proc_scheme) transport \<Rightarrow> string \<Rightarrow> environ
     \<Rightarrow> 'a proc_scheme \<Rightarrow> rw list \<Rightarrow> 'a proc_scheme \<Rightarrow> bool"
  for t cu u pu env s where
  ordered_none: "ordered t cu u pu env s [] s"
| ordered_more: "\<lbrakk>ordered t cu u pu env s ws s1;
     postPizza t cu u pu env order usr ctx r new_rw s1 = Some (Returned (w, s2))\<rbrakk>
     \<Longrightarrow> ordered t cu u pu env s (ws @ [w]) s2"

text \<open>The buckets of the two classic histograms, and what a histogram exposes: the cumulative counts.\<close>

definition ingredient_buckets :: "int list" where
  "ingredient_buckets = [1, 2, 3, 4, 5, 6, 7, 8, 9, 10, 11, 12, 13, 14, 15, 16, 17, 18, 19, 20]"

definition calorie_buckets :: "int list" where
  "calorie_buckets = [100, 200, 300, 400, 500, 600, 700, 800, 900, 1000, 1100, 1200, 1300, 1400, 1500, 1600, 1700,
     1800, 1900, 2000]"

definition cumulative :: "int list \<Rightarrow> int list \<Rightarrow> nat list" where
  "cumulative buckets observed = map (\<lambda>b. length (filter (\<lambda>x. x \<le> b) observed)) buckets"

subsection \<open>Lemmas\<close>

text \<open>The counts do not decrease over the buckets, and end at the number of observations up to 2000.\<close>

lemma cumulative_sorted: "sorted buckets \<Longrightarrow> sorted (cumulative buckets observed)"
proof -
  have "length (filter (\<lambda>x. x \<le> a) observed) \<le> length (filter (\<lambda>x. x \<le> b) observed)" if "a \<le> b" for a b
    using that by (induction observed) auto
  then show "sorted buckets \<Longrightarrow> sorted (cumulative buckets observed)"
    by (induction buckets) (auto simp: cumulative_def)
qed

lemma buckets_sorted: "sorted ingredient_buckets" "sorted calorie_buckets"
  by (simp_all add: ingredient_buckets_def calorie_buckets_def)

lemma calories_in_buckets:
  "\<forall>c \<in> set observed. c \<le> 2000 \<Longrightarrow> last (cumulative calorie_buckets observed) = length observed"
  by (simp add: cumulative_def calorie_buckets_def)

lemma shown_recommendation [simp]:
  "rw_body w = [JsonBody (enc_recommendation p c v)] \<Longrightarrow> shown w = Some (v, pizza_tool p, c)"
  by (simp add: shown_def enc_recommendation_def enc_pizza_def)

lemma served_snoc:
  "served_pizzas [] = []"
  "served_pizzas (ws @ [w]) = served_pizzas ws @ (if status w = 200 then [the (shown w)] else [])"
  by (simp_all add: served_pizzas_def)

text \<open>A transport whose service does not count pizzas.\<close>

definition counts_nothing :: "('a proc_scheme) transport \<Rightarrow> bool" where
  "counts_nothing t \<longleftrightarrow> (\<forall>r s. proc_pizzas (snd (t r s)) = proc_pizzas s)"

lemma catalog_counts_nothing:
  "pf_foreign_keys pf \<Longrightarrow> counts_nothing (catalog_transport router text pf cfg)"
  using evolves_serve [of pf]
  by (auto simp: counts_nothing_def catalog_transport_def case_prod_beta evolves_def split: option.split)

lemma counts_nothing_getJSON:
  "counts_nothing t \<Longrightarrow> proc_pizzas (snd (getJSON t ctx url dec dest s)) = proc_pizzas s"
  by (simp add: getJSON_state counts_nothing_def)

lemma counts_nothing_postJSON:
  "counts_nothing t \<Longrightarrow> proc_pizzas (snd (postJSON t ctx url src dec dest s)) = proc_pizzas s"
  by (auto simp: postJSON_request counts_nothing_def split: prod.splits sum.splits) (metis snd_conv)+

lemma counts_nothing_clients:
  assumes "counts_nothing t"
  shows "client_Ingredients t cu ctx ty s = (x1, s1) \<Longrightarrow> proc_pizzas s1 = proc_pizzas s"
    "client_Tools t cu ctx s = (x2, s2) \<Longrightarrow> proc_pizzas s2 = proc_pizzas s"
    "client_Doughs t cu ctx s = (x3, s3) \<Longrightarrow> proc_pizzas s3 = proc_pizzas s"
    "client_Adjectives t cu ctx s = (x4, s4) \<Longrightarrow> proc_pizzas s4 = proc_pizzas s"
    "client_Names t cu ctx s = (x5, s5) \<Longrightarrow> proc_pizzas s5 = proc_pizzas s"
    "client_RecordRecommendation t cu ctx p s = (x6, s6) \<Longrightarrow> proc_pizzas s6 = proc_pizzas s"
  using counts_nothing_getJSON [OF assms] counts_nothing_postJSON [OF assms]
  unfolding client_Ingredients_def client_Tools_def client_Doughs_def client_Adjectives_def client_Names_def
    client_RecordRecommendation_def
  by (metis snd_conv)+

lemma or_500_counts:
  assumes "or_500 w call next = Some (Returned (w', s'))" "\<And>x s1. call = (x, s1) \<Longrightarrow> proc_pizzas s1 = proc_pizzas s"
    "\<And>x s1. next x s1 = Some (Returned (w', s')) \<Longrightarrow> proc_pizzas s1 = proc_pizzas s \<Longrightarrow> C"
    "w' = write_header 500 w \<Longrightarrow> proc_pizzas s' = proc_pizzas s \<Longrightarrow> C"
  shows C
  using or_500_returned [OF assms(1)] assms(2-4) by blast

lemma fetch_pantry_counts:
  assumes "fetch_pantry t cu u pu ctx r w s next = Some (Returned (w', s'))" "counts_nothing t" "counts_nothing u"
  obtains "w' = write_header 500 w" "proc_pizzas s' = proc_pizzas s"
  | p s2 where "next p s2 = Some (Returned (w', s'))" "proc_pizzas s2 = proc_pizzas s"
proof -
  note c = counts_nothing_clients [OF assms(2)] counts_nothing_clients [OF assms(3)]
  show thesis
    using assms(1) that unfolding fetch_pantry_def
    by (elim or_500_counts) (auto dest: c)
qed

text \<open>One request: an answer 200 counts what it shows, any other answer nothing.\<close>

lemma postPizza_counts:
  fixes s :: "'a proc_scheme"
  assumes "postPizza t cu u pu env order usr ctx r new_rw s = Some (Returned (w, s'))"
    and "counts_nothing t" "counts_nothing u"
  shows "(status w \<noteq> 200 \<and> proc_pizzas s' = proc_pizzas s) \<or>
    (status w = 200 \<and> (\<exists>v tool c n. shown w = Some (v, tool, c) \<and> proc_pizzas s' = count_pizza v tool n c (proc_pizzas s)))"
proof -
  obtain failed s1 where f: "FailRandomlyIfEnvSet env ''QUICKPIZZA_FAIL_RATE_RECOMMENDATIONS_API_PIZZA_POST''
      (DelayIfEnvSet env ''QUICKPIZZA_DELAY_RECOMMENDATIONS_API_PIZZA_POST'' s) = (failed, s1)" by fastforce
  then have s1: "proc_pizzas s1 = proc_pizzas s" using more_fail [OF f] by simp
  show ?thesis
  proof (cases "failed")
    case True
    then show ?thesis using assms(1) f s1 by (auto simp: postPizza_def Let_def reply_def writeJSONErrorResponse_def)
  next
    case False
    show ?thesis
    proof (cases "decodeJSONBody dec_restrictions zero_restrictions r new_rw")
      case (Inl w')
      then have "status w' = 400" by (auto dest: decodeJSONBody_Inl)
      with Inl assms(1) f False s1 show ?thesis by (auto simp: postPizza_def Let_def reply_def)
    next
      case (Inr body)
      let ?res = "clip_name (WithDefaults body)"
      let ?next = "\<lambda>p s2. case generate_pizza order ?res p s2 of
             None \<Rightarrow> None
           | Some (Panicked m) \<Rightarrow> Some (Panicked m)
           | Some (Returned (pizza, s3)) \<Rightarrow> answer_pizza t cu ctx pizza new_rw s3"
      have "fetch_pantry t cu u pu ctx ?res new_rw s1 ?next = Some (Returned (w, s'))"
        using assms(1) f False Inr by (simp add: postPizza_def Let_def)
      then consider "w = write_header 500 new_rw" "proc_pizzas s' = proc_pizzas s1"
        | p s2 where "?next p s2 = Some (Returned (w, s'))" "proc_pizzas s2 = proc_pizzas s1"
        by (rule fetch_pantry_counts [OF _ assms(2,3)])
      then show ?thesis
      proof cases
        case 1
        then show ?thesis using s1 by (simp add: status_write_header)
      next
        case 2
        from 2(1) obtain q s3 where g: "generate_pizza order ?res p s2 = Some (Returned (q, s3))"
          and a: "answer_pizza t cu ctx q new_rw s3 = Some (Returned (w, s'))"
          by (auto split: option.splits outcome.splits)
        have s3: "proc_pizzas s3 = proc_pizzas s" using more_generate [OF g] 2(2) s1 by simp
        from or_500_returned [OF a [unfolded answer_pizza_def]] counts_nothing_clients(6) [OF assms(2)] s3
        show ?thesis
          by (auto simp: reply_def writeJSONResponse_def status_write_header)
      qed
    qed
  qed
qed

subsection \<open>Property\<close>

text \<open>C35: after any sequence of requests to \<^verbatim>\<open>POST /api/pizza\<close> the metrics agree with what the clients were
  answered: the counter of a pair of labels is the number of answers 200 that show them, the four
  histograms hold one observation for each answer 200, those of the calories the values that the
  answers show in their order, and no other answer is counted.\<close>

theorem pizza_metrics_agree:
  assumes "ordered t cu u pu env s ws s'" and "proc_pizzas s = no_pizzas"
    and "counts_nothing t" and "counts_nothing u"
  shows "(\<forall>v tool. pm_recommendations (proc_pizzas s') v tool =
      length (filter (\<lambda>(v', tool', _). v' = v \<and> tool' = tool) (served_pizzas ws))) \<and>
    pm_calories (proc_pizzas s') = map (snd \<circ> snd) (served_pizzas ws) \<and>
    pm_calories_native (proc_pizzas s') = pm_calories (proc_pizzas s') \<and>
    length (pm_ingredients (proc_pizzas s')) = length (served_pizzas ws) \<and>
    pm_ingredients_native (proc_pizzas s') = pm_ingredients (proc_pizzas s')"
  using assms(1)
proof induction
  case ordered_none
  then show ?case by (simp add: assms(2) no_pizzas_def served_snoc)
next
  case (ordered_more ws s1 order usr ctx r w s2)
  from postPizza_counts [OF ordered_more.hyps(2) assms(3,4)] show ?case
  proof
    assume "status w \<noteq> 200 \<and> proc_pizzas s2 = proc_pizzas s1"
    with ordered_more.IH show ?thesis by (simp add: served_snoc)
  next
    assume "status w = 200 \<and> (\<exists>v tool c n. shown w = Some (v, tool, c) \<and> proc_pizzas s2 = count_pizza v tool n c (proc_pizzas s1))"
    then obtain v tool c n where "status w = 200" "shown w = Some (v, tool, c)"
      "proc_pizzas s2 = count_pizza v tool n c (proc_pizzas s1)" by blast
    with ordered_more.IH show ?thesis by (simp add: served_snoc count_pizza_def)
  qed
qed

theorem pizza_metrics_agree_witness:
  "\<exists>w s'. ordered demo_services ''c'' demo_copy ''p'' (\<lambda>_. None) demo_db [w] s' \<and> status w = 200 \<and>
     pm_calories (proc_pizzas s') = map (snd \<circ> snd) (served_pizzas [w])"
proof -
  obtain w s' where w: "postPizza demo_services ''c'' demo_copy ''p'' (\<lambda>_. None) (\<lambda>xs. xs) None demo_ctx demo_order new_rw demo_db =
     Some (Returned (w, s'))" "status w = 200"
    using demo_post by blast
  have o: "ordered demo_services ''c'' demo_copy ''p'' (\<lambda>_. None) demo_db [w] s'"
    using ordered_more [OF ordered_none w(1)] by simp
  have "proc_pizzas demo_db = no_pizzas" "counts_nothing demo_services" "counts_nothing demo_copy"
    by (simp_all add: catalog_counts_nothing demo_db_def seed_db_def) (simp_all add: counts_nothing_def demo_copy_def)
  from pizza_metrics_agree [OF o this] o w(2) show ?thesis by blast
qed

end
