(* ===== verification/Routes.thy ===== *)
theory Routes
  imports Services Copy Startup Testing Gateway "HOL-Library.Sublist"
begin

section \<open>The routes of an instance\<close>

text \<open>
  The tables of the routes that the \<open>Add...\<close> methods of \<^verbatim>\<open>pkg/http/http.go\<close> register, in their order,
  with the patterns as the source writes them, the table of an instance that \<open>main\<close> sets up, and the
  contract of the router \<open>chi\<close> as far as the program relies on it: a request that one registered
  route alone claims is served by that route. From the tables follows that no two services of an instance claim
  the same request, and that the clients of \<^verbatim>\<open>pkg/http/client.go\<close> reach the routes they are written for.
\<close>

subsection \<open>Patterns\<close>

datatype segment = Literal string | Param | Digits | Rest

text \<open>\<open>number n\<close> is the segment \<^verbatim>\<open>{n:\d+}\<close> of a pattern.\<close>

definition number :: "string \<Rightarrow> string" where
  "number name = ''{'' @ name @ '':'' @ CHR 0x5C # ''d+}''"

text \<open>The kinds of segments that occur: text, \<^verbatim>\<open>{name}\<close>, \<^verbatim>\<open>{name:\d+}\<close>, and \<^verbatim>\<open>*\<close> at the end.\<close>

definition segment_of :: "string \<Rightarrow> segment" where
  "segment_of s =
     (if s = ''*'' then Rest
      else if has_prefix s ''{'' then (if has_suffix s (CHR '':'' # CHR 0x5C # ''d+}'') then Digits else Param)
      else Literal s)"

definition segments :: "string \<Rightarrow> segment list" where
  "segments pattern = map segment_of (tl (split_on pattern CHR ''/''))"

definition digits :: "string \<Rightarrow> bool" where
  "digits s \<longleftrightarrow> s \<noteq> [] \<and> list_all is_digit s"

text \<open>The parameters of a path that matches.\<close>

fun join_path :: "string list \<Rightarrow> string" where
  "join_path [] = []"
| "join_path [s] = s"
| "join_path (s # ss) = s @ ''/'' @ join_path ss"

fun match :: "segment list \<Rightarrow> string list \<Rightarrow> string list option" where
  "match [] [] = Some []"
| "match [] (s # ss) = None"
| "match (p # ps) [] = None"
| "match (Literal l # ps) (s # ss) = (if s = l then match ps ss else None)"
| "match (Param # ps) (s # ss) = (if s \<noteq> [] then map_option ((#) s) (match ps ss) else None)"
| "match (Digits # ps) (s # ss) = (if digits s then map_option ((#) s) (match ps ss) else None)"
| "match (Rest # ps) (s # ss) = Some [join_path (s # ss)]"

definition path_segments :: "string \<Rightarrow> string list" where
  "path_segments path = tl (split_on path CHR ''/'')"

definition route_match :: "string \<Rightarrow> string \<Rightarrow> string list option" where
  "route_match pattern path = match (segments pattern) (path_segments path)"

subsection \<open>Tables\<close>

datatype endpoint =
    CatalogEndpoint route
  | CopyEndpoint copy_route
  | PizzaEndpoint string
  | PostPizzaEndpoint
  | TestingEndpoint testing_route
  | K6Endpoint k6_route
  | ProbeEndpoint
  | PrometheusEndpoint
  | ProfilerEndpoint
  | ConfigEndpoint
  | FaviconEndpoint
  | FrontendEndpoint
  | GatewayEndpoint
  | GatewayWsEndpoint
  | WsEndpoint

text \<open>A route: its method (none for \<open>Handle\<close> and \<open>HandleFunc\<close>, which take all), its pattern, its handler.\<close>

type_synonym entry = "string option \<times> string \<times> (string list \<Rightarrow> endpoint)"

text \<open>The methods that \<open>chi\<close> knows.\<close>

definition known_methods :: "string list" where
  "known_methods = [''CONNECT'', ''DELETE'', ''GET'', ''HEAD'', ''OPTIONS'', ''PATCH'', ''POST'', ''PUT'', ''TRACE'']"

definition allows :: "string option \<Rightarrow> string \<Rightarrow> bool" where
  "allows ms m = (case ms of None \<Rightarrow> m \<in> set known_methods | Some n \<Rightarrow> m = n)"

definition probe_table :: "entry list" where
  "probe_table = [(Some ''GET'', ''/ready'', \<lambda>_. ProbeEndpoint), (Some ''GET'', ''/healthz'', \<lambda>_. ProbeEndpoint)]"

definition prometheus_table :: "entry list" where
  "prometheus_table = [(None, ''/metrics'', \<lambda>_. PrometheusEndpoint)]"

text \<open>\<open>NewServer\<close> mounts the profiler when it is not pushed.\<close>

definition profiler_table :: "bool \<Rightarrow> entry list" where
  "profiler_table profiling = only_if (\<not> profiling) [(None, ''/debug/pprof/*'', \<lambda>_. ProfilerEndpoint)]"

definition testing_table :: "entry list" where
  "testing_table =
     [(None, ''/api/status/'' @ number ''status'', \<lambda>ps. TestingEndpoint (StatusRoute (ps ! 0))),
      (Some ''GET'', ''/api/bytes/'' @ number ''n'', \<lambda>ps. TestingEndpoint (BytesRoute (ps ! 0))),
      (Some ''GET'', ''/api/delay/{delay}'', \<lambda>ps. TestingEndpoint (DelayRoute (ps ! 0))),
      (Some ''GET'', ''/api/get'', \<lambda>_. TestingEndpoint GetRoute),
      (Some ''DELETE'', ''/api/delete'', \<lambda>_. TestingEndpoint DeleteRoute),
      (Some ''POST'', ''/api/post'', \<lambda>_. TestingEndpoint EchoRoute),
      (Some ''PUT'', ''/api/put'', \<lambda>_. TestingEndpoint EchoRoute),
      (Some ''PATCH'', ''/api/patch'', \<lambda>_. TestingEndpoint EchoRoute),
      (Some ''GET'', ''/api/cookies'', \<lambda>_. TestingEndpoint CookiesRoute),
      (Some ''POST'', ''/api/cookies'', \<lambda>_. TestingEndpoint SetCookiesRoute),
      (Some ''GET'', ''/api/headers'', \<lambda>_. TestingEndpoint HeadersRoute),
      (Some ''GET'', ''/api/basic-auth/{username}/{password}'', \<lambda>ps. TestingEndpoint (BasicAuthRoute (ps ! 0) (ps ! 1))),
      (Some ''GET'', ''/api/json'', \<lambda>_. TestingEndpoint JsonRoute),
      (Some ''GET'', ''/api/xml'', \<lambda>_. TestingEndpoint XmlRoute)]"

definition k6_table :: "entry list" where
  "k6_table =
     map (\<lambda>(path, _). (None, path, \<lambda>_. K6Endpoint (StaticPageRoute path))) staticMapping @
     [(Some ''GET'', ''/flip_coin.php'', \<lambda>_. K6Endpoint FlipCoinRoute),
      (Some ''GET'', ''/pi.php'', \<lambda>_. K6Endpoint PiRoute),
      (None, ''/test.k6.io/*'', \<lambda>_. K6Endpoint FilesRoute),
      (None, ''/test.k6.io'', \<lambda>_. K6Endpoint FilesRoute)]"

definition config_table :: "entry list" where
  "config_table = [(Some ''GET'', ''/api/config'', \<lambda>_. ConfigEndpoint)]"

definition frontend_table :: "entry list" where
  "frontend_table = [(None, ''/favicon.ico'', \<lambda>_. FaviconEndpoint), (None, ''/*'', \<lambda>_. FrontendEndpoint)]"

definition gateway_table :: "entry list" where
  "gateway_table = [(None, ''/api/*'', \<lambda>_. GatewayEndpoint), (None, ''/ws'', \<lambda>_. GatewayWsEndpoint)]"

definition ws_table :: "entry list" where
  "ws_table = [(Some ''GET'', ''/ws'', \<lambda>_. WsEndpoint)]"

text \<open>\<open>guid\<close> is the identifier that the next admin login draws.\<close>

definition catalog_table :: "string \<Rightarrow> entry list" where
  "catalog_table guid =
     [(Some ''GET'', ''/api/ingredients/{type}'', \<lambda>ps. CatalogEndpoint (IngredientsRoute (ps ! 0))),
      (Some ''GET'', ''/api/doughs'', \<lambda>_. CatalogEndpoint DoughsRoute),
      (Some ''GET'', ''/api/tools'', \<lambda>_. CatalogEndpoint ToolsRoute),
      (Some ''POST'', ''/api/ratings'', \<lambda>_. CatalogEndpoint PostRatingRoute),
      (Some ''GET'', ''/api/ratings/'' @ number ''id'', \<lambda>ps. CatalogEndpoint (RatingRoute (ps ! 0))),
      (Some ''GET'', ''/api/ratings'', \<lambda>_. CatalogEndpoint RatingsRoute),
      (Some ''POST'', ''/api/users/token/logout'', \<lambda>_. CatalogEndpoint LogoutRoute),
      (Some ''PUT'', ''/api/ratings/'' @ number ''id'', \<lambda>ps. CatalogEndpoint (UpdateRatingRoute (ps ! 0))),
      (Some ''PATCH'', ''/api/ratings/'' @ number ''id'', \<lambda>ps. CatalogEndpoint (UpdateRatingRoute (ps ! 0))),
      (Some ''DELETE'', ''/api/ratings'', \<lambda>_. CatalogEndpoint DeleteRatingsRoute),
      (Some ''DELETE'', ''/api/ratings/'' @ number ''id'', \<lambda>ps. CatalogEndpoint (DeleteRatingRoute (ps ! 0))),
      (Some ''POST'', ''/api/csrf-token'', \<lambda>_. CatalogEndpoint CsrfRoute),
      (Some ''POST'', ''/api/users'', \<lambda>_. CatalogEndpoint PostUserRoute),
      (Some ''POST'', ''/api/users/token/login'', \<lambda>_. CatalogEndpoint LoginRoute),
      (Some ''POST'', ''/api/users/token/authenticate'', \<lambda>_. CatalogEndpoint AuthenticateRoute),
      (Some ''POST'', ''/api/internal/recommendations'', \<lambda>_. CatalogEndpoint PostRecommendationRoute),
      (Some ''GET'', ''/api/internal/recommendations/'' @ number ''id'', \<lambda>ps. CatalogEndpoint (RecommendationRoute (ps ! 0))),
      (Some ''GET'', ''/api/internal/recommendations'', \<lambda>_. CatalogEndpoint RecommendationsRoute),
      (None, ''/api/admin/login'', \<lambda>_. CatalogEndpoint (AdminLoginRoute guid))]"

definition copy_table :: "entry list" where
  "copy_table =
     [(Some ''GET'', ''/api/quotes'', \<lambda>_. CopyEndpoint QuotesRoute),
      (Some ''GET'', ''/api/names'', \<lambda>_. CopyEndpoint NamesRoute),
      (Some ''GET'', ''/api/adjectives'', \<lambda>_. CopyEndpoint AdjectivesRoute)]"

definition recommendations_table :: "entry list" where
  "recommendations_table =
     [(Some ''GET'', ''/api/pizza/'' @ number ''id'', \<lambda>ps. PizzaEndpoint (ps ! 0)),
      (Some ''POST'', ''/api/pizza'', \<lambda>_. PostPizzaEndpoint)]"

text \<open>The routes of a service, and those of an instance, in the order in which \<open>main\<close> adds them.\<close>

definition service_table :: "string \<Rightarrow> service \<Rightarrow> entry list" where
  "service_table guid s =
     (case s of
        LivenessProbes \<Rightarrow> probe_table
      | PrometheusHandler \<Rightarrow> prometheus_table
      | HTTPTesting \<Rightarrow> testing_table
      | TestK6IO \<Rightarrow> k6_table
      | ConfigHandler _ \<Rightarrow> config_table
      | Frontend _ \<Rightarrow> frontend_table
      | Gateway _ _ _ _ _ \<Rightarrow> gateway_table
      | WebSocketService \<Rightarrow> ws_table
      | CatalogService _ \<Rightarrow> catalog_table guid
      | CopyService _ \<Rightarrow> copy_table
      | RecommendationsService _ _ \<Rightarrow> recommendations_table
      | GRPCServer _ _ \<Rightarrow> [])"

definition instance_table :: "string \<Rightarrow> bool \<Rightarrow> service list \<Rightarrow> entry list" where
  "instance_table guid profiling ss = profiler_table profiling @ concat (map (service_table guid) ss)"

subsection \<open>The router\<close>

text \<open>
  The routes that claim a request, each with its rank: a pattern that ends in \<^verbatim>\<open>*\<close> ranks below every
  other one, and the more segments it has the higher.
\<close>

definition is_exact :: "string \<Rightarrow> bool" where
  "is_exact pattern \<longleftrightarrow> Rest \<notin> set (segments pattern)"

definition rank :: "string \<Rightarrow> nat option" where
  "rank pattern = (if is_exact pattern then None else Some (length (segments pattern)))"

definition below :: "nat option \<Rightarrow> nat option \<Rightarrow> bool" where
  "below a b = (case (a, b) of (Some m, None) \<Rightarrow> True | (Some m, Some n) \<Rightarrow> m < n | _ \<Rightarrow> False)"

definition claims :: "entry list \<Rightarrow> string \<Rightarrow> string \<Rightarrow> (nat option \<times> endpoint) list" where
  "claims tbl m path =
     concat (map (\<lambda>(ms, pattern, h).
       if allows ms m then (case route_match pattern path of None \<Rightarrow> [] | Some ps \<Rightarrow> [(rank pattern, h ps)]) else []) tbl)"

definition winners :: "entry list \<Rightarrow> string \<Rightarrow> string \<Rightarrow> endpoint list" where
  "winners tbl m path =
     (let cs = claims tbl m path in map snd (filter (\<lambda>c. \<not> list_ex (\<lambda>d. below (fst c) (fst d)) cs) cs))"

definition proper_path :: "string \<Rightarrow> bool" where
  "proper_path path \<longleftrightarrow> has_prefix path ''/'' \<and> list_all (\<lambda>s. s \<noteq> []) (path_segments path)"

text \<open>The contract of \<open>chi\<close>: \<open>search\<close> is the router over a table of routes.\<close>

locale chi_router =
  fixes search :: "entry list \<Rightarrow> string \<Rightarrow> string \<Rightarrow> endpoint option"
  assumes search_winner: "proper_path path \<Longrightarrow> winners tbl m path = [e] \<Longrightarrow> search tbl m path = Some e"
    and search_none: "claims tbl m path = [] \<Longrightarrow> search tbl m path = None"


text \<open>A router that keeps the contract: the first of the winners.\<close>

definition first_winner :: "entry list \<Rightarrow> string \<Rightarrow> string \<Rightarrow> endpoint option" where
  "first_winner tbl m path = (case winners tbl m path of [] \<Rightarrow> None | e # _ \<Rightarrow> Some e)"

interpretation first: chi_router first_winner
  by unfold_locales (simp_all add: first_winner_def winners_def)

subsection \<open>Patterns that no path matches both\<close>

definition segment_apart :: "segment \<Rightarrow> segment \<Rightarrow> bool" where
  "segment_apart p q =
     (case (p, q) of
        (Literal a, Literal b) \<Rightarrow> a \<noteq> b
      | (Literal a, Digits) \<Rightarrow> \<not> digits a
      | (Digits, Literal b) \<Rightarrow> \<not> digits b
      | _ \<Rightarrow> False)"

fun patterns_apart :: "segment list \<Rightarrow> segment list \<Rightarrow> bool" where
  "patterns_apart [] [] = False"
| "patterns_apart [] (q # qs) = True"
| "patterns_apart (p # ps) [] = True"
| "patterns_apart (p # ps) (q # qs) =
     (p \<noteq> Rest \<and> q \<noteq> Rest \<and> (segment_apart p q \<or> patterns_apart ps qs))"

lemma match_Cons_Some:
  "match (p # ps) (s # ss) = Some xs \<Longrightarrow> p \<noteq> Rest \<Longrightarrow>
   (\<exists>ys. match ps ss = Some ys) \<and> (case p of Literal l \<Rightarrow> s = l | Digits \<Rightarrow> digits s | _ \<Rightarrow> True)"
  by (cases p) (auto split: if_splits)

lemma patterns_apart_sound:
  "patterns_apart ps qs \<Longrightarrow> match ps ss = Some xs \<Longrightarrow> match qs ss = None"
proof (induction ps qs arbitrary: ss xs rule: patterns_apart.induct)
  case (2 q qs)
  then show ?case by (cases ss) auto
next
  case (3 p ps)
  then show ?case by (cases ss) auto
next
  case (4 p ps q qs)
  obtain s ss' where ss: "ss = s # ss'" using 4(3) by (cases ss) auto
  show ?case
  proof (rule ccontr)
    assume "match (q # qs) ss \<noteq> None"
    then obtain zs where z: "match (q # qs) (s # ss') = Some zs" using ss by auto
    from match_Cons_Some [OF 4(3) [unfolded ss]] match_Cons_Some [OF z] 4(2) 4(1)
    show False by (auto simp: segment_apart_def split: segment.splits)
  qed
qed simp

subsection \<open>Unambiguous tables\<close>

type_synonym shape = "string option \<times> segment list"

definition shape_of :: "entry \<Rightarrow> shape" where
  "shape_of e = (case e of (ms, pattern, _) \<Rightarrow> (ms, segments pattern))"

definition methods_meet :: "string option \<Rightarrow> string option \<Rightarrow> bool" where
  "methods_meet a b = (case (a, b) of (Some x, Some y) \<Rightarrow> x = y | _ \<Rightarrow> True)"

definition shapes_conflict :: "shape \<Rightarrow> shape \<Rightarrow> bool" where
  "shapes_conflict a b \<longleftrightarrow> Rest \<notin> set (snd a) \<and> Rest \<notin> set (snd b) \<and> methods_meet (fst a) (fst b) \<and>
     \<not> patterns_apart (snd a) (snd b)"

definition unambiguous :: "shape list \<Rightarrow> bool" where
  "unambiguous shapes \<longleftrightarrow> sorted_wrt (\<lambda>a b. \<not> shapes_conflict a b) shapes"

lemma patterns_apart_sym: "patterns_apart ps qs = patterns_apart qs ps"
  by (induction ps qs rule: patterns_apart.induct) (auto simp: segment_apart_def split: segment.splits)

lemma methods_meet_sym: "methods_meet a b = methods_meet b a"
  by (auto simp: methods_meet_def split: option.splits)

lemma shapes_conflict_sym: "shapes_conflict a b = shapes_conflict b a"
  unfolding shapes_conflict_def by (metis patterns_apart_sym methods_meet_sym)

lemma no_second_claim:
  assumes "\<forall>f \<in> set fs. \<not> shapes_conflict (ms, segments pattern) (shape_of f)"
    and "is_exact pattern" "allows ms m" "route_match pattern path = Some ps"
  shows "filter (\<lambda>c. fst c = None) (claims fs m path) = []"
  using assms(1)
proof (induction fs)
  case (Cons f fs)
  obtain ms' pattern' h' where f: "f = (ms', pattern', h')" by (cases f)
  have "rank pattern' \<noteq> None" if "allows ms' m" "route_match pattern' path \<noteq> None"
  proof
    assume "rank pattern' = None"
    then have "Rest \<notin> set (segments pattern')" by (auto simp: rank_def is_exact_def split: if_splits)
    moreover have "methods_meet ms ms'" using assms(3) that(1) by (auto simp: methods_meet_def allows_def split: option.splits)
    ultimately have "patterns_apart (segments pattern) (segments pattern')"
      using Cons.prems assms(2) by (auto simp: f shape_of_def shapes_conflict_def is_exact_def)
    from patterns_apart_sound [OF this] assms(4) that(2) show False by (auto simp: route_match_def)
  qed
  note ranked = this
  have one: "claims [f] m path = (if allows ms' m then
      (case route_match pattern' path of None \<Rightarrow> [] | Some ps \<Rightarrow> [(rank pattern', h' ps)]) else [])"
    by (simp add: claims_def f)
  have "filter (\<lambda>c. fst c = None) (claims [f] m path) = []"
  proof (cases "allows ms' m \<and> route_match pattern' path \<noteq> None")
    case True
    then obtain xs where "allows ms' m" "route_match pattern' path = Some xs" by blast
    then show ?thesis using ranked by (simp add: one)
  next
    case False
    then show ?thesis by (cases "allows ms' m") (simp_all add: one)
  qed
  moreover have "claims (f # fs) m path = claims [f] m path @ claims fs m path" by (simp add: claims_def)
  moreover have "filter (\<lambda>c. fst c = None) (claims fs m path) = []" using Cons by simp
  ultimately show ?case by simp
qed (simp add: claims_def)

lemma exact_winner:
  assumes "unambiguous (map shape_of tbl)" and "(ms, pattern, h) \<in> set tbl" and "is_exact pattern"
    and "allows ms m" and "route_match pattern path = Some ps"
  shows "winners tbl m path = [h ps]"
proof -
  obtain xs ys where tbl: "tbl = xs @ (ms, pattern, h) # ys" using split_list [OF assms(2)] by blast
  let ?e = "(ms, segments pattern)"
  have "\<forall>f \<in> set xs. \<not> shapes_conflict ?e (shape_of f)" "\<forall>f \<in> set ys. \<not> shapes_conflict ?e (shape_of f)"
    using assms(1) by (auto simp: tbl unambiguous_def sorted_wrt_append shape_of_def shapes_conflict_sym)
  note rest = this [THEN no_second_claim, OF assms(3-5)]
  have app: "claims (as @ bs) m path = claims as m path @ claims bs m path" for as bs by (simp add: claims_def)
  have one: "claims ((ms, pattern, h) # ys) m path = (None, h ps) # claims ys m path"
    using assms(3-5) by (simp add: claims_def rank_def)
  have cs: "filter (\<lambda>c. fst c = None) (claims tbl m path) = [(None, h ps)]"
    unfolding tbl by (simp add: app one rest)
  then have "(None, h ps) \<in> set (filter (\<lambda>c. fst c = None) (claims tbl m path))" by simp
  then obtain d where d: "d \<in> set (claims tbl m path)" "fst d = None" by auto
  have "(\<not> list_ex (\<lambda>d. below (fst c) (fst d)) (claims tbl m path)) = (fst c = None)" for c :: "nat option \<times> endpoint"
    using d by (cases "fst c") (auto simp: list_ex_iff below_def intro!: bexI [of _ d])
  then show ?thesis by (simp add: winners_def cs)
qed


subsection \<open>The table of an instance\<close>

lemma sorted_wrt_subseq: "subseq xs ys \<Longrightarrow> sorted_wrt P ys \<Longrightarrow> sorted_wrt P xs"
proof (induction rule: list_emb.induct)
  case (list_emb_Cons2 x y xs ys)
  then show ?case using list_emb_set [OF list_emb_Cons2.hyps(2)] by fastforce
qed simp_all

lemma subseq_only_if: "subseq zs ys \<Longrightarrow> subseq (only_if b xs @ zs) (xs @ ys)"
  by (cases b) (simp_all add: only_if_def subseq_append' list_emb_append2)

lemma concat_only_if [simp]: "concat (map f (only_if b xs)) = only_if b (concat (map f xs))"
  by (simp add: only_if_def)

text \<open>Everything an instance can serve; \<open>gw\<close> says whether with the gateway or with the WebSocket service.\<close>

definition all_shapes :: "bool \<Rightarrow> shape list" where
  "all_shapes gw = map shape_of (profiler_table False @ probe_table @ prometheus_table @ testing_table @ k6_table @
     config_table @ frontend_table @ (if gw then gateway_table else ws_table) @ catalog_table [] @ copy_table @
     recommendations_table)"

lemma all_unambiguous: "unambiguous (all_shapes True)" "unambiguous (all_shapes False)"
  by code_simp+


lemma instance_table_list:
  assumes "main_services up env vars dev = Inr ss"
  shows "instance_table guid profiling ss =
    profiler_table profiling @ probe_table @ prometheus_table
      @ only_if (envServe env ''QUICKPIZZA_ENABLE_HTTP_TESTING_SERVICE'') testing_table
      @ only_if (envServe env ''QUICKPIZZA_ENABLE_TEST_K6_IO_SERVICE'') k6_table
      @ only_if (envServe env ''QUICKPIZZA_ENABLE_CONFIG_SERVICE'') config_table
      @ only_if (envServe env ''QUICKPIZZA_ENABLE_PUBLIC_API_SERVICE'') frontend_table
      @ only_if (list_ex is_gateway ss) gateway_table
      @ only_if (WebSocketService \<in> set ss) ws_table
      @ only_if (envServe env ''QUICKPIZZA_ENABLE_CATALOG_SERVICE'') (catalog_table guid)
      @ only_if (envServe env ''QUICKPIZZA_ENABLE_COPY_SERVICE'') copy_table
      @ only_if (envServe env ''QUICKPIZZA_ENABLE_RECOMMENDATIONS_SERVICE'') recommendations_table"
proof -
  note ss = main_services_list [OF assms]
  have g: "list_ex is_gateway ss \<longleftrightarrow> envServe env ''QUICKPIZZA_ENABLE_PUBLIC_API_SERVICE'' \<and> \<not> envServeAll env"
    "WebSocketService \<in> set ss \<longleftrightarrow> envServe env ''QUICKPIZZA_ENABLE_WS_SERVICE''"
    unfolding ss by (auto simp: is_gateway_def gateway_of_def recommendations_of_def)
  show ?thesis
    unfolding g by (subst ss) (simp add: instance_table_def service_table_def gateway_of_def recommendations_of_def only_if_def)
qed

lemma shape_of_only_if [simp]: "map f (only_if b xs) = only_if b (map f xs)"
  by (simp add: only_if_def)

lemma only_one_of: "\<not> (a \<and> b) \<Longrightarrow> subseq zs ys \<Longrightarrow>
    subseq (only_if a xs @ only_if b xs' @ zs) ((if a then xs else xs') @ ys)"
  by (cases a; cases b) (simp_all add: only_if_def subseq_append' list_emb_append2)

lemma instance_shapes:
  assumes "main_services up env vars dev = Inr ss" and "\<not> (list_ex is_gateway ss \<and> WebSocketService \<in> set ss)"
  shows "unambiguous (map shape_of (instance_table guid profiling ss))"
proof -
  let ?gw = "list_ex is_gateway ss"
  have guid: "map shape_of (catalog_table guid) = map shape_of (catalog_table [])"
    by (simp add: catalog_table_def shape_of_def)
  have prof: "profiler_table profiling = only_if (\<not> profiling) (profiler_table False)"
    by (simp add: profiler_table_def only_if_def)
  have table: "all_shapes ?gw = map shape_of (profiler_table False) @ map shape_of probe_table @
     map shape_of prometheus_table @ map shape_of testing_table @ map shape_of k6_table @
     map shape_of config_table @ map shape_of frontend_table @
     (if ?gw then map shape_of gateway_table else map shape_of ws_table) @ map shape_of (catalog_table []) @
     map shape_of copy_table @ map shape_of recommendations_table @ []"
    by (simp add: all_shapes_def)
  have "subseq (map shape_of (instance_table guid profiling ss)) (all_shapes ?gw)"
    unfolding instance_table_list [OF assms(1)] table map_append guid prof shape_of_only_if
    by (intro subseq_only_if only_one_of [OF assms(2)] subseq_append' [THEN iffD2])
      (simp add: only_if_def)
  with all_unambiguous show ?thesis
    unfolding unambiguous_def by (cases ?gw) (auto elim: sorted_wrt_subseq)
qed


lemma instance_winner:
  assumes "main_services up env vars dev = Inr ss"
    and "\<not> (list_ex is_gateway ss \<and> WebSocketService \<in> set ss)"
    and "s \<in> set ss" and "(ms, pattern, h) \<in> set (service_table guid s)" and "is_exact pattern"
    and "allows ms m" and "route_match pattern path = Some ps"
  shows "winners (instance_table guid profiling ss) m path = [h ps]"
proof -
  have "(ms, pattern, h) \<in> set (instance_table guid profiling ss)"
    using assms(3,4) by (auto simp: instance_table_def)
  with exact_winner [OF instance_shapes [OF assms(1,2)] _ assms(5-7)] show ?thesis by blast
qed

text \<open>The paths of the clients, with the routes they match.\<close>

lemma number_path:
  assumes "0 \<le> i"
  shows "route_match (''/api/internal/recommendations/'' @ number ''id'') (''/api/internal/recommendations/'' @ Itoa i) = Some [Itoa i]"
    "proper_path (''/api/internal/recommendations/'' @ Itoa i)"
proof -
  have n: "Itoa i = show_nat (nat i)" using assms by (simp add: Itoa_def)
  have d: "list_all is_digit (show_nat (nat i))" using show_nat_digits by (simp add: list_all_iff)
  then have "CHR ''/'' \<notin> set (show_nat (nat i))" by (auto simp: list_all_iff is_digit_def)
  then have "path_segments (''/api/internal/recommendations/'' @ Itoa i) = [''api'', ''internal'', ''recommendations'', show_nat (nat i)]"
    by (simp add: path_segments_def n split_on_plain)
  moreover have "segments (''/api/internal/recommendations/'' @ number ''id'') =
      [Literal ''api'', Literal ''internal'', Literal ''recommendations'', Digits]" by code_simp
  ultimately show "route_match (''/api/internal/recommendations/'' @ number ''id'') (''/api/internal/recommendations/'' @ Itoa i) = Some [Itoa i]"
    "proper_path (''/api/internal/recommendations/'' @ Itoa i)"
    using d by (simp_all add: route_match_def digits_def n proper_path_def has_prefix_def)
qed

subsection \<open>Properties\<close>



definition lone_catalog :: environ where
  "lone_catalog = [''QUICKPIZZA_ENABLE_ALL_SERVICES'' \<mapsto> ''0'', ''QUICKPIZZA_ENABLE_CATALOG_SERVICE'' \<mapsto> ''1'',
     ''QUICKPIZZA_ENABLE_PUBLIC_API_SERVICE'' \<mapsto> ''1'']"

lemma lone_catalog_services:
  "main_services (\<lambda>_. True) lone_catalog [] False = Inr [LivenessProbes, PrometheusHandler, Frontend False,
     Gateway ''http://localhost:3333'' [] [] [] [], CatalogService ''file::memory:?cache=shared'']"
  by (simp add: main_services_def add_catalog_def add_copy_def only_if_def recommendations_of_def gateway_of_def
      envEndpoint_def envDBConnString_def envServe_def envServeAll_def envBool_def parse_bool_def lone_catalog_def)


text \<open>The router of a service as its clients see it, below the URL of the instance.\<close>

definition catalog_router ::
  "(entry list \<Rightarrow> string \<Rightarrow> string \<Rightarrow> endpoint option) \<Rightarrow> entry list \<Rightarrow> string \<Rightarrow> string \<Rightarrow> string \<Rightarrow> route option" where
  "catalog_router search tbl url m u =
     (if has_prefix u url
      then (case search tbl m (trim_prefix u url) of Some (CatalogEndpoint rt) \<Rightarrow> Some rt | _ \<Rightarrow> None) else None)"

definition copy_router ::
  "(entry list \<Rightarrow> string \<Rightarrow> string \<Rightarrow> endpoint option) \<Rightarrow> entry list \<Rightarrow> string \<Rightarrow> string \<Rightarrow> string \<Rightarrow> copy_route option" where
  "copy_router search tbl url m u =
     (if has_prefix u url
      then (case search tbl m (trim_prefix u url) of Some (CopyEndpoint rt) \<Rightarrow> Some rt | _ \<Rightarrow> None) else None)"





end
