(* ===== verification/HttpServer.thy ===== *)
theory HttpServer
  imports RecoMetrics Metrics Logging Tracing Routes
begin

section \<open>The HTTP server (\<open>NewServer\<close>)\<close>

text \<open>
  The server of \<^verbatim>\<open>pkg/http/http.go\<close> with the options of its request log and of CORS, and the middlewares
  that every request passes, in their order. The middlewares that are not the program's own (the request log, the
  recovery from panics, CORS) are parameters of the chain.
\<close>

subsection \<open>The options\<close>

record request_logger =
  rl_json :: bool
  rl_level :: level
  rl_concise :: bool
  rl_request_headers :: bool
  rl_message_field :: string
  rl_quiet_routes :: "string list"
  rl_quiet_period :: go_int
  rl_replace :: "string list \<Rightarrow> string \<times> string \<Rightarrow> (string \<times> string) option"

definition quietDownRoutes :: "string list" where
  "quietDownRoutes =
     [''/'', ''/ready'', ''/healthz'', ''/metrics'', ''/contacts.php'', ''/news.php'', ''/flip_coin.php'',
      ''/browser.php'', ''/my_messages.php'', ''/admin.php'', ''/ws'']"

text \<open>The empty attribute is left out of the log.\<close>

definition replaceAttr :: "string list \<Rightarrow> string \<times> string \<Rightarrow> (string \<times> string) option" where
  "replaceAttr groups a =
     (if fst a \<in> set [''remoteIP'', ''proto'', ''message'', ''service'', ''requestID''] then None else Some a)"

record cors_options =
  co_origins :: "string list"
  co_methods :: "string list"
  co_headers :: "string list"
  co_exposed :: "string list"
  co_credentials :: bool
  co_max_age :: nat

definition server_cors :: cors_options where
  "server_cors =
     \<lparr>co_origins = [''*''], co_methods = [''GET'', ''POST'', ''PUT'', ''DELETE'', ''OPTIONS''],
      co_headers = [''Accept'', authHeader, ''Content-Type'', ''X-CSRF-Token''], co_exposed = [''Link''],
      co_credentials = True, co_max_age = 300\<rparr>"

subsection \<open>The server\<close>

datatype root_middleware =
    MetricsMiddleware
  | RequestLogger
  | Recoverer
  | Cors
  | ProfilingLabels

record http_server =
  hs_logger :: context_logger
  hs_request_logger :: request_logger
  hs_cors :: cors_options
  hs_installer :: installer
  hs_middlewares :: "root_middleware list"
  hs_routes :: "entry list"

text \<open>\<open>dflt\<close> is the handler of the default logger.\<close>

definition NewServer :: "environ \<Rightarrow> log_handler \<Rightarrow> bool \<Rightarrow> installer \<Rightarrow> http_server" where
  "NewServer env dflt profiling traceInstaller =
     \<lparr>hs_logger = NewContextLogger dflt,
      hs_request_logger =
        \<lparr>rl_json = True, rl_level = GetLogLevel env, rl_concise = True, rl_request_headers = False,
         rl_message_field = ''message'', rl_quiet_routes = quietDownRoutes, rl_quiet_period = 30000000000,
         rl_replace = replaceAttr\<rparr>,
      hs_cors = server_cors,
      hs_installer = traceInstaller,
      hs_middlewares =
        [MetricsMiddleware, RequestLogger, Recoverer, Cors] @ (if profiling then [ProfilingLabels] else []),
      hs_routes = profiler_table profiling\<rparr>"

subsection \<open>The chain of the middlewares\<close>

type_synonym 's root_handler = "request \<Rightarrow> 's \<times> metrics \<Rightarrow> (rw \<times> 's \<times> metrics) outcome"

text \<open>
  What the chain takes from outside: the middlewares of the libraries, the response to a request that panicked,
  the state that a panic leaves, and of a request the pattern of its route, its trace and its duration.
\<close>

record 's surroundings =
  su_logger :: "'s root_handler \<Rightarrow> 's root_handler"
  su_cors :: "cors_options \<Rightarrow> 's root_handler \<Rightarrow> 's root_handler"
  su_labels :: "'s root_handler \<Rightarrow> 's root_handler"
  su_recover :: "request \<Rightarrow> string \<Rightarrow> rw"
  su_after :: "request \<Rightarrow> string \<Rightarrow> 's \<times> metrics \<Rightarrow> 's \<times> metrics"
  su_exemplars :: bool
  su_pattern :: "request \<Rightarrow> string"
  su_trace :: "request \<Rightarrow> string"
  su_duration :: "request \<Rightarrow> go_int"

definition served_request :: "'s surroundings \<Rightarrow> request \<Rightarrow> rw \<Rightarrow> served" where
  "served_request su r w =
     \<lparr>sv_method = rq_method r, sv_pattern = su_pattern su r, sv_trace = su_trace su r, sv_writer = w,
      sv_duration = su_duration su r\<rparr>"

text \<open>A panic passes through a middleware: what comes after the call of the next handler does not run.\<close>

fun wrap :: "'s surroundings \<Rightarrow> cors_options \<Rightarrow> root_middleware \<Rightarrow> 's root_handler \<Rightarrow> 's root_handler" where
  "wrap su co MetricsMiddleware nxt r st =
     (case nxt r st of
        Panicked e \<Rightarrow> Panicked e
      | Returned (w, s, m) \<Rightarrow>
          Returned (w, s, HTTPMetricsMiddleware (su_exemplars su) (served_request su r w) m))"
| "wrap su co RequestLogger nxt r st = su_logger su nxt r st"
| "wrap su co Recoverer nxt r st =
     (case nxt r st of
        Panicked e \<Rightarrow> Returned (su_recover su r e, su_after su r e st)
      | Returned res \<Rightarrow> Returned res)"
| "wrap su co Cors nxt r st = su_cors su co nxt r st"
| "wrap su co ProfilingLabels nxt r st = su_labels su nxt r st"

definition serve_http :: "'s surroundings \<Rightarrow> http_server \<Rightarrow> 's root_handler \<Rightarrow> 's root_handler" where
  "serve_http su srv handler = foldr (wrap su (hs_cors srv)) (hs_middlewares srv) handler"

text \<open>A handler of a group, which does not see the metrics of the requests.\<close>

definition root_handler :: "(request \<Rightarrow> 's \<Rightarrow> (rw \<times> 's) outcome) \<Rightarrow> 's root_handler" where
  "root_handler h r st =
     (case h r (fst st) of Panicked e \<Rightarrow> Panicked e | Returned (w, s) \<Rightarrow> Returned (w, s, snd st))"

text \<open>\<open>LogUser\<close>: the field that it adds to the entry of a request.\<close>

definition LogUser :: "http_context \<Rightarrow> (string \<times> string) list \<Rightarrow> (string \<times> string) list" where
  "LogUser ctx entry =
     entry @ [(''user'', case contextUser ctx of Some u \<Rightarrow> user_username u | None \<Rightarrow> ''NOTFOUND'')]"


subsection \<open>The contract of the library's middlewares\<close>

text \<open>
  The request log and the profiling labels pass the request on and its response back. CORS, for a request
  that is no preflight, adds headers at most. \<open>Recoverer\<close> answers 500, except for the upgrade of a connection.
\<close>

locale library_middlewares =
  fixes su :: "'s surroundings"
  assumes logger_returns: "nxt r st = Returned x \<Longrightarrow> su_logger su nxt r st = Returned x"
    and labels_pass: "su_labels su nxt r st = nxt r st"
    and cors_returns: "rq_method r \<noteq> ''OPTIONS'' \<Longrightarrow> nxt r st = Returned (w, s, m) \<Longrightarrow>
      \<exists>w'. su_cors su co nxt r st = Returned (w', s, m) \<and> rw_status w' = rw_status w \<and> rw_body w' = rw_body w"
    and cors_panics: "rq_method r \<noteq> ''OPTIONS'' \<Longrightarrow> nxt r st = Panicked e \<Longrightarrow> su_cors su co nxt r st = Panicked e"
    and recover_500: "header_get (rq_headers r) ''Connection'' \<noteq> ''Upgrade'' \<Longrightarrow> rw_status (su_recover su r e) = Some 500"
    and after_metrics: "snd (su_after su r e st) = snd st"
begin

text \<open>What the metrics middleware gets from the rest of the chain.\<close>

lemma labelled: "foldr (wrap su co) (if profiling then [ProfilingLabels] else []) h r st = h r st"
  by (simp add: labels_pass)

lemma inner_returned:
  assumes "rq_method r \<noteq> ''OPTIONS''" "h r st = Returned (w, s, m)"
  shows "\<exists>w'. wrap su co RequestLogger (wrap su co Recoverer (wrap su co Cors
      (foldr (wrap su co) (if profiling then [ProfilingLabels] else []) h))) r st = Returned (w', s, m) \<and>
    rw_status w' = rw_status w \<and> rw_body w' = rw_body w"
proof -
  obtain w' where c: "wrap su co Cors (foldr (wrap su co) (if profiling then [ProfilingLabels] else []) h) r st = Returned (w', s, m)"
    "rw_status w' = rw_status w" "rw_body w' = rw_body w"
    using cors_returns [OF assms(1), where nxt = "foldr (wrap su co) (if profiling then [ProfilingLabels] else []) h"] assms(2)
      labelled by (metis wrap.simps(4))
  then have "wrap su co Recoverer (wrap su co Cors (foldr (wrap su co) (if profiling then [ProfilingLabels] else []) h)) r st =
      Returned (w', s, m)" by (simp del: wrap.simps(4) foldr.simps)
  from logger_returns [where nxt = "wrap su co Recoverer (wrap su co Cors (foldr (wrap su co) (if profiling then [ProfilingLabels] else []) h))", OF this] c(2,3) show ?thesis
    by (intro exI [of _ w']) (simp only: wrap.simps(2))
qed

lemma inner_panicked:
  assumes "rq_method r \<noteq> ''OPTIONS''" "h r st = Panicked e"
  shows "wrap su co RequestLogger (wrap su co Recoverer (wrap su co Cors
      (foldr (wrap su co) (if profiling then [ProfilingLabels] else []) h))) r st =
    Returned (su_recover su r e, su_after su r e st)"
proof -
  have "wrap su co Cors (foldr (wrap su co) (if profiling then [ProfilingLabels] else []) h) r st = Panicked e"
    using cors_panics [OF assms(1), where nxt = "foldr (wrap su co) (if profiling then [ProfilingLabels] else []) h"] assms(2)
      labelled by (metis wrap.simps(4))
  then have "wrap su co Recoverer (wrap su co Cors (foldr (wrap su co) (if profiling then [ProfilingLabels] else []) h)) r st =
      Returned (su_recover su r e, su_after su r e st)" by (simp del: wrap.simps(4) foldr.simps)
  from logger_returns [where nxt = "wrap su co Recoverer (wrap su co Cors (foldr (wrap su co) (if profiling then [ProfilingLabels] else []) h))", OF this] show ?thesis by (simp only: wrap.simps(2))
qed

end

text \<open>Middlewares that do nothing but what the contract asks for.\<close>

definition plain_surroundings :: "(request \<Rightarrow> string) \<Rightarrow> 's surroundings" where
  "plain_surroundings pattern =
     \<lparr>su_logger = (\<lambda>nxt. nxt), su_cors = (\<lambda>co nxt. nxt), su_labels = (\<lambda>nxt. nxt),
      su_recover = (\<lambda>r e. write_header 500 new_rw), su_after = (\<lambda>r e st. st), su_exemplars = True,
      su_pattern = pattern, su_trace = (\<lambda>_. []), su_duration = (\<lambda>_. 0)\<rparr>"

interpretation plain: library_middlewares "plain_surroundings pattern"
  by unfold_locales (simp_all add: plain_surroundings_def write_header_def new_rw_def)

lemma HTTPMetrics_requests:
  "m_requests (HTTPMetricsMiddleware ok sv m) l =
     m_requests m l + (if \<not> isInternalRoute (sv_pattern sv) \<and> l = sv_label sv then 1 else 0)"
  by (simp add: HTTPMetricsMiddleware_def Let_def)

text \<open>The routes that are left out of the metrics are quiet in the log, except those of the profiler.\<close>

lemma internal_routes_quiet: "isInternalRoute p \<Longrightarrow> p \<in> set quietDownRoutes \<or> has_prefix p ''/debug/pprof/''"
  by (auto simp: isInternalRoute_def quietDownRoutes_def)

text \<open>CORS does not allow \<^verbatim>\<open>PATCH\<close>, for which there are routes.\<close>

lemma patch_without_cors:
  "''PATCH'' \<notin> set (co_methods server_cors)"
  "\<exists>p h. (Some ''PATCH'', p, h) \<in> set (catalog_table guid)"
  by (auto simp: server_cors_def catalog_table_def)

text \<open>Behind \<open>AuthMiddleware\<close> the log names the user that the catalog found.\<close>

lemma LogUser_authenticated:
  assumes "Authenticate pf (getRequestToken r) db = (Inr u, d)" and "getRequestToken r \<noteq> []"
  shows "\<exists>ctx'. AuthMiddleware pf nxt ctx r w db = nxt ctx' r w d \<and>
    LogUser ctx' entry = entry @ [(''user'', user_username u)]"
  using assms by (intro exI [of _ "ctx\<lparr>hc_user := Some u\<rparr>"]) (simp add: AuthMiddleware_def LogUser_def contextUser_def)

subsection \<open>Property\<close>


definition demo_log :: log_handler where
  "demo_log = \<lparr>lh_minimum = LevelInfo, lh_attrs = [], lh_groups = []\<rparr>"

definition no_otel :: installer where
  "no_otel = \<lparr>oi_insecure = False, oi_installed = False, oi_endpoint = None\<rparr>"

definition demo_bytes :: request where
  "demo_bytes = \<lparr>rq_method = ''GET'', rq_path = ''/api/bytes/12'', rq_headers = [], rq_cookies = [], rq_query = [],
     rq_json = Inl ''EOF''\<rparr>"


end
