(* ===== verification/Boot.thy ===== *)
theory Boot
  imports HttpServer Client Grpc
begin

section \<open>The process (\<open>main\<close> of \<^verbatim>\<open>cmd/main.go\<close>)\<close>

text \<open>
  How \<open>main\<close> puts the parts together: the profiler, the installer of OpenTelemetry, the HTTP client that the
  recommendations use, the server with the routes of its services and the tracing of their groups, the gRPC
  server, and when the process ends instead. The addresses that cannot be listened on, the databases that
  cannot be opened and the parser of URLs are parameters.
\<close>

text \<open>Without an endpoint the installer is the one that does not export.\<close>

definition main_otel :: "(string \<Rightarrow> string + otel_url) \<Rightarrow> environ \<Rightarrow> string + installer" where
  "main_otel parse env =
     (case env ''QUICKPIZZA_OTLP_ENDPOINT'' of
        None \<Rightarrow> Inr \<lparr>oi_insecure = False, oi_installed = False, oi_endpoint = None\<rparr>
      | Some otlpEndpoint \<Rightarrow>
          if otlpEndpoint = [] then Inr \<lparr>oi_insecure = False, oi_installed = False, oi_endpoint = None\<rparr>
          else
            (case NewOTelInstaller parse otlpEndpoint of
               Inl e \<Rightarrow> Inl e
             | Inr t \<Rightarrow> Inr (if envBool env ''QUICKPIZZA_TRUST_CLIENT_TRACEID'' then Insecure t else t)))"

text \<open>The clients of the recommendations, over the HTTP client of the environment; \<open>dflt\<close> is the default one.\<close>

definition main_catalog_client :: "'h \<Rightarrow> 'h \<Rightarrow> environ \<Rightarrow> 'h catalog_client" where
  "main_catalog_client dflt httpCli env =
     CatalogClient_WithClient httpCli (NewCatalogClient dflt
       (envEndpoint env ''QUICKPIZZA_ENABLE_CATALOG_SERVICE'' ''QUICKPIZZA_CATALOG_ENDPOINT''))"

definition main_copy_client :: "'h \<Rightarrow> 'h \<Rightarrow> environ \<Rightarrow> 'h copy_client" where
  "main_copy_client dflt httpCli env =
     CopyClient_WithClient httpCli (NewCopyClient dflt
       (envEndpoint env ''QUICKPIZZA_ENABLE_COPY_SERVICE'' ''QUICKPIZZA_COPY_ENDPOINT''))"

text \<open>The groups of routes that a service installs the tracing for.\<close>

definition service_groups :: "service \<Rightarrow> string list" where
  "service_groups s =
     (case s of
        ConfigHandler _ \<Rightarrow> [''config'']
      | Frontend _ \<Rightarrow> [''frontend'']
      | Gateway _ _ _ _ _ \<Rightarrow> [''gateway'']
      | WebSocketService \<Rightarrow> [''ws'']
      | CatalogService _ \<Rightarrow> [''catalog'', ''users'', ''admin'']
      | CopyService _ \<Rightarrow> [''copy'']
      | RecommendationsService _ _ \<Rightarrow> [''recommendations'']
      | _ \<Rightarrow> [])"

text \<open>The requests that a group traces: those of the gateway and of the WebSocket service leave \<^verbatim>\<open>/ws\<close> out.\<close>

definition excludeWebSocketFromOTel :: "request \<Rightarrow> bool" where
  "excludeWebSocketFromOTel r \<longleftrightarrow> rq_path r \<noteq> ''/ws''"

definition group_traces :: "string \<Rightarrow> request \<Rightarrow> bool" where
  "group_traces component r \<longleftrightarrow>
     (if component \<in> {''gateway'', ''ws''} then excludeWebSocketFromOTel r else True)"

text \<open>The name of a span: the frontend's are all called \<^verbatim>\<open>static\<close>; \<open>dflt\<close> is the default formatter.\<close>

definition span_name :: "(string \<Rightarrow> request \<Rightarrow> string) \<Rightarrow> string \<Rightarrow> string \<Rightarrow> request \<Rightarrow> string" where
  "span_name dflt component operation r = (if component = ''frontend'' then ''static'' else dflt operation r)"

text \<open>The running process.\<close>

record process =
  ps_profiler :: "pyroscope_config option"
  ps_http_client :: http_client
  ps_server :: http_server
  ps_services :: "service list"
  ps_groups :: "(string \<times> middleware list) list"
  ps_grpc :: "grpc_service list"

record outside =
  ou_parse :: "string \<Rightarrow> string + otel_url"
  ou_up :: "string \<Rightarrow> bool"                     \<comment> \<open>the databases that can be set up\<close>
  ou_busy :: "string \<Rightarrow> string option"          \<comment> \<open>why an address cannot be listened on\<close>
  ou_exporters :: exporters
  ou_frac :: "nat \<Rightarrow> nat \<Rightarrow> nat \<Rightarrow> nat"
  ou_wait :: "go_int \<times> go_int"                  \<comment> \<open>the waits of a fresh client\<close>
  ou_guid :: string

text \<open>
  The routes of a service are added to those of the server. The process ends with status 1 where one of its
  parts cannot be set up; for the gRPC server, which runs beside the HTTP server, that is when it gets to listen.
\<close>

definition add_service :: "string \<Rightarrow> service \<Rightarrow> http_server \<Rightarrow> http_server" where
  "add_service guid s srv = srv\<lparr>hs_routes := hs_routes srv @ service_table guid s\<rparr>"

definition main_grpc :: "outside \<Rightarrow> service list \<Rightarrow> string + grpc_service list" where
  "main_grpc ou ss =
     (case filter (\<lambda>s. case s of GRPCServer _ _ \<Rightarrow> True | _ \<Rightarrow> False) ss of
        GRPCServer listen healthz # _ \<Rightarrow> GrpcListenAndServe (ou_busy ou) (NewGrpcServer listen healthz)
      | _ \<Rightarrow> Inr [])"

definition main :: "outside \<Rightarrow> log_handler \<Rightarrow> environ \<Rightarrow> string list \<Rightarrow> bool \<Rightarrow> otel_globals \<Rightarrow> nat + process" where
  "main ou dflt env vars devMode g =
     (let profiler = envPyroscopeConfig env in
      case main_otel (ou_parse ou) env of
        Inl e \<Rightarrow> Inl 1
      | Inr t \<Rightarrow>
          (let httpCli = clientFromEnv (ou_frac ou) (fst (ou_wait ou)) (snd (ou_wait ou)) env;
               server = NewServer env dflt (profiler \<noteq> None) t in
           case main_services (ou_up ou) env vars devMode of
             Inl _ \<Rightarrow> Inl 1
           | Inr ss \<Rightarrow>
               (case main_grpc ou ss of
                  Inl _ \<Rightarrow> Inl 1
                | Inr grpc \<Rightarrow>
                    if ou_busy ou '':3333'' \<noteq> None then Inl 1
                    else
                      Inr \<lparr>ps_profiler = profiler, ps_http_client = httpCli,
                           ps_server = fold (add_service (ou_guid ou)) ss server,
                           ps_services = ss,
                           ps_groups = fst (install_groups (ou_exporters ou) env (concat (map service_groups ss)) (t, g)),
                           ps_grpc = grpc\<rparr>)))"

subsection \<open>Lemmas\<close>

lemma fold_add_service:
  "fold (add_service guid) ss srv = srv\<lparr>hs_routes := hs_routes srv @ concat (map (service_table guid) ss)\<rparr>"
  by (induction ss arbitrary: srv) (simp_all add: add_service_def)

text \<open>The routes of the process are the table of its instance.\<close>

lemma main_routes:
  assumes "main ou dflt env vars dev g = Inr p"
  shows "hs_routes (ps_server p) = instance_table (ou_guid ou) (ps_profiler p \<noteq> None) (ps_services p)"
    and "main_services (ou_up ou) env vars dev = Inr (ps_services p)"
  using assms by (auto simp: main_def Let_def fold_add_service NewServer_def instance_table_def split: sum.splits if_splits)

text \<open>The requests of a client that the routes share do not change it: a request has a copy of its own.\<close>

lemma shared_client_kept:
  "clc_ctx (main_catalog_client dflt httpCli env) = client_background"
  "clc_http (CatalogClient_WithRequestContext ctx (main_catalog_client dflt httpCli env)) = httpCli"
  "clc_url (CatalogClient_WithRequestContext ctx (main_catalog_client dflt httpCli env)) =
     envEndpoint env ''QUICKPIZZA_ENABLE_CATALOG_SERVICE'' ''QUICKPIZZA_CATALOG_ENDPOINT''"
  by (simp_all add: main_catalog_client_def CatalogClient_WithRequestContext_def CatalogClient_WithClient_def NewCatalogClient_def)

lemma grpc_of_services:
  assumes "main_services up env vars dev = Inr ss"
  shows "main_grpc ou ss =
    (if envServe env ''QUICKPIZZA_ENABLE_GRPC_SERVICE'' then GrpcListenAndServe (ou_busy ou) (NewGrpcServer '':3334'' '':3335'')
     else Inr [])"
proof -
  have f: "filter P (only_if b xs) = only_if b (filter P xs)" for P b and xs :: "service list" by (simp add: only_if_def)
  show ?thesis
    unfolding main_grpc_def main_services_list [OF assms]
    by (simp add: f gateway_of_def recommendations_of_def) (simp add: only_if_def)
qed


lemma main_services_fails:
  "(\<exists>e. main_services up env vars dev = Inl e) \<longleftrightarrow>
     (envServe env ''QUICKPIZZA_ENABLE_CATALOG_SERVICE'' \<or> envServe env ''QUICKPIZZA_ENABLE_COPY_SERVICE'') \<and>
     \<not> up (envDBConnString env)"
  by (auto simp: main_services_def add_catalog_def add_copy_def Let_def split: sum.splits if_splits)

subsection \<open>Property\<close>

text \<open>C39: when the process runs. It ends with status 1 exactly when the configured endpoint of OpenTelemetry is
  no URL, or a service that needs the database is asked for and the database cannot be set up, or the
  gRPC server is asked for and cannot listen, or the port of the HTTP server is taken; else it runs
  with the services of its environment, all their routes, and a traced group of routes for each of
  their components, while errors of the tracing and a health server that cannot listen do not stop it.\<close>

theorem process_runs:
  "(main ou dflt env vars dev g = Inl 1 \<longleftrightarrow>
      (\<exists>e v. env ''QUICKPIZZA_OTLP_ENDPOINT'' = Some v \<and> v \<noteq> [] \<and> ou_parse ou v = Inl e) \<or>
      (envServe env ''QUICKPIZZA_ENABLE_CATALOG_SERVICE'' \<or> envServe env ''QUICKPIZZA_ENABLE_COPY_SERVICE'') \<and>
        \<not> ou_up ou (envDBConnString env) \<or>
      envServe env ''QUICKPIZZA_ENABLE_GRPC_SERVICE'' \<and> ou_busy ou '':3334'' \<noteq> None \<or>
      ou_busy ou '':3333'' \<noteq> None) \<and>
   (case main ou dflt env vars dev g of
      Inl k \<Rightarrow> k = 1
    | Inr p \<Rightarrow> main_services (ou_up ou) env vars dev = Inr (ps_services p) \<and>
        hs_routes (ps_server p) = instance_table (ou_guid ou) (ps_profiler p \<noteq> None) (ps_services p) \<and>
        map fst (ps_groups p) = concat (map service_groups (ps_services p)))"
proof -
  have groups: "map fst (fst (install_groups ex env cs (t, g))) = cs" for ex cs t g
    by (induction cs arbitrary: t g) (simp_all add: case_prod_beta)
  have otel: "(\<exists>e. main_otel (ou_parse ou) env = Inl e) \<longleftrightarrow>
      (\<exists>e v. env ''QUICKPIZZA_OTLP_ENDPOINT'' = Some v \<and> v \<noteq> [] \<and> ou_parse ou v = Inl e)"
    by (auto simp: main_otel_def NewOTelInstaller_def split: option.splits sum.splits if_splits)
  have grpc: "(\<exists>e. GrpcListenAndServe (ou_busy ou) (NewGrpcServer '':3334'' '':3335'') = Inl e) \<longleftrightarrow> ou_busy ou '':3334'' \<noteq> None"
    by (auto simp: GrpcListenAndServe_def NewGrpcServer_def split: option.splits)
  show ?thesis
  proof (cases "main_otel (ou_parse ou) env")
    case (Inl e)
    then show ?thesis using otel by (auto simp: main_def)
  next
    case ot: (Inr t)
    show ?thesis
    proof (cases "main_services (ou_up ou) env vars dev")
      case (Inl e)
      then show ?thesis using ot main_services_fails [of "ou_up ou" env vars dev] by (auto simp: main_def Let_def)
    next
      case ss: (Inr ss)
      have run: "main ou dflt env vars dev g = (case main_grpc ou ss of Inl _ \<Rightarrow> Inl 1
          | Inr grpc \<Rightarrow> if ou_busy ou '':3333'' \<noteq> None then Inl 1
              else Inr \<lparr>ps_profiler = envPyroscopeConfig env,
                ps_http_client = clientFromEnv (ou_frac ou) (fst (ou_wait ou)) (snd (ou_wait ou)) env,
                ps_server = fold (add_service (ou_guid ou)) ss (NewServer env dflt (envPyroscopeConfig env \<noteq> None) t),
                ps_services = ss,
                ps_groups = fst (install_groups (ou_exporters ou) env (concat (map service_groups ss)) (t, g)),
                ps_grpc = grpc\<rparr>)"
        by (simp only: main_def Let_def ot ss sum.case)
      have up: "\<not> ((envServe env ''QUICKPIZZA_ENABLE_CATALOG_SERVICE'' \<or> envServe env ''QUICKPIZZA_ENABLE_COPY_SERVICE'') \<and>
          \<not> ou_up ou (envDBConnString env))"
        using main_services_fails [of "ou_up ou" env vars dev] ss by auto
      have ok: "\<nexists>e v. env ''QUICKPIZZA_OTLP_ENDPOINT'' = Some v \<and> v \<noteq> [] \<and> ou_parse ou v = Inl e"
        using otel ot by auto
      have fails: "(\<exists>e. main_grpc ou ss = Inl e) \<longleftrightarrow>
          envServe env ''QUICKPIZZA_ENABLE_GRPC_SERVICE'' \<and> ou_busy ou '':3334'' \<noteq> None"
        unfolding grpc_of_services [OF ss] using grpc by auto
      show ?thesis
        using up ok fails main_routes [of ou dflt env vars dev g] groups ss
        by (cases "main_grpc ou ss") (auto simp: run fold_add_service NewServer_def instance_table_def)
    qed
  qed
qed


definition demo_world :: outside where
  "demo_world = \<lparr>ou_parse = (\<lambda>_. Inl ''missing protocol scheme''), ou_up = (\<lambda>_. True), ou_busy = (\<lambda>_. None),
     ou_exporters = \<lparr>ex_trace = (\<lambda>_. None), ex_metric = (\<lambda>_. None), ex_runtime = (\<lambda>_. None)\<rparr>,
     ou_frac = (\<lambda>_ _ _. 0), ou_wait = (1000000000, 30000000000), ou_guid = ''guid''\<rparr>"

theorem process_runs_witness:
  "main demo_world demo_log [''QUICKPIZZA_OTLP_ENDPOINT'' \<mapsto> '':4317''] [] False
     \<lparr>og_tracer = None, og_meter = None, og_runtime = 0\<rparr> = Inl 1"
  using process_runs [of demo_world demo_log "[''QUICKPIZZA_OTLP_ENDPOINT'' \<mapsto> '':4317'']" "[]" False
      "\<lparr>og_tracer = None, og_meter = None, og_runtime = 0\<rparr>"]
  by (simp add: demo_world_def)

end
