(* ===== verification/Migrations.thy ===== *)
theory Migrations
  imports Connection Seed Copy "HOL-Library.List_Lexorder" "HOL-Library.Char_ord"
begin

section \<open>The migrations (\<^verbatim>\<open>pkg/database/migrations\<close>)\<close>

text \<open>
  The two collections of migrations, how \<open>NewCatalog\<close> and \<open>NewCopy\<close> run them with the migrator and the fixture
  loader of \<^verbatim>\<open>src/vendor/github.com/uptrace/bun\<close>, and what the database holds after it. Both services
  connect to the same database and share its table \<^verbatim>\<open>bun_migrations\<close>. A migration is recorded before
  it runs and does not run in a transaction.
\<close>

subsection \<open>The database at startup\<close>

record migration_row =
  mr_id :: go_int
  mr_name :: string
  mr_group :: go_int

text \<open>
  A database: the tables that exist, the rows of all, and the models that the connection in use knows
  (those are not stored).
\<close>

record store =
  st_tables :: "string list"
  st_migrations :: "migration_row table"
  st_db :: db
  st_quotes :: "string list"
  st_names :: "string list"
  st_adjectives :: "string list"
  st_models :: "string list"

definition fresh_store :: "rng \<Rightarrow> store" where
  "fresh_store g =
     \<lparr>st_tables = [], st_migrations = \<lparr>rows = [], seq = 0\<rparr>,
      st_db = \<lparr>proc_rng = g, proc_slept = [], proc_pizzas = no_pizzas, db_ingredients = [], db_doughs = [], db_tools = [],
        db_users = \<lparr>rows = [], seq = 0\<rparr>, db_pizzas = \<lparr>rows = [], seq = 0\<rparr>, db_pizza_to_ingredients = [],
        db_ratings = \<lparr>rows = [], seq = 0\<rparr>, db_clock = 0\<rparr>,
      st_quotes = [], st_names = [], st_adjectives = [], st_models = []\<rparr>"

text \<open>One statement, counted with those of the catalog.\<close>

definition sql :: "platform \<Rightarrow> (nat \<Rightarrow> store \<Rightarrow> 'a result \<times> store) \<Rightarrow> store \<Rightarrow> 'a result \<times> store" where
  "sql pf body s =
     (let k = db_clock (st_db s); s' = s\<lparr>st_db := (st_db s)\<lparr>db_clock := Suc k\<rparr>\<rparr> in
      case pf_fault pf k of
        Some e \<Rightarrow> (Inl (ErrDriver e), s')
      | None \<Rightarrow> body k s')"

fun and_if_ok :: "'a result \<times> 's \<Rightarrow> ('a \<Rightarrow> 's \<Rightarrow> 'b result \<times> 's) \<Rightarrow> 'b result \<times> 's" where
  "and_if_ok (Inl e, s) f = (Inl e, s)"
| "and_if_ok (Inr x, s) f = f x s"

text \<open>\<^verbatim>\<open>CREATE TABLE IF NOT EXISTS\<close>, with the tables that the new one references.\<close>

definition create_table :: "platform \<Rightarrow> string \<Rightarrow> string list \<Rightarrow> store \<Rightarrow> unit result \<times> store" where
  "create_table pf name refs =
     sql pf (\<lambda>k s.
       if name \<in> set (st_tables s) then (Inr (), s)
       else if pf_dialect pf = Postgres \<and> \<not> set refs \<subseteq> set (st_tables s)
         then (Inl (ErrDriver ''relation does not exist''), s)
       else (Inr (), s\<lparr>st_tables := st_tables s @ [name]\<rparr>))"

definition on_table :: "string \<Rightarrow> (nat \<Rightarrow> store \<Rightarrow> 'a result \<times> store) \<Rightarrow> nat \<Rightarrow> store \<Rightarrow> 'a result \<times> store" where
  "on_table name body k s =
     (if name \<in> set (st_tables s) then body k s else (Inl (ErrDriver (''no such table: '' @ name)), s))"

definition RegisterModel :: "string \<Rightarrow> store \<Rightarrow> store" where
  "RegisterModel m s = s\<lparr>st_models := m # st_models s\<rparr>"

text \<open>A table made from a model: building the statement makes the model known.\<close>

definition create_model :: "platform \<Rightarrow> string \<times> string \<times> string list \<Rightarrow> store \<Rightarrow> unit result \<times> store" where
  "create_model pf t s = (case t of (m, name, refs) \<Rightarrow> create_table pf name refs (RegisterModel m s))"

fun create_models :: "platform \<Rightarrow> (string \<times> string \<times> string list) list \<Rightarrow> store \<Rightarrow> unit result \<times> store" where
  "create_models pf [] s = (Inr (), s)"
| "create_models pf (t # ts) s = and_if_ok (create_model pf t s) (\<lambda>_. create_models pf ts)"

subsection \<open>Fixtures\<close>

text \<open>A row of \<^verbatim>\<open>testdata.yaml\<close>, decoded into the model it names.\<close>

datatype fixture =
    DoughRow dough
  | ToolRow string
  | IngredientRow ingredient
  | PizzaRow go_int string go_int string
  | LinkRow go_int go_int
  | UserRow user
  | RatingRow rating
  | QuoteRow string
  | NameRow string
  | AdjectiveRow string

fun fixture_model :: "fixture \<Rightarrow> string" where
  "fixture_model (DoughRow _) = ''Dough''"
| "fixture_model (ToolRow _) = ''Tool''"
| "fixture_model (IngredientRow _) = ''Ingredient''"
| "fixture_model (PizzaRow _ _ _ _) = ''Pizza''"
| "fixture_model (LinkRow _ _) = ''PizzaToIngredients''"
| "fixture_model (UserRow _) = ''User''"
| "fixture_model (RatingRow _) = ''Rating''"
| "fixture_model (QuoteRow _) = ''Quote''"
| "fixture_model (NameRow _) = ''ClassicalName''"
| "fixture_model (AdjectiveRow _) = ''Adjective''"

fun fixture_table :: "fixture \<Rightarrow> string" where
  "fixture_table (DoughRow _) = ''doughs''"
| "fixture_table (ToolRow _) = ''tools''"
| "fixture_table (IngredientRow _) = ''ingredients''"
| "fixture_table (PizzaRow _ _ _ _) = ''pizzas''"
| "fixture_table (LinkRow _ _) = ''pizza_to_ingredients''"
| "fixture_table (UserRow _) = ''users''"
| "fixture_table (RatingRow _) = ''ratings''"
| "fixture_table (QuoteRow _) = ''quotes''"
| "fixture_table (NameRow _) = ''classical_names''"
| "fixture_table (AdjectiveRow _) = ''adjectives''"

definition in_db :: "(nat \<Rightarrow> db \<Rightarrow> 'a result \<times> db) \<Rightarrow> nat \<Rightarrow> store \<Rightarrow> unit result \<times> store" where
  "in_db f k s =
     (case f k (st_db s) of
        (Inl e, d) \<Rightarrow> (Inl e, s\<lparr>st_db := d\<rparr>)
      | (Inr _, d) \<Rightarrow> (Inr (), s\<lparr>st_db := d\<rparr>))"

text \<open>Inserting into a table that has nothing but its primary key.\<close>

definition insert_keyed :: "('r \<Rightarrow> 'k) \<Rightarrow> 'r \<Rightarrow> 'r list \<Rightarrow> 'r list result" where
  "insert_keyed key r rs = (if key r \<in> key ` set rs then Inl (ErrConstraint ''primary key'') else Inr (rs @ [r]))"

definition insert_plain :: "'r list result \<Rightarrow> ('r list \<Rightarrow> store) \<Rightarrow> store \<Rightarrow> unit result \<times> store" where
  "insert_plain res upd s = (case res of Inl e \<Rightarrow> (Inl e, s) | Inr rs \<Rightarrow> (Inr (), upd rs))"

fun insert_fixture :: "platform \<Rightarrow> fixture \<Rightarrow> nat \<Rightarrow> store \<Rightarrow> unit result \<times> store" where
  "insert_fixture pf (DoughRow d) k s =
     insert_plain (insert_keyed dough_id d (db_doughs (st_db s)))
       (\<lambda>rs. s\<lparr>st_db := (st_db s)\<lparr>db_doughs := rs\<rparr>\<rparr>) s"
| "insert_fixture pf (ToolRow t) k s =
     insert_plain (insert_keyed (\<lambda>x. x) t (db_tools (st_db s)))
       (\<lambda>rs. s\<lparr>st_db := (st_db s)\<lparr>db_tools := rs\<rparr>\<rparr>) s"
| "insert_fixture pf (IngredientRow i) k s =
     insert_plain (insert_keyed ing_id i (db_ingredients (st_db s)))
       (\<lambda>rs. s\<lparr>st_db := (st_db s)\<lparr>db_ingredients := rs\<rparr>\<rparr>) s"
| "insert_fixture pf (PizzaRow i name dough tool) k s =
     in_db (insert_pizza pf \<lparr>pizza_id = i, pizza_created_at = 0, pizza_name = name, pizza_dough_id = dough,
       pizza_dough = zero_dough, pizza_ingredients = [], pizza_tool = tool\<rparr>) k s"
| "insert_fixture pf (LinkRow p i) k s = in_db (insert_pizza_to_ingredient pf p i) k s"
| "insert_fixture pf (UserRow u) k s = in_db (insert_user pf u) k s"
| "insert_fixture pf (RatingRow r) k s = in_db (insert_rating pf r) k s"
| "insert_fixture pf (QuoteRow t) k s =
     insert_plain (insert_keyed (\<lambda>x. x) t (st_quotes s)) (\<lambda>rs. s\<lparr>st_quotes := rs\<rparr>) s"
| "insert_fixture pf (NameRow t) k s =
     insert_plain (insert_keyed (\<lambda>x. x) t (st_names s)) (\<lambda>rs. s\<lparr>st_names := rs\<rparr>) s"
| "insert_fixture pf (AdjectiveRow t) k s =
     insert_plain (insert_keyed (\<lambda>x. x) t (st_adjectives s)) (\<lambda>rs. s\<lparr>st_adjectives := rs\<rparr>) s"

text \<open>The loader looks the model up by its name, then inserts the rows one by one.\<close>

definition load_fixture :: "platform \<Rightarrow> fixture \<Rightarrow> store \<Rightarrow> unit result \<times> store" where
  "load_fixture pf r s =
     (if fixture_model r \<notin> set (st_models s)
      then (Inl (ErrDriver (''fixture: can't find model='' @ fixture_model r)), s)
      else sql pf (on_table (fixture_table r) (insert_fixture pf r)) s)"

fun load_fixtures :: "platform \<Rightarrow> fixture list \<Rightarrow> store \<Rightarrow> unit result \<times> store" where
  "load_fixtures pf [] s = (Inr (), s)"
| "load_fixtures pf (r # rs) s = and_if_ok (load_fixture pf r s) (\<lambda>_. load_fixtures pf rs)"

subsection \<open>The seeds and the two collections\<close>

text \<open>The rows of \<^verbatim>\<open>migrations/copy/testdata.yaml\<close>.\<close>

definition seed_quotes :: "string list" where
  "seed_quotes = [
    ''\"Pizza makes anything possible...\" - Ernest Hemingway'',
     ''\"Anyone who says that money cannot buy happiness has clearly never spent their money on pizza.\" - Oscar Wilde'',
     ''\"Pizza is the most perfect food that exists.\" - John Green'',
     ''\"My unbiased opinion is that pizza is a great food.\" - Mario Pizzetti'',
     ''\"How did my name end up in a pizza website? No, seriously.\" - John Hamm'',
     ''\"I used Grafana's k6 to test this website, and it was great. Like pizza.\" - Mary D. Eveloper'']"

definition seed_names :: "string list" where
  "seed_names = [
    ''Americana'', ''Bolognese'', ''Calzone'', ''Capricciosa'', ''Carbonara'', ''Frutti di Mare'', ''Funghi'',
     ''Fungi e Olive'', ''Hawaii'', ''Margherita'', ''Marinara'', ''Napoletana'', ''Prosciutto'', ''Pugliese'',
     ''Quattro Formaggi'', ''Quattro Stagioni'', ''Romana'', ''Siciliana'']"

definition seed_adjectives :: "string list" where
  "seed_adjectives = [
    ''Able'', ''Bad'', ''Big'', ''Black'', ''Blue'', ''Bold'', ''Brave'', ''Bright'', ''Busy'', ''Calm'', ''Clever'',
     ''Cold'', ''Cool'', ''Crazy'', ''Cute'', ''Dark'', ''Dead'', ''Deep'', ''Dirty'', ''Dry'', ''Early'', ''Easy'',
     ''Empty'', ''Fast'', ''Fat'', ''Fierce'', ''Fine'', ''Flat'', ''Fluffy'', ''Free'', ''Fresh'', ''Full'',
     ''Funny'', ''Gentle'', ''Giant'', ''Gigantic'', ''Good'', ''Green'', ''Grey'', ''Happy'', ''Hard'', ''Heavy'',
     ''High'', ''Hollow'', ''Hot'', ''Huge'', ''Hungry'', ''Hurt'', ''Ill'', ''Important'', ''Kind'', ''Large'',
     ''Late'', ''Lazy'', ''Light'', ''Little'', ''Long'', ''Loud'', ''Low'', ''Lucky'', ''Mad'', ''Mammoth'',
     ''Massive'', ''Mean'', ''Mighty'', ''Miniature'', ''Misty'', ''Modern'', ''Mushy'', ''Narrow'', ''Nasty'',
     ''New'', ''Nice'', ''Noisy'', ''Old'', ''Orange'', ''Pink'', ''Poor'', ''Pretty'', ''Purple'', ''Quick'',
     ''Quiet'', ''Red'', ''Round'', ''Rough'', ''Sad'', ''Scary'', ''Shallow'', ''Short'', ''Shy'', ''Silent'',
     ''Small'', ''Soft'', ''Solid'', ''Sour'', ''Square'', ''Strange'', ''Strong'', ''Stupid'', ''Sweet'', ''Tall'',
     ''Tame'', ''Tasty'', ''Tender'', ''Tight'', ''Tiny'', ''Tough'', ''True'', ''Ugly'', ''Unhappy'', ''Unusual'',
     ''Warm'', ''Weak'', ''White'', ''Wide'', ''Wild'', ''Wise'', ''Yellow'', ''Young'']"

text \<open>The fixtures in the order of the files; the pizzas leave the time of their creation to the database.\<close>

definition catalog_fixtures :: "fixture list" where
  "catalog_fixtures =
     map DoughRow seed_doughs @ map ToolRow seed_tools @ map IngredientRow seed_ingredients @
     map (\<lambda>p. PizzaRow (pr_id p) (pr_name p) (pr_dough_id p) (pr_tool p)) (seed_pizzas 0) @
     map (\<lambda>(p, i). LinkRow p i) seed_pizza_to_ingredients @ map UserRow seed_users @ map RatingRow seed_ratings"

definition copy_fixtures :: "fixture list" where
  "copy_fixtures = map QuoteRow seed_quotes @ map NameRow seed_names @ map AdjectiveRow seed_adjectives"

text \<open>\<^verbatim>\<open>SELECT setval(s, COALESCE((SELECT MAX(id) FROM t), 1))\<close>.\<close>

definition setval :: "('r \<Rightarrow> int) \<Rightarrow> 'r table \<Rightarrow> 'r table" where
  "setval key t = t\<lparr>seq := (if rows t = [] then 1 else Max (key ` set (rows t)))\<rparr>"

definition reset_pizzas :: "store \<Rightarrow> store" where
  "reset_pizzas s = s\<lparr>st_db := (st_db s)\<lparr>db_pizzas := setval pr_id (db_pizzas (st_db s))\<rparr>\<rparr>"

definition reset_users :: "store \<Rightarrow> store" where
  "reset_users s = s\<lparr>st_db := (st_db s)\<lparr>db_users := setval user_id (db_users (st_db s))\<rparr>\<rparr>"

definition reset_ratings :: "store \<Rightarrow> store" where
  "reset_ratings s = s\<lparr>st_db := (st_db s)\<lparr>db_ratings := setval rating_id (db_ratings (st_db s))\<rparr>\<rparr>"

fun reset_sequences :: "platform \<Rightarrow> (string \<times> (store \<Rightarrow> store)) list \<Rightarrow> store \<Rightarrow> unit result \<times> store" where
  "reset_sequences pf [] s = (Inr (), s)"
| "reset_sequences pf ((table, f) # fs) s =
     and_if_ok (sql pf (on_table table (\<lambda>k s. (Inr (), f s))) s) (\<lambda>_. reset_sequences pf fs)"

record migration =
  m_name :: string
  m_up :: "platform \<Rightarrow> store \<Rightarrow> unit result \<times> store"

definition catalog_models :: "(string \<times> string \<times> string list) list" where
  "catalog_models =
     [(''Ingredient'', ''ingredients'', []), (''Dough'', ''doughs'', []), (''Tool'', ''tools'', []), (''User'', ''users'', []),
      (''Pizza'', ''pizzas'', [''doughs'', ''tools'']), (''Rating'', ''ratings'', [''users'', ''pizzas'']),
      (''PizzaToIngredients'', ''pizza_to_ingredients'', [''pizzas'', ''ingredients''])]"

definition catalog_schema_up :: "platform \<Rightarrow> store \<Rightarrow> unit result \<times> store" where
  "catalog_schema_up pf s = create_models pf catalog_models (RegisterModel ''PizzaToIngredients'' s)"

definition catalog_seed_up :: "platform \<Rightarrow> store \<Rightarrow> unit result \<times> store" where
  "catalog_seed_up pf s =
     and_if_ok (load_fixtures pf catalog_fixtures s) (\<lambda>_ s.
       if pf_dialect pf = Postgres
       then reset_sequences pf [(''pizzas'', reset_pizzas), (''users'', reset_users), (''ratings'', reset_ratings)] s
       else (Inr (), s))"

definition catalog_migrations :: "migration list" where
  "catalog_migrations =
     [\<lparr>m_name = ''20230829142500'', m_up = catalog_schema_up\<rparr>, \<lparr>m_name = ''20230830134500'', m_up = catalog_seed_up\<rparr>]"

definition copy_models :: "(string \<times> string \<times> string list) list" where
  "copy_models =
     [(''Quote'', ''quotes'', []), (''Adjective'', ''adjectives'', []), (''ClassicalName'', ''classical_names'', [])]"

definition copy_schema_up :: "platform \<Rightarrow> store \<Rightarrow> unit result \<times> store" where
  "copy_schema_up pf s = create_models pf copy_models s"

definition copy_seed_up :: "platform \<Rightarrow> store \<Rightarrow> unit result \<times> store" where
  "copy_seed_up pf s = load_fixtures pf copy_fixtures s"

definition copy_migrations :: "migration list" where
  "copy_migrations =
     [\<lparr>m_name = ''20230829142501'', m_up = copy_schema_up\<rparr>, \<lparr>m_name = ''20230830134501'', m_up = copy_seed_up\<rparr>]"

subsection \<open>The migrator\<close>

text \<open>The text of an error of the database; only whether there is one matters.\<close>

definition sql_error :: "err \<Rightarrow> string" where
  "sql_error e = (case e of ErrDriver t \<Rightarrow> t | ErrConstraint t \<Rightarrow> t | _ \<Rightarrow> [])"

definition Init :: "platform \<Rightarrow> store \<Rightarrow> unit result \<times> store" where
  "Init pf s =
     and_if_ok (create_table pf ''bun_migrations'' [] s) (\<lambda>_. create_table pf ''bun_migration_locks'' [])"

definition AppliedMigrations :: "platform \<Rightarrow> store \<Rightarrow> migration_row list result \<times> store" where
  "AppliedMigrations pf s =
     sql pf (on_table ''bun_migrations'' (\<lambda>k s. (Inr (scan pf k (rows (st_migrations s))), s))) s"

fun LastGroupID :: "migration_row list \<Rightarrow> go_int \<Rightarrow> go_int" where
  "LastGroupID [] lastGroupID = lastGroupID"
| "LastGroupID (r # rs) lastGroupID = LastGroupID rs (if mr_group r > lastGroupID then mr_group r else lastGroupID)"

text \<open>The identifier that a migration gets from the rows, of which the last one of its name counts.\<close>

definition applied_id :: "migration_row list \<Rightarrow> migration \<Rightarrow> go_int" where
  "applied_id rs m = (case by_key mr_name (rev rs) (m_name m) of Some r \<Rightarrow> mr_id r | None \<Rightarrow> 0)"

definition Unapplied :: "migration_row list \<Rightarrow> migration list \<Rightarrow> migration list" where
  "Unapplied rs ms = filter (\<lambda>m. \<not> applied_id rs m > 0) (sort_key m_name ms)"

definition MarkApplied :: "platform \<Rightarrow> string \<Rightarrow> go_int \<Rightarrow> store \<Rightarrow> unit result \<times> store" where
  "MarkApplied pf name grp s =
     sql pf (on_table ''bun_migrations'' (\<lambda>k s.
       case insert_row (pf_dialect pf) mr_id (\<lambda>i r. r\<lparr>mr_id := i\<rparr>) (\<lambda>_. True)
              \<lparr>mr_id = 0, mr_name = name, mr_group = grp\<rparr> (st_migrations s) of
         (None, t) \<Rightarrow> (Inl (ErrConstraint ''bun_migrations''), s\<lparr>st_migrations := t\<rparr>)
       | (Some _, t) \<Rightarrow> (Inr (), s\<lparr>st_migrations := t\<rparr>))) s"

text \<open>The loop of \<open>Migrate\<close>, with the number of migrations in the group so far.\<close>

fun run_unapplied :: "platform \<Rightarrow> go_int \<Rightarrow> migration list \<Rightarrow> nat \<Rightarrow> store \<Rightarrow> (nat \<times> string option) \<times> store" where
  "run_unapplied pf grp [] n s = ((n, None), s)"
| "run_unapplied pf grp (m # ms) n s =
     (case MarkApplied pf (m_name m) grp s of
        (Inl e, s1) \<Rightarrow> ((n, Some (sql_error e)), s1)
      | (Inr _, s1) \<Rightarrow>
          (case m_up m pf s1 of
             (Inl e, s2) \<Rightarrow> ((Suc n, Some (m_name m @ '': up: '' @ sql_error e)), s2)
           | (Inr _, s2) \<Rightarrow> run_unapplied pf grp ms (Suc n) s2))"

definition Migrate :: "platform \<Rightarrow> migration list \<Rightarrow> store \<Rightarrow> (nat \<times> string option) \<times> store" where
  "Migrate pf ms s =
     (if ms = [] then ((0, Some ''migrate: there are no migrations''), s)
      else
        (case AppliedMigrations pf s of
           (Inl e, s1) \<Rightarrow> ((0, Some (sql_error e)), s1)
         | (Inr rs, s1) \<Rightarrow> run_unapplied pf (wrap64 (LastGroupID rs 0 + 1)) (Unapplied rs ms) 0 s1))"

text \<open>What the constructors of the two stores see of it: the group is there whatever happened.\<close>

definition run_migrator :: "platform \<Rightarrow> migration list \<Rightarrow> store \<Rightarrow> migrator \<times> store" where
  "run_migrator pf ms s =
     (case Init pf s of
        (Inl e, s1) \<Rightarrow> (\<lparr>mg_init = Some (sql_error e), mg_group = None, mg_err = None\<rparr>, s1)
      | (Inr _, s1) \<Rightarrow>
          (let ((n, e), s2) = Migrate pf ms s1 in (\<lparr>mg_init = None, mg_group = Some n, mg_err = e\<rparr>, s2)))"

text \<open>A connection knows no models before it is used.\<close>

definition connect :: "store \<Rightarrow> store" where
  "connect s = s\<lparr>st_models := []\<rparr>"

definition open_catalog ::
  "drivers \<Rightarrow> platform \<Rightarrow> environ \<Rightarrow> string \<Rightarrow> store \<Rightarrow> (string + connection \<times> config) outcome \<times> store" where
  "open_catalog dr pf env connString s =
     (case initializeDB dr env connString of
        Inl e \<Rightarrow> (Returned (Inl e), s)
      | Inr cn \<Rightarrow>
          (let (mg, s') = run_migrator (pf\<lparr>pf_dialect := cn_dialect cn\<rparr>) catalog_migrations (connect s) in
           (NewCatalog dr mg env connString, if mg_init mg = None \<and> mg_err mg = None then RegisterModel ''PizzaToIngredients'' s' else s')))"

definition open_copy ::
  "drivers \<Rightarrow> platform \<Rightarrow> environ \<Rightarrow> string \<Rightarrow> store \<Rightarrow> (string + connection) outcome \<times> store" where
  "open_copy dr pf env connString s =
     (case initializeDB dr env connString of
        Inl e \<Rightarrow> (Returned (Inl e), s)
      | Inr cn \<Rightarrow>
          (let (mg, s') = run_migrator (pf\<lparr>pf_dialect := cn_dialect cn\<rparr>) copy_migrations (connect s) in
           (NewCopy dr mg env connString, s')))"

end
