(* ===== verification/MigrationsProps.thy ===== *)
theory MigrationsProps
  imports Migrations
begin

section \<open>What the migrations leave in the database\<close>

text \<open>
  The rows of a store as fixtures, what loading fixtures adds to them and when it works; the interface
  \<open>seeded_service\<close> of a collection of one schema and one seed, interpreted for the catalog and the copy
  service; and the states of the database after any sequence of starts.
\<close>

subsection \<open>The rows of a store\<close>

definition stored_rows :: "store \<Rightarrow> fixture list" where
  "stored_rows s =
     map DoughRow (db_doughs (st_db s)) @ map ToolRow (db_tools (st_db s)) @ map IngredientRow (db_ingredients (st_db s)) @
     map (\<lambda>p. PizzaRow (pr_id p) (pr_name p) (pr_dough_id p) (pr_tool p)) (rows (db_pizzas (st_db s))) @
     map (\<lambda>x. LinkRow (fst x) (snd x)) (db_pizza_to_ingredients (st_db s)) @ map UserRow (rows (db_users (st_db s))) @
     map RatingRow (rows (db_ratings (st_db s))) @ map QuoteRow (st_quotes s) @ map NameRow (st_names s) @
     map AdjectiveRow (st_adjectives s)"

definition table_rows :: "string \<Rightarrow> store \<Rightarrow> fixture list" where
  "table_rows t s = filter (\<lambda>r. fixture_table r = t) (stored_rows s)"

definition st_seq :: "string \<Rightarrow> store \<Rightarrow> int" where
  "st_seq t s =
     (if t = ''users'' then seq (db_users (st_db s))
      else if t = ''pizzas'' then seq (db_pizzas (st_db s))
      else if t = ''ratings'' then seq (db_ratings (st_db s)) else 0)"

fun fixture_id :: "fixture \<Rightarrow> go_int" where
  "fixture_id (PizzaRow i _ _ _) = i"
| "fixture_id (UserRow u) = user_id u"
| "fixture_id (RatingRow r) = rating_id r"
| "fixture_id _ = 0"

text \<open>Fixtures with explicit identifiers and no password to be hashed.\<close>

fun plain_fixture :: "fixture \<Rightarrow> bool" where
  "plain_fixture (PizzaRow i _ _ _) = (i \<noteq> 0)"
| "plain_fixture (UserRow u) = (user_id u \<noteq> 0 \<and> user_password u = [])"
| "plain_fixture (RatingRow r) = (rating_id r \<noteq> 0)"
| "plain_fixture _ = True"

text \<open>The rows and sequences of the tables, as opposed to the bookkeeping of the migrations.\<close>

definition data :: "store \<Rightarrow> _" where
  "data s = (db_doughs (st_db s), db_tools (st_db s), db_ingredients (st_db s), db_pizzas (st_db s),
     db_pizza_to_ingredients (st_db s), db_users (st_db s), db_ratings (st_db s), st_quotes s, st_names s, st_adjectives s)"

lemma data_eqD:
  assumes "data s = data s'"
  shows "stored_rows s = stored_rows s'" "table_rows t s = table_rows t s'" "st_seq t s = st_seq t s'"
  using assms by (simp_all add: data_def table_rows_def stored_rows_def st_seq_def)

subsection \<open>Statements\<close>

definition tick_store :: "store \<Rightarrow> store" where
  "tick_store s = s\<lparr>st_db := (st_db s)\<lparr>db_clock := Suc (db_clock (st_db s))\<rparr>\<rparr>"

lemma tick_store_simps [simp]:
  "data (tick_store s) = data s" "st_tables (tick_store s) = st_tables s" "st_models (tick_store s) = st_models s"
  "st_migrations (tick_store s) = st_migrations s"
  by (simp_all add: tick_store_def data_def)

lemmas tick_rows [simp] = data_eqD [OF tick_store_simps(1)]

lemma sql_eq:
  "sql pf body s = (case pf_fault pf (db_clock (st_db s)) of
     Some e \<Rightarrow> (Inl (ErrDriver e), tick_store s) | None \<Rightarrow> body (db_clock (st_db s)) (tick_store s))"
  by (cases "pf_fault pf (db_clock (st_db s))") (simp_all add: sql_def tick_store_def Let_def)

lemma sql_ok: "fault_free pf \<Longrightarrow> sql pf body s = body (db_clock (st_db s)) (tick_store s)"
  by (simp add: sql_eq fault_free_def)

lemma and_if_ok_Inr: "and_if_ok p f = (Inr y, s') \<longleftrightarrow> (\<exists>x s. p = (Inr x, s) \<and> f x s = (Inr y, s'))"
  by (cases "(p, f)" rule: and_if_ok.cases) auto

lemma and_if_ok_cases:
  assumes "and_if_ok p f = (y, s')"
  obtains e where "p = (Inl e, s')" "y = Inl e" | x s where "p = (Inr x, s)" "f x s = (y, s')"
  using assms by (cases "(p, f)" rule: and_if_ok.cases) auto

text \<open>Creating tables and reading or recording migrations does not touch the data.\<close>

lemma create_table_frame:
  assumes "create_table pf n refs s = (x, s')"
  shows "data s' = data s \<and> st_migrations s' = st_migrations s \<and> st_models s' = st_models s \<and>
    set (st_tables s) \<subseteq> set (st_tables s') \<and> (x = Inr () \<longrightarrow> n \<in> set (st_tables s'))"
  using assms by (auto simp: create_table_def sql_eq data_def tick_store_def split: option.splits if_splits)

lemma create_table_ok:
  assumes "fault_free pf" "set refs \<subseteq> set (st_tables s)"
  shows "\<exists>s'. create_table pf n refs s = (Inr (), s')"
  using assms by (auto simp: create_table_def sql_ok)

lemma RegisterModel_simps [simp]:
  "data (RegisterModel m s) = data s" "st_tables (RegisterModel m s) = st_tables s"
  "st_migrations (RegisterModel m s) = st_migrations s" "st_models (RegisterModel m s) = m # st_models s"
  by (simp_all add: RegisterModel_def data_def)

lemma registered:
  "data (fold RegisterModel l s) = data s" "st_tables (fold RegisterModel l s) = st_tables s"
  "st_migrations (fold RegisterModel l s) = st_migrations s"
  by (induction l arbitrary: s) simp_all

lemma create_models_frame:
  "create_models pf ts s = (x, s') \<Longrightarrow>
     data s' = data s \<and> st_migrations s' = st_migrations s \<and> set (st_tables s) \<subseteq> set (st_tables s') \<and>
     set (st_models s) \<subseteq> set (st_models s') \<and>
     (x = Inr () \<longrightarrow> (\<lambda>(m, n, r). n) ` set ts \<subseteq> set (st_tables s') \<and> fst ` set ts \<subseteq> set (st_models s'))"
proof (induction ts arbitrary: s)
  case (Cons t ts)
  obtain m n r where t: "t = (m, n, r)" by (cases t)
  from Cons.prems show ?case
    unfolding create_models.simps
  proof (cases rule: and_if_ok_cases)
    case (1 e)
    then show ?thesis using create_table_frame [of pf n r "RegisterModel m s" _ s'] by (auto simp: create_model_def t)
  next
    case (2 y s1)
    then have "create_table pf n r (RegisterModel m s) = (Inr (), s1)" by (simp add: create_model_def t)
    from create_table_frame [OF this] Cons.IH [OF 2(2)] show ?thesis by (auto simp: t)
  qed
qed simp

fun creatable :: "string set \<Rightarrow> (string \<times> string \<times> string list) list \<Rightarrow> bool" where
  "creatable T [] = True"
| "creatable T ((m, n, refs) # ts) = (set refs \<subseteq> T \<and> creatable (insert n T) ts)"

lemma creatable_mono: "creatable T ts \<Longrightarrow> T \<subseteq> U \<Longrightarrow> creatable U ts"
proof (induction T ts arbitrary: U rule: creatable.induct)
  case (2 T m n refs ts)
  from "2.IH" [of "insert n U"] "2.prems" show ?case by auto
qed simp

lemma create_models_ok:
  assumes "fault_free pf" "creatable (set (st_tables s)) ts"
  shows "\<exists>s'. create_models pf ts s = (Inr (), s')"
  using assms(2)
proof (induction ts arbitrary: s)
  case (Cons t ts)
  obtain m n r where t: "t = (m, n, r)" by (cases t)
  obtain s1 where s1: "create_table pf n r (RegisterModel m s) = (Inr (), s1)"
    using create_table_ok [OF assms(1), of r "RegisterModel m s" n] Cons.prems by (auto simp: t)
  then have "creatable (set (st_tables s1)) ts"
    using create_table_frame [OF s1] Cons.prems creatable_mono by (auto simp: t)
  from Cons.IH [OF this] s1 show ?case by (auto simp: create_model_def t)
qed simp

lemma Init_frame:
  assumes "Init pf s = (x, s')"
  shows "data s' = data s \<and> st_migrations s' = st_migrations s \<and> st_models s' = st_models s \<and>
    set (st_tables s) \<subseteq> set (st_tables s') \<and> (x = Inr () \<longrightarrow> ''bun_migrations'' \<in> set (st_tables s'))"
  using assms unfolding Init_def
  by (rule and_if_ok_cases) (auto dest!: create_table_frame)

lemma Init_ok: "fault_free pf \<Longrightarrow> \<exists>s'. Init pf s = (Inr (), s')"
proof -
  assume f: "fault_free pf"
  obtain s1 where "create_table pf ''bun_migrations'' [] s = (Inr (), s1)"
    using create_table_ok [OF f, of "[]"] by auto
  then show ?thesis using create_table_ok [OF f, of "[]" s1 "''bun_migration_locks''"] by (simp add: Init_def)
qed

subsection \<open>Loading fixtures\<close>

lemma insert_plain_Inr:
  "insert_plain (insert_keyed key r rs) upd s = (Inr (), s') \<longleftrightarrow> key r \<notin> key ` set rs \<and> s' = upd (rs @ [r])"
  by (auto simp: insert_plain_def insert_keyed_def)

lemma in_db_Inr: "in_db f k s = (Inr (), s') \<longleftrightarrow> (\<exists>x d. f k (st_db s) = (Inr x, d) \<and> s' = s\<lparr>st_db := d\<rparr>)"
  by (auto simp: in_db_def split: prod.splits sum.splits)

text \<open>The bookkeeping is not touched, whatever happens.\<close>

definition same_books :: "store \<Rightarrow> store \<Rightarrow> bool" where
  "same_books s s' \<longleftrightarrow> st_tables s' = st_tables s \<and> st_models s' = st_models s \<and> st_migrations s' = st_migrations s"

lemma same_books_refl [simp]: "same_books s s"
  by (simp add: same_books_def)

lemma same_books_trans: "same_books a b \<Longrightarrow> same_books b c \<Longrightarrow> same_books a c"
  by (simp add: same_books_def)

lemma insert_fixture_books: "insert_fixture pf r k s = (x, s') \<Longrightarrow> same_books s s'"
  by (cases r) (auto simp: same_books_def insert_plain_def in_db_def split: sum.splits prod.splits)

lemma load_fixture_books: "load_fixture pf r s = (x, s') \<Longrightarrow> same_books s s'"
  using insert_fixture_books [of pf r _ "tick_store s" x s']
  by (auto simp: load_fixture_def sql_eq on_table_def same_books_def split: if_splits option.splits)

lemma load_fixtures_books: "load_fixtures pf rs s = (x, s') \<Longrightarrow> same_books s s'"
proof (induction rs arbitrary: s)
  case (Cons r rs)
  from Cons.prems show ?case
    unfolding load_fixtures.simps
    by (rule and_if_ok_cases) (auto dest: load_fixture_books Cons.IH intro: same_books_trans)
qed simp

text \<open>What an insertion adds.\<close>

definition moved_seq :: "platform \<Rightarrow> int \<Rightarrow> int \<Rightarrow> int" where
  "moved_seq pf i q = (if pf_dialect pf = SQLite then max q i else q)"

lemma insert_row_explicit:
  "insert_row (pf_dialect pf) key set_key ok r t = (Some r', t') \<Longrightarrow> key r \<noteq> 0 \<Longrightarrow>
     r' = r \<and> t' = \<lparr>rows = rows t @ [r], seq = moved_seq pf (key r) (seq t)\<rparr>"
  by (auto simp: insert_row_def Let_def moved_seq_def split: if_splits)

lemma insert_pizza_explicit:
  "insert_pizza pf p k d = (Inr x, d') \<Longrightarrow> pizza_id p \<noteq> 0 \<Longrightarrow>
     d' = d\<lparr>db_pizzas := \<lparr>rows = rows (db_pizzas d) @ [pizza_to_row pf k p], seq = moved_seq pf (pizza_id p) (seq (db_pizzas d))\<rparr>\<rparr>"
  by (auto simp: insert_pizza_def dest!: insert_row_explicit split: prod.splits option.splits)
    (simp_all add: pizza_to_row_def)

lemma insert_user_explicit:
  "insert_user pf u k d = (Inr x, d') \<Longrightarrow> user_id u \<noteq> 0 \<Longrightarrow> user_password u = [] \<Longrightarrow>
     d' = d\<lparr>db_users := \<lparr>rows = rows (db_users d) @ [u], seq = moved_seq pf (user_id u) (seq (db_users d))\<rparr>\<rparr>"
  by (auto simp: insert_user_def dest!: insert_row_explicit split: prod.splits option.splits)

lemma insert_rating_explicit:
  "insert_rating pf r k d = (Inr x, d') \<Longrightarrow> rating_id r \<noteq> 0 \<Longrightarrow>
     d' = d\<lparr>db_ratings := \<lparr>rows = rows (db_ratings d) @ [r], seq = moved_seq pf (rating_id r) (seq (db_ratings d))\<rparr>\<rparr>"
  by (auto simp: insert_rating_def dest!: insert_row_explicit split: prod.splits option.splits)

lemma insert_link_explicit:
  "insert_pizza_to_ingredient pf p i k d = (Inr x, d') \<Longrightarrow>
     d' = d\<lparr>db_pizza_to_ingredients := db_pizza_to_ingredients d @ [(p, i)]\<rparr>"
  by (auto simp: insert_pizza_to_ingredient_def split: if_splits)

lemmas insert_explicit = insert_pizza_explicit insert_user_explicit insert_rating_explicit insert_link_explicit

lemma insert_fixture_rows:
  assumes "insert_fixture pf r k s = (Inr (), s')" "plain_fixture r"
  shows "table_rows t s' = table_rows t s @ (if fixture_table r = t then [r] else [])"
  using assms
  by (cases r; cases "fixture_table r = t")
    (auto simp: insert_plain_Inr in_db_Inr table_rows_def stored_rows_def filter_map comp_def pizza_to_row_def
      dest!: insert_explicit)

definition sequenced :: "string \<Rightarrow> bool" where
  "sequenced t \<longleftrightarrow> t = ''users'' \<or> t = ''pizzas'' \<or> t = ''ratings''"

lemma insert_fixture_seq:
  assumes "insert_fixture pf r k s = (Inr (), s')" "plain_fixture r"
  shows "st_seq t s' = (if sequenced t \<and> fixture_table r = t then moved_seq pf (fixture_id r) (st_seq t s) else st_seq t s)"
proof (cases "sequenced t")
  case False
  then show ?thesis by (simp add: sequenced_def st_seq_def)
next
  case True
  have u: "st_seq ''users'' x = seq (db_users (st_db x))" "st_seq ''pizzas'' x = seq (db_pizzas (st_db x))"
    "st_seq ''ratings'' x = seq (db_ratings (st_db x))" for x
    by (simp_all add: st_seq_def)
  from True consider "t = ''users''" | "t = ''pizzas''" | "t = ''ratings''" by (auto simp: sequenced_def)
  then show ?thesis
    using assms by cases (cases r; auto simp: insert_plain_Inr in_db_Inr u sequenced_def dest!: insert_explicit)+
qed

lemma load_fixture_Inr:
  assumes "load_fixture pf r s = (Inr (), s')"
  shows "insert_fixture pf r (db_clock (st_db s)) (tick_store s) = (Inr (), s')"
  using assms by (auto simp: load_fixture_def sql_eq on_table_def split: if_splits option.splits)

lemma load_fixtures_rows:
  "load_fixtures pf rs s = (Inr (), s') \<Longrightarrow> \<forall>r \<in> set rs. plain_fixture r \<Longrightarrow>
     table_rows t s' = table_rows t s @ filter (\<lambda>r. fixture_table r = t) rs"
proof (induction rs arbitrary: s)
  case (Cons r rs)
  then obtain s1 where s1: "load_fixture pf r s = (Inr (), s1)" "load_fixtures pf rs s1 = (Inr (), s')"
    by (auto simp: and_if_ok_Inr)
  show ?case
    using insert_fixture_rows [OF load_fixture_Inr [OF s1(1)], of t] Cons.IH [OF s1(2)] Cons.prems(2) by simp
qed simp

lemma load_fixtures_seq:
  "load_fixtures pf rs s = (Inr (), s') \<Longrightarrow> \<forall>r \<in> set rs. plain_fixture r \<Longrightarrow>
     st_seq t s' = (if sequenced t then fold (moved_seq pf) (map fixture_id (filter (\<lambda>r. fixture_table r = t) rs)) (st_seq t s)
       else st_seq t s)"
proof (induction rs arbitrary: s)
  case (Cons r rs)
  then obtain s1 where s1: "load_fixture pf r s = (Inr (), s1)" "load_fixtures pf rs s1 = (Inr (), s')"
    by (auto simp: and_if_ok_Inr)
  show ?case
    using insert_fixture_seq [OF load_fixture_Inr [OF s1(1)], of t] Cons.IH [OF s1(2)] Cons.prems(2)
    by (cases "sequenced t"; cases "fixture_table r = t") simp_all
qed simp

text \<open>Rows that fit beside others: new keys, and references to rows that are there.\<close>

fun fixture_key :: "fixture \<Rightarrow> int \<times> int \<times> string" where
  "fixture_key (DoughRow d) = (dough_id d, 0, [])"
| "fixture_key (ToolRow t) = (0, 0, t)"
| "fixture_key (IngredientRow i) = (ing_id i, 0, [])"
| "fixture_key (PizzaRow i _ _ _) = (i, 0, [])"
| "fixture_key (LinkRow p i) = (p, i, [])"
| "fixture_key (UserRow u) = (user_id u, 0, [])"
| "fixture_key (RatingRow r) = (rating_id r, 0, [])"
| "fixture_key (QuoteRow t) = (0, 0, t)"
| "fixture_key (NameRow t) = (0, 0, t)"
| "fixture_key (AdjectiveRow t) = (0, 0, t)"

definition has_row :: "string \<Rightarrow> int \<times> int \<times> string \<Rightarrow> fixture list \<Rightarrow> bool" where
  "has_row t key rs \<longleftrightarrow> list_ex (\<lambda>r. fixture_table r = t \<and> fixture_key r = key) rs"

fun fits :: "fixture list \<Rightarrow> fixture \<Rightarrow> bool" where
  "fits rs (PizzaRow i n d t) = (has_row ''doughs'' (d, 0, []) rs \<and> has_row ''tools'' (0, 0, t) rs)"
| "fits rs (LinkRow p i) = (has_row ''pizzas'' (p, 0, []) rs \<and> has_row ''ingredients'' (i, 0, []) rs)"
| "fits rs (UserRow u) =
     list_all (\<lambda>r. case r of UserRow v \<Rightarrow> user_username v \<noteq> user_username u \<and> user_token v \<noteq> user_token u | _ \<Rightarrow> True) rs"
| "fits rs (RatingRow r) = (has_row ''users'' (rating_user_id r, 0, []) rs \<and> has_row ''pizzas'' (rating_pizza_id r, 0, []) rs)"
| "fits rs _ = True"

fun acceptable :: "fixture list \<Rightarrow> fixture list \<Rightarrow> bool" where
  "acceptable acc [] = True"
| "acceptable acc (r # rs) =
     (\<not> has_row (fixture_table r) (fixture_key r) acc \<and> fits acc r \<and> acceptable (r # acc) rs)"

lemma has_row_iff: "has_row t key rs \<longleftrightarrow> (\<exists>r \<in> set rs. fixture_table r = t \<and> fixture_key r = key)"
  by (simp add: has_row_def list_ex_iff)

lemma stored_row_iffs:
  "DoughRow d \<in> set (stored_rows s) \<longleftrightarrow> d \<in> set (db_doughs (st_db s))"
  "ToolRow t \<in> set (stored_rows s) \<longleftrightarrow> t \<in> set (db_tools (st_db s))"
  "IngredientRow i \<in> set (stored_rows s) \<longleftrightarrow> i \<in> set (db_ingredients (st_db s))"
  "UserRow u \<in> set (stored_rows s) \<longleftrightarrow> u \<in> set (rows (db_users (st_db s)))"
  "RatingRow r \<in> set (stored_rows s) \<longleftrightarrow> r \<in> set (rows (db_ratings (st_db s)))"
  "LinkRow p i' \<in> set (stored_rows s) \<longleftrightarrow> (p, i') \<in> set (db_pizza_to_ingredients (st_db s))"
  "QuoteRow t \<in> set (stored_rows s) \<longleftrightarrow> t \<in> set (st_quotes s)"
  "NameRow t \<in> set (stored_rows s) \<longleftrightarrow> t \<in> set (st_names s)"
  "AdjectiveRow t \<in> set (stored_rows s) \<longleftrightarrow> t \<in> set (st_adjectives s)"
  "PizzaRow i'' n dg t \<in> set (stored_rows s) \<longleftrightarrow>
     (\<exists>p \<in> set (rows (db_pizzas (st_db s))). pr_id p = i'' \<and> pr_name p = n \<and> pr_dough_id p = dg \<and> pr_tool p = t)"
  by (auto simp: stored_rows_def image_iff Bex_def)

lemma has_row_append: "has_row t key (xs @ ys) \<longleftrightarrow> has_row t key xs \<or> has_row t key ys"
  by (auto simp: has_row_iff)

lemma has_row_map: "has_row t key (map f xs) \<longleftrightarrow> (\<exists>x \<in> set xs. fixture_table (f x) = t \<and> fixture_key (f x) = key)"
  by (auto simp: has_row_iff)

lemma has_stored_row:
  "has_row ''doughs'' (d, 0, []) (stored_rows s) \<longleftrightarrow> d \<in> dough_id ` set (db_doughs (st_db s))"
  "has_row ''tools'' (0, 0, t) (stored_rows s) \<longleftrightarrow> t \<in> set (db_tools (st_db s))"
  "has_row ''ingredients'' (d, 0, []) (stored_rows s) \<longleftrightarrow> d \<in> ingredient_ids (st_db s)"
  "has_row ''pizzas'' (d, 0, []) (stored_rows s) \<longleftrightarrow> d \<in> pizza_ids (st_db s)"
  "has_row ''users'' (d, 0, []) (stored_rows s) \<longleftrightarrow> d \<in> user_ids (st_db s)"
  "has_row ''ratings'' (d, 0, []) (stored_rows s) \<longleftrightarrow> d \<in> rating_ids (st_db s)"
  "has_row ''pizza_to_ingredients'' (d, e, []) (stored_rows s) \<longleftrightarrow> (d, e) \<in> set (db_pizza_to_ingredients (st_db s))"
  "has_row ''quotes'' (0, 0, t) (stored_rows s) \<longleftrightarrow> t \<in> set (st_quotes s)"
  "has_row ''classical_names'' (0, 0, t) (stored_rows s) \<longleftrightarrow> t \<in> set (st_names s)"
  "has_row ''adjectives'' (0, 0, t) (stored_rows s) \<longleftrightarrow> t \<in> set (st_adjectives s)"
  by (simp_all add: stored_rows_def has_row_append has_row_map) (auto simp: image_iff intro: bexI [where x = "(d, e)"])

lemma insert_row_accepts:
  "key r \<notin> key ` set (rows t) \<Longrightarrow> ok r \<Longrightarrow> key r \<noteq> 0 \<Longrightarrow> \<exists>t'. insert_row dia key set_key ok r t = (Some r, t')"
  by (simp add: insert_row_def Let_def)

lemma insert_fixture_ok:
  assumes "\<not> has_row (fixture_table r) (fixture_key r) (stored_rows s)" "fits (stored_rows s) r" "plain_fixture r"
  shows "\<exists>s'. insert_fixture pf r k s = (Inr (), s')"
proof (cases r)
  case (UserRow u)
  have n: "\<forall>v \<in> set (rows (db_users (st_db s))). user_username v \<noteq> user_username u \<and> user_token v \<noteq> user_token u"
    using assms(2) by (auto simp: UserRow list_all_iff stored_row_iffs split: fixture.splits)
  have "\<exists>t'. insert_row (pf_dialect pf) user_id (\<lambda>i u. u\<lparr>user_id := i\<rparr>)
      (\<lambda>u. user_username u \<notin> user_username ` set (rows (db_users (st_db s))) \<and>
        user_token u \<notin> user_token ` set (rows (db_users (st_db s)))) u (db_users (st_db s)) = (Some u, t')"
    using assms n by (intro insert_row_accepts) (auto simp: UserRow has_stored_row)
  moreover have "u\<lparr>user_password := []\<rparr> = u" using assms(3) by (simp add: UserRow)
  ultimately show ?thesis by (auto simp: UserRow in_db_Inr insert_user_def)
next
  case (RatingRow x)
  have "\<exists>t'. insert_row (pf_dialect pf) rating_id (\<lambda>i r. r\<lparr>rating_id := i\<rparr>)
      (\<lambda>r. pf_foreign_keys pf \<longrightarrow> rating_user_id r \<in> user_ids (st_db s) \<and> rating_pizza_id r \<in> pizza_ids (st_db s))
      x (db_ratings (st_db s)) = (Some x, t')"
    using assms by (intro insert_row_accepts) (auto simp: RatingRow has_stored_row)
  then show ?thesis by (auto simp: RatingRow in_db_Inr insert_rating_def)
next
  case (PizzaRow i n d t)
  let ?p = "\<lparr>pizza_id = i, pizza_created_at = 0, pizza_name = n, pizza_dough_id = d,
    pizza_dough = zero_dough, pizza_ingredients = [], pizza_tool = t\<rparr>"
  have "\<exists>t'. insert_row (pf_dialect pf) pr_id (\<lambda>i r. r\<lparr>pr_id := i\<rparr>)
      (\<lambda>r. pf_foreign_keys pf \<longrightarrow> pr_dough_id r \<in> dough_id ` set (db_doughs (st_db s)) \<and> pr_tool r \<in> set (db_tools (st_db s)))
      (pizza_to_row pf k ?p) (db_pizzas (st_db s)) = (Some (pizza_to_row pf k ?p), t')"
    using assms by (intro insert_row_accepts) (auto simp: PizzaRow has_stored_row pizza_to_row_def)
  then show ?thesis by (auto simp: PizzaRow in_db_Inr insert_pizza_def)
qed (use assms in \<open>auto simp: insert_plain_Inr in_db_Inr has_stored_row insert_pizza_to_ingredient_def\<close>)

text \<open>
  Rows of the tables \<open>T\<close> fit where they fit beside the rows of those tables: a key belongs to one table, and
  a row references rows of the tables of its service.
\<close>

lemma fits_mono:
  assumes "fits acc r" "set acc \<subseteq> set rs" "\<forall>x \<in> set rs. fixture_table x = fixture_table r \<longrightarrow> x \<in> set acc"
  shows "fits rs r"
  using assms by (cases r) (auto simp: has_row_iff list_all_iff split: fixture.splits)

lemma load_fixtures_ok:
  assumes "fault_free pf"
  shows "acceptable acc rs \<Longrightarrow> set acc = {x \<in> set (stored_rows s). fixture_table x \<in> T} \<Longrightarrow>
    \<forall>r \<in> set rs. plain_fixture r \<and> fixture_table r \<in> T \<and> fixture_model r \<in> set (st_models s) \<Longrightarrow>
    T \<subseteq> set (st_tables s) \<Longrightarrow> \<exists>s'. load_fixtures pf rs s = (Inr (), s')"
proof (induction acc rs arbitrary: s rule: acceptable.induct)
  case (2 acc r rs)
  have r: "plain_fixture r" "fixture_table r \<in> T" "fixture_model r \<in> set (st_models s)"
    using "2.prems"(3) by simp_all
  have "\<not> has_row (fixture_table r) (fixture_key r) (stored_rows (tick_store s))"
    using "2.prems"(1,2) r(2) by (auto simp: has_row_iff)
  moreover have "fits (stored_rows (tick_store s)) r"
  proof (rule fits_mono)
    show "fits acc r" using "2.prems"(1) by simp
    show "set acc \<subseteq> set (stored_rows (tick_store s))" unfolding "2.prems"(2) by auto
    show "\<forall>x \<in> set (stored_rows (tick_store s)). fixture_table x = fixture_table r \<longrightarrow> x \<in> set acc"
      unfolding "2.prems"(2) using r(2) by simp
  qed
  ultimately obtain s1 where "insert_fixture pf r (db_clock (st_db s)) (tick_store s) = (Inr (), s1)"
    using insert_fixture_ok r(1) by blast
  then have s1: "load_fixture pf r s = (Inr (), s1)"
    using "2.prems"(4) r by (auto simp: load_fixture_def sql_ok [OF assms] on_table_def)
  note books = load_fixture_books [OF s1]
  have "set (r # acc) = {x \<in> set (stored_rows s1). fixture_table x \<in> T}"
  proof -
    have "x \<in> set (stored_rows s1) \<longleftrightarrow> x \<in> set (stored_rows s) \<or> x = r" for x
    proof -
      have "x \<in> set (stored_rows s1) \<longleftrightarrow> x \<in> set (table_rows (fixture_table x) s1)" by (simp add: table_rows_def)
      also have "\<dots> \<longleftrightarrow> x \<in> set (table_rows (fixture_table x) s) \<or> x = r"
        unfolding insert_fixture_rows [OF load_fixture_Inr [OF s1] r(1)] by auto
      finally show ?thesis by (simp add: table_rows_def)
    qed
    then show ?thesis using "2.prems"(2) r(2) by auto
  qed
  from "2.IH" [OF _ this] "2.prems"(1,3,4) books obtain s2 where "load_fixtures pf rs s1 = (Inr (), s2)"
    by (auto simp: same_books_def)
  with s1 show ?case by simp
qed simp

subsection \<open>Recording migrations\<close>

definition recorded :: "string \<Rightarrow> store \<Rightarrow> bool" where
  "recorded n s \<longleftrightarrow> n \<in> mr_name ` set (rows (st_migrations s))"

definition books_ok :: "store \<Rightarrow> bool" where
  "books_ok s \<longleftrightarrow> 0 \<le> seq (st_migrations s) \<and>
     (\<forall>r \<in> set (rows (st_migrations s)). 0 < mr_id r \<and> mr_id r \<le> seq (st_migrations s))"

interpretation migs: keyed_rows mr_id "\<lambda>i r. r\<lparr>mr_id := i\<rparr>"
  by unfold_locales simp

lemma MarkApplied_effect:
  assumes "MarkApplied pf n g s = (x, s')" "books_ok s"
  shows "data s' = data s \<and> st_tables s' = st_tables s \<and> st_models s' = st_models s \<and> books_ok s' \<and>
    (\<forall>m. recorded m s' \<longleftrightarrow> recorded m s \<or> (x = Inr () \<and> m = n)) \<and>
    seq (st_migrations s') \<le> seq (st_migrations s) + 1"
proof (cases "pf_fault pf (db_clock (st_db s)) \<noteq> None \<or> ''bun_migrations'' \<notin> set (st_tables s) \<or> seq (st_migrations s) \<ge> max_int64")
  case True
  let ?r = "\<lparr>mr_id = 0, mr_name = n, mr_group = g\<rparr>"
  have "seq (st_migrations s) \<ge> max_int64 \<Longrightarrow>
      insert_row (pf_dialect pf) mr_id (\<lambda>i r. r\<lparr>mr_id := i\<rparr>) (\<lambda>_. True) ?r (st_migrations s) = (None, st_migrations s)"
    by (simp add: insert_row_def)
  then have "x \<noteq> Inr () \<and> (s' = tick_store s \<or> s' = (tick_store s)\<lparr>st_migrations := st_migrations s\<rparr>)"
    using assms(1) True
    by (cases "pf_fault pf (db_clock (st_db s))"; cases "''bun_migrations'' \<in> set (st_tables s)")
      (auto simp: MarkApplied_def sql_eq on_table_def)
  moreover have "data ((tick_store s)\<lparr>st_migrations := t\<rparr>) = data s" for t
    using tick_store_simps(1) [of s] by (simp add: data_def)
  ultimately show ?thesis using assms(2) by (auto simp: recorded_def books_ok_def)
next
  case False
  let ?r = "\<lparr>mr_id = seq (st_migrations s) + 1, mr_name = n, mr_group = g\<rparr>"
  have "insert_row (pf_dialect pf) mr_id (\<lambda>i r. r\<lparr>mr_id := i\<rparr>) (\<lambda>_. True) \<lparr>mr_id = 0, mr_name = n, mr_group = g\<rparr> (st_migrations s) =
      (Some ?r, \<lparr>rows = rows (st_migrations s) @ [?r], seq = seq (st_migrations s) + 1\<rparr>)"
    using migs.insert_row_auto [of "\<lparr>mr_id = 0, mr_name = n, mr_group = g\<rparr>" "st_migrations s" "\<lambda>_. True" "pf_dialect pf"]
      assms(2) False by (simp add: books_ok_def)
  then have "x = Inr () \<and> s' = (tick_store s)\<lparr>st_migrations := \<lparr>rows = rows (st_migrations s) @ [?r], seq = seq (st_migrations s) + 1\<rparr>\<rparr>"
    using assms(1) False by (auto simp: MarkApplied_def sql_eq on_table_def)
  moreover have "data (tick_store s) = data s" by simp
  ultimately show ?thesis using assms(2) by (auto simp: data_def recorded_def books_ok_def)
qed

lemma MarkApplied_ok:
  assumes "fault_free pf" "''bun_migrations'' \<in> set (st_tables s)" "books_ok s" "seq (st_migrations s) < max_int64"
  shows "\<exists>s'. MarkApplied pf n g s = (Inr (), s')"
proof -
  let ?r = "\<lparr>mr_id = 0, mr_name = n, mr_group = g\<rparr>"
  have "\<exists>r t. insert_row (pf_dialect pf) mr_id (\<lambda>i r. r\<lparr>mr_id := i\<rparr>) (\<lambda>_. True) ?r (st_migrations s) = (Some r, t)"
    using migs.insert_row_auto [of ?r "st_migrations s" "\<lambda>_. True" "pf_dialect pf"] assms(3,4) by (simp add: books_ok_def)
  then show ?thesis using assms(1,2) by (auto simp: MarkApplied_def sql_ok on_table_def)
qed

lemma AppliedMigrations_Inr:
  assumes "AppliedMigrations pf s = (Inr rs, s')"
  shows "s' = tick_store s \<and> set rs = set (rows (st_migrations s))"
  using assms by (auto simp: AppliedMigrations_def sql_eq on_table_def split: option.splits if_splits)

lemma AppliedMigrations_ok:
  "fault_free pf \<Longrightarrow> ''bun_migrations'' \<in> set (st_tables s) \<Longrightarrow> \<exists>rs. AppliedMigrations pf s = (Inr rs, tick_store s)"
  by (auto simp: AppliedMigrations_def sql_ok on_table_def)

lemma AppliedMigrations_Inl:
  "AppliedMigrations pf s = (Inl e, s') \<Longrightarrow> s' = tick_store s"
  by (auto simp: AppliedMigrations_def sql_eq on_table_def split: option.splits if_splits)

lemma applied_iff:
  assumes "set rs = set (rows (st_migrations s))" "books_ok s"
  shows "applied_id rs m > 0 \<longleftrightarrow> recorded (m_name m) s"
proof (cases "by_key mr_name (rev rs) (m_name m)")
  case None
  then have "m_name m \<notin> mr_name ` set rs" using by_key_None_iff [of mr_name "rev rs" "m_name m"] by simp
  then show ?thesis using None assms(1) by (simp add: applied_id_def recorded_def)
next
  case (Some r)
  then have "r \<in> set rs" "mr_name r = m_name m" using by_key_Some by fastforce+
  then have "m_name m \<in> mr_name ` set rs" by (metis image_eqI)
  with Some \<open>r \<in> set rs\<close> show ?thesis using assms by (simp add: applied_id_def recorded_def books_ok_def)
qed

subsection \<open>One service: a schema, then its seed\<close>

definition service_tables :: "(string \<times> string \<times> string list) list \<Rightarrow> string set" where
  "service_tables models = (\<lambda>(m, n, r). n) ` set models"

text \<open>Exactly the fixtures, with the sequences at their largest identifiers.\<close>

definition loaded :: "string set \<Rightarrow> fixture list \<Rightarrow> store \<Rightarrow> bool" where
  "loaded T fixtures s \<longleftrightarrow>
     (\<forall>t \<in> T. table_rows t s = filter (\<lambda>r. fixture_table r = t) fixtures \<and>
        st_seq t s = fold max (map fixture_id (filter (\<lambda>r. fixture_table r = t) fixtures)) 0)"

definition vacant :: "string set \<Rightarrow> store \<Rightarrow> bool" where
  "vacant T s \<longleftrightarrow> (\<forall>t \<in> T. table_rows t s = [] \<and> st_seq t s = 0)"

definition same_tables :: "string set \<Rightarrow> store \<Rightarrow> store \<Rightarrow> bool" where
  "same_tables T s s' \<longleftrightarrow> (\<forall>t \<in> T. table_rows t s' = table_rows t s \<and> st_seq t s' = st_seq t s)"

definition migrated :: "migrator \<Rightarrow> bool" where
  "migrated mg \<longleftrightarrow> mg_init mg = None \<and> mg_err mg = None"

lemma same_tables_data: "data s' = data s \<Longrightarrow> same_tables T s s'"
  using data_eqD [of s' s] by (simp add: same_tables_def)

lemma same_tables_trans: "same_tables T a b \<Longrightarrow> same_tables T b c \<Longrightarrow> same_tables T a c"
  by (simp add: same_tables_def)

lemma vacant_same: "same_tables T s s' \<Longrightarrow> vacant T s \<Longrightarrow> vacant T s'"
  and loaded_same: "same_tables T s s' \<Longrightarrow> loaded T fs s \<Longrightarrow> loaded T fs s'"
  by (simp_all add: same_tables_def vacant_def loaded_def)

lemma vacant_loaded_same: "same_tables T s s' \<Longrightarrow> vacant T s' \<longleftrightarrow> vacant T s"
  by (simp add: same_tables_def vacant_def)

lemma connect_simps [simp]:
  "data (connect s) = data s" "st_migrations (connect s) = st_migrations s" "st_models (connect s) = []"
  by (simp_all add: connect_def data_def)

lemma connect_books [simp]: "books_ok (connect s) = books_ok s" "recorded n (connect s) = recorded n s"
  by (simp_all add: books_ok_def recorded_def)

text \<open>
  What the code of a service promises: the schema makes the tables of its models, its fixtures are rows of those
  tables that fit, and what follows the fixtures only moves the sequences of those tables.
\<close>

locale seeded_service =
  fixes extra :: "string list" and models :: "(string \<times> string \<times> string list) list" and fixtures :: "fixture list"
    and finish schema_up seed_up :: "platform \<Rightarrow> store \<Rightarrow> unit result \<times> store" and n1 n2 :: string
  assumes schema_up: "schema_up pf s = create_models pf models (fold RegisterModel extra s)"
    and seed_up: "seed_up pf s = and_if_ok (load_fixtures pf fixtures s) (\<lambda>_. finish pf)"
    and names: "n1 < n2"
    and tables_creatable: "creatable {} models"
    and fixtures_fit: "acceptable [] fixtures"
    and fixtures_plain: "r \<in> set fixtures \<Longrightarrow> plain_fixture r"
    and fixtures_known: "r \<in> set fixtures \<Longrightarrow> fixture_table r \<in> service_tables models \<and> fixture_model r \<in> fst ` set models"
    and fixtures_some: "fixtures \<noteq> []"
    and finish_books: "finish pf s = (x, s') \<Longrightarrow> same_books s s'"
    and finish_rows: "finish pf s = (x, s') \<Longrightarrow> table_rows t s' = table_rows t s"
    and finish_others: "finish pf s = (x, s') \<Longrightarrow> t \<notin> service_tables models \<Longrightarrow> st_seq t s' = st_seq t s"
    and finish_ok: "fault_free pf \<Longrightarrow> service_tables models \<subseteq> set (st_tables s) \<Longrightarrow> \<exists>s'. finish pf s = (Inr (), s')"
    and finish_seq: "finish pf s = (Inr (), s') \<Longrightarrow> t \<in> service_tables models \<Longrightarrow>
      table_rows t s = filter (\<lambda>r. fixture_table r = t) fixtures \<Longrightarrow>
      st_seq t s = (if sequenced t then fold (moved_seq pf) (map fixture_id (filter (\<lambda>r. fixture_table r = t) fixtures)) 0 else 0) \<Longrightarrow>
      st_seq t s' = fold max (map fixture_id (filter (\<lambda>r. fixture_table r = t) fixtures)) 0"
begin

abbreviation ms :: "migration list" where
  "ms \<equiv> [\<lparr>m_name = n1, m_up = schema_up\<rparr>, \<lparr>m_name = n2, m_up = seed_up\<rparr>]"

abbreviation T :: "string set" where
  "T \<equiv> service_tables models"

lemma schema_frame:
  assumes "schema_up pf s = (x, s')"
  shows "data s' = data s \<and> st_migrations s' = st_migrations s \<and> set (st_tables s) \<subseteq> set (st_tables s') \<and>
    (x = Inr () \<longrightarrow> T \<subseteq> set (st_tables s') \<and> fst ` set models \<subseteq> set (st_models s'))"
  using create_models_frame [OF assms [unfolded schema_up]] by (auto simp: registered service_tables_def)

lemma schema_ok: "fault_free pf \<Longrightarrow> \<exists>s'. schema_up pf s = (Inr (), s')"
  unfolding schema_up by (rule create_models_ok) (auto intro: creatable_mono [OF tables_creatable])

lemma seed_books: "seed_up pf s = (x, s') \<Longrightarrow> same_books s s'"
  unfolding seed_up
  by (erule and_if_ok_cases) (blast dest: load_fixtures_books finish_books intro: same_books_trans)+

lemma seed_Inr:
  assumes "seed_up pf s = (Inr (), s')"
  shows "vacant T s \<Longrightarrow> loaded T fixtures s'" and "T' \<inter> T = {} \<Longrightarrow> same_tables T' s s'"
proof -
  obtain s1 where s1: "load_fixtures pf fixtures s = (Inr (), s1)" "finish pf s1 = (Inr (), s')"
    using assms by (auto simp: seed_up and_if_ok_Inr)
  have plain: "\<forall>r \<in> set fixtures. plain_fixture r" using fixtures_plain by blast
  note rows = load_fixtures_rows [OF s1(1) plain] and seqs = load_fixtures_seq [OF s1(1) plain]
  show "loaded T fixtures s'" if "vacant T s"
    using that rows seqs finish_rows [OF s1(2)] finish_seq [OF s1(2)] by (simp add: loaded_def vacant_def)
  show "same_tables T' s s'" if "T' \<inter> T = {}"
    unfolding same_tables_def
  proof
    fix t assume "t \<in> T'"
    then have t: "t \<notin> T" using that by blast
    then have none: "filter (\<lambda>r. fixture_table r = t) fixtures = []"
      using fixtures_known by (auto simp: filter_empty_conv)
    show "table_rows t s' = table_rows t s \<and> st_seq t s' = st_seq t s"
      using rows [of t] seqs [of t] finish_rows [OF s1(2)] finish_others [OF s1(2) t] none by simp
  qed
qed

lemma seed_ok:
  assumes "fault_free pf" "vacant T s" "T \<subseteq> set (st_tables s)" "fst ` set models \<subseteq> set (st_models s)"
  shows "\<exists>s'. seed_up pf s = (Inr (), s')"
proof -
  have empty: "set [] = {x \<in> set (stored_rows s). fixture_table x \<in> T}"
    using assms(2) by (auto simp: vacant_def table_rows_def filter_empty_conv)
  obtain s1 where s1: "load_fixtures pf fixtures s = (Inr (), s1)"
    using load_fixtures_ok [OF assms(1) fixtures_fit empty _ assms(3)] fixtures_plain fixtures_known assms(4) by blast
  then have "st_tables s1 = st_tables s" using load_fixtures_books by (simp add: same_books_def)
  then obtain s2 where "finish pf s1 = (Inr (), s2)" using finish_ok [OF assms(1), of s1] assms(3) by auto
  with s1 show ?thesis by (auto simp: seed_up)
qed

text \<open>A connection that has not made the tables does not know the models.\<close>

lemma seed_unknown:
  assumes "st_models s = []"
  shows "\<exists>e. seed_up pf s = (Inl e, s)"
proof -
  obtain r rs where "fixtures = r # rs" using fixtures_some by (cases fixtures) auto
  then show ?thesis using assms by (simp add: seed_up load_fixture_def)
qed

lemma unapplied:
  assumes "set rs = set (rows (st_migrations s))" "books_ok s"
  shows "Unapplied rs ms = filter (\<lambda>m. \<not> recorded (m_name m) s) ms"
proof -
  have "sort_key m_name ms = ms" using less_imp_le [OF names] by simp
  then show ?thesis by (simp add: Unapplied_def applied_iff [OF assms])
qed

lemma run_cases:
  assumes "run_migrator pf ms s = (mg, s')" "books_ok s"
  obtains (failed) "\<not> migrated mg" "\<not> fault_free pf" "data s' = data s" "st_migrations s' = st_migrations s"
  | (running) s1 g n e where "data s1 = data s" "st_migrations s1 = st_migrations s" "st_models s1 = st_models s"
      "''bun_migrations'' \<in> set (st_tables s1)" "mg = \<lparr>mg_init = None, mg_group = Some n, mg_err = e\<rparr>"
      "run_unapplied pf g (filter (\<lambda>m. \<not> recorded (m_name m) s) ms) 0 s1 = ((n, e), s')"
proof (cases "Init pf s")
  case (Pair x s1)
  note I = Init_frame [OF this]
  show thesis
  proof (cases x)
    case (Inl e)
    then show thesis
      using assms(1) Pair I Init_ok [of pf s] by (intro failed) (auto simp: run_migrator_def migrated_def)
  next
    case (Inr u)
    show thesis
    proof (cases "AppliedMigrations pf s1")
      case P: (Pair y s2)
      show thesis
      proof (cases y)
        case (Inl e)
        have "s2 = tick_store s1" using P Inl AppliedMigrations_Inl by simp
        then show thesis
          using assms(1) Pair P Inl Inr I AppliedMigrations_ok [of pf s1]
          by (intro failed) (auto simp: run_migrator_def Migrate_def migrated_def)
      next
        case R: (Inr rs)
        have s2: "s2 = tick_store s1" "set rs = set (rows (st_migrations s))"
          using AppliedMigrations_Inr [of pf s1 rs s2] P R I by simp_all
        obtain n e where r: "run_unapplied pf (wrap64 (LastGroupID rs 0 + 1)) (Unapplied rs ms) 0 s2 = ((n, e), s')"
          "mg = \<lparr>mg_init = None, mg_group = Some n, mg_err = e\<rparr>"
          using assms(1) Pair P R Inr by (auto simp: run_migrator_def Migrate_def split: prod.splits)
        show thesis
          using running [OF _ _ _ _ r(2) r(1) [unfolded unapplied [OF s2(2) assms(2)]]] s2(1) I Inr by simp
      qed
    qed
  qed
qed

text \<open>Once both migrations are recorded, a start changes no row.\<close>

lemma settled:
  assumes "run_migrator pf ms s = (mg, s')" "books_ok s" "recorded n1 s" "recorded n2 s"
  shows "data s' = data s \<and> st_migrations s' = st_migrations s \<and> (fault_free pf \<longrightarrow> migrated mg)"
  using assms(1,2)
proof (cases rule: run_cases)
  case (running s1 g n e)
  with assms(3,4) show ?thesis by (simp add: migrated_def)
qed simp

text \<open>A recorded schema with a seed that is not: the seed is recorded, and fails because the models are not known.\<close>

lemma half_done:
  assumes "run_migrator pf ms s = (mg, s')" "books_ok s" "st_models s = []" "recorded n1 s" "\<not> recorded n2 s"
  shows "data s' = data s \<and> \<not> migrated mg \<and> books_ok s' \<and> recorded n1 s' \<and>
    (fault_free pf \<and> seq (st_migrations s) < max_int64 \<longrightarrow> recorded n2 s')"
  using assms(1,2)
proof (cases rule: run_cases)
  case failed
  with assms show ?thesis by (simp add: recorded_def books_ok_def)
next
  case (running s1 g n e)
  have ok: "books_ok s1" and rec: "recorded m s1 = recorded m s" for m
    using running(2) assms(2) by (simp_all add: books_ok_def recorded_def)
  obtain x s2 where m: "MarkApplied pf n2 g s1 = (x, s2)" by (cases "MarkApplied pf n2 g s1")
  note M = MarkApplied_effect [OF m ok]
  obtain e' where seed: "seed_up pf s2 = (Inl e', s2)"
    using seed_unknown [of s2 pf] M running(3) assms(3) by auto
  have "s' = s2 \<and> \<not> migrated mg"
    using running(5,6) assms(4,5) m seed by (cases x) (auto simp: migrated_def)
  moreover have "x = Inr ()" if "fault_free pf" "seq (st_migrations s) < max_int64"
    using MarkApplied_ok [OF that(1) running(4) ok, of n2 g] that(2) running(2) m by simp
  ultimately show ?thesis using M rec running(1) assms(4) by auto
qed

text \<open>Recording and running the seed, from vacant tables.\<close>

lemma seed_step:
  assumes "run_unapplied pf g [\<lparr>m_name = n2, m_up = seed_up\<rparr>] k s = ((n, e), s')" "books_ok s" "vacant T s"
  shows "(e = None \<longrightarrow> loaded T fixtures s' \<and> recorded n2 s' \<and> (\<forall>T'. T' \<inter> T = {} \<longrightarrow> same_tables T' s s')) \<and>
    books_ok s' \<and> seq (st_migrations s') \<le> seq (st_migrations s) + 1 \<and> (\<forall>m. m \<noteq> n2 \<longrightarrow> recorded m s' = recorded m s)"
proof -
  obtain x s1 where m: "MarkApplied pf n2 g s = (x, s1)" by (cases "MarkApplied pf n2 g s")
  note M = MarkApplied_effect [OF m assms(2)]
  show ?thesis
  proof (cases x)
    case (Inl z)
    then show ?thesis using assms(1) m M by auto
  next
    case (Inr z)
    obtain w s2 where sd: "seed_up pf s1 = (w, s2)" by (cases "seed_up pf s1")
    have same: "same_tables T' s s1" for T' using M same_tables_data by simp
    have s2: "s' = s2" and e: "e = None \<longleftrightarrow> w = Inr ()"
      using assms(1) m sd Inr by (auto split: sum.splits)
    have b: "st_migrations s2 = st_migrations s1" using seed_books [OF sd] by (simp add: same_books_def)
    have "loaded T fixtures s2 \<and> (\<forall>T'. T' \<inter> T = {} \<longrightarrow> same_tables T' s s2)" if "w = Inr ()"
      using seed_Inr [OF sd [unfolded that]] vacant_same [OF same assms(3)] same_tables_trans [OF same] by blast
    with s2 e M b Inr show ?thesis by (auto simp: recorded_def books_ok_def)
  qed
qed

text \<open>A first start: complete, or it failed; where it failed, the schema is recorded or no row is there.\<close>

lemma first_start:
  assumes "run_migrator pf ms s = (mg, s')" "books_ok s" "\<not> recorded n1 s" "\<not> recorded n2 s" "vacant T s"
  shows "(migrated mg \<longrightarrow> loaded T fixtures s' \<and> recorded n1 s' \<and> recorded n2 s' \<and> (\<forall>T'. T' \<inter> T = {} \<longrightarrow> same_tables T' s s')) \<and>
    books_ok s' \<and> (recorded n2 s' \<longrightarrow> recorded n1 s') \<and> (\<not> recorded n1 s' \<longrightarrow> vacant T s') \<and>
    seq (st_migrations s') \<le> seq (st_migrations s) + 2 \<and> (\<forall>m. m \<notin> {n1, n2} \<longrightarrow> recorded m s' = recorded m s)"
  using assms(1,2)
proof (cases rule: run_cases)
  case failed
  with assms show ?thesis
    using vacant_same [OF same_tables_data [OF failed(3)], of T] by (simp add: recorded_def books_ok_def)
next
  case (running s1 g n e)
  have ok: "books_ok s1" and rec: "recorded m s1 = recorded m s" for m
    using running(2) assms(2) by (simp_all add: books_ok_def recorded_def)
  have ne: "n1 \<noteq> n2" using names by auto
  have mg: "migrated mg \<longleftrightarrow> e = None" using running(5) by (simp add: migrated_def)
  have run: "run_unapplied pf g ms 0 s1 = ((n, e), s')" using running(6) assms(3,4) by simp
  obtain x s2 where m: "MarkApplied pf n1 g s1 = (x, s2)" by (cases "MarkApplied pf n1 g s1")
  note M = MarkApplied_effect [OF m ok]
  have same2: "same_tables T' s s2" for T'
    using M running(1) same_tables_data [of s2 s] by simp
  show ?thesis
  proof (cases x)
    case (Inl y)
    then have "s' = s2" "e \<noteq> None" using run m by auto
    then show ?thesis using M vacant_same [OF same2 assms(5)] rec running(2) assms(3,4) Inl mg by auto
  next
    case (Inr u)
    obtain y s3 where sch: "schema_up pf s2 = (y, s3)" by (cases "schema_up pf s2")
    note S = schema_frame [OF sch]
    have ok3: "books_ok s3" and rec3: "recorded m s3 \<longleftrightarrow> recorded m s \<or> m = n1" for m
      using M S rec Inr by (auto simp: books_ok_def recorded_def)
    have same3: "same_tables T' s s3" for T'
      using S same_tables_data [of s3 s2] same_tables_trans [OF same2] by auto
    show ?thesis
    proof (cases y)
      case L: (Inl z)
      then have "s' = s3" "e \<noteq> None" using run m sch Inr by auto
      then show ?thesis using M S ok3 rec3 vacant_same [OF same3 assms(5)] running(2) assms(4) ne mg by auto
    next
      case (Inr z)
      have "run_unapplied pf g [\<lparr>m_name = n2, m_up = seed_up\<rparr>] 1 s3 = ((n, e), s')"
        using run m sch \<open>x = Inr u\<close> Inr by simp
      from seed_step [OF this ok3 vacant_same [OF same3 assms(5)]] M S rec3 running(2) ne mg assms(4) same_tables_trans [OF same3]
      show ?thesis by auto
    qed
  qed
qed

lemma first_start_ok:
  assumes "run_migrator pf ms s = (mg, s')" "books_ok s" "\<not> recorded n1 s" "\<not> recorded n2 s" "vacant T s"
    and "fault_free pf" "seq (st_migrations s) + 2 \<le> max_int64"
  shows "migrated mg"
  using assms(1,2)
proof (cases rule: run_cases)
  case failed
  with assms(6) show ?thesis by simp
next
  case (running s1 g n e)
  have ok: "books_ok s1" using running(2) assms(2) by (simp add: books_ok_def)
  obtain s2 where m: "MarkApplied pf n1 g s1 = (Inr (), s2)"
    using MarkApplied_ok [OF assms(6) running(4) ok, of n1 g] running(2) assms(7) by auto
  note M = MarkApplied_effect [OF m ok]
  obtain s3 where sch: "schema_up pf s2 = (Inr (), s3)" using schema_ok [OF assms(6)] by blast
  note S = schema_frame [OF sch]
  have ok3: "books_ok s3" using M S by (simp add: books_ok_def)
  have "''bun_migrations'' \<in> set (st_tables s3)" using M S running(4) by auto
  then obtain s4 where m4: "MarkApplied pf n2 g s3 = (Inr (), s4)"
    using MarkApplied_ok [OF assms(6) _ ok3, of n2 g] M S running(2) assms(7) by auto
  note M4 = MarkApplied_effect [OF m4 ok3]
  have "same_tables T s s4" using M4 S M running(1) by (intro same_tables_data) simp
  then obtain s5 where "seed_up pf s4 = (Inr (), s5)"
    using seed_ok [OF assms(6) vacant_same [OF _ assms(5)], of s4] M4 S by auto
  then show ?thesis using running(5,6) assms(3,4) m sch m4 by (simp add: migrated_def)
qed

text \<open>A start without errors completes what was not begun and keeps what is complete.\<close>

definition stage :: "bool \<Rightarrow> store \<Rightarrow> bool" where
  "stage b s \<longleftrightarrow> recorded n1 s = b \<and> recorded n2 s = b \<and> (if b then loaded T fixtures s else vacant T s)"

lemma start_ok:
  assumes "run_migrator pf ms s = (mg, s')" "books_ok s" "fault_free pf" "seq (st_migrations s) + 2 \<le> max_int64" "stage b s"
  shows "migrated mg \<and> books_ok s' \<and> stage True s' \<and> (\<forall>T'. T' \<inter> T = {} \<longrightarrow> same_tables T' s s') \<and>
    (\<forall>m. m \<notin> {n1, n2} \<longrightarrow> recorded m s' = recorded m s) \<and>
    seq (st_migrations s') \<le> seq (st_migrations s) + (if b then 0 else 2)"
proof (cases b)
  case True
  then have r: "recorded n1 s" "recorded n2 s" "loaded T fixtures s" using assms(5) by (simp_all add: stage_def)
  note S = settled [OF assms(1,2) r(1,2)]
  have "books_ok s'" and "recorded m s' = recorded m s" for m
    using S assms(2) by (simp_all add: books_ok_def recorded_def)
  with S r True assms(3) loaded_same [OF same_tables_data, of s' s] same_tables_data [of s' s]
  show ?thesis by (simp add: stage_def)
next
  case False
  then have r: "\<not> recorded n1 s" "\<not> recorded n2 s" "vacant T s" using assms(5) by (simp_all add: stage_def)
  show ?thesis
    using first_start [OF assms(1,2) r] first_start_ok [OF assms(1,2) r assms(3,4)] False by (simp add: stage_def)
qed

text \<open>
  After a first start that failed, two more without errors: the third one succeeds. It has loaded the fixtures only if
  the schema had not been recorded; otherwise no row is added any more.
\<close>

lemma third_start:
  assumes "run_migrator pf1 ms s = (mg1, s1)" "books_ok s" "stage False s" "seq (st_migrations s) + 6 \<le> max_int64"
    and "run_migrator pf2 ms (connect s1) = (mg2, s2)" "fault_free pf2"
    and "run_migrator pf3 ms (connect s2) = (mg3, s3)" "fault_free pf3"
  shows "migrated mg3 \<and> (if recorded n1 s1 then data s3 = data s1 else loaded T fixtures s3)"
proof -
  have v: "\<not> recorded n1 s" "\<not> recorded n2 s" "vacant T s" using assms(3) by (simp_all add: stage_def)
  note F = first_start [OF assms(1,2) v]
  have c1: "books_ok (connect s1)" using F by simp
  consider (none) "\<not> recorded n1 s1" | (half) "recorded n1 s1" "\<not> recorded n2 s1" | (both) "recorded n1 s1" "recorded n2 s1"
    by blast
  then show ?thesis
  proof cases
    case none
    then have "stage False (connect s1)" using F vacant_same [OF same_tables_data [of "connect s1" s1]] by (auto simp: stage_def)
    from start_ok [OF assms(5) c1 assms(6) _ this] F assms(4)
    have "books_ok s2" "stage True s2" "seq (st_migrations s2) \<le> seq (st_migrations s) + 4" by simp_all
    moreover from this have "stage True (connect s2)"
      using loaded_same [OF same_tables_data [of "connect s2" s2]] by (auto simp: stage_def)
    ultimately have "migrated mg3 \<and> stage True s3" using start_ok [OF assms(7) _ assms(8)] assms(4) by auto
    with none show ?thesis by (simp add: stage_def)
  next
    case half
    from half_done [OF assms(5) c1 connect_simps(3)] half assms(4,6) F
    have "data s2 = data s1" "books_ok s2" "recorded n1 s2" "recorded n2 s2" by auto
    with settled [OF assms(7)] assms(8) half show ?thesis by auto
  next
    case both
    from settled [OF assms(5) c1] both
    have "data s2 = data s1" "st_migrations s2 = st_migrations s1" by auto
    moreover from this have "books_ok s2" "recorded n1 s2" "recorded n2 s2"
      using F both by (simp_all add: books_ok_def recorded_def)
    ultimately show ?thesis using settled [OF assms(7)] assms(8) both by auto
  qed
qed

end

end
