(* ===== verification/ServiceStarts.thy ===== *)
theory ServiceStarts
  imports MigrationsProps
begin

section \<open>Starting the services on one database\<close>

text \<open>
  The interface \<open>seeded_service\<close> interpreted for the catalog and for the copy service, and what the database
  holds after the services have been started, in any order, any number of times, and after failed starts.
\<close>

subsection \<open>The rows of a table\<close>

lemma table_rows_eqs:
  "table_rows ''doughs'' s = map DoughRow (db_doughs (st_db s))"
  "table_rows ''tools'' s = map ToolRow (db_tools (st_db s))"
  "table_rows ''ingredients'' s = map IngredientRow (db_ingredients (st_db s))"
  "table_rows ''pizzas'' s = map (\<lambda>p. PizzaRow (pr_id p) (pr_name p) (pr_dough_id p) (pr_tool p)) (rows (db_pizzas (st_db s)))"
  "table_rows ''pizza_to_ingredients'' s = map (\<lambda>x. LinkRow (fst x) (snd x)) (db_pizza_to_ingredients (st_db s))"
  "table_rows ''users'' s = map UserRow (rows (db_users (st_db s)))"
  "table_rows ''ratings'' s = map RatingRow (rows (db_ratings (st_db s)))"
  "table_rows ''quotes'' s = map QuoteRow (st_quotes s)"
  "table_rows ''classical_names'' s = map NameRow (st_names s)"
  "table_rows ''adjectives'' s = map AdjectiveRow (st_adjectives s)"
  by (simp_all add: table_rows_def stored_rows_def filter_map comp_def)

lemma st_seq_eqs:
  "st_seq ''users'' s = seq (db_users (st_db s))" "st_seq ''pizzas'' s = seq (db_pizzas (st_db s))"
  "st_seq ''ratings'' s = seq (db_ratings (st_db s))" "\<not> sequenced t \<Longrightarrow> st_seq t s = 0"
  by (simp_all add: st_seq_def sequenced_def)

abbreviation rows_of :: "fixture list \<Rightarrow> string \<Rightarrow> fixture list" where
  "rows_of fixtures t \<equiv> filter (\<lambda>r. fixture_table r = t) fixtures"

lemma fold_moved_sqlite: "pf_dialect pf = SQLite \<Longrightarrow> fold (moved_seq pf) l q = fold max l q"
  by (induction l arbitrary: q) (simp_all add: moved_seq_def max.commute)

lemma fold_moved_postgres: "pf_dialect pf = Postgres \<Longrightarrow> fold (moved_seq pf) l q = q"
  by (induction l arbitrary: q) (simp_all add: moved_seq_def)

subsection \<open>The catalog\<close>

definition catalog_finish :: "platform \<Rightarrow> store \<Rightarrow> unit result \<times> store" where
  "catalog_finish pf s =
     (if pf_dialect pf = Postgres
      then reset_sequences pf [(''pizzas'', reset_pizzas), (''users'', reset_users), (''ratings'', reset_ratings)] s
      else (Inr (), s))"

lemma reset_frame:
  "same_books s (reset_pizzas s)" "same_books s (reset_users s)" "same_books s (reset_ratings s)"
  "table_rows t (reset_pizzas s) = table_rows t s" "table_rows t (reset_users s) = table_rows t s"
  "table_rows t (reset_ratings s) = table_rows t s"
  "t \<noteq> ''pizzas'' \<Longrightarrow> st_seq t (reset_pizzas s) = st_seq t s" "t \<noteq> ''users'' \<Longrightarrow> st_seq t (reset_users s) = st_seq t s"
  "t \<noteq> ''ratings'' \<Longrightarrow> st_seq t (reset_ratings s) = st_seq t s"
  by (simp_all add: reset_pizzas_def reset_users_def reset_ratings_def setval_def same_books_def table_rows_def stored_rows_def st_seq_def)

definition moves_only :: "string \<Rightarrow> (store \<Rightarrow> store) \<Rightarrow> bool" where
  "moves_only t f \<longleftrightarrow> (\<forall>a. same_books a (f a) \<and> (\<forall>u. table_rows u (f a) = table_rows u a) \<and>
     (\<forall>u. u \<noteq> t \<longrightarrow> st_seq u (f a) = st_seq u a))"

lemma resets_move_only:
  "moves_only ''pizzas'' reset_pizzas" "moves_only ''users'' reset_users" "moves_only ''ratings'' reset_ratings"
  by (simp_all add: moves_only_def reset_frame)

lemma sql_move:
  assumes "sql pf (on_table t (\<lambda>k s. (Inr (), f s))) s = (x, s')" "moves_only t f"
  shows "same_books s s' \<and> table_rows u s' = table_rows u s \<and> (u \<noteq> t \<longrightarrow> st_seq u s' = st_seq u s)"
proof -
  have "s' = tick_store s \<or> s' = f (tick_store s)"
    using assms(1) by (auto simp: sql_eq on_table_def split: option.splits if_splits)
  moreover have "same_books s (tick_store s)" by (simp add: same_books_def)
  ultimately show ?thesis using assms(2) same_books_trans by (fastforce simp: moves_only_def)
qed

lemma reset_sequences_frame:
  "reset_sequences pf fs s = (x, s') \<Longrightarrow> \<forall>(t, f) \<in> set fs. moves_only t f \<Longrightarrow>
     same_books s s' \<and> table_rows u s' = table_rows u s \<and> (u \<notin> fst ` set fs \<longrightarrow> st_seq u s' = st_seq u s)"
proof (induction fs arbitrary: s)
  case (Cons p fs)
  obtain t f where p: "p = (t, f)" by (cases p)
  have f: "moves_only t f" using Cons.prems(2) by (simp add: p)
  from Cons.prems(1) [unfolded p reset_sequences.simps] show ?case
  proof (cases rule: and_if_ok_cases)
    case (1 e)
    then show ?thesis using sql_move [OF 1(1) f] by (auto simp: p)
  next
    case (2 y s1)
    then show ?thesis
      using sql_move [OF 2(1) f, of u] Cons.IH [OF 2(2)] Cons.prems(2) same_books_trans by (auto simp: p)
  qed
qed simp

lemma catalog_finish_frame:
  assumes "catalog_finish pf s = (x, s')"
  shows "same_books s s' \<and> table_rows t s' = table_rows t s \<and> (\<not> sequenced t \<longrightarrow> st_seq t s' = st_seq t s)"
proof (cases "pf_dialect pf = Postgres")
  case True
  have "same_books s s' \<and> table_rows t s' = table_rows t s \<and>
      (t \<notin> fst ` set [(''pizzas'', reset_pizzas), (''users'', reset_users), (''ratings'', reset_ratings)] \<longrightarrow> st_seq t s' = st_seq t s)"
    using assms True by (intro reset_sequences_frame) (auto simp: catalog_finish_def resets_move_only)
  then show ?thesis by (simp add: sequenced_def)
qed (use assms in \<open>simp add: catalog_finish_def\<close>)

text \<open>After the sequences are reset on Postgres, they are at the largest identifiers.\<close>

lemma reset_sequences_Inr:
  "reset_sequences pf [(t1, f1), (t2, f2), (t3, f3)] s = (Inr (), s') \<Longrightarrow>
     s' = f3 (tick_store (f2 (tick_store (f1 (tick_store s)))))"
  by (auto simp: and_if_ok_Inr sql_eq on_table_def split: option.splits if_splits)

lemma reset_values:
  "st_seq ''pizzas'' (reset_ratings (tick_store (reset_users (tick_store (reset_pizzas (tick_store s)))))) = seq (setval pr_id (db_pizzas (st_db s)))"
  "st_seq ''users'' (reset_ratings (tick_store (reset_users (tick_store (reset_pizzas (tick_store s)))))) = seq (setval user_id (db_users (st_db s)))"
  "st_seq ''ratings'' (reset_ratings (tick_store (reset_users (tick_store (reset_pizzas (tick_store s)))))) = seq (setval rating_id (db_ratings (st_db s)))"
  by (simp_all add: st_seq_def reset_pizzas_def reset_users_def reset_ratings_def tick_store_def)

lemma setval_ids:
  "rows t \<noteq> [] \<Longrightarrow> seq (setval key t) = Max (set (map key (rows t)))"
  by (simp add: setval_def)

lemma catalog_rows_of:
  "map fixture_id (rows_of catalog_fixtures ''users'') = [1, 2, 3]"
  "map fixture_id (rows_of catalog_fixtures ''pizzas'') = [1, 2, 3]"
  "map fixture_id (rows_of catalog_fixtures ''ratings'') = [1, 2, 3]"
  by (simp_all add: catalog_fixtures_def seed_users_def seed_pizzas_def seed_ratings_def filter_map comp_def case_prod_beta)

lemma catalog_finish_seq:
  assumes "catalog_finish pf s = (Inr (), s')"
    and "table_rows t s = rows_of catalog_fixtures t"
    and "st_seq t s = (if sequenced t then fold (moved_seq pf) (map fixture_id (rows_of catalog_fixtures t)) 0 else 0)"
    and "sequenced t"
  shows "st_seq t s' = fold max (map fixture_id (rows_of catalog_fixtures t)) 0"
proof (cases "pf_dialect pf")
  case SQLite
  then show ?thesis using assms by (simp add: catalog_finish_def fold_moved_sqlite)
next
  case Postgres
  have s': "s' = reset_ratings (tick_store (reset_users (tick_store (reset_pizzas (tick_store s)))))"
    using assms(1) Postgres by (intro reset_sequences_Inr) (simp add: catalog_finish_def)
  have ids: "map key (rows tb) = [1, 2, 3] \<Longrightarrow> seq (setval key tb) = 3" for key :: "'r \<Rightarrow> int" and tb
    by (subst setval_ids) auto
  have rows: "map fixture_id (table_rows t s) = map fixture_id (rows_of catalog_fixtures t)" using assms(2) by simp
  consider "t = ''users''" | "t = ''pizzas''" | "t = ''ratings''" using assms(4) by (auto simp: sequenced_def)
  then show ?thesis
  proof cases
    case 1
    with rows have "map user_id (rows (db_users (st_db s))) = [1, 2, 3]"
      by (simp add: table_rows_eqs catalog_rows_of comp_def)
    then show ?thesis by (simp add: 1 s' reset_values ids catalog_rows_of)
  next
    case 2
    with rows have "map pr_id (rows (db_pizzas (st_db s))) = [1, 2, 3]"
      by (simp add: table_rows_eqs catalog_rows_of comp_def)
    then show ?thesis by (simp add: 2 s' reset_values ids catalog_rows_of)
  next
    case 3
    with rows have "map rating_id (rows (db_ratings (st_db s))) = [1, 2, 3]"
      by (simp add: table_rows_eqs catalog_rows_of comp_def)
    then show ?thesis by (simp add: 3 s' reset_values ids catalog_rows_of)
  qed
qed

lemma service_tables_catalog:
  "service_tables catalog_models =
     {''ingredients'', ''doughs'', ''tools'', ''users'', ''pizzas'', ''ratings'', ''pizza_to_ingredients''}"
  by (simp add: service_tables_def catalog_models_def)

lemma catalog_fixtures_accepted:
  "acceptable [] catalog_fixtures"
  by code_simp

lemma catalog_fixtures_all:
  "list_all (\<lambda>r. plain_fixture r \<and> List.member (map (fst \<circ> snd) catalog_models) (fixture_table r) \<and> List.member (map fst catalog_models) (fixture_model r)) catalog_fixtures"
  by code_simp

lemma reset_sequences_ok:
  assumes "fault_free pf"
  shows "fst ` set fs \<subseteq> set (st_tables s) \<Longrightarrow> \<forall>(t, f) \<in> set fs. moves_only t f \<Longrightarrow>
    \<exists>s'. reset_sequences pf fs s = (Inr (), s')"
proof (induction fs arbitrary: s)
  case (Cons p fs)
  obtain t f where p: "p = (t, f)" by (cases p)
  have "sql pf (on_table t (\<lambda>k s. (Inr (), f s))) s = (Inr (), f (tick_store s))"
    using Cons.prems(1) by (simp add: p sql_ok [OF assms] on_table_def)
  moreover have "st_tables (f (tick_store s)) = st_tables s"
    using Cons.prems(2) by (simp add: p moves_only_def same_books_def)
  ultimately show ?case using Cons.IH [of "f (tick_store s)"] Cons.prems by (auto simp: p)
qed simp

text \<open>A row that is not in a table with a sequence has no identifier to count.\<close>

lemma no_ids: "\<not> sequenced t \<Longrightarrow> fold max (map fixture_id (rows_of fs t)) 0 = 0"
proof (induction fs)
  case (Cons r fs)
  then show ?case by (cases r) (auto simp: sequenced_def)
qed simp

interpretation cat: seeded_service "[''PizzaToIngredients'']" catalog_models catalog_fixtures catalog_finish
  catalog_schema_up catalog_seed_up "''20230829142500''" "''20230830134500''"
proof unfold_locales
  fix pf s s' x t r
  show "catalog_schema_up pf s = create_models pf catalog_models (fold RegisterModel [''PizzaToIngredients''] s)"
    by (simp add: catalog_schema_up_def)
  have "catalog_finish pf = (\<lambda>s. if pf_dialect pf = Postgres
      then reset_sequences pf [(''pizzas'', reset_pizzas), (''users'', reset_users), (''ratings'', reset_ratings)] s
      else (Inr (), s))"
    by (rule ext) (simp only: catalog_finish_def)
  then show "catalog_seed_up pf s = and_if_ok (load_fixtures pf catalog_fixtures s) (\<lambda>_. catalog_finish pf)"
    by (simp only: catalog_seed_up_def)
  show "''20230829142500'' < ''20230830134500''" by code_simp
  show "creatable {} catalog_models" by (simp add: catalog_models_def)
  show "acceptable [] catalog_fixtures" by (rule catalog_fixtures_accepted)
  show "plain_fixture r" if "r \<in> set catalog_fixtures"
    using catalog_fixtures_all that by (simp add: list_all_iff)
  show "fixture_table r \<in> service_tables catalog_models \<and> fixture_model r \<in> fst ` set catalog_models" if "r \<in> set catalog_fixtures"
  proof -
    have "fixture_table r \<in> set (map (fst \<circ> snd) catalog_models)" "fixture_model r \<in> set (map fst catalog_models)"
      using catalog_fixtures_all that by (simp_all add: list_all_iff)
    then show ?thesis by (force simp: service_tables_def)
  qed
  show "catalog_fixtures \<noteq> []" by (simp add: catalog_fixtures_def seed_doughs_def)
  show "same_books s s'" "table_rows t s' = table_rows t s" if "catalog_finish pf s = (x, s')"
    using catalog_finish_frame [OF that] by simp_all
  show "st_seq t s' = st_seq t s" if "catalog_finish pf s = (x, s')" "t \<notin> service_tables catalog_models"
    using catalog_finish_frame [OF that(1)] that(2) by (auto simp: service_tables_catalog sequenced_def)
  show "\<exists>s'. catalog_finish pf s = (Inr (), s')" if "fault_free pf" "service_tables catalog_models \<subseteq> set (st_tables s)"
    using that(2) reset_sequences_ok [OF that(1), of "[(''pizzas'', reset_pizzas), (''users'', reset_users), (''ratings'', reset_ratings)]" s]
    unfolding catalog_finish_def by (simp add: service_tables_catalog resets_move_only)
  show "st_seq t s' = fold max (map fixture_id (rows_of catalog_fixtures t)) 0"
    if "catalog_finish pf s = (Inr (), s')" "table_rows t s = rows_of catalog_fixtures t"
      "st_seq t s = (if sequenced t then fold (moved_seq pf) (map fixture_id (rows_of catalog_fixtures t)) 0 else 0)"
    using catalog_finish_seq [OF that] no_ids [of t] st_seq_eqs(4) [of t s'] by (cases "sequenced t") simp_all
qed

subsection \<open>The copy service\<close>

lemma distinct_texts:
  "distinct seed_quotes" "distinct seed_names" "distinct seed_adjectives"
proof -
  show "distinct seed_quotes" by (simp add: seed_quotes_def)
  have "sorted_wrt (<) seed_names" by code_simp
  then show "distinct seed_names" by (simp add: strict_sorted_iff)
  show "distinct seed_adjectives" by code_simp
qed

text \<open>A table of texts is accepted where no text is repeated.\<close>

lemma acceptable_texts:
  assumes "\<And>t. fixture_table (f t) = tb \<and> fixture_key (f t) = (0, 0, t) \<and> (\<forall>acc. fits acc (f t))"
  shows "distinct ts \<Longrightarrow> \<forall>t \<in> set ts. \<not> has_row tb (0, 0, t) acc \<Longrightarrow>
    acceptable acc (map f ts @ rs) = acceptable (rev (map f ts) @ acc) rs"
proof (induction ts arbitrary: acc)
  case (Cons t ts)
  have "\<forall>u \<in> set ts. \<not> has_row tb (0, 0, u) (f t # acc)" using Cons.prems assms by (auto simp: has_row_iff)
  from Cons.IH [OF _ this] Cons.prems assms show ?case by simp
qed simp

lemma has_row_other:
  "\<forall>r \<in> set rs. fixture_table r \<noteq> t \<Longrightarrow> \<not> has_row t key rs"
  by (auto simp: has_row_iff)

lemma copy_fixtures_accepted: "acceptable [] copy_fixtures"
proof -
  have "acceptable [] copy_fixtures =
      acceptable (rev (map QuoteRow seed_quotes)) (map NameRow seed_names @ map AdjectiveRow seed_adjectives @ [])"
    using acceptable_texts [of QuoteRow "''quotes''" seed_quotes "[]"] distinct_texts(1)
    by (simp add: copy_fixtures_def has_row_def)
  also have "\<dots> = acceptable (rev (map NameRow seed_names) @ rev (map QuoteRow seed_quotes)) (map AdjectiveRow seed_adjectives @ [])"
    by (rule acceptable_texts [of NameRow "''classical_names''"]) (auto simp: distinct_texts has_row_iff)
  also have "\<dots> = acceptable (rev (map AdjectiveRow seed_adjectives) @ rev (map NameRow seed_names) @ rev (map QuoteRow seed_quotes)) []"
    by (rule acceptable_texts [of AdjectiveRow "''adjectives''"]) (auto simp: distinct_texts has_row_iff)
  finally show ?thesis by simp
qed

lemma service_tables_copy: "service_tables copy_models = {''quotes'', ''adjectives'', ''classical_names''}"
  by (simp add: service_tables_def copy_models_def)

definition copy_finish :: "platform \<Rightarrow> store \<Rightarrow> unit result \<times> store" where
  "copy_finish pf s = (Inr (), s)"

lemma and_if_ok_done: "and_if_ok p (\<lambda>_ s. (Inr (), s)) = (p :: unit result \<times> 's)"
  by (cases "(p, \<lambda>(_ :: unit) (s :: 's). (Inr () :: unit result, s))" rule: and_if_ok.cases) simp_all

interpretation cpy: seeded_service "[]" copy_models copy_fixtures copy_finish
  copy_schema_up copy_seed_up "''20230829142501''" "''20230830134501''"
proof unfold_locales
  fix pf s s' x t r
  show "copy_schema_up pf s = create_models pf copy_models (fold RegisterModel [] s)"
    by (simp add: copy_schema_up_def)
  show "copy_seed_up pf s = and_if_ok (load_fixtures pf copy_fixtures s) (\<lambda>_. copy_finish pf)"
    by (simp add: copy_seed_up_def copy_finish_def [abs_def] and_if_ok_done)
  show "''20230829142501'' < ''20230830134501''" by code_simp
  show "creatable {} copy_models" by (simp add: copy_models_def)
  show "acceptable [] copy_fixtures" by (rule copy_fixtures_accepted)
  show "plain_fixture r" if "r \<in> set copy_fixtures" using that by (auto simp: copy_fixtures_def)
  show "fixture_table r \<in> service_tables copy_models \<and> fixture_model r \<in> fst ` set copy_models" if "r \<in> set copy_fixtures"
    unfolding service_tables_copy using that by (auto simp: copy_fixtures_def copy_models_def)
  show "copy_fixtures \<noteq> []" by (simp add: copy_fixtures_def seed_quotes_def)
  show "same_books s s'" "table_rows t s' = table_rows t s" "st_seq t s' = st_seq t s" if "copy_finish pf s = (x, s')"
    using that by (simp_all add: copy_finish_def)
  show "\<exists>s'. copy_finish pf s = (Inr (), s')" by (simp add: copy_finish_def)
  show "st_seq t s' = fold max (map fixture_id (rows_of copy_fixtures t)) 0"
    if "copy_finish pf s = (Inr (), s')" "t \<in> service_tables copy_models"
  proof -
    have "\<not> sequenced t" using that(2) by (auto simp: service_tables_copy sequenced_def)
    then show ?thesis by (simp add: no_ids st_seq_eqs)
  qed
qed

subsection \<open>Starting a service\<close>

text \<open>What the seeds are, table by table; the time at which a pizza was created is the database's.\<close>

definition catalog_seeded :: "db \<Rightarrow> bool" where
  "catalog_seeded d \<longleftrightarrow>
     db_doughs d = seed_doughs \<and> db_tools d = seed_tools \<and> db_ingredients d = seed_ingredients \<and>
     db_users d = \<lparr>rows = seed_users, seq = 3\<rparr> \<and> db_ratings d = \<lparr>rows = seed_ratings, seq = 3\<rparr> \<and>
     db_pizza_to_ingredients d = seed_pizza_to_ingredients \<and>
     map (\<lambda>p. p\<lparr>pr_created_at := 0\<rparr>) (rows (db_pizzas d)) = seed_pizzas 0 \<and> seq (db_pizzas d) = 3"

definition copy_seeded :: "store \<Rightarrow> bool" where
  "copy_seeded s \<longleftrightarrow> st_quotes s = seed_quotes \<and> st_names s = seed_names \<and> st_adjectives s = seed_adjectives"

lemma map_inj_eq: "map f xs = map f ys \<Longrightarrow> (\<And>x y. f x = f y \<Longrightarrow> x = y) \<Longrightarrow> xs = ys"
  by (metis injI inj_map_eq_map)

lemma loaded_catalog:
  assumes "loaded (service_tables catalog_models) catalog_fixtures s"
  shows "catalog_seeded (st_db s)"
proof -
  have r: "table_rows t s = rows_of catalog_fixtures t" "st_seq t s = fold max (map fixture_id (rows_of catalog_fixtures t)) 0"
    if "t \<in> service_tables catalog_models" for t
    using assms that by (simp_all add: loaded_def)
  have seqs: "st_seq ''users'' s = 3" "st_seq ''pizzas'' s = 3" "st_seq ''ratings'' s = 3"
    by (simp_all add: r service_tables_catalog catalog_rows_of)
  note f = catalog_fixtures_def filter_map comp_def case_prod_beta
  have "map DoughRow (db_doughs (st_db s)) = map DoughRow seed_doughs"
    using r(1) [of "''doughs''"] by (simp add: service_tables_catalog table_rows_eqs f)
  moreover have "map ToolRow (db_tools (st_db s)) = map ToolRow seed_tools"
    using r(1) [of "''tools''"] by (simp add: service_tables_catalog table_rows_eqs f)
  moreover have "map IngredientRow (db_ingredients (st_db s)) = map IngredientRow seed_ingredients"
    using r(1) [of "''ingredients''"] by (simp add: service_tables_catalog table_rows_eqs f)
  moreover have "map UserRow (rows (db_users (st_db s))) = map UserRow seed_users"
    using r(1) [of "''users''"] by (simp add: service_tables_catalog table_rows_eqs f)
  moreover have "map RatingRow (rows (db_ratings (st_db s))) = map RatingRow seed_ratings"
    using r(1) [of "''ratings''"] by (simp add: service_tables_catalog table_rows_eqs f)
  moreover have "map (\<lambda>x. LinkRow (fst x) (snd x)) (db_pizza_to_ingredients (st_db s)) =
      map (\<lambda>x. LinkRow (fst x) (snd x)) seed_pizza_to_ingredients"
    using r(1) [of "''pizza_to_ingredients''"] by (simp add: service_tables_catalog table_rows_eqs f)
  moreover have p: "map (\<lambda>p. PizzaRow (pr_id p) (pr_name p) (pr_dough_id p) (pr_tool p)) (rows (db_pizzas (st_db s))) =
      map (\<lambda>p. PizzaRow (pr_id p) (pr_name p) (pr_dough_id p) (pr_tool p)) (seed_pizzas 0)"
    using r(1) [of "''pizzas''"] by (simp add: service_tables_catalog table_rows_eqs f)
  have "map (\<lambda>p. p\<lparr>pr_created_at := 0\<rparr>) (rows (db_pizzas (st_db s))) = map (\<lambda>p. p\<lparr>pr_created_at := 0\<rparr>) (seed_pizzas 0)"
  proof -
    let ?g = "\<lambda>r. case r of PizzaRow i n d t \<Rightarrow>
      \<lparr>pr_id = i, pr_created_at = 0, pr_name = n, pr_dough_id = d, pr_tool = t\<rparr> | _ \<Rightarrow> undefined"
    have g: "?g (PizzaRow (pr_id p) (pr_name p) (pr_dough_id p) (pr_tool p)) = p\<lparr>pr_created_at := 0\<rparr>" for p :: pizza_row
      by (cases p) simp
    show ?thesis using arg_cong [OF p, of "map ?g"] unfolding map_map comp_def g .
  qed
  moreover have "map (\<lambda>p. p\<lparr>pr_created_at := 0\<rparr>) (seed_pizzas 0) = seed_pizzas 0" by (simp add: seed_pizzas_def)
  ultimately show ?thesis
    using seqs by (auto simp: catalog_seeded_def st_seq_eqs prod_eq_iff dest!: map_inj_eq)
qed

lemma loaded_copy:
  assumes "loaded (service_tables copy_models) copy_fixtures s"
  shows "copy_seeded s"
proof -
  have r: "table_rows t s = rows_of copy_fixtures t" if "t \<in> service_tables copy_models" for t
    using assms that by (simp add: loaded_def)
  note f = copy_fixtures_def filter_map comp_def
  have "map QuoteRow (st_quotes s) = map QuoteRow seed_quotes"
    using r [of "''quotes''"] by (simp add: service_tables_copy table_rows_eqs f)
  moreover have "map NameRow (st_names s) = map NameRow seed_names"
    using r [of "''classical_names''"] by (simp add: service_tables_copy table_rows_eqs f)
  moreover have "map AdjectiveRow (st_adjectives s) = map AdjectiveRow seed_adjectives"
    using r [of "''adjectives''"] by (simp add: service_tables_copy table_rows_eqs f)
  ultimately show ?thesis by (auto simp: copy_seeded_def dest!: map_inj_eq)
qed

text \<open>The seeded catalog satisfies the invariant that the operations keep.\<close>

lemma catalog_seeded_inv:
  assumes "catalog_seeded d"
  shows "db_inv d"
proof -
  have p: "map f (rows (db_pizzas d)) = map f (seed_pizzas 0)" if "\<And>x. f (x\<lparr>pr_created_at := 0\<rparr>) = f x" for f :: "pizza_row \<Rightarrow> 'a"
  proof -
    have "map f (map (\<lambda>p. p\<lparr>pr_created_at := 0\<rparr>) (rows (db_pizzas d))) = map f (seed_pizzas 0)"
      using assms by (simp add: catalog_seeded_def)
    then show ?thesis by (simp add: comp_def that)
  qed
  have ids: "map pr_id (rows (db_pizzas d)) = [1, 2, 3]" using p [of pr_id] by (simp add: seed_pizzas_def)
  then have set_ids: "pizza_ids d = {1, 2, 3}" by (metis list.set(1) list.set(2) list.set_map)
  have "map (\<lambda>p. (pr_dough_id p, pr_tool p)) (rows (db_pizzas d)) = [(1, ''Scissors''), (2, ''Knife''), (3, ''Knife'')]"
    using p [of "\<lambda>p. (pr_dough_id p, pr_tool p)"] by (simp add: seed_pizzas_def)
  then have "\<forall>x \<in> set (map (\<lambda>p. (pr_dough_id p, pr_tool p)) (rows (db_pizzas d))).
      fst x \<in> dough_id ` set seed_doughs \<and> snd x \<in> set seed_tools"
    by (simp only:) (simp add: seed_doughs_def seed_tools_def)
  then have refs: "\<forall>p \<in> set (rows (db_pizzas d)). pr_dough_id p \<in> dough_id ` set seed_doughs \<and> pr_tool p \<in> set seed_tools"
    by simp
  have sets: "user_ids d = {1, 2, 3}" "ingredient_ids d = ing_id ` set seed_ingredients" "db_doughs d = seed_doughs" "db_tools d = seed_tools"
    using assms by (auto simp: catalog_seeded_def seed_users_def)
  have "keys_ok d"
    using assms ids by (simp add: catalog_seeded_def keys_ok_def seed_users_def seed_ratings_def seed_pizza_to_ingredients_def)
  moreover have "refs_ok d"
    unfolding refs_ok_def set_ids sets using refs assms
    by (simp add: catalog_seeded_def seed_ratings_def seed_pizza_to_ingredients_def seed_ingredients_def)
  moreover have "seqs_ok d"
    using assms by (simp add: catalog_seeded_def seqs_ok_def seed_users_def seed_ratings_def)
  ultimately show ?thesis by (simp add: db_inv_def)
qed

text \<open>A start that gets a connection ends as its migrations do; the group is never nil.\<close>

fun opened :: "(string + 'a) outcome \<Rightarrow> bool" where
  "opened (Returned (Inr _)) = True"
| "opened _ = False"

lemma run_migrator_group:
  assumes "run_migrator pf ms s = (mg, s')" "mg_init mg = None"
  shows "mg_group mg \<noteq> None"
  using assms by (auto simp: run_migrator_def split: prod.splits sum.splits)

lemma open_catalog_run:
  assumes "initializeDB dr env c = Inr cn" "open_catalog dr pf env c s = (r, s')"
  obtains mg s1 where "run_migrator (pf\<lparr>pf_dialect := cn_dialect cn\<rparr>) catalog_migrations (connect s) = (mg, s1)"
    "opened r \<longleftrightarrow> migrated mg" "\<exists>x. r = Returned x" "data s' = data s1" "st_migrations s' = st_migrations s1" "connect s' = connect s1"
proof -
  obtain mg s1 where run: "run_migrator (pf\<lparr>pf_dialect := cn_dialect cn\<rparr>) catalog_migrations (connect s) = (mg, s1)"
    by (cases "run_migrator (pf\<lparr>pf_dialect := cn_dialect cn\<rparr>) catalog_migrations (connect s)")
  note g = run_migrator_group [OF run]
  have r: "r = NewCatalog dr mg env c" "data s' = data s1" "st_migrations s' = st_migrations s1" "connect s' = connect s1"
    using assms run by (auto simp: open_catalog_def connect_def RegisterModel_def data_def)
  have "(opened r \<longleftrightarrow> migrated mg) \<and> (\<exists>x. r = Returned x)"
    using g assms(1) by (cases "mg_init mg"; cases "mg_group mg"; cases "mg_err mg")
      (auto simp: r(1) NewCatalog_def run_migrations_def migrated_def)
  with that [OF run] r show thesis by blast
qed

lemma open_copy_run:
  assumes "initializeDB dr env c = Inr cn" "open_copy dr pf env c s = (r, s')"
  obtains mg s1 where "run_migrator (pf\<lparr>pf_dialect := cn_dialect cn\<rparr>) copy_migrations (connect s) = (mg, s1)"
    "opened r \<longleftrightarrow> migrated mg" "\<exists>x. r = Returned x" "data s' = data s1" "st_migrations s' = st_migrations s1"
proof -
  obtain mg s1 where run: "run_migrator (pf\<lparr>pf_dialect := cn_dialect cn\<rparr>) copy_migrations (connect s) = (mg, s1)"
    by (cases "run_migrator (pf\<lparr>pf_dialect := cn_dialect cn\<rparr>) copy_migrations (connect s)")
  note g = run_migrator_group [OF run]
  have r: "r = NewCopy dr mg env c" "s' = s1"
    using assms run by (auto simp: open_copy_def)
  have "(opened r \<longleftrightarrow> migrated mg) \<and> (\<exists>x. r = Returned x)"
    using g assms(1) by (cases "mg_init mg"; cases "mg_group mg"; cases "mg_err mg")
      (auto simp: r(1) NewCopy_def run_migrations_def migrated_def)
  with that [OF run] r show thesis by blast
qed

datatype store_service = CatalogStore | CopyStore

definition start_store :: "drivers \<Rightarrow> environ \<Rightarrow> string \<Rightarrow> platform \<Rightarrow> store_service \<Rightarrow> store \<Rightarrow> bool \<times> store" where
  "start_store dr env c pf svc s =
     (case svc of
        CatalogStore \<Rightarrow> (let (r, s') = open_catalog dr pf env c s in (opened r, s'))
      | CopyStore \<Rightarrow> (let (r, s') = open_copy dr pf env c s in (opened r, s')))"

fun starts :: "drivers \<Rightarrow> environ \<Rightarrow> string \<Rightarrow> (platform \<times> store_service) list \<Rightarrow> store \<Rightarrow> bool list \<times> store" where
  "starts dr env c [] s = ([], s)"
| "starts dr env c ((pf, svc) # xs) s =
     (let (ok, s1) = start_store dr env c pf svc s; (oks, s2) = starts dr env c xs s1 in (ok # oks, s2))"

text \<open>How far the two services are.\<close>

definition progress :: "bool \<Rightarrow> bool \<Rightarrow> store \<Rightarrow> bool" where
  "progress a b s \<longleftrightarrow> books_ok s \<and> cat.stage a s \<and> cpy.stage b s \<and>
     seq (st_migrations s) \<le> (if a then 2 else 0) + (if b then 2 else 0)"

lemma fresh_progress: "progress False False (fresh_store g)"
  by (simp add: progress_def cat.stage_def cpy.stage_def fresh_store_def books_ok_def recorded_def vacant_def
      table_rows_def stored_rows_def st_seq_def)

lemma stage_same:
  assumes "same_tables (service_tables catalog_models) s s'" "recorded ''20230829142500'' s' = recorded ''20230829142500'' s"
    "recorded ''20230830134500'' s' = recorded ''20230830134500'' s"
  shows "cat.stage b s \<Longrightarrow> cat.stage b s'"
  using assms vacant_same loaded_same by (auto simp: cat.stage_def)

lemma stage_same_copy:
  assumes "same_tables (service_tables copy_models) s s'" "recorded ''20230829142501'' s' = recorded ''20230829142501'' s"
    "recorded ''20230830134501'' s' = recorded ''20230830134501'' s"
  shows "cpy.stage b s \<Longrightarrow> cpy.stage b s'"
  using assms vacant_same loaded_same by (auto simp: cpy.stage_def)

lemma fault_free_dialect [simp]: "fault_free (pf\<lparr>pf_dialect := d\<rparr>) = fault_free pf"
  by (simp add: fault_free_def)

lemma progress_frame:
  assumes "data s' = data s" "st_migrations s' = st_migrations s" "progress a b s"
  shows "progress a b s'"
proof -
  have "same_tables T s s'" "recorded n s' = recorded n s" "books_ok s' = books_ok s" for T n
    using assms(1,2) same_tables_data by (simp_all add: recorded_def books_ok_def)
  with assms(2,3) stage_same [of s s' a] stage_same_copy [of s s' b] show ?thesis by (simp add: progress_def)
qed

lemma tables_apart:
  "service_tables copy_models \<inter> service_tables catalog_models = {}" "service_tables catalog_models \<inter> service_tables copy_models = {}"
  by (auto simp: service_tables_copy service_tables_catalog)

lemma start_progress:
  assumes "initializeDB dr env c = Inr cn" "fault_free pf" "progress a b s" "start_store dr env c pf svc s = (ok, s')"
  shows "ok \<and> progress (a \<or> svc = CatalogStore) (b \<or> svc = CopyStore) s'"
proof (cases svc)
  case CatalogStore
  obtain r where r: "open_catalog dr pf env c s = (r, s')" "ok = opened r"
    using assms(4) by (auto simp: start_store_def CatalogStore split: prod.splits)
  obtain mg s1 where o: "run_migrator (pf\<lparr>pf_dialect := cn_dialect cn\<rparr>) catalog_migrations (connect s) = (mg, s1)"
    "opened r \<longleftrightarrow> migrated mg" "data s' = data s1" "st_migrations s' = st_migrations s1"
    by (rule open_catalog_run [OF assms(1) r(1)])
  have p: "progress a b (connect s)" by (rule progress_frame [OF _ _ assms(3)]) simp_all
  then have big: "seq (st_migrations (connect s)) + 2 \<le> max_int64" by (auto simp: progress_def max_int64_def split: if_splits)
  have S: "migrated mg \<and> books_ok s1 \<and> cat.stage True s1 \<and>
      (\<forall>T'. T' \<inter> service_tables catalog_models = {} \<longrightarrow> same_tables T' (connect s) s1) \<and>
      (\<forall>m. m \<notin> {''20230829142500'', ''20230830134500''} \<longrightarrow> recorded m s1 = recorded m (connect s)) \<and>
      seq (st_migrations s1) \<le> seq (st_migrations (connect s)) + (if a then 0 else 2)"
    using p assms(2) by (intro cat.start_ok [OF o(1) [unfolded catalog_migrations_def]] big) (simp_all add: progress_def)
  have "same_tables (service_tables copy_models) (connect s) s1"
    using S by (simp add: tables_apart)
  moreover have "recorded ''20230829142501'' s1 = recorded ''20230829142501'' (connect s)"
    "recorded ''20230830134501'' s1 = recorded ''20230830134501'' (connect s)"
    using S by simp_all
  moreover have "cpy.stage b (connect s)" using p by (simp add: progress_def)
  ultimately have "cpy.stage b s1" by (rule stage_same_copy)
  with S p have "progress True b s1" by (simp add: progress_def split: if_splits)
  with progress_frame [OF o(3,4)] S(1) o(2) r(2) show ?thesis by (simp add: CatalogStore)
next
  case CopyStore
  obtain r where r: "open_copy dr pf env c s = (r, s')" "ok = opened r"
    using assms(4) by (auto simp: start_store_def CopyStore split: prod.splits)
  obtain mg s1 where o: "run_migrator (pf\<lparr>pf_dialect := cn_dialect cn\<rparr>) copy_migrations (connect s) = (mg, s1)"
    "opened r \<longleftrightarrow> migrated mg" "data s' = data s1" "st_migrations s' = st_migrations s1"
    by (rule open_copy_run [OF assms(1) r(1)])
  have p: "progress a b (connect s)" by (rule progress_frame [OF _ _ assms(3)]) simp_all
  then have big: "seq (st_migrations (connect s)) + 2 \<le> max_int64" by (auto simp: progress_def max_int64_def split: if_splits)
  have S: "migrated mg \<and> books_ok s1 \<and> cpy.stage True s1 \<and>
      (\<forall>T'. T' \<inter> service_tables copy_models = {} \<longrightarrow> same_tables T' (connect s) s1) \<and>
      (\<forall>m. m \<notin> {''20230829142501'', ''20230830134501''} \<longrightarrow> recorded m s1 = recorded m (connect s)) \<and>
      seq (st_migrations s1) \<le> seq (st_migrations (connect s)) + (if b then 0 else 2)"
    using p assms(2) by (intro cpy.start_ok [OF o(1) [unfolded copy_migrations_def]] big) (simp_all add: progress_def)
  have "same_tables (service_tables catalog_models) (connect s) s1"
    using S by (simp add: tables_apart)
  moreover have "recorded ''20230829142500'' s1 = recorded ''20230829142500'' (connect s)"
    "recorded ''20230830134500'' s1 = recorded ''20230830134500'' (connect s)"
    using S by simp_all
  moreover have "cat.stage a (connect s)" using p by (simp add: progress_def)
  ultimately have "cat.stage a s1" by (rule stage_same)
  with S p have "progress a True s1" by (simp add: progress_def split: if_splits)
  with progress_frame [OF o(3,4)] S(1) o(2) r(2) show ?thesis by (simp add: CopyStore)
qed

lemma starts_progress:
  assumes "initializeDB dr env c = Inr cn"
  shows "\<forall>(pf, svc) \<in> set xs. fault_free pf \<Longrightarrow> progress a b s \<Longrightarrow> starts dr env c xs s = (oks, s') \<Longrightarrow>
    oks = replicate (length xs) True \<and> progress (a \<or> CatalogStore \<in> snd ` set xs) (b \<or> CopyStore \<in> snd ` set xs) s'"
proof (induction xs arbitrary: a b s oks)
  case (Cons x xs)
  obtain pf svc where x: "x = (pf, svc)" by (cases x)
  obtain ok s1 where s1: "start_store dr env c pf svc s = (ok, s1)" by (cases "start_store dr env c pf svc s")
  obtain oks' where s2: "starts dr env c xs s1 = (oks', s')" "oks = ok # oks'"
    using Cons.prems(3) s1 by (auto simp: x split: prod.splits)
  have ok: ok and P: "progress (a \<or> svc = CatalogStore) (b \<or> svc = CopyStore) s1"
    using start_progress [OF assms _ Cons.prems(2) s1] Cons.prems(1) by (simp_all add: x)
  have "\<forall>(pf, svc) \<in> set xs. fault_free pf" using Cons.prems(1) by simp
  from Cons.IH [OF this P s2(1)] ok s2(2) show ?case by (cases svc) (simp_all add: x)
qed simp

lemma fresh_stage:
  "cat.stage False (connect (fresh_store g))" "books_ok (connect (fresh_store g))" "seq (st_migrations (fresh_store g)) = 0"
proof -
  have "progress False False (connect (fresh_store g))" by (rule progress_frame [OF _ _ fresh_progress]) simp_all
  then show "cat.stage False (connect (fresh_store g))" "books_ok (connect (fresh_store g))" by (simp_all add: progress_def)
qed (simp add: fresh_store_def)

subsection \<open>Properties\<close>

text \<open>C18: \<open>NewCatalog\<close> on an empty database, whichever of its statements fail: it does not panic; if it succeeds, every
  table has exactly the rows of the seed and the sequences are behind them, so that the invariant of the catalog
  holds from the start; and without errors of the database it succeeds.\<close>

theorem first_start_complete:
  assumes "initializeDB dr env c = Inr cn" "open_catalog dr pf env c (fresh_store g) = (r, s)"
  shows "(\<exists>x. r = Returned x) \<and> (opened r \<longrightarrow> catalog_seeded (st_db s) \<and> db_inv (st_db s)) \<and> (fault_free pf \<longrightarrow> opened r)"
proof -
  obtain mg s1 where o: "run_migrator (pf\<lparr>pf_dialect := cn_dialect cn\<rparr>) catalog_migrations (connect (fresh_store g)) = (mg, s1)"
    "opened r \<longleftrightarrow> migrated mg" "\<exists>x. r = Returned x" "data s = data s1"
    by (rule open_catalog_run [OF assms])
  note run = o(1) [unfolded catalog_migrations_def]
  have v: "\<not> recorded ''20230829142500'' (connect (fresh_store g))" "\<not> recorded ''20230830134500'' (connect (fresh_store g))"
    "vacant (service_tables catalog_models) (connect (fresh_store g))"
    using fresh_stage(1) by (simp_all add: cat.stage_def)
  have "catalog_seeded (st_db s)" if "migrated mg"
    using cat.first_start [OF run fresh_stage(2) v] that loaded_catalog [OF loaded_same [OF same_tables_data [OF o(4)]]] by blast
  moreover have "fault_free pf \<longrightarrow> migrated mg"
    using cat.first_start_ok [OF run fresh_stage(2) v] fresh_stage(3) by (simp add: max_int64_def)
  ultimately show ?thesis using o(2,3) catalog_seeded_inv by blast
qed

definition demo_drivers :: drivers where
  "demo_drivers = \<lparr>dr_ping = \<lambda>_. None, dr_open = \<lambda>_. None, dr_pragma = \<lambda>_. None, dr_procs = 4\<rparr>"

lemma demo_connected: "\<exists>cn. initializeDB demo_drivers (\<lambda>_. None) ''file:q.db'' = Inr cn"
  by (simp add: initializeDB_def demo_drivers_def has_prefix_def)

lemma demo_fault_free: "fault_free demo_platform"
  by (simp add: fault_free_def demo_platform_def)

theorem first_start_complete_witness:
  "\<exists>r s. open_catalog demo_drivers demo_platform (\<lambda>_. None) ''file:q.db'' (fresh_store (sconst 0)) = (r, s) \<and>
     opened r \<and> catalog_seeded (st_db s) \<and> length (rows (db_users (st_db s))) = 3"
proof -
  obtain cn where cn: "initializeDB demo_drivers (\<lambda>_. None) ''file:q.db'' = Inr cn" using demo_connected by blast
  obtain r s where o: "open_catalog demo_drivers demo_platform (\<lambda>_. None) ''file:q.db'' (fresh_store (sconst 0)) = (r, s)"
    by (cases "open_catalog demo_drivers demo_platform (\<lambda>_. None) ''file:q.db'' (fresh_store (sconst 0))")
  from first_start_complete [OF cn o] demo_fault_free have "opened r" "catalog_seeded (st_db s)" by blast+
  with o show ?thesis by (auto simp: catalog_seeded_def seed_users_def)
qed

text \<open>C19: the catalog and the copy service share one database and its table of migrations: started in any order, any
  number of times, without errors of the database, every start succeeds, and each service that was started has its
  rows exactly once.\<close>

theorem services_share_database:
  assumes "initializeDB dr env c = Inr cn" "\<forall>(pf, svc) \<in> set xs. fault_free pf"
    and "starts dr env c xs (fresh_store g) = (oks, s)"
  shows "oks = replicate (length xs) True \<and>
    (CatalogStore \<in> snd ` set xs \<longrightarrow> catalog_seeded (st_db s)) \<and> (CopyStore \<in> snd ` set xs \<longrightarrow> copy_seeded s)"
proof -
  have P: "oks = replicate (length xs) True \<and> progress (CatalogStore \<in> snd ` set xs) (CopyStore \<in> snd ` set xs) s"
    using starts_progress [OF assms(1,2) fresh_progress assms(3)] by simp
  then have "CatalogStore \<in> snd ` set xs \<longrightarrow> loaded (service_tables catalog_models) catalog_fixtures s"
    "CopyStore \<in> snd ` set xs \<longrightarrow> loaded (service_tables copy_models) copy_fixtures s"
    by (auto simp: progress_def cat.stage_def cpy.stage_def split: if_splits)
  with P loaded_catalog loaded_copy show ?thesis by blast
qed

theorem services_share_database_witness:
  "\<exists>oks s. starts demo_drivers (\<lambda>_. None) ''file:q.db''
       [(demo_platform, CopyStore), (demo_platform, CatalogStore), (demo_platform, CopyStore)] (fresh_store (sconst 0)) = (oks, s) \<and>
     oks = [True, True, True] \<and> catalog_seeded (st_db s) \<and> copy_seeded s"
proof -
  let ?xs = "[(demo_platform, CopyStore), (demo_platform, CatalogStore), (demo_platform, CopyStore)]"
  obtain cn where cn: "initializeDB demo_drivers (\<lambda>_. None) ''file:q.db'' = Inr cn" using demo_connected by blast
  obtain oks s where o: "starts demo_drivers (\<lambda>_. None) ''file:q.db'' ?xs (fresh_store (sconst 0)) = (oks, s)"
    by (cases "starts demo_drivers (\<lambda>_. None) ''file:q.db'' ?xs (fresh_store (sconst 0))")
  have "\<forall>(pf, svc) \<in> set ?xs. fault_free pf" by (simp add: demo_fault_free)
  from services_share_database [OF cn this o] o show ?thesis by (auto simp: numeral_3_eq_3)
qed

text \<open>C20: a migration that fails is never repeated, because it is recorded before it runs: whatever became of a first
  start on an empty database, the third one succeeds if it and the second one meet no error. If the first had recorded
  the schema, the third has exactly the rows that the first one left, and only otherwise those of the seed.\<close>

theorem failed_migration_not_repeated:
  assumes "initializeDB dr env c = Inr cn" "open_catalog dr pf1 env c (fresh_store g) = (r1, s1)"
    and "open_catalog dr pf2 env c s1 = (r2, s2)" "fault_free pf2"
    and "open_catalog dr pf3 env c s2 = (r3, s3)" "fault_free pf3"
  shows "opened r3 \<and> (if recorded ''20230829142500'' s1 then data s3 = data s1 else catalog_seeded (st_db s3))"
proof -
  obtain m1 t1 where o1: "run_migrator (pf1\<lparr>pf_dialect := cn_dialect cn\<rparr>) catalog_migrations (connect (fresh_store g)) = (m1, t1)"
    "data s1 = data t1" "st_migrations s1 = st_migrations t1" "connect s1 = connect t1"
    by (rule open_catalog_run [OF assms(1,2)])
  obtain m2 t2 where o2: "run_migrator (pf2\<lparr>pf_dialect := cn_dialect cn\<rparr>) catalog_migrations (connect t1) = (m2, t2)"
    "connect s2 = connect t2"
    by (rule open_catalog_run [OF assms(1,3)]) (simp add: o1(4))
  obtain m3 t3 where o3: "run_migrator (pf3\<lparr>pf_dialect := cn_dialect cn\<rparr>) catalog_migrations (connect t2) = (m3, t3)"
    "opened r3 \<longleftrightarrow> migrated m3" "data s3 = data t3"
    by (rule open_catalog_run [OF assms(1,5)]) (simp add: o2(2))
  have T: "migrated m3 \<and> (if recorded ''20230829142500'' t1 then data t3 = data t1
      else loaded (service_tables catalog_models) catalog_fixtures t3)"
    using cat.third_start [OF o1(1) [unfolded catalog_migrations_def] fresh_stage(2,1) _ o2(1) [unfolded catalog_migrations_def] _
        o3(1) [unfolded catalog_migrations_def]] fresh_stage(3) assms(4,6)
    by (simp add: max_int64_def)
  have "recorded ''20230829142500'' s1 = recorded ''20230829142500'' t1" using o1(3) by (simp add: recorded_def)
  with T o3 o1(2) loaded_catalog [OF loaded_same [OF same_tables_data [OF o3(3)]]] show ?thesis by simp
qed

text \<open>An error at the first table that is to be created: the third start is up, without a user.\<close>

lemma demo_failed_start:
  "\<exists>r s. open_catalog demo_drivers (demo_platform\<lparr>pf_fault := \<lambda>k. if k = 4 then Some ''disk full'' else None\<rparr>) (\<lambda>_. None)
      ''file:q.db'' (fresh_store g) = (r, s) \<and> \<not> opened r \<and> recorded ''20230829142500'' s \<and> st_seq ''users'' s = 0"
proof -
  have less: "''20230829142500'' \<le> ''20230830134500''" by code_simp
  have i: "initializeDB demo_drivers (\<lambda>_. None) ''file:q.db'' = Inr \<lparr>cn_dialect = SQLite, cn_max_open = None, cn_name = ''quickpizza-database''\<rparr>"
    by (simp add: initializeDB_def demo_drivers_def has_prefix_def env_or_def)
  show ?thesis
    unfolding open_catalog_def i
    by (simp add: run_migrator_def Init_def create_table_def sql_def fresh_store_def connect_def Migrate_def AppliedMigrations_def
      on_table_def Let_def Unapplied_def catalog_migrations_def less applied_id_def MarkApplied_def insert_row_def max_int64_def
      catalog_schema_up_def catalog_models_def create_model_def RegisterModel_def recorded_def st_seq_def NewCatalog_def
      run_migrations_def i)
qed

theorem failed_migration_not_repeated_witness:
  "\<exists>r1 s1 r2 s2 r3 s3.
     open_catalog demo_drivers (demo_platform\<lparr>pf_fault := \<lambda>k. if k = 4 then Some ''disk full'' else None\<rparr>) (\<lambda>_. None)
       ''file:q.db'' (fresh_store (sconst 0)) = (r1, s1) \<and>
     open_catalog demo_drivers demo_platform (\<lambda>_. None) ''file:q.db'' s1 = (r2, s2) \<and>
     open_catalog demo_drivers demo_platform (\<lambda>_. None) ''file:q.db'' s2 = (r3, s3) \<and>
     \<not> opened r1 \<and> opened r3 \<and> \<not> catalog_seeded (st_db s3)"
proof -
  obtain cn where cn: "initializeDB demo_drivers (\<lambda>_. None) ''file:q.db'' = Inr cn" using demo_connected by blast
  obtain r1 s1 where o1: "open_catalog demo_drivers (demo_platform\<lparr>pf_fault := \<lambda>k. if k = 4 then Some ''disk full'' else None\<rparr>)
      (\<lambda>_. None) ''file:q.db'' (fresh_store (sconst 0)) = (r1, s1)"
    and f: "\<not> opened r1" "recorded ''20230829142500'' s1" "st_seq ''users'' s1 = 0"
    using demo_failed_start by blast
  obtain r2 s2 where o2: "open_catalog demo_drivers demo_platform (\<lambda>_. None) ''file:q.db'' s1 = (r2, s2)"
    by (cases "open_catalog demo_drivers demo_platform (\<lambda>_. None) ''file:q.db'' s1")
  obtain r3 s3 where o3: "open_catalog demo_drivers demo_platform (\<lambda>_. None) ''file:q.db'' s2 = (r3, s3)"
    by (cases "open_catalog demo_drivers demo_platform (\<lambda>_. None) ''file:q.db'' s2")
  from failed_migration_not_repeated [OF cn o1 o2 demo_fault_free o3 demo_fault_free] f(2)
  have "opened r3" "data s3 = data s1" by simp_all
  moreover from this f(3) have "\<not> catalog_seeded (st_db s3)"
    using data_eqD(3) [of s3 s1 "''users''"] by (auto simp: catalog_seeded_def st_seq_eqs)
  ultimately show ?thesis using o1 o2 o3 f(1) by blast
qed

end
