(* ===== verification/Available.thy ===== *)
theory Available
  imports Services ServiceStarts
begin

section \<open>A working deployment answers\<close>

text \<open>
  What the catalog has to offer for the restrictions of a request, and that \<^verbatim>\<open>POST /api/pizza\<close> is then answered with
  a pizza: no error, no panic, no loop without end.
\<close>

definition steady :: "db \<Rightarrow> db \<Rightarrow> bool" where
  "steady a b \<longleftrightarrow> same_store a b \<and> proc_rng b = proc_rng a"

lemma steady_refl [simp]: "steady a a"
  by (simp add: steady_def)

lemma steady_trans: "steady a b \<Longrightarrow> steady b c \<Longrightarrow> steady a c"
  using same_store_trans by (auto simp: steady_def)

lemma steady_tick [simp]: "steady a (tick b) = steady a b"
  by (simp add: steady_def)

text \<open>With the user number 1 there is always a user for a token.\<close>

lemma Authenticate_finds:
  assumes "fault_free pf" "\<exists>u \<in> set (rows (db_users db)). user_id u = 1"
  shows "\<exists>u d. Authenticate pf tok db = (Inr u, d) \<and> steady db d"
proof -
  have first: "\<exists>u. first_row (scan pf k (filter P us)) = Inr u" if "\<exists>u \<in> set us. P u" for k P and us :: "user list"
  proof -
    have "scan pf k (filter P us) \<noteq> []" using that by (simp add: filter_empty_conv)
    then show ?thesis by (cases "scan pf k (filter P us)") auto
  qed
  show ?thesis
  proof (cases "first_row (scan pf (db_clock db) (filter (\<lambda>u. user_token u = tok) (rows (db_users db))))")
    case (Inl e)
    then have "e = ErrNoRows"
      by (cases "scan pf (db_clock db) (filter (\<lambda>u. user_token u = tok) (rows (db_users db)))") simp_all
    moreover obtain u where "first_row (scan pf (Suc (db_clock db)) (filter (\<lambda>u. user_id u = 1) (rows (db_users db)))) = Inr u"
      using first [OF assms(2)] by blast
    ultimately have "Authenticate pf tok db = (Inr u, tick (tick db))"
      using Inl by (simp add: Authenticate_def query_ok [OF assms(1)])
    then show ?thesis by auto
  next
    case (Inr u)
    then have "Authenticate pf tok db = (Inr u, tick db)" by (simp add: Authenticate_def query_ok [OF assms(1)])
    then show ?thesis by auto
  qed
qed

text \<open>
  A catalog that is open for business: integrity, the user number 1, rows in the range of their columns, and an
  identifier left for a pizza.
\<close>

definition open_for_business :: "db \<Rightarrow> bool" where
  "open_for_business db \<longleftrightarrow> serving db \<and> (\<exists>u \<in> set (rows (db_users db)). user_id u = 1) \<and> seq (db_pizzas db) < max_int64"

definition suits :: "restrictions \<Rightarrow> ingredient \<Rightarrow> bool" where
  "suits r i \<longleftrightarrow> ing_name i \<notin> set (res_excluded_ingredients r) \<and> (res_vegetarian r \<longrightarrow> ing_vegetarian i)"

definition offers :: "restrictions \<Rightarrow> db \<Rightarrow> bool" where
  "offers r db \<longleftrightarrow> db_doughs db \<noteq> [] \<and> (\<exists>t \<in> set (db_tools db). t \<notin> set (res_excluded_tools r)) \<and>
     (\<forall>ty \<in> {''olive_oil'', ''tomato'', ''mozzarella'', ''topping''}.
        \<exists>i \<in> set (db_ingredients db). ing_type i = ty \<and> suits r i)"

lemma same_store_open: "same_store a b \<Longrightarrow> open_for_business b = open_for_business a"
  and same_store_offers: "same_store a b \<Longrightarrow> offers r b = offers r a"
  using same_store_serving [of a b] by (simp_all add: open_for_business_def offers_def same_store_def)

subsection \<open>The lists\<close>

lemma open_authenticates:
  "fault_free pf \<Longrightarrow> open_for_business db \<Longrightarrow> \<exists>u d. Authenticate pf tok db = (Inr u, d) \<and> steady db d"
  unfolding open_for_business_def by (elim conjE) (rule Authenticate_finds)

lemma client_Ingredients_ok:
  assumes "routes_catalog cu router" "ty \<in> {''olive_oil'', ''tomato'', ''mozzarella'', ''topping''}"
    and "auth_token (case cc_auth ctx of Some a \<Rightarrow> a | None \<Rightarrow> []) \<noteq> []" "fault_free pf" "cc_values ctx = Map.empty"
    and "open_for_business db" "offers r db"
  shows "\<exists>is d. client_Ingredients (catalog_transport router text pf cfg) cu ctx ty db = (Inr is, d) \<and> steady db d \<and>
    set is = wire_ingredient ` {i \<in> set (db_ingredients db). ing_type i = ty}"
proof -
  obtain u d where a: "Authenticate pf (auth_token (case cc_auth ctx of Some a \<Rightarrow> a | None \<Rightarrow> [])) db = (Inr u, d)" "steady db d"
    using open_authenticates [OF assms(4,6)] by blast
  then have i: "db_ingredients d = db_ingredients db" by (simp add: steady_def same_store_def)
  have "filter (\<lambda>i. ing_type i = ty) (db_ingredients d) \<noteq> []"
    using assms(2,7) by (auto simp: i offers_def filter_empty_conv)
  moreover have "\<forall>i \<in> set (db_ingredients d). ingredient_in_range i"
    using assms(6) by (simp add: i open_for_business_def serving_def)
  ultimately have "client_Ingredients (catalog_transport router text pf cfg) cu ctx ty db =
      (Inr (map wire_ingredient (scan pf (db_clock d) (filter (\<lambda>i. ing_type i = ty) (db_ingredients d)))), tick d)"
    using client_Ingredients_served [OF assms(1,2) refl assms(3,4) a(1)] assms(5) by (simp add: ctx_text_def)
  with a(2) show ?thesis by (auto simp: i)
qed

lemma client_Tools_ok:
  assumes "routes_catalog cu router" "auth_token (case cc_auth ctx of Some a \<Rightarrow> a | None \<Rightarrow> []) \<noteq> []" "fault_free pf"
    and "open_for_business db"
  shows "\<exists>ts d. client_Tools (catalog_transport router text pf cfg) cu ctx db = (Inr ts, d) \<and> steady db d \<and> set ts = set (db_tools db)"
proof -
  obtain u d where a: "Authenticate pf (auth_token (case cc_auth ctx of Some a \<Rightarrow> a | None \<Rightarrow> [])) db = (Inr u, d)" "steady db d"
    using open_authenticates [OF assms(3,4)] by blast
  then show ?thesis
    using client_Tools_served [OF assms(1) refl assms(2,3) a(1)] by (auto simp: steady_def same_store_def)
qed

lemma client_Doughs_ok:
  assumes "routes_catalog cu router" "auth_token (case cc_auth ctx of Some a \<Rightarrow> a | None \<Rightarrow> []) \<noteq> []" "fault_free pf"
    and "open_for_business db"
  shows "\<exists>ds d. client_Doughs (catalog_transport router text pf cfg) cu ctx db = (Inr ds, d) \<and> steady db d \<and> set ds = set (db_doughs db)"
proof -
  obtain u d where a: "Authenticate pf (auth_token (case cc_auth ctx of Some a \<Rightarrow> a | None \<Rightarrow> [])) db = (Inr u, d)" "steady db d"
    using open_authenticates [OF assms(3,4)] by blast
  then have "\<forall>x \<in> set (db_doughs d). dough_in_range x"
    using assms(4) by (simp add: open_for_business_def serving_def steady_def same_store_def)
  with a show ?thesis
    using client_Doughs_served [OF assms(1) refl assms(2,3) a(1)] by (auto simp: steady_def same_store_def)
qed

text \<open>The copy service answers with some adjectives and names, and leaves the catalog alone.\<close>

definition copy_answers :: "db transport \<Rightarrow> string \<Rightarrow> client_ctx \<Rightarrow> bool" where
  "copy_answers u pu ctx \<longleftrightarrow> (\<forall>d. \<exists>as d1 ns d2. client_Adjectives u pu ctx d = (Inr as, d1) \<and> as \<noteq> [] \<and> steady d d1 \<and>
     client_Names u pu ctx d = (Inr ns, d2) \<and> ns \<noteq> [] \<and> steady d d2)"

text \<open>The pantry that a catalog gives.\<close>

definition pantry_of :: "db \<Rightarrow> pantry \<Rightarrow> bool" where
  "pantry_of db p \<longleftrightarrow>
     set (olive_oils p) = wire_ingredient ` {i \<in> set (db_ingredients db). ing_type i = ''olive_oil''} \<and>
     set (tomatoes p) = wire_ingredient ` {i \<in> set (db_ingredients db). ing_type i = ''tomato''} \<and>
     set (mozzarellas p) = wire_ingredient ` {i \<in> set (db_ingredients db). ing_type i = ''mozzarella''} \<and>
     set (toppings p) = wire_ingredient ` {i \<in> set (db_ingredients db). ing_type i = ''topping''} \<and>
     set (tools p) = set (db_tools db) \<and> set (doughs p) = set (db_doughs db) \<and> adjectives p \<noteq> [] \<and> names p \<noteq> []"

lemma fetch_pantry_ok:
  assumes "routes_catalog cu router" "auth_token (case cc_auth ctx of Some a \<Rightarrow> a | None \<Rightarrow> []) \<noteq> []" "fault_free pf"
    and "cc_values ctx = Map.empty" "open_for_business db" "offers r db" "copy_answers u pu ctx"
  shows "\<exists>p d. fetch_pantry (catalog_transport router text pf cfg) cu u pu ctx r0 w db next = next (restrict_pantry r0 p) d \<and>
    pantry_of db p \<and> steady db d"
proof -
  let ?t = "catalog_transport router text pf cfg"
  have keep: "open_for_business d \<and> offers r d \<and> db_ingredients d = db_ingredients db \<and> db_tools d = db_tools db \<and>
      db_doughs d = db_doughs db" if "steady db d" for d
  proof -
    have "same_store db d" using that by (simp add: steady_def)
    from same_store_open [OF this] same_store_offers [OF this] this assms(5,6) show ?thesis by (simp add: same_store_def)
  qed
  have I: "\<exists>is d'. client_Ingredients ?t cu ctx ty d = (Inr is, d') \<and> steady db d' \<and>
      set is = wire_ingredient ` {i \<in> set (db_ingredients db). ing_type i = ty}"
    if "steady db d" "ty \<in> {''olive_oil'', ''tomato'', ''mozzarella'', ''topping''}" for d ty
  proof -
    note ty = that(2)
    have k: "open_for_business d" "offers r d" "db_ingredients d = db_ingredients db" using keep [OF that(1)] by simp_all
    obtain is' d' where "client_Ingredients ?t cu ctx ty d = (Inr is', d')" "steady d d'"
      "set is' = wire_ingredient ` {i \<in> set (db_ingredients d). ing_type i = ty}"
      using client_Ingredients_ok [OF assms(1) ty assms(2-4) k(1,2)] by blast
    with k(3) steady_trans [OF that(1)] show ?thesis by auto
  qed
  obtain a1 d1 where 1: "client_Ingredients ?t cu ctx ''olive_oil'' db = (Inr a1, d1)" "steady db d1"
    "set a1 = wire_ingredient ` {i \<in> set (db_ingredients db). ing_type i = ''olive_oil''}"
    using I [OF steady_refl, of "''olive_oil''"] by blast
  obtain a2 d2 where 2: "client_Ingredients ?t cu ctx ''tomato'' d1 = (Inr a2, d2)" "steady db d2"
    "set a2 = wire_ingredient ` {i \<in> set (db_ingredients db). ing_type i = ''tomato''}"
    using I [OF 1(2), of "''tomato''"] by blast
  obtain a3 d3 where 3: "client_Ingredients ?t cu ctx ''mozzarella'' d2 = (Inr a3, d3)" "steady db d3"
    "set a3 = wire_ingredient ` {i \<in> set (db_ingredients db). ing_type i = ''mozzarella''}"
    using I [OF 2(2), of "''mozzarella''"] by blast
  obtain a4 d4 where 4: "client_Ingredients ?t cu ctx ''topping'' d3 = (Inr a4, d4)" "steady db d4"
    "set a4 = wire_ingredient ` {i \<in> set (db_ingredients db). ing_type i = ''topping''}"
    using I [OF 3(2), of "''topping''"] by blast
  obtain a5 d5 where 5: "client_Tools ?t cu ctx d4 = (Inr a5, d5)" "steady d4 d5" "set a5 = set (db_tools d4)"
    using client_Tools_ok [OF assms(1-3), of d4] keep [OF 4(2)] by blast
  have s5: "steady db d5" using steady_trans [OF 4(2) 5(2)] .
  obtain a6 d6 where 6: "client_Doughs ?t cu ctx d5 = (Inr a6, d6)" "steady d5 d6" "set a6 = set (db_doughs d5)"
    using client_Doughs_ok [OF assms(1-3), of d5] keep [OF s5] by blast
  have s6: "steady db d6" using steady_trans [OF s5 6(2)] .
  obtain a7 d7 where 7: "client_Adjectives u pu ctx d6 = (Inr a7, d7)" "steady db d7" "a7 \<noteq> []"
    using assms(7) steady_trans [OF s6] unfolding copy_answers_def by blast
  obtain a8 d8 where 8: "client_Names u pu ctx d7 = (Inr a8, d8)" "steady db d8" "a8 \<noteq> []"
    using assms(7) steady_trans [OF 7(2)] unfolding copy_answers_def by blast
  let ?p = "\<lparr>olive_oils = a1, tomatoes = a2, mozzarellas = a3, toppings = a4, tools = a5, doughs = a6, adjectives = a7, names = a8\<rparr>"
  have "fetch_pantry ?t cu u pu ctx r0 w db next = next (restrict_pantry r0 ?p) d8"
    by (simp add: fetch_pantry_def or_500_def 1(1) 2(1) 3(1) 4(1) 5(1) 6(1) 7(1) 8(1))
  moreover have "pantry_of db ?p" using 1(3) 2(3) 3(3) 4(3) 5(3) 6(3) 7(3) 8(3) keep [OF 4(2)] keep [OF s5] by (simp add: pantry_of_def)
  ultimately show ?thesis using 8(2) by blast
qed

subsection \<open>Recording the pizza\<close>

lemma insert_ingredients_ok:
  assumes "fault_free pf"
  shows "\<forall>i \<in> set is. ing_id i \<in> ingredient_ids db \<and> (pid, ing_id i) \<notin> set (db_pizza_to_ingredients db) \<Longrightarrow>
    pid \<in> pizza_ids db \<Longrightarrow> distinct (map ing_id is) \<Longrightarrow> \<exists>d. insert_ingredients pf pid is db = (Inr (), d)"
proof (induction "is" arbitrary: db)
  case (Cons i "is")
  let ?d = "(tick db)\<lparr>db_pizza_to_ingredients := db_pizza_to_ingredients db @ [(pid, ing_id i)]\<rparr>"
  have "stmt pf (insert_pizza_to_ingredient pf pid (ing_id i)) db = (Inr (), ?d)"
    using Cons.prems by (simp add: stmt_ok [OF assms] insert_pizza_to_ingredient_def)
  moreover have "\<exists>d. insert_ingredients pf pid is ?d = (Inr (), d)"
  proof (rule Cons.IH)
    have "\<forall>j \<in> set is. ing_id j \<noteq> ing_id i" using Cons.prems(3) by (fastforce simp: image_iff)
    then show "\<forall>j \<in> set is. ing_id j \<in> ingredient_ids ?d \<and> (pid, ing_id j) \<notin> set (db_pizza_to_ingredients ?d)"
      using Cons.prems(1) by simp
  qed (use Cons.prems in simp_all)
  ultimately show ?case by auto
qed simp

lemma RecordRecommendation_ok:
  assumes "fault_free pf" "serving db" "seq (db_pizzas db) < max_int64" "pizza_id p = 0"
    and "dough_id (pizza_dough p) \<in> dough_id ` set (db_doughs db)" "pizza_tool p \<in> set (db_tools db)"
    and "\<forall>i \<in> set (pizza_ingredients p). ing_id i \<in> ingredient_ids db" "distinct (map ing_id (pizza_ingredients p))"
  shows "\<exists>p' d. RecordRecommendation pf cfg Map.empty p db = (Inr p', d)"
proof -
  let ?p = "p\<lparr>pizza_dough_id := dough_id (pizza_dough p)\<rparr>" and ?n = "seq (db_pizzas db) + 1"
  have seqs: "\<forall>x \<in> set (rows (db_pizzas db)). pr_id x \<le> seq (db_pizzas db)" using assms(2) by (auto simp: serving_def)
  have new: "(?n, i) \<notin> set (db_pizza_to_ingredients db)" for i
    using assms(2) by (fastforce simp: serving_def db_inv_defs)
  let ?row = "(pizza_to_row pf (db_clock (tick db)) ?p)\<lparr>pr_id := ?n\<rparr>"
  let ?t = "\<lparr>rows = rows (db_pizzas db) @ [?row], seq = ?n\<rparr>"
  have i: "insert_row (pf_dialect pf) pr_id (\<lambda>i r. r\<lparr>pr_id := i\<rparr>)
      (\<lambda>r. pf_foreign_keys pf \<longrightarrow> pr_dough_id r \<in> dough_id ` set (db_doughs db) \<and> pr_tool r \<in> set (db_tools db))
      (pizza_to_row pf (db_clock (tick db)) ?p) (db_pizzas db) = (Some ?row, ?t)"
    using seqs assms(3-6) by (intro pizzas.insert_row_auto) (simp_all add: pizza_to_row_def)
  let ?q = "?p\<lparr>pizza_id := ?n, pizza_created_at := pr_created_at ?row\<rparr>"
  let ?d = "(tick (tick db))\<lparr>db_pizzas := ?t\<rparr>"
  have ins: "stmt pf (insert_pizza pf ?p) (tick db) = (Inr ?q, ?d)"
    using i by (simp add: stmt_ok [OF assms(1)] insert_pizza_def)
  obtain d' where ing: "insert_ingredients pf ?n (pizza_ingredients p) ?d = (Inr (), d')"
    using insert_ingredients_ok [OF assms(1), of "pizza_ingredients p" ?d ?n] assms(7,8) new by auto
  obtain d'' where enf: "enforceTableSizeLimits pf PizzaTable (fixedPizzas cfg) (maxPizzas cfg) d' = (Inr (), d'')"
    using enforce_ok [OF assms(1), of PizzaTable "fixedPizzas cfg" "maxPizzas cfg" d'] by (metis prod.collapse)
  have "record_pizza_tx pf cfg ?p (tick db) = (Inr ?q, d'')"
    using ins ing enf by (simp add: record_pizza_tx_def)
  then show ?thesis
    by (simp add: RecordRecommendation_def InjectErrors_quiet ctx_text_def run_in_tx_ok [OF assms(1)])
qed

subsection \<open>The pizza that is generated can be recorded\<close>

lemma pantry_stocked:
  assumes "pantry_of db p" "offers r db"
  shows "stocked (restrict_pantry r p)" "toppings (restrict_pantry r p) \<noteq> []"
    "adjectives (restrict_pantry r p) \<noteq> []" "names (restrict_pantry r p) \<noteq> []"
proof -
  have ne: "filter (\<lambda>i. ing_name i \<notin> set (res_excluded_ingredients r) \<and> (res_vegetarian r \<longrightarrow> ing_vegetarian i)) xs \<noteq> []"
    if "set xs = wire_ingredient ` {i \<in> set (db_ingredients db). ing_type i = ty}"
      "\<exists>i \<in> set (db_ingredients db). ing_type i = ty \<and> suits r i" for xs ty
    using that by (force simp: filter_empty_conv suits_def)
  have "filter (\<lambda>t. t \<notin> set (res_excluded_tools r)) (tools p) \<noteq> []" "doughs p \<noteq> []"
    using assms by (auto simp: pantry_of_def offers_def filter_empty_conv)
  with assms ne show "stocked (restrict_pantry r p)" "toppings (restrict_pantry r p) \<noteq> []"
    "adjectives (restrict_pantry r p) \<noteq> []" "names (restrict_pantry r p) \<noteq> []"
    by (simp_all add: stocked_def pantry_of_def offers_def valid_ingredients_filter valid_tools_filter)
qed

lemma pantry_of_in_range: "pantry_of db p \<Longrightarrow> open_for_business db \<Longrightarrow> pantry_in_range p"
  by (auto simp: pantry_of_def pantry_in_range_def open_for_business_def serving_def ingredient_in_range_def wire_ingredient_def)

text \<open>Different names are different rows, with different identifiers.\<close>

lemma composed_rows:
  assumes "composed r (restrict_pantry r p) q" "pantry_of db p" "serving db"
  shows "dough_id (pizza_dough q) \<in> dough_id ` set (db_doughs db)" "pizza_tool q \<in> set (db_tools db)"
    "\<forall>i \<in> set (pizza_ingredients q). ing_id i \<in> ingredient_ids db" "distinct (map ing_id (pizza_ingredients q))"
proof -
  have q: "set (pizza_ingredients q) \<subseteq> wire_ingredient ` set (db_ingredients db)"
  proof -
    let ?W = "wire_ingredient ` set (db_ingredients db)"
    have sub: "set (valid_ingredients r xs) \<subseteq> ?W" if "set xs = wire_ingredient ` {i \<in> set (db_ingredients db). ing_type i = ty}" for xs ty
      using that by (auto simp: valid_ingredients_filter)
    have "set (olive_oils (restrict_pantry r p)) \<subseteq> ?W" "set (tomatoes (restrict_pantry r p)) \<subseteq> ?W"
      "set (mozzarellas (restrict_pantry r p)) \<subseteq> ?W" "set (toppings (restrict_pantry r p)) \<subseteq> ?W"
      using assms(2) sub [of "olive_oils p"] sub [of "tomatoes p"] sub [of "mozzarellas p"] sub [of "toppings p"]
      by (simp_all add: pantry_of_def)
    then show ?thesis using assms(1) unfolding composed_def by blast
  qed
  show "dough_id (pizza_dough q) \<in> dough_id ` set (db_doughs db)" "pizza_tool q \<in> set (db_tools db)"
    using assms(1,2) by (auto simp: composed_def pantry_of_def valid_tools_filter)
  show "\<forall>i \<in> set (pizza_ingredients q). ing_id i \<in> ingredient_ids db" using q by auto
  have d: "distinct (map ing_name (pizza_ingredients q))" using assms(1) by (simp add: composed_def)
  have ids: "distinct (map ing_id (db_ingredients db))" using assms(3) by (simp add: serving_def)
  have "inj_on ing_id (set (pizza_ingredients q))"
  proof (rule inj_onI)
    fix x y assume xy: "x \<in> set (pizza_ingredients q)" "y \<in> set (pizza_ingredients q)" "ing_id x = ing_id y"
    then obtain a b where "x = wire_ingredient a" "y = wire_ingredient b" "a \<in> set (db_ingredients db)" "b \<in> set (db_ingredients db)"
      using q by blast
    with xy(3) distinct_map_inj_rows [OF ids, of a b] show "x = y" by simp
  qed
  then show "distinct (map ing_id (pizza_ingredients q))" using d by (simp add: distinct_map)
qed

lemma client_RecordRecommendation_ok:
  assumes "routes_catalog cu router" "fault_free pf" "open_for_business db" "composed r (restrict_pantry r p) q" "pantry_of db p"
    and "pizza_id q = 0"
  shows "\<exists>res d. client_RecordRecommendation (catalog_transport router text pf cfg) cu ctx q db = (Inr res, d)"
proof -
  have serving: "serving db" and seq: "seq (db_pizzas db) < max_int64" "0 \<le> seq (db_pizzas db)"
    using assms(3) by (simp_all add: open_for_business_def serving_def)
  note rows = composed_rows [OF assms(4,5) serving]
  have range: "pizza_in_range q" using composed_in_range [OF assms(4) pantry_of_in_range [OF assms(5,3)] assms(6)] .
  obtain p' d where r: "RecordRecommendation pf cfg Map.empty (wire_pizza q) db = (Inr p', d)"
  proof -
    have "\<exists>p' d. RecordRecommendation pf cfg Map.empty (wire_pizza q) db = (Inr p', d)"
      by (rule RecordRecommendation_ok [OF assms(2) serving seq(1)]) (use rows assms(6) in \<open>simp_all add: comp_def\<close>)
    then show thesis using that by blast
  qed
  have n: "pizza_id p' = seq (db_pizzas db) + 1" "pizza_dough p' = pizza_dough q"
    "pizza_ingredients p' = map wire_ingredient (pizza_ingredients q)"
    using RecordRecommendation_new [OF r] assms(6) by simp_all
  have "in_int64 (pizza_id p')" using n(1) seq by (simp add: in_int64_def min_int64_def)
  then have "pizza_in_range p'"
    using n(2,3) range by (simp add: pizza_in_range_def ingredient_in_range_def)
  then show ?thesis
    using client_RecordRecommendation_served [OF assms(1) range] r dec_enc_pizza_lenient by simp
qed

lemma kept_steady: "kept a b \<Longrightarrow> open_for_business b = open_for_business a \<and> offers r b = offers r a \<and> pantry_of b p = pantry_of a p"
  using same_store_more [of b a] same_store_open [of a b] same_store_offers [of a b r]
  by (simp add: pantry_of_def same_store_def)

lemma offers_defaults [simp]: "offers (clip_name (WithDefaults r)) db = offers r db"
  by (simp add: offers_def suits_def)

subsection \<open>The property\<close>


text \<open>A catalog as its migrations leave it is open for business, and offers something to every request that excludes nothing.\<close>

lemma seeded_open:
  assumes "catalog_seeded d"
  shows "open_for_business d"
proof -
  have p: "map pr_id (rows (db_pizzas d)) = [1, 2, 3]"
  proof -
    have "map pr_id (map (\<lambda>p. p\<lparr>pr_created_at := 0\<rparr>) (rows (db_pizzas d))) = map pr_id (seed_pizzas 0)"
      using assms by (simp add: catalog_seeded_def)
    then show ?thesis by (simp add: comp_def seed_pizzas_def)
  qed
  then have "set (map pr_id (rows (db_pizzas d))) = {1, 2, 3}" by simp
  then have "\<forall>i \<in> pizza_ids d. i \<le> 3" by auto
  then have "serving d"
    using assms catalog_seeded_inv [OF assms] seed_in_range
    by (simp add: serving_def catalog_seeded_def) (simp add: seed_ingredients_def seed_doughs_def)
  then show ?thesis
    using assms by (simp add: open_for_business_def catalog_seeded_def seed_users_def max_int64_def)
qed

lemma seeded_offers:
  assumes "db_doughs d = seed_doughs" "db_tools d = seed_tools" "db_ingredients d = seed_ingredients"
    and "res_excluded_tools r = []" "res_excluded_ingredients r = []"
  shows "offers r d"
  using assms by (auto simp: offers_def suits_def seed_doughs_def seed_tools_def seed_ingredients_def)

lemma demo_open: "open_for_business demo_db"
proof -
  have "serving demo_db"
    using seed_inv seed_in_range by (simp add: serving_def) (auto simp: seed_ingredients_def seed_doughs_def seed_pizzas_def)
  then show ?thesis by (simp add: open_for_business_def seed_users_def max_int64_def)
qed


end
