(* ===== verification/Spec2Isabelle.thy ===== *)
theory Spec2Isabelle
  imports Services Copy Startup Connection Gateway Testing WebSocket Concurrency Metrics Tracing Grpc Logging Frontend
    K6Ext RecoMetrics Routes HttpServer Boot Available
begin

text \<open>
  QuickPizza is a web application for load tests, written in Go. One binary (\<^verbatim>\<open>src/cmd/main.go\<close>) runs any
  subset of a few services over HTTP. This development models the Go code of these services and states what makes
  it correct.

  \<^bold>\<open>The program.\<close> The \<^emph>\<open>catalog\<close> service owns a database (SQLite or Postgres) of users, ratings, pizzas,
  ingredients, doughs and tools; its operations are the methods of \<open>Catalog\<close> in \<^verbatim>\<open>pkg/database/catalog.go\<close>,
  its routes those of \<open>AddCatalogHandler\<close> in \<^verbatim>\<open>pkg/http/http.go\<close>. The \<^emph>\<open>copy\<close> service owns a database of texts
  (\<^verbatim>\<open>pkg/database/copy.go\<close>, \<open>AddCopyHandler\<close>). The \<^emph>\<open>recommendations\<close> service (\<open>AddRecommendations\<close>) has no store: it
  asks the other two through the clients of \<^verbatim>\<open>pkg/http/client.go\<close>, draws a random pizza that respects the
  restrictions of the request, records it in the catalog and answers it. A \<^emph>\<open>gateway\<close> (\<open>AddGateway\<close>) passes the
  requests of a public instance on. Around them are a WebSocket service, services to test HTTP clients, probes, a
  configuration route, the static frontend, a gRPC service, error injection by headers
  (\<^verbatim>\<open>pkg/errorinjector\<close>), metrics, tracing (\<^verbatim>\<open>pkg/http/otel.go\<close>), logging (\<^verbatim>\<open>pkg/logging\<close>), and an extension
  of the load generator k6 that checks recommended pizzas (\<^verbatim>\<open>src/k6/extensions/quickpizzaext\<close>).

  \<^bold>\<open>How code is modelled.\<close> A struct is a record, an error value a constructor of \<open>err\<close>, an \<open>(x, error)\<close> a sum with
  the error on the left. State is passed explicitly. An operation of the catalog takes the \<open>platform\<close>
  (everything that the code relies on and does not define), its arguments and the \<open>db\<close>, and returns its result and the
  new \<open>db\<close>. Every statement sent to the database has a number, and \<open>pf_fault\<close> may answer any of them with an error,
  so that every error path of the code is a path of the model; transactions roll back. A handler takes the
  request and the response writer; a panic is the outcome \<open>Panicked\<close>, and a loop that may not end
  is the value \<open>None\<close>. The \<open>int\<close> of Go is an \<open>int\<close> with the wrap-around of 64 bits written out (\<open>wrap64\<close>), the 32-bit rating of the
  gRPC service a machine word. Draws come from an infinite stream, in the order of the code; sleeps are logged;
  the order in which a map is iterated, and that in which a query without \<^verbatim>\<open>ORDER BY\<close> returns its rows, is arbitrary.

  \<^bold>\<open>The theories.\<close>

  \<^item> \<open>Prelude\<close>, \<open>GoStd\<close>, \<open>Duration\<close>, \<open>BasicAuth\<close>: integers, outcomes, keyed lists; \<open>strconv\<close>, \<open>strings\<close> and \<open>math/rand\<close>;
    \<open>time.ParseDuration\<close>; base64 and the credentials of a request.
  \<^item> \<open>Model\<close>, \<open>Json\<close>: \<^verbatim>\<open>pkg/model\<close> with its methods, and the JSON codecs that the struct tags induce.
  \<^item> \<open>Platform\<close>, \<open>Util\<close>, \<open>ErrorInjector\<close>: the parameters and the state of the process; \<^verbatim>\<open>pkg/util\<close>, \<^verbatim>\<open>pkg/password\<close>;
    \<^verbatim>\<open>pkg/errorinjector\<close>.
  \<^item> \<open>Database\<close>, \<open>DatabaseInv\<close>, \<open>Seed\<close>: the tables of \<^verbatim>\<open>pkg/database/migrations/catalog\<close>, their statements, transactions and
    seed rows; the invariant \<open>db_inv\<close>, and that every statement is a step (\<open>evolves\<close>) that keeps it. The interface
    \<open>keyed_rows\<close> of a table with a key is interpreted for users, pizzas and ratings.
  \<^item> \<open>Catalog\<close>, \<open>CatalogInv\<close>, \<open>CatalogSpec\<close>, \<open>CatalogLimits\<close>, \<open>CatalogProps\<close>, \<open>Accounts\<close>, \<open>Ratings\<close>,
    \<open>Recommendations\<close>: the operations of \<^verbatim>\<open>pkg/database/catalog.go\<close>; runs of them (\<open>run_calls\<close>) keep the invariant and the bounds on
    the tables (\<open>invariant_machine\<close>, interpreted for both); what each operation returns on each path; accounts; ratings as a
    store of rows by identifier and owner (the interface \<open>rating_store\<close>, interpreted on the operations); recorded
    recommendations.
  \<^item> \<open>Http\<close>, \<open>Handlers\<close>, \<open>Api\<close>: requests, responses, tokens; the handlers of \<open>AddCatalogHandler\<close> with their middlewares
    and the function \<open>serve\<close>; the properties of the API.
  \<^item> \<open>Machine\<close>, \<open>Concurrency\<close>: step relations; the operations that look something up before they write, cut in two and
    interleaved.
  \<^item> \<open>Recommend\<close>, \<open>RecommendProps\<close>, \<open>K6Ext\<close>: the generation of a pizza, what it respects and when it returns; the check of the
    k6 extension, and how it relates to the generation.
  \<^item> \<open>Client\<close>, \<open>RecoService\<close>, \<open>Deployment\<close>, \<open>Services\<close>, \<open>RecoMetrics\<close>: the clients over a transport; the two routes of the
    recommendations; the contract between the services, from the rows of one to the answer of the other; the metrics of the
    recommendations.
  \<^item> \<open>Copy\<close>, \<open>Connection\<close>, \<open>Migrations\<close>, \<open>MigrationsProps\<close>, \<open>ServiceStarts\<close>: the copy service; how the databases are
    opened (\<^verbatim>\<open>pkg/database/database.go\<close>), migrated and seeded (\<^verbatim>\<open>pkg/database/migrations\<close>, with the migrator and the
    fixture loader of \<^verbatim>\<open>vendor/github.com/uptrace/bun\<close>), with the interface \<open>seeded_service\<close> of a schema and its
    seed, interpreted for both services.
  \<^item> \<open>Available\<close>: a working deployment answers \<^verbatim>\<open>POST /api/pizza\<close> with a pizza.
  \<^item> \<open>Gateway\<close>, \<open>WebSocket\<close>, \<open>Testing\<close>, \<open>Frontend\<close>, \<open>Grpc\<close>: the other services.
  \<^item> \<open>Startup\<close>, \<open>Routes\<close>, \<open>HttpServer\<close>, \<open>Boot\<close>: the environment and the services it asks for; the tables of the
    registered routes and the contract \<open>chi_router\<close>; \<open>NewServer\<close> with the chain of its middlewares and the contract
    \<open>library_middlewares\<close>; \<open>main\<close>.
  \<^item> \<open>Metrics\<close>, \<open>Tracing\<close>, \<open>Logging\<close>: the metrics of the requests, \<open>OTelInstaller\<close>, the log records.

  \<^bold>\<open>What is shown.\<close> For the catalog: unique keys, references and the absence of plain passwords in every run
  with any faults (C1), also over HTTP (C5) and for interleaved requests (C30); isolation of the ratings of different
  users (C2, C13); what the operations return and leave (C3, C7 to C11), the bound on the tables (C10); what the
  routes answer and to whom (C6, C12, C14 to C16). For the databases: what a first start, any starts of both services, and
  a start after a failed one leave (C18 to C20). For the recommendations: that a working deployment answers with a
  pizza (C17), the restrictions that a pizza respects (C4), that the generation returns (C21), what the k6 check makes of it (C22), the answer and that the pizza it shows is served from
  then on (C23, C24), authentication and injected errors across the services (C25, C26), the metrics (C35). For the rest: the copy
  service (C27), which services run and when the process ends (C28, C39), the gateway (C29), the
  WebSocket metrics (C31), the metrics of the requests and that each one is counted (C32, C38), the services for tests (C33, C40), tracing (C34),
  and the routes: no service takes the requests of another and the clients reach theirs (C36, C37). The last one
  discharges the hypothesis \<open>routes_catalog\<close> of C17 and C23 to C26 for every instance that \<open>main\<close> sets up.

  \<^bold>\<open>Bounds and loops.\<close> The loop that draws a name until it is acceptable may run forever: it is a
  \<^theory_text>\<open>partial_function (option)\<close>, and C21 shows that it returns when the lists are stocked and the source goes on accepting.
  The ten attempts at the calorie limit, the loops over toppings, tokens and durations are structural. Nothing else needs fuel.
  Identifiers are drawn from sequences up to \<open>max_int64\<close>, where an insertion fails.

  \<^bold>\<open>Parameters.\<close> Code that is not in the repository is an argument: the driver of the database (its faults,
  orders and clock), \<open>bcrypt\<close>, the percentage rolls and fractions in floating point, the network (a
  \<open>transport\<close>), the router \<open>chi\<close> (its contract in \<open>Routes\<close>), the middlewares of libraries (their contract in
  \<open>HttpServer\<close>), the library \<open>melody\<close> behind the WebSocket sessions (the step relation in \<open>WebSocket\<close>), the exporters of
  OpenTelemetry, the embedded files, the HTML template, and which addresses can be listened on.

  \<^bold>\<open>Not modelled.\<close> Generated protocol buffers; the Svelte frontend, the JavaScript of the load tests and the embedded
  pages; the text of SQL and of log lines; spans of traces; the buckets of native histograms; the
  JSON syntax check and the bytes of a JSON body (handlers are given the decoded document); TLS and the wire of HTTP.
\<close>

end
